(* ===== verification/Sidecar_Prelude.thy ===== *)
theory Sidecar_Prelude
  imports Main "HOL-Library.Word"
begin

text \<open>
  Shared vocabulary of the development.  The integer types of the Rust sources
  are words of their width (\<open>u8\<close>, \<open>u16\<close>, \<open>u32\<close>, \<open>u64\<close>), strings are character
  lists and a fallible operation \<open>Result<T, E>\<close> is a sum whose left side is the
  error.  The lemmas below are the facts on lists, options and words that
  several components use.
\<close>

type_synonym u8 = "8 word"
type_synonym u16 = "16 word"
type_synonym u32 = "32 word"
type_synonym u64 = "64 word"

text \<open>\<open>consec ws\<close>: every word of \<open>ws\<close> is the wrapping successor of the one before it.\<close>

fun consec :: "'a::len word list \<Rightarrow> bool" where
  "consec (x # y # zs) = (y = x + 1 \<and> consec (y # zs))"
| "consec _ = True"

text \<open>The \<open>Some\<close> values of a list of options, in order (\<open>Iterator::flatten\<close>).\<close>

fun somes :: "'a option list \<Rightarrow> 'a list" where
  "somes [] = []"
| "somes (Some x # xs) = x # somes xs"
| "somes (None # xs) = somes xs"

text \<open>\<open>Result::ok\<close> and \<open>Result::unwrap_or\<close>.\<close>

fun ok :: "'e + 'a \<Rightarrow> 'a option" where
  "ok (Inl e) = None"
| "ok (Inr x) = Some x"

fun unwrap_or :: "'a option \<Rightarrow> 'a \<Rightarrow> 'a" where
  "unwrap_or None d = d"
| "unwrap_or (Some x) d = x"

text \<open>\<open>Result::and_then\<close>, the meaning of the \<open>?\<close> operator.\<close>

fun and_then :: "'e + 'a \<Rightarrow> ('a \<Rightarrow> 'e + 'b) \<Rightarrow> 'e + 'b" where
  "and_then (Inl e) f = Inl e"
| "and_then (Inr x) f = f x"

text \<open>\<open>Result::map_err\<close>.\<close>

fun map_err :: "('e \<Rightarrow> 'f) \<Rightarrow> 'e + 'a \<Rightarrow> 'f + 'a" where
  "map_err f (Inl e) = Inl (f e)"
| "map_err f (Inr x) = Inr x"

subsection \<open>Results\<close>

lemma and_then_Inr_iff: "and_then x f = Inr y \<longleftrightarrow> (\<exists>a. x = Inr a \<and> f a = Inr y)"
  by (cases x) auto

lemma and_then_Inl_iff: "and_then x f = Inl e \<longleftrightarrow> x = Inl e \<or> (\<exists>a. x = Inr a \<and> f a = Inl e)"
  by (cases x) auto

lemma map_err_Inr_iff: "map_err f x = Inr y \<longleftrightarrow> x = Inr y"
  by (cases x) auto

lemma map_err_Inl_iff: "map_err f x = Inl e \<longleftrightarrow> (\<exists>e'. x = Inl e' \<and> e = f e')"
  by (cases x) auto

lemmas result_iffs = and_then_Inr_iff and_then_Inl_iff map_err_Inr_iff map_err_Inl_iff

subsection \<open>Consecutive words\<close>

lemma consec_Cons: "consec (x # xs) \<longleftrightarrow> (xs = [] \<or> hd xs = x + 1) \<and> consec xs"
  by (cases xs) auto

lemma consec_nth:
  assumes "consec ws" and "i < length ws"
  shows "ws ! i = hd ws + of_nat i"
  using assms
proof (induction ws arbitrary: i rule: consec.induct)
  case (1 x y zs)
  then show ?case by (cases i) auto
qed auto

lemma consec_eq_map: "consec ws \<Longrightarrow> ws = map (\<lambda>i. hd ws + of_nat i) [0..<length ws]"
  by (rule nth_equalityI) (simp_all add: consec_nth)

lemma consec_append:
  "consec (xs @ ys) \<longleftrightarrow>
     consec xs \<and> consec ys \<and> (xs = [] \<or> ys = [] \<or> hd ys = last xs + 1)"
  by (induction xs) (auto simp: consec_Cons)

lemma consec_map_upt: "consec (map (\<lambda>i. w + of_nat i) [0..<n])"
proof (induction n)
  case (Suc n)
  show ?case
  proof (cases n)
    case (Suc m)
    then show ?thesis using Suc.IH by (simp add: consec_append algebra_simps)
  qed simp
qed simp

lemma consec_drop: "consec ws \<Longrightarrow> consec (drop k ws)"
  by (metis append_take_drop_id consec_append)

lemma consec_last: "consec ws \<Longrightarrow> ws \<noteq> [] \<Longrightarrow> last ws = hd ws + of_nat (length ws - 1)"
  by (simp add: consec_nth last_conv_nth)

lemma consec_distinct:
  fixes ws :: "'a::len word list"
  assumes "consec ws" and "length ws \<le> 2 ^ LENGTH('a)"
  shows "distinct ws"
proof -
  have "i = j" if "i < length ws" "j < length ws" "(of_nat i :: 'a word) = of_nat j" for i j
    using that assms(2)
    by (metis less_le_trans mod_less unat_of_nat)
  then show ?thesis
    using assms(1) by (auto simp: distinct_conv_nth consec_nth)
qed

lemma u32_less: "unat (w :: u32) < 2 ^ 32"
proof -
  have "unat w < 2 ^ LENGTH(32)" by (rule unsigned_less)
  then show ?thesis by simp
qed

subsection \<open>Lists\<close>

lemma somes_Cons: "somes (x # xs) = (case x of None \<Rightarrow> somes xs | Some y \<Rightarrow> y # somes xs)"
  by (cases x) auto

lemma somes_append [simp]: "somes (xs @ ys) = somes xs @ somes ys"
  by (induction xs rule: somes.induct) auto

lemma set_somes [simp]: "set (somes xs) = {x. Some x \<in> set xs}"
  by (induction xs rule: somes.induct) auto

lemma somes_map_Some [simp]: "somes (map (\<lambda>x. Some (f x)) xs) = map f xs"
  by (induction xs) auto

lemma map_upt_shift: "map f [m..<m + n] = map (\<lambda>i. f (i + m)) [0..<n]"
  by (rule nth_equalityI) (simp_all add: add.commute)

lemma dropWhile_eq_drop:
  assumes "k \<le> length xs"
    and "\<And>i. i < k \<Longrightarrow> P (xs ! i)"
    and "k < length xs \<Longrightarrow> \<not> P (xs ! k)"
  shows "dropWhile P xs = drop k xs"
  using assms
proof (induction k arbitrary: xs)
  case 0
  then show ?case by (cases xs) auto
next
  case (Suc k)
  then obtain y ys where xs: "xs = y # ys" by (cases xs) auto
  have "P y" using Suc.prems(2) [of 0] xs by simp
  moreover have "dropWhile P ys = drop k ys"
    using Suc.prems xs by (intro Suc.IH) force+
  ultimately show ?case by (simp add: xs)
qed

end
