(* ===== verification/Casper_Types.thy ===== *)
theory Casper_Types
  imports Sidecar_Prelude
begin

text \<open>
  The data of the \<open>casper_types\<close> crate, as far as the sidecar looks inside it.
  A value that the sidecar only stores, compares or copies is kept as its bytes
  or its serialised text (\<open>opaque\<close>); a structure has the fields that the sources
  read and an enum has the variants that the sources match on.  The functions of
  the crate that the sidecar calls are not part of the repository: they are the
  fields of \<open>casper_env\<close>, an argument of the definitions that call them.
\<close>

type_synonym digest = "u8 list"
type_synonym block_hash = digest
type_synonym deploy_hash = digest
type_synonym account_hash = digest
type_synonym opaque = string
type_synonym public_key = string
type_synonym signature = string
type_synonym casper_key = string
type_synonym timestamp = u64
type_synonym time_diff = u64
type_synonym era_id = u64
type_synonym u512 = "512 word"

datatype protocol_version = ProtocolVersion (pv_major: u32) (pv_minor: u32) (pv_patch: u32)

text \<open>The derived order of \<open>ProtocolVersion\<close>: lexicographic on major, minor, patch.\<close>

instantiation protocol_version :: linorder
begin

definition less_eq_protocol_version :: "protocol_version \<Rightarrow> protocol_version \<Rightarrow> bool" where
  "less_eq_protocol_version v w \<longleftrightarrow>
     pv_major v < pv_major w \<or>
     pv_major v = pv_major w \<and>
       (pv_minor v < pv_minor w \<or> pv_minor v = pv_minor w \<and> pv_patch v \<le> pv_patch w)"

definition less_protocol_version :: "protocol_version \<Rightarrow> protocol_version \<Rightarrow> bool" where
  "less_protocol_version v w \<longleftrightarrow>
     pv_major v < pv_major w \<or>
     pv_major v = pv_major w \<and>
       (pv_minor v < pv_minor w \<or> pv_minor v = pv_minor w \<and> pv_patch v < pv_patch w)"

instance
proof
  fix x y z :: protocol_version
  show "x < y \<longleftrightarrow> x \<le> y \<and> \<not> y \<le> x"
    by (auto simp: less_eq_protocol_version_def less_protocol_version_def)
  show "x \<le> x" by (simp add: less_eq_protocol_version_def)
  show "x \<le> y \<Longrightarrow> y \<le> z \<Longrightarrow> x \<le> z"
    by (auto simp: less_eq_protocol_version_def)
  show "x \<le> y \<Longrightarrow> y \<le> x \<Longrightarrow> x = y"
    by (cases x; cases y) (auto simp: less_eq_protocol_version_def)
  show "x \<le> y \<or> y \<le> x"
    by (auto simp: less_eq_protocol_version_def)
qed

end

text \<open>Transactions, their hashes and their initiators.\<close>

datatype transaction_hash = TransactionHash_Deploy deploy_hash | TransactionHash_V1 digest

record deploy =
  dp_hash :: deploy_hash
  dp_content :: opaque

record transaction_v1 =
  tv1_hash :: digest
  tv1_content :: opaque

datatype transaction = Transaction_Deploy deploy | Transaction_V1 transaction_v1

fun transaction_hash_of :: "transaction \<Rightarrow> transaction_hash" where
  "transaction_hash_of (Transaction_Deploy d) = TransactionHash_Deploy (dp_hash d)"
| "transaction_hash_of (Transaction_V1 t) = TransactionHash_V1 (tv1_hash t)"

datatype initiator_addr = InitiatorAddr_PublicKey public_key | InitiatorAddr_AccountHash account_hash

text \<open>Finality signatures.\<close>

record finality_signature_v1 =
  fs1_block_hash :: block_hash
  fs1_era_id :: era_id
  fs1_signature :: signature
  fs1_public_key :: public_key

record finality_signature_v2 =
  fs2_block_hash :: block_hash
  fs2_block_height :: u64
  fs2_era_id :: era_id
  fs2_chain_name_hash :: digest
  fs2_signature :: signature
  fs2_public_key :: public_key

datatype finality_signature =
  FinalitySignature_V1 finality_signature_v1 | FinalitySignature_V2 finality_signature_v2

text \<open>Blocks.  A \<open>BTreeMap\<close> is the list of its entries in the order of its iterator.\<close>

record era_report =
  er_equivocators :: "public_key list"
  er_rewards :: "(public_key \<times> u64) list"
  er_inactive_validators :: "public_key list"

record era_end_v1 =
  ee1_era_report :: era_report
  ee1_next_era_validator_weights :: "(public_key \<times> u512) list"

record era_end_v2 =
  ee2_equivocators :: "public_key list"
  ee2_inactive_validators :: "public_key list"
  ee2_next_era_validator_weights :: "(public_key \<times> u512) list"
  ee2_rewards :: "(public_key \<times> u512 list) list"

record block_header_v1 =
  bh1_parent_hash :: block_hash
  bh1_state_root_hash :: digest
  bh1_body_hash :: digest
  bh1_random_bit :: bool
  bh1_accumulated_seed :: digest
  bh1_era_end :: "era_end_v1 option"
  bh1_timestamp :: timestamp
  bh1_era_id :: era_id
  bh1_height :: u64
  bh1_protocol_version :: protocol_version
  bh1_block_hash :: "block_hash option"

record block_body_v1 =
  bb1_proposer :: public_key
  bb1_deploy_hashes :: "deploy_hash list"
  bb1_transfer_hashes :: "deploy_hash list"

record block_v1 =
  b1_hash :: block_hash
  b1_header :: block_header_v1
  b1_body :: block_body_v1

record block_header_v2 =
  bh2_parent_hash :: block_hash
  bh2_state_root_hash :: digest
  bh2_body_hash :: digest
  bh2_random_bit :: bool
  bh2_accumulated_seed :: digest
  bh2_era_end :: "era_end_v2 option"
  bh2_timestamp :: timestamp
  bh2_era_id :: era_id
  bh2_height :: u64
  bh2_protocol_version :: protocol_version
  bh2_proposer :: public_key

record block_body_v2 =
  bb2_transactions :: "(u8 \<times> transaction_hash list) list"

record block_v2 =
  b2_hash :: block_hash
  b2_header :: block_header_v2
  b2_body :: block_body_v2

datatype block = Block_V1 block_v1 | Block_V2 block_v2

fun block_height :: "block \<Rightarrow> u64" where
  "block_height (Block_V1 b) = bh1_height (b1_header b)"
| "block_height (Block_V2 b) = bh2_height (b2_header b)"

text \<open>Execution results.\<close>

record account =
  acc_account_hash :: account_hash
  acc_content :: opaque

datatype stored_value =
    SV_CLValue opaque
  | SV_Account account
  | SV_ContractWasm opaque
  | SV_Contract opaque
  | SV_ContractPackage opaque
  | SV_Transfer opaque
  | SV_DeployInfo opaque
  | SV_EraInfo opaque
  | SV_Bid opaque
  | SV_Withdraw opaque
  | SV_Unbonding opaque
  | SV_NamedKey opaque
  | SV_AddressableEntity opaque
  | SV_BidKind opaque
  | SV_SmartContract opaque
  | SV_ByteCode opaque
  | SV_MessageTopic opaque
  | SV_Message opaque
  | SV_Prepayment opaque
  | SV_EntryPoint opaque
  | SV_RawBytes opaque

datatype transform_kind_v2 =
    TK2_Identity
  | TK2_Write stored_value
  | TK2_AddInt32 u32
  | TK2_AddUInt64 u64
  | TK2_AddUInt128 "128 word"
  | TK2_AddUInt256 "256 word"
  | TK2_AddUInt512 u512
  | TK2_AddKeys "(string \<times> casper_key) list"
  | TK2_Prune casper_key
  | TK2_Failure opaque

record transform_v2 =
  t2_key :: casper_key
  t2_kind :: transform_kind_v2

record named_key =
  nk_name :: string
  nk_key :: string

datatype transform_kind_v1 =
    TK1_Identity
  | TK1_WriteCLValue opaque
  | TK1_WriteAccount account_hash
  | TK1_WriteContractWasm
  | TK1_WriteContract
  | TK1_WriteContractPackage
  | TK1_WriteDeployInfo opaque
  | TK1_WriteEraInfo opaque
  | TK1_WriteTransfer opaque
  | TK1_WriteBid opaque
  | TK1_WriteWithdraw opaque
  | TK1_WriteUnbonding opaque
  | TK1_AddInt32 u32
  | TK1_AddUInt64 u64
  | TK1_AddUInt128 "128 word"
  | TK1_AddUInt256 "256 word"
  | TK1_AddUInt512 u512
  | TK1_AddKeys "named_key list"
  | TK1_Prune casper_key
  | TK1_Failure string

record transform_v1 =
  t1_key :: string
  t1_transform :: transform_kind_v1

record execution_effect =
  ex_operations :: "opaque list"
  ex_transforms :: "transform_v1 list"

datatype execution_result_v1 =
    ExecutionResultV1_Failure execution_effect "opaque list" u512 string
  | ExecutionResultV1_Success execution_effect "opaque list" u512

record execution_result_v2 =
  er2_effects :: "transform_v2 list"
  er2_error_message :: "string option"
  er2_cost :: u512
  er2_content :: opaque

datatype execution_result =
  ExecutionResult_V1 execution_result_v1 | ExecutionResult_V2 execution_result_v2

text \<open>
  The functions of the crate that the translation to the legacy format calls:
  the lane of the mint transactions and the hashes in it, the sum of \<open>U512\<close>
  amounts, the two textual forms of a key, the text of a transform error, and the
  fallible accessors of a stored named key.
\<close>

record casper_env =
  mint_lane_id :: u8
  body_mint :: "block_body_v2 \<Rightarrow> transaction_hash list"
  u512_sum :: "u512 list \<Rightarrow> u512"
  key_to_formatted_string :: "casper_key \<Rightarrow> string"
  key_to_string :: "casper_key \<Rightarrow> string"
  transform_error_to_string :: "opaque \<Rightarrow> string"
  named_key_get_key :: "opaque \<Rightarrow> casper_key option"
  named_key_get_name :: "opaque \<Rightarrow> string option"

text \<open>
  What the crate documents of \<open>BlockBodyV2::mint\<close> (the hashes of the mint lane, in
  order) and of the sum of \<open>U512\<close> values (exact, unless it overflows).
\<close>

definition mint_law :: "casper_env \<Rightarrow> bool" where
  "mint_law env \<longleftrightarrow>
     (\<forall>body. body_mint env body =
        concat (map snd (filter (\<lambda>e. fst e = mint_lane_id env) (bb2_transactions body))))"

definition u512_sum_law :: "casper_env \<Rightarrow> bool" where
  "u512_sum_law env \<longleftrightarrow>
     (\<forall>ws. (\<Sum>w\<leftarrow>ws. unat w) < 2 ^ 512 \<longrightarrow> unat (u512_sum env ws) = (\<Sum>w\<leftarrow>ws. unat w))"

text \<open>An instance of the crate's functions, with which the laws are seen to hold.\<close>

definition reference_env :: casper_env where
  "reference_env = \<lparr>
     mint_lane_id = 0,
     body_mint = (\<lambda>body. concat (map snd (filter (\<lambda>e. fst e = 0) (bb2_transactions body)))),
     u512_sum = sum_list,
     key_to_formatted_string = (\<lambda>k. ''key-'' @ k),
     key_to_string = (\<lambda>k. ''Key('' @ k @ '')''),
     transform_error_to_string = (\<lambda>e. e),
     named_key_get_key = Some,
     named_key_get_name = Some \<rparr>"

lemma sum_list_unat:
  fixes ws :: "'a::len word list"
  assumes "(\<Sum>w\<leftarrow>ws. unat w) < 2 ^ LENGTH('a)"
  shows "unat (sum_list ws) = (\<Sum>w\<leftarrow>ws. unat w)"
  using assms
proof (induction ws)
  case (Cons w ws)
  then have "unat (sum_list ws) = (\<Sum>w\<leftarrow>ws. unat w)" by simp
  then show ?case using Cons.prems by (simp add: unat_word_ariths)
qed simp

lemma reference_env_laws [simp]: "mint_law reference_env" "u512_sum_law reference_env"
  by (simp_all add: mint_law_def u512_sum_law_def reference_env_def sum_list_unat)

end
