(* ===== verification/Sse_Data.thy ===== *)
theory Sse_Data
  imports Casper_Types
begin

text \<open>
  The event data model of \<open>types/src/sse_data.rs\<close> and \<open>types/src/filter.rs\<close>: the
  events a node emits, their labels, and the filters of the outbound endpoints.
\<close>

datatype event_filter =
    EF_ApiVersion
  | EF_BlockAdded
  | EF_TransactionAccepted
  | EF_TransactionProcessed
  | EF_TransactionExpired
  | EF_Fault
  | EF_FinalitySignature
  | EF_Step

datatype sse_data =
    ApiVersion protocol_version
  | BlockAdded block_hash block
  | TransactionAccepted transaction
  | TransactionProcessed transaction_hash initiator_addr timestamp time_diff block_hash
      execution_result opaque
  | TransactionExpired transaction_hash
  | Fault era_id public_key timestamp
  | FinalitySignature finality_signature
  | Step era_id opaque
  | Shutdown

text \<open>\<open>Filter\<close>: the endpoints of a node.\<close>

datatype sse_filter = Events

fun filter_display :: "sse_filter \<Rightarrow> string" where
  "filter_display Events = ''events''"

fun type_label :: "sse_data \<Rightarrow> string" where
  "type_label (ApiVersion _) = ''ApiVersion''"
| "type_label (BlockAdded _ _) = ''BlockAdded''"
| "type_label (TransactionAccepted _) = ''TransactionAccepted''"
| "type_label (TransactionProcessed _ _ _ _ _ _ _) = ''TransactionProcessed''"
| "type_label (TransactionExpired _) = ''TransactionExpired''"
| "type_label (Fault _ _ _) = ''Fault''"
| "type_label (FinalitySignature _) = ''FinalitySignature''"
| "type_label (Step _ _) = ''Step''"
| "type_label Shutdown = ''Shutdown''"

fun should_include :: "sse_data \<Rightarrow> event_filter list \<Rightarrow> bool" where
  "should_include Shutdown f = True"
| "should_include (ApiVersion _) f = (EF_ApiVersion \<in> set f)"
| "should_include (BlockAdded _ _) f = (EF_BlockAdded \<in> set f)"
| "should_include (TransactionAccepted _) f = (EF_TransactionAccepted \<in> set f)"
| "should_include (TransactionProcessed _ _ _ _ _ _ _) f = (EF_TransactionProcessed \<in> set f)"
| "should_include (TransactionExpired _) f = (EF_TransactionExpired \<in> set f)"
| "should_include (Fault _ _ _) f = (EF_Fault \<in> set f)"
| "should_include (FinalitySignature _) f = (EF_FinalitySignature \<in> set f)"
| "should_include (Step _ _) f = (EF_Step \<in> set f)"

text \<open>\<open>matches!(data, SseData::ApiVersion \{ .. \})\<close>\<close>

fun is_api_version :: "sse_data \<Rightarrow> bool" where
  "is_api_version (ApiVersion _) = True"
| "is_api_version _ = False"

fun is_shutdown :: "sse_data \<Rightarrow> bool" where
  "is_shutdown Shutdown = True"
| "is_shutdown _ = False"

lemma is_api_version_iff: "is_api_version d \<longleftrightarrow> (\<exists>v. d = ApiVersion v)"
  by (cases d) auto

lemma is_shutdown_iff: "is_shutdown d \<longleftrightarrow> d = Shutdown"
  by (cases d) auto

end
