(* ===== verification/Legacy_Sse_Data.thy ===== *)
theory Legacy_Sse_Data
  imports Sse_Data "HOL-Library.Multiset"
begin

text \<open>
  The translation of events to the 1.x format for the legacy endpoints:
  \<open>types/src/legacy_sse_data/\<close> (\<open>mod.rs\<close>, \<open>structs.rs\<close>, \<open>translate_deploy_hashes.rs\<close>,
  \<open>translate_block_added.rs\<close>, \<open>translate_execution_result.rs\<close>).  The lemmas say
  which events have a legacy form and what the translation keeps of them.
\<close>

subsection \<open>The legacy data model\<close>

record legacy_block_body_v1 =
  lbb_proposer :: public_key
  lbb_deploy_hashes :: "deploy_hash list"
  lbb_transfer_hashes :: "deploy_hash list"

record legacy_block_v1 =
  lb_hash :: block_hash
  lb_header :: block_header_v1
  lb_body :: legacy_block_body_v1

definition BlockV1_new ::
  "block_hash \<Rightarrow> digest \<Rightarrow> digest \<Rightarrow> bool \<Rightarrow> digest \<Rightarrow> era_end_v1 option \<Rightarrow> timestamp \<Rightarrow> era_id \<Rightarrow>
   u64 \<Rightarrow> protocol_version \<Rightarrow> public_key \<Rightarrow> block_hash \<Rightarrow> deploy_hash list \<Rightarrow> deploy_hash list \<Rightarrow>
   legacy_block_v1" where
  "BlockV1_new parent_hash state_root_hash body_hash random_bit accumulated_seed era_end timestamp
     era_id height protocol_version proposer block_hash deploy_hashes transfer_hashes =
   (let body = \<lparr> lbb_proposer = proposer, lbb_deploy_hashes = deploy_hashes,
                 lbb_transfer_hashes = transfer_hashes \<rparr>;
        header = \<lparr> bh1_parent_hash = parent_hash, bh1_state_root_hash = state_root_hash,
                   bh1_body_hash = body_hash, bh1_random_bit = random_bit,
                   bh1_accumulated_seed = accumulated_seed, bh1_era_end = era_end,
                   bh1_timestamp = timestamp, bh1_era_id = era_id, bh1_height = height,
                   bh1_protocol_version = protocol_version,
                   bh1_block_hash = Some block_hash \<rparr>
    in \<lparr> lb_hash = block_hash, lb_header = header, lb_body = body \<rparr>)"

definition BlockV1_from ::
  "block_hash \<Rightarrow> block_header_v1 \<Rightarrow> block_body_v1 \<Rightarrow> legacy_block_v1" where
  "BlockV1_from hash header body =
     \<lparr> lb_hash = hash, lb_header = header,
       lb_body = \<lparr> lbb_proposer = bb1_proposer body,
                   lbb_deploy_hashes = bb1_deploy_hashes body,
                   lbb_transfer_hashes = bb1_transfer_hashes body \<rparr> \<rparr>"

record legacy_finality_signature =
  lfs_block_hash :: block_hash
  lfs_era_id :: era_id
  lfs_signature :: signature
  lfs_public_key :: public_key

datatype legacy_sse_data =
    Legacy_ApiVersion protocol_version
  | Legacy_DeployAccepted deploy
  | Legacy_DeployProcessed deploy_hash public_key timestamp time_diff "deploy_hash list" block_hash
      execution_result_v1
  | Legacy_DeployExpired deploy_hash
  | Legacy_BlockAdded block_hash legacy_block_v1
  | Legacy_Fault era_id public_key timestamp
  | Legacy_FinalitySignature legacy_finality_signature

subsection \<open>Deploy hashes of a version 2 block\<close>

fun deploy_hash_of :: "transaction_hash \<Rightarrow> deploy_hash option" where
  "deploy_hash_of (TransactionHash_Deploy h) = Some h"
| "deploy_hash_of (TransactionHash_V1 h) = None"

definition standard_deploy_hashes_translate ::
  "casper_env \<Rightarrow> block_body_v2 \<Rightarrow> deploy_hash list" where
  "standard_deploy_hashes_translate env body =
     concat (map (\<lambda>(_, hashes). somes (map deploy_hash_of hashes))
       (filter (\<lambda>(lane_id, _). lane_id \<noteq> mint_lane_id env) (bb2_transactions body)))"

definition transfer_deploy_hashes_translate ::
  "casper_env \<Rightarrow> block_body_v2 \<Rightarrow> deploy_hash list" where
  "transfer_deploy_hashes_translate env body = somes (map deploy_hash_of (body_mint env body))"

subsection \<open>Era ends and blocks\<close>

text \<open>The loop over the rewards: \<open>None\<close> is the early return on an amount beyond \<open>u64\<close>.\<close>

fun translate_rewards ::
  "casper_env \<Rightarrow> (public_key \<times> u512 list) list \<Rightarrow> (public_key \<times> u64) list option" where
  "translate_rewards env [] = Some []"
| "translate_rewards env ((k, v) # rest) =
    (let amount = u512_sum env v in
     if amount > of_nat (2 ^ 64 - 1) then None
     else map_option ((#) (k, ucast amount)) (translate_rewards env rest))"

definition era_end_v2_translate :: "casper_env \<Rightarrow> era_end_v2 \<Rightarrow> era_end_v1 option" where
  "era_end_v2_translate env era_end =
     (case translate_rewards env (ee2_rewards era_end) of
        None \<Rightarrow> None
      | Some rewards \<Rightarrow>
          Some \<lparr> ee1_era_report =
                   \<lparr> er_equivocators = ee2_equivocators era_end,
                     er_rewards = rewards,
                     er_inactive_validators = ee2_inactive_validators era_end \<rparr>,
                 ee1_next_era_validator_weights = ee2_next_era_validator_weights era_end \<rparr>)"

definition block_v2_translate :: "casper_env \<Rightarrow> block_v2 \<Rightarrow> legacy_block_v1 option" where
  "block_v2_translate env block_v2 =
     (let header = b2_header block_v2;
          era_end = Option.bind (bh2_era_end header) (era_end_v2_translate env);
          body = b2_body block_v2;
          deploy_hashes = standard_deploy_hashes_translate env body;
          transfer_hashes = transfer_deploy_hashes_translate env body
      in Some (BlockV1_new (bh2_parent_hash header) (bh2_state_root_hash header)
           (bh2_body_hash header) (bh2_random_bit header) (bh2_accumulated_seed header) era_end
           (bh2_timestamp header) (bh2_era_id header) (bh2_height header)
           (bh2_protocol_version header) (bh2_proposer header) (b2_hash block_v2)
           deploy_hashes transfer_hashes))"

fun block_added_translate ::
  "casper_env \<Rightarrow> block_hash \<Rightarrow> block \<Rightarrow> legacy_sse_data option" where
  "block_added_translate env block_hash (Block_V1 block_v1) =
     Some (Legacy_BlockAdded block_hash
       (BlockV1_from (b1_hash block_v1) (b1_header block_v1) (b1_body block_v1)))"
| "block_added_translate env block_hash (Block_V2 block_v2) =
     map_option (Legacy_BlockAdded block_hash) (block_v2_translate env block_v2)"

subsection \<open>Execution results\<close>

definition handle_named_keys ::
  "casper_env \<Rightarrow> (string \<times> casper_key) list \<Rightarrow> transform_kind_v1" where
  "handle_named_keys env keys =
     TK1_AddKeys (map (\<lambda>(name, key). \<lparr> nk_name = name, nk_key = key_to_formatted_string env key \<rparr>) keys)"

fun maybe_tanslate_stored_value :: "casper_env \<Rightarrow> stored_value \<Rightarrow> transform_kind_v1 option" where
  "maybe_tanslate_stored_value env (SV_CLValue v) = Some (TK1_WriteCLValue v)"
| "maybe_tanslate_stored_value env (SV_Account acc) = Some (TK1_WriteAccount (acc_account_hash acc))"
| "maybe_tanslate_stored_value env (SV_ContractWasm _) = Some TK1_WriteContractWasm"
| "maybe_tanslate_stored_value env (SV_Contract _) = Some TK1_WriteContract"
| "maybe_tanslate_stored_value env (SV_ContractPackage _) = Some TK1_WriteContractPackage"
| "maybe_tanslate_stored_value env (SV_Transfer t) = Some (TK1_WriteTransfer t)"
| "maybe_tanslate_stored_value env (SV_DeployInfo d) = Some (TK1_WriteDeployInfo d)"
| "maybe_tanslate_stored_value env (SV_EraInfo e) = Some (TK1_WriteEraInfo e)"
| "maybe_tanslate_stored_value env (SV_Bid b) = Some (TK1_WriteBid b)"
| "maybe_tanslate_stored_value env (SV_Withdraw w) = Some (TK1_WriteWithdraw w)"
| "maybe_tanslate_stored_value env (SV_Unbonding p) = Some (TK1_WriteUnbonding p)"
| "maybe_tanslate_stored_value env (SV_NamedKey nk) =
    (case (named_key_get_key env nk, named_key_get_name env nk) of
       (Some key, Some name) \<Rightarrow>
         Some (TK1_AddKeys [\<lparr> nk_name = name, nk_key = key_to_string env key \<rparr>])
     | _ \<Rightarrow> None)"
| "maybe_tanslate_stored_value env (SV_AddressableEntity _) = None"
| "maybe_tanslate_stored_value env (SV_BidKind _) = None"
| "maybe_tanslate_stored_value env (SV_SmartContract _) = None"
| "maybe_tanslate_stored_value env (SV_ByteCode _) = None"
| "maybe_tanslate_stored_value env (SV_MessageTopic _) = None"
| "maybe_tanslate_stored_value env (SV_Message _) = None"
| "maybe_tanslate_stored_value env (SV_Prepayment _) = None"
| "maybe_tanslate_stored_value env (SV_EntryPoint _) = None"
| "maybe_tanslate_stored_value env (SV_RawBytes _) = None"

fun map_transform_kind_v2 :: "casper_env \<Rightarrow> transform_kind_v2 \<Rightarrow> transform_kind_v1 option" where
  "map_transform_kind_v2 env TK2_Identity = Some TK1_Identity"
| "map_transform_kind_v2 env (TK2_Write stored_value) = maybe_tanslate_stored_value env stored_value"
| "map_transform_kind_v2 env (TK2_AddInt32 v) = Some (TK1_AddInt32 v)"
| "map_transform_kind_v2 env (TK2_AddUInt64 v) = Some (TK1_AddUInt64 v)"
| "map_transform_kind_v2 env (TK2_AddUInt128 v) = Some (TK1_AddUInt128 v)"
| "map_transform_kind_v2 env (TK2_AddUInt256 v) = Some (TK1_AddUInt256 v)"
| "map_transform_kind_v2 env (TK2_AddUInt512 v) = Some (TK1_AddUInt512 v)"
| "map_transform_kind_v2 env (TK2_AddKeys keys) = Some (handle_named_keys env keys)"
| "map_transform_kind_v2 env (TK2_Prune key) = Some (TK1_Prune key)"
| "map_transform_kind_v2 env (TK2_Failure err) = Some (TK1_Failure (transform_error_to_string env err))"

definition map_transform_v2 :: "casper_env \<Rightarrow> transform_v2 \<Rightarrow> transform_kind_v1 option" where
  "map_transform_v2 env ex_ef = map_transform_kind_v2 env (t2_kind ex_ef)"

text \<open>The loop of the effects translator, \<open>transforms\<close> being the vector it fills.\<close>

fun translate_transforms ::
  "casper_env \<Rightarrow> transform_v1 list \<Rightarrow> transform_v2 list \<Rightarrow> transform_v1 list" where
  "translate_transforms env transforms [] = transforms"
| "translate_transforms env transforms (ex_ef # rest) =
    (case map_transform_v2 env ex_ef of
       Some kind \<Rightarrow>
         translate_transforms env
           (transforms @ [\<lparr> t1_key = key_to_formatted_string env (t2_key ex_ef),
                            t1_transform = kind \<rparr>]) rest
     | None \<Rightarrow> [])"

definition execution_effects_translate ::
  "casper_env \<Rightarrow> transform_v2 list \<Rightarrow> execution_effect option" where
  "execution_effects_translate env effects =
     Some \<lparr> ex_operations = [], ex_transforms = translate_transforms env [] effects \<rparr>"

definition execution_result_v2_translate ::
  "casper_env \<Rightarrow> execution_result_v2 \<Rightarrow> execution_result_v1 option" where
  "execution_result_v2_translate env result =
     (case execution_effects_translate env (er2_effects result) of
        Some effect \<Rightarrow>
          (case er2_error_message result of
             Some err_msg \<Rightarrow> Some (ExecutionResultV1_Failure effect [] (er2_cost result) err_msg)
           | None \<Rightarrow> Some (ExecutionResultV1_Success effect [] (er2_cost result)))
      | None \<Rightarrow> None)"

subsection \<open>The events\<close>

definition LegacyFinalitySignature_from_v1 ::
  "finality_signature_v1 \<Rightarrow> legacy_finality_signature" where
  "LegacyFinalitySignature_from_v1 fs =
     \<lparr> lfs_block_hash = fs1_block_hash fs, lfs_era_id = fs1_era_id fs,
       lfs_signature = fs1_signature fs, lfs_public_key = fs1_public_key fs \<rparr>"

definition LegacyFinalitySignature_from_v2 ::
  "finality_signature_v2 \<Rightarrow> legacy_finality_signature" where
  "LegacyFinalitySignature_from_v2 fs =
     \<lparr> lfs_block_hash = fs2_block_hash fs, lfs_era_id = fs2_era_id fs,
       lfs_signature = fs2_signature fs, lfs_public_key = fs2_public_key fs \<rparr>"

fun translate_finality_signature :: "finality_signature \<Rightarrow> legacy_sse_data" where
  "translate_finality_signature (FinalitySignature_V1 v1) =
     Legacy_FinalitySignature (LegacyFinalitySignature_from_v1 v1)"
| "translate_finality_signature (FinalitySignature_V2 v2) =
     Legacy_FinalitySignature (LegacyFinalitySignature_from_v2 v2)"

fun maybe_translate_deploy_expired :: "transaction_hash \<Rightarrow> legacy_sse_data option" where
  "maybe_translate_deploy_expired (TransactionHash_Deploy h) = Some (Legacy_DeployExpired h)"
| "maybe_translate_deploy_expired (TransactionHash_V1 h) = None"

fun maybe_translate_transaction_accepted :: "transaction \<Rightarrow> legacy_sse_data option" where
  "maybe_translate_transaction_accepted (Transaction_Deploy d) = Some (Legacy_DeployAccepted d)"
| "maybe_translate_transaction_accepted (Transaction_V1 t) = None"

fun maybe_translate_transaction_processed ::
  "casper_env \<Rightarrow> transaction_hash \<Rightarrow> initiator_addr \<Rightarrow> timestamp \<Rightarrow> time_diff \<Rightarrow> block_hash \<Rightarrow>
   execution_result \<Rightarrow> legacy_sse_data option" where
  "maybe_translate_transaction_processed env (TransactionHash_Deploy deploy_hash) initiator timestamp
     ttl block_hash execution_result =
    (case initiator of
       InitiatorAddr_AccountHash _ \<Rightarrow> None
     | InitiatorAddr_PublicKey account \<Rightarrow>
         (case (case execution_result of
                  ExecutionResult_V1 result \<Rightarrow> Some result
                | ExecutionResult_V2 result \<Rightarrow> execution_result_v2_translate env result) of
            None \<Rightarrow> None
          | Some result \<Rightarrow>
              Some (Legacy_DeployProcessed deploy_hash account timestamp ttl [] block_hash result)))"
| "maybe_translate_transaction_processed env (TransactionHash_V1 _) initiator timestamp
     ttl block_hash execution_result = None"

fun LegacySseData_from :: "casper_env \<Rightarrow> sse_data \<Rightarrow> legacy_sse_data option" where
  "LegacySseData_from env (ApiVersion v) = Some (Legacy_ApiVersion v)"
| "LegacySseData_from env Shutdown = None"
| "LegacySseData_from env (Step _ _) = None"
| "LegacySseData_from env (BlockAdded block_hash block) = block_added_translate env block_hash block"
| "LegacySseData_from env (TransactionAccepted transaction) =
     maybe_translate_transaction_accepted transaction"
| "LegacySseData_from env (TransactionProcessed transaction_hash initiator timestamp ttl block_hash
     execution_result _) =
     maybe_translate_transaction_processed env transaction_hash initiator timestamp ttl block_hash
       execution_result"
| "LegacySseData_from env (TransactionExpired transaction_hash) =
     maybe_translate_deploy_expired transaction_hash"
| "LegacySseData_from env (Fault era_id public_key timestamp) =
     Some (Legacy_Fault era_id public_key timestamp)"
| "LegacySseData_from env (FinalitySignature fs) = Some (translate_finality_signature fs)"

subsection \<open>Which events have a legacy form\<close>

text \<open>The 1.x vocabulary: everything about deploys signed by an account key, and no step.\<close>

fun legacy_expressible :: "sse_data \<Rightarrow> bool" where
  "legacy_expressible (ApiVersion _) = True"
| "legacy_expressible (BlockAdded _ _) = True"
| "legacy_expressible (TransactionAccepted t) = (\<exists>d. t = Transaction_Deploy d)"
| "legacy_expressible (TransactionProcessed h i _ _ _ _ _) =
     ((\<exists>d. h = TransactionHash_Deploy d) \<and> (\<exists>k. i = InitiatorAddr_PublicKey k))"
| "legacy_expressible (TransactionExpired h) = (\<exists>d. h = TransactionHash_Deploy d)"
| "legacy_expressible (Fault _ _ _) = True"
| "legacy_expressible (FinalitySignature _) = True"
| "legacy_expressible (Step _ _) = False"
| "legacy_expressible Shutdown = False"

lemma block_added_translate_some: "block_added_translate env h b \<noteq> None"
  by (cases b) (simp_all add: block_v2_translate_def Let_def)

lemma execution_result_v2_translate_some: "\<exists>r. execution_result_v2_translate env result = Some r"
  by (simp add: execution_result_v2_translate_def execution_effects_translate_def
      split: option.split)

lemma maybe_translate_transaction_processed_some:
  "maybe_translate_transaction_processed env h i ts ttl bh er \<noteq> None \<longleftrightarrow>
     (\<exists>d. h = TransactionHash_Deploy d) \<and> (\<exists>k. i = InitiatorAddr_PublicKey k)"
proof (cases h)
  case (TransactionHash_Deploy d)
  obtain r where
    "(case er of ExecutionResult_V1 r \<Rightarrow> Some r
      | ExecutionResult_V2 r \<Rightarrow> execution_result_v2_translate env r) = Some r"
    using execution_result_v2_translate_some by (cases er) (auto simp del: not_None_eq)
  then show ?thesis using TransactionHash_Deploy by (simp split: initiator_addr.split)
qed simp

lemma LegacySseData_from_expressible: "LegacySseData_from env d \<noteq> None \<longleftrightarrow> legacy_expressible d"
proof (cases d)
  case (BlockAdded h b)
  then show ?thesis using block_added_translate_some by simp
next
  case (TransactionAccepted t)
  then show ?thesis by (cases t) auto
next
  case (TransactionProcessed h i ts ttl bh er m)
  then show ?thesis using maybe_translate_transaction_processed_some by simp
next
  case (TransactionExpired h)
  then show ?thesis by (cases h) auto
qed auto

subsection \<open>What the translation keeps\<close>

lemma somes_concat_map: "somes (map f (concat xss)) = concat (map (\<lambda>xs. somes (map f xs)) xss)"
  by (induction xss) auto

lemma mset_concat_partition:
  "mset (concat (map f (filter P xs))) + mset (concat (map f (filter (\<lambda>x. \<not> P x) xs))) =
   mset (concat (map f xs))"
  by (induction xs) (auto simp: ac_simps)

lemma translate_rewards_Some_iff:
  "(\<exists>r. translate_rewards env rs = Some r) \<longleftrightarrow>
     (\<forall>(k, v) \<in> set rs. u512_sum env v \<le> of_nat (2 ^ 64 - 1))"
  by (induction rs) (auto simp: Let_def split: prod.splits)

lemma translate_rewards_keys: "translate_rewards env rs = Some r \<Longrightarrow> map fst r = map fst rs"
  by (induction rs arbitrary: r) (auto simp: Let_def split: prod.splits if_splits)

lemma unat_ucast_u64_of_u512:
  fixes w :: u512
  assumes "w \<le> of_nat (2 ^ 64 - 1)"
  shows "unat (ucast w :: u64) = unat w"
proof -
  have "unat w \<le> 2 ^ 64 - 1"
    using assms by (simp add: word_le_nat_alt)
  then show ?thesis by (simp add: unsigned_ucast_eq take_bit_nat_eq_self)
qed

lemma translate_rewards_amounts:
  "translate_rewards env rs = Some r \<Longrightarrow> map (unat \<circ> snd) r = map (unat \<circ> u512_sum env \<circ> snd) rs"
proof (induction rs arbitrary: r)
  case (Cons e rs)
  obtain k v where e: "e = (k, v)" by (cases e)
  with Cons.prems obtain r' where
    le: "u512_sum env v \<le> of_nat (2 ^ 64 - 1)" and
    r': "translate_rewards env rs = Some r'" and r: "r = (k, ucast (u512_sum env v)) # r'"
    by (auto simp: Let_def not_less split: if_splits)
  show ?case using Cons.IH [OF r'] unat_ucast_u64_of_u512 [OF le] by (simp add: r e)
qed simp

lemma translate_transforms_append:
  "translate_transforms env acc efs =
     (if \<exists>ef \<in> set efs. map_transform_v2 env ef = None then []
      else acc @ map (\<lambda>ef. \<lparr> t1_key = key_to_formatted_string env (t2_key ef),
                             t1_transform = the (map_transform_v2 env ef) \<rparr>) efs)"
  by (induction efs arbitrary: acc) (auto split: option.splits)

subsection \<open>Properties\<close>

text \<open>C10: an event has a legacy form exactly when it can be said in the 1.x vocabulary:
  steps, shutdowns, version 1 transactions and deploys without an account key are dropped,
  everything else is translated.\<close>

theorem LegacySseData_from_defined_iff:
  "LegacySseData_from env d \<noteq> None \<longleftrightarrow> legacy_expressible d"
  by (rule LegacySseData_from_expressible)

text \<open>The legacy block body loses and repeats no deploy: the standard and the transfer hashes
  of the translated body are together the deploy hashes of the version 2 body, lane by lane.\<close>

theorem deploy_hashes_partition:
  assumes "mint_law env"
  shows "mset (standard_deploy_hashes_translate env body) +
         mset (transfer_deploy_hashes_translate env body) =
         mset (somes (map deploy_hash_of (concat (map snd (bb2_transactions body)))))"
proof -
  let ?f = "\<lambda>e. somes (map deploy_hash_of (snd e))"
  let ?P = "\<lambda>e. fst e \<noteq> mint_lane_id env"
  have "standard_deploy_hashes_translate env body =
          concat (map ?f (filter ?P (bb2_transactions body)))"
    by (simp add: standard_deploy_hashes_translate_def case_prod_unfold)
  moreover have "transfer_deploy_hashes_translate env body =
          concat (map ?f (filter (\<lambda>e. \<not> ?P e) (bb2_transactions body)))"
    using assms
    by (simp add: transfer_deploy_hashes_translate_def mint_law_def somes_concat_map comp_def)
  ultimately show ?thesis
    using mset_concat_partition [of ?f ?P "bb2_transactions body"]
    by (simp add: somes_concat_map comp_def)
qed

theorem deploy_hashes_partition_witness:
  "mint_law reference_env \<and>
   mset (standard_deploy_hashes_translate reference_env
     \<lparr> bb2_transactions = [(0, [TransactionHash_Deploy [1], TransactionHash_V1 [2]]),
                           (3, [TransactionHash_Deploy [4]])] \<rparr>) +
   mset (transfer_deploy_hashes_translate reference_env
     \<lparr> bb2_transactions = [(0, [TransactionHash_Deploy [1], TransactionHash_V1 [2]]),
                           (3, [TransactionHash_Deploy [4]])] \<rparr>) = {# [1], [4] #}"
  by (subst deploy_hashes_partition) simp_all

text \<open>C11: an era end is translated exactly when the total reward of every validator fits in 64
  bits, and then every validator keeps its total.\<close>

theorem era_end_v2_translate_rewards:
  assumes "u512_sum_law env"
    and "\<forall>e \<in> set (ee2_rewards era_end). (\<Sum>w\<leftarrow>snd e. unat w) < 2 ^ 512"
  shows "case era_end_v2_translate env era_end of
           None \<Rightarrow> \<exists>e \<in> set (ee2_rewards era_end). (\<Sum>w\<leftarrow>snd e. unat w) \<ge> 2 ^ 64
         | Some e1 \<Rightarrow>
             map (\<lambda>(k, w). (k, unat w)) (er_rewards (ee1_era_report e1)) =
             map (\<lambda>(k, ws). (k, \<Sum>w\<leftarrow>ws. unat w)) (ee2_rewards era_end)"
proof (cases "translate_rewards env (ee2_rewards era_end)")
  case None
  then obtain e where e: "e \<in> set (ee2_rewards era_end)"
    and gt: "\<not> u512_sum env (snd e) \<le> of_nat (2 ^ 64 - 1)"
    using translate_rewards_Some_iff [of env "ee2_rewards era_end"] by fastforce
  have "unat (u512_sum env (snd e)) = (\<Sum>w\<leftarrow>snd e. unat w)"
    using assms e by (simp add: u512_sum_law_def)
  with gt have "(\<Sum>w\<leftarrow>snd e. unat w) \<ge> 2 ^ 64" by (simp add: word_le_nat_alt)
  with e None show ?thesis by (auto simp: era_end_v2_translate_def)
next
  case (Some r)
  have "map (unat \<circ> snd) r = map (\<lambda>e. \<Sum>w\<leftarrow>snd e. unat w) (ee2_rewards era_end)"
    using translate_rewards_amounts [OF Some] assms by (auto simp: u512_sum_law_def)
  moreover have "map fst r = map fst (ee2_rewards era_end)"
    by (rule translate_rewards_keys [OF Some])
  ultimately have "zip (map fst r) (map (unat \<circ> snd) r) =
      zip (map fst (ee2_rewards era_end)) (map (\<lambda>e. \<Sum>w\<leftarrow>snd e. unat w) (ee2_rewards era_end))"
    by simp
  then show ?thesis
    by (simp add: Some era_end_v2_translate_def zip_map_map zip_same_conv_map case_prod_unfold comp_def)
qed

theorem era_end_v2_translate_rewards_witness:
  "case era_end_v2_translate reference_env
     \<lparr> ee2_equivocators = [], ee2_inactive_validators = [], ee2_next_era_validator_weights = [],
       ee2_rewards = [(''01a'', [7, 5])] \<rparr> of
     None \<Rightarrow> False
   | Some e1 \<Rightarrow> map (\<lambda>(k, w). (k, unat w)) (er_rewards (ee1_era_report e1)) = [(''01a'', 12)]"
  using era_end_v2_translate_rewards [of reference_env
     "\<lparr> ee2_equivocators = [], ee2_inactive_validators = [], ee2_next_era_validator_weights = [],
       ee2_rewards = [(''01a'', [7, 5])] \<rparr>"]
  by (simp split: option.splits)

text \<open>A legacy client never sees a partial view of the effects of an execution: either every
  transform of the result is translated, in order and under its key, or none is.\<close>

theorem execution_effects_all_or_nothing:
  "execution_effects_translate env efs =
     Some \<lparr> ex_operations = [],
            ex_transforms =
              (if list_all (\<lambda>ef. map_transform_v2 env ef \<noteq> None) efs
               then map (\<lambda>ef. \<lparr> t1_key = key_to_formatted_string env (t2_key ef),
                                t1_transform = the (map_transform_v2 env ef) \<rparr>) efs
               else []) \<rparr>"
  by (auto simp: execution_effects_translate_def translate_transforms_append list_all_iff)

end
