(* ===== verification/Rust_Std.thy ===== *)
theory Rust_Std
  imports Sidecar_Prelude
begin

text \<open>
  The parts of the Rust standard library that the sources lean on and whose exact
  behaviour matters: decimal parsing and printing of unsigned integers and
  little-endian bytes of a \<open>u32\<close>.
\<close>

definition digit_val :: "char \<Rightarrow> nat option" where
  "digit_val c = (let n = of_char c in if 48 \<le> n \<and> n \<le> 57 then Some (n - 48) else None)"

definition digit_char :: "nat \<Rightarrow> char" where
  "digit_char d = char_of (48 + d)"

text \<open>\<open>ToString\<close> for unsigned integers.\<close>

fun nat_to_string :: "nat \<Rightarrow> string" where
  "nat_to_string n =
     (if n < 10 then [digit_char n] else nat_to_string (n div 10) @ [digit_char (n mod 10)])"

declare nat_to_string.simps [simp del]

definition u32_to_string :: "u32 \<Rightarrow> string" where
  "u32_to_string w = nat_to_string (unat w)"

text \<open>\<open>from_str_radix(10)\<close>: digits only, with a checked multiplication and addition per digit.\<close>

fun parse_digits :: "nat \<Rightarrow> nat \<Rightarrow> string \<Rightarrow> nat option" where
  "parse_digits limit acc [] = Some acc"
| "parse_digits limit acc (c # cs) =
    (case digit_val c of
       None \<Rightarrow> None
     | Some d \<Rightarrow> if acc * 10 + d > limit then None else parse_digits limit (acc * 10 + d) cs)"

text \<open>\<open>str::parse\<close> for an unsigned type with maximum \<open>limit\<close>: an optional plus sign and at least
  one digit.\<close>

fun parse_unsigned :: "nat \<Rightarrow> string \<Rightarrow> nat option" where
  "parse_unsigned limit [] = None"
| "parse_unsigned limit (c # cs) =
    (if c = CHR ''+'' then (if cs = [] then None else parse_digits limit 0 cs)
     else parse_digits limit 0 (c # cs))"

definition parse_u32 :: "string \<Rightarrow> u32 option" where
  "parse_u32 s = map_option of_nat (parse_unsigned (2 ^ 32 - 1) s)"

text \<open>\<open>u32::to_le_bytes\<close> and \<open>u32::from_le_bytes\<close>.\<close>

definition to_le_bytes :: "u32 \<Rightarrow> u8 list" where
  "to_le_bytes w = map (\<lambda>i. ucast (drop_bit (8 * i) w)) [0..<4]"

fun from_le_bytes :: "u8 list \<Rightarrow> u32" where
  "from_le_bytes [] = 0"
| "from_le_bytes (b # bs) = or (ucast b) (push_bit 8 (from_le_bytes bs))"

subsection \<open>Printing and parsing\<close>

lemma digit_val_digit_char [simp]: "d < 10 \<Longrightarrow> digit_val (digit_char d) = Some d"
  by (simp add: digit_val_def digit_char_def Let_def)

lemma digit_val_plus [simp]: "digit_val (CHR ''+'') = None"
  by (simp add: digit_val_def Let_def)

lemma digit_char_neq_plus [simp]: "d < 10 \<Longrightarrow> digit_char d \<noteq> CHR ''+''"
  using digit_val_digit_char [of d] by (auto simp del: digit_val_digit_char)

lemma parse_digits_append:
  "parse_digits limit acc (xs @ ys) =
     Option.bind (parse_digits limit acc xs) (\<lambda>a. parse_digits limit a ys)"
  by (induction xs arbitrary: acc) (auto split: option.split)

lemma parse_digits_nat_to_string:
  "n \<le> limit \<Longrightarrow> parse_digits limit 0 (nat_to_string n) = Some n"
proof (induction n rule: nat_to_string.induct)
  case (1 n)
  show ?case
  proof (cases "n < 10")
    case True
    then show ?thesis using 1 by (simp add: nat_to_string.simps [of n])
  next
    case False
    then have "parse_digits limit 0 (nat_to_string (n div 10)) = Some (n div 10)"
      using 1 by simp
    then show ?thesis
      using False "1.prems"
      by (simp add: nat_to_string.simps [of n] parse_digits_append)
  qed
qed

lemma nat_to_string_nonempty [simp]: "nat_to_string n \<noteq> []"
  by (simp add: nat_to_string.simps [of n])

lemma hd_nat_to_string: "hd (nat_to_string n) \<noteq> CHR ''+''"
proof (induction n rule: nat_to_string.induct)
  case (1 n)
  then show ?case by (cases "n < 10") (simp_all add: nat_to_string.simps [of n])
qed

lemma parse_unsigned_nat_to_string:
  assumes "n \<le> limit"
  shows "parse_unsigned limit (nat_to_string n) = Some n"
proof -
  obtain c cs where s: "nat_to_string n = c # cs"
    using nat_to_string_nonempty by (meson list.exhaust)
  then have "c \<noteq> CHR ''+''" using hd_nat_to_string [of n] by simp
  then show ?thesis using parse_digits_nat_to_string [OF assms] s by simp
qed

lemma parse_u32_to_string [simp]: "parse_u32 (u32_to_string w) = Some w"
proof -
  have "unat w \<le> 2 ^ 32 - 1" using u32_less [of w] by simp
  then show ?thesis
    by (simp add: parse_u32_def u32_to_string_def parse_unsigned_nat_to_string)
qed

lemma u32_to_string_inject [simp]: "u32_to_string v = u32_to_string w \<longleftrightarrow> v = w"
  by (metis option.inject parse_u32_to_string)

lemma parse_digits_le: "parse_digits limit acc s = Some n \<Longrightarrow> acc \<le> limit \<Longrightarrow> n \<le> limit"
  by (induction s arbitrary: acc) (auto split: option.splits if_splits)

lemma parse_unsigned_le: "parse_unsigned limit s = Some n \<Longrightarrow> n \<le> limit"
  by (cases s) (auto simp del: parse_digits.simps split: if_splits dest: parse_digits_le)

subsection \<open>Little-endian bytes\<close>

lemma length_to_le_bytes [simp]: "length (to_le_bytes w) = 4"
  by (simp add: to_le_bytes_def)

lemma from_to_le_bytes [simp]: "from_le_bytes (to_le_bytes w) = w"
proof -
  have "bit (from_le_bytes (to_le_bytes w)) n = bit w n" if "n < 32" for n
  proof -
    consider "n < 8" | "8 \<le> n" "n < 16" | "16 \<le> n" "n < 24" | "24 \<le> n" using that by linarith
    then show ?thesis
      using that
      by cases (auto simp: to_le_bytes_def upt_rec bit_simps)
  qed
  then show ?thesis by (intro bit_word_eqI) simp
qed

end
