(* ===== verification/Sse_Server.thy ===== *)
theory Sse_Server
  imports Legacy_Sse_Data Rust_Std
begin

text \<open>
  \<open>event_sidecar/src/event_stream_server/sse_server.rs\<close> and \<open>endpoint.rs\<close>: the
  requests of a subscriber, the filtering of events for its endpoint, and the
  stream that is sent to it.  Serialisation (serde) and the rendering of an event
  (warp) are parameters: \<open>serde_env\<close>.
\<close>

subsection \<open>Endpoints and events\<close>

datatype endpoint = Endpoint_Events | Endpoint_Main | Endpoint_Deploys | Endpoint_Sigs

definition SSE_API_ROOT_PATH :: string where "SSE_API_ROOT_PATH = ''events''"
definition SSE_API_MAIN_PATH :: string where "SSE_API_MAIN_PATH = ''main''"
definition SSE_API_DEPLOYS_PATH :: string where "SSE_API_DEPLOYS_PATH = ''deploys''"
definition SSE_API_SIGNATURES_PATH :: string where "SSE_API_SIGNATURES_PATH = ''sigs''"
definition QUERY_FIELD :: string where "QUERY_FIELD = ''start_from''"

definition LEGACY_ENDPOINT_NOTICE :: string where
  "LEGACY_ENDPOINT_NOTICE =
     ''This endpoint is NOT a 1 to 1 representation of events coming off of the node. Some events are not transformable to legacy format. Please consult the documentation for details. This endpoint is deprecated and will be removed in a future release. Please migrate to the /events endpoint instead.''"

definition EVENTS_FILTER :: "event_filter list" where
  "EVENTS_FILTER = [EF_ApiVersion, EF_BlockAdded, EF_TransactionAccepted, EF_TransactionProcessed,
     EF_TransactionExpired, EF_Fault, EF_FinalitySignature, EF_Step]"

definition MAIN_FILTER :: "event_filter list" where
  "MAIN_FILTER = [EF_ApiVersion, EF_BlockAdded, EF_TransactionProcessed, EF_TransactionExpired,
     EF_Fault, EF_Step]"

definition DEPLOYS_FILTER :: "event_filter list" where
  "DEPLOYS_FILTER = [EF_ApiVersion, EF_TransactionAccepted]"

definition SIGNATURES_FILTER :: "event_filter list" where
  "SIGNATURES_FILTER = [EF_ApiVersion, EF_FinalitySignature]"

record server_sent_event =
  sse_id :: "u32 option"
  sse_payload :: "sse_data option"
  sse_comment :: "string option"
  sse_inbound_filter :: "sse_filter option"

definition initial_event :: "protocol_version \<Rightarrow> server_sent_event" where
  "initial_event client_api_version =
     \<lparr> sse_id = None, sse_payload = Some (ApiVersion client_api_version), sse_comment = None,
       sse_inbound_filter = None \<rparr>"

definition legacy_comment_event :: server_sent_event where
  "legacy_comment_event =
     \<lparr> sse_id = None, sse_payload = None, sse_comment = Some LEGACY_ENDPOINT_NOTICE,
       sse_inbound_filter = None \<rparr>"

datatype broadcast_channel_message = Broadcast_ServerSentEvent server_sent_event | Broadcast_Shutdown

record new_subscriber_info =
  ns_start_from :: "u32 option"
  ns_enable_legacy_filters :: bool

subsection \<open>From an event to what the client receives\<close>

text \<open>An event of the warp library, with the parts the sources set.\<close>

record warp_event =
  we_data :: "string option"
  we_id :: "string option"
  we_comment :: "string option"

definition warp_default :: warp_event where
  "warp_default = \<lparr> we_data = None, we_id = None, we_comment = None \<rparr>"

datatype recv_error = RecvError_Closed | RecvError_Lagged u64

text \<open>The serialisers: JSON text of an event (failing with \<open>None\<close>), of a legacy event, and of the
  value built by \<open>serde_json::to_value\<close>.\<close>

record serde_env =
  json_sse :: "sse_data \<Rightarrow> string option"
  json_legacy :: "legacy_sse_data \<Rightarrow> string option"
  json_sse_value :: "sse_data \<Rightarrow> string option"

definition json_data_or_default :: "string option \<Rightarrow> warp_event" where
  "json_data_or_default json =
     (case json of None \<Rightarrow> warp_default | Some text \<Rightarrow> warp_default\<lparr> we_data := Some text \<rparr>)"

definition event_to_warp_event ::
  "casper_env \<Rightarrow> serde_env \<Rightarrow> sse_data \<Rightarrow> bool \<Rightarrow> string option \<Rightarrow> warp_event option" where
  "event_to_warp_event env ser data is_legacy_filter maybe_id =
     (let maybe_event =
        (if is_legacy_filter
         then map_option (\<lambda>d. json_data_or_default (json_legacy ser d)) (LegacySseData_from env data)
         else Some (json_data_or_default (json_sse ser data)))
      in map_option
           (\<lambda>event. case maybe_id of Some i \<Rightarrow> event\<lparr> we_id := Some i \<rparr> | None \<Rightarrow> event)
           maybe_event)"

definition should_skip_event :: "server_sent_event \<Rightarrow> event_filter list \<Rightarrow> bool \<Rightarrow> bool" where
  "should_skip_event event event_filter is_legacy_filter =
     (if \<not> (case sse_payload event of None \<Rightarrow> True | Some d \<Rightarrow> should_include d event_filter) then True
      else if \<not> (case sse_comment event of None \<Rightarrow> True | Some _ \<Rightarrow> is_legacy_filter) then True
      else False)"

definition should_send_shutdown :: "server_sent_event \<Rightarrow> endpoint \<Rightarrow> bool" where
  "should_send_shutdown event stream_filter =
     (case sse_inbound_filter event of Some _ \<Rightarrow> True | None \<Rightarrow> False)"

definition determine_id :: "server_sent_event \<Rightarrow> sse_data \<Rightarrow> string option" where
  "determine_id event data =
     (case sse_id event of
        Some i \<Rightarrow> if is_api_version data then None else Some (u32_to_string i)
      | None \<Rightarrow> if \<not> is_api_version data then None else Some [])"

definition build_comment_event :: "string \<Rightarrow> warp_event option" where
  "build_comment_event comment = Some (warp_default\<lparr> we_comment := Some comment \<rparr>)"

definition build_event_for_outbound :: "serde_env \<Rightarrow> sse_data \<Rightarrow> string \<Rightarrow> warp_event" where
  "build_event_for_outbound ser data i =
     (json_data_or_default (json_sse_value ser data))\<lparr> we_id := Some i \<rparr>"

definition filter_map_server_sent_event ::
  "casper_env \<Rightarrow> serde_env \<Rightarrow> server_sent_event \<Rightarrow> endpoint \<Rightarrow> event_filter list \<Rightarrow> bool \<Rightarrow>
   warp_event option" where
  "filter_map_server_sent_event env ser event stream_filter event_filter is_legacy_filter =
     (if should_skip_event event event_filter is_legacy_filter then None
      else case sse_payload event of
        Some data \<Rightarrow>
          (case determine_id event data of
             None \<Rightarrow> None
           | Some i \<Rightarrow>
               if is_api_version data then event_to_warp_event env ser data is_legacy_filter None
               else if is_shutdown data then
                 (if should_send_shutdown event stream_filter
                  then Some (build_event_for_outbound ser data i) else None)
               else event_to_warp_event env ser data is_legacy_filter (Some i))
      | None \<Rightarrow>
          (case sse_comment event of
             Some comment \<Rightarrow> build_comment_event comment
           | None \<Rightarrow> None))"

subsection \<open>Subscription requests\<close>

definition path_to_filter :: "string \<Rightarrow> bool \<Rightarrow> endpoint option" where
  "path_to_filter path_param enable_legacy_filters =
     (if path_param = SSE_API_ROOT_PATH then Some Endpoint_Events
      else if path_param = SSE_API_MAIN_PATH \<and> enable_legacy_filters then Some Endpoint_Main
      else if path_param = SSE_API_DEPLOYS_PATH \<and> enable_legacy_filters then Some Endpoint_Deploys
      else if path_param = SSE_API_SIGNATURES_PATH \<and> enable_legacy_filters then Some Endpoint_Sigs
      else None)"

definition get_filter :: "string \<Rightarrow> bool \<Rightarrow> (event_filter list \<times> bool) option" where
  "get_filter path_param enable_legacy_filters =
     (if path_param = SSE_API_ROOT_PATH then Some (EVENTS_FILTER, False)
      else if path_param = SSE_API_MAIN_PATH \<and> enable_legacy_filters then Some (MAIN_FILTER, True)
      else if path_param = SSE_API_DEPLOYS_PATH \<and> enable_legacy_filters then Some (DEPLOYS_FILTER, True)
      else if path_param = SSE_API_SIGNATURES_PATH \<and> enable_legacy_filters
        then Some (SIGNATURES_FILTER, True)
      else None)"

record response =
  rsp_status :: nat
  rsp_body :: string

definition create_404 :: "bool \<Rightarrow> response" where
  "create_404 enable_legacy_filters =
     \<lparr> rsp_status = 404,
       rsp_body =
         (if enable_legacy_filters
          then ''invalid path: expected '' @ [CHR 39] @ ''/'' @ SSE_API_ROOT_PATH @ ''/'' @ SSE_API_MAIN_PATH @
               [CHR 39] @ '', '' @ [CHR 39] @ ''/'' @ SSE_API_ROOT_PATH @ ''/'' @ SSE_API_DEPLOYS_PATH @
               [CHR 39] @ '' or '' @ [CHR 39] @ ''/'' @ SSE_API_ROOT_PATH @ ''/'' @
               SSE_API_SIGNATURES_PATH @ [CHR 39] @ [CHR 10]
          else ''invalid path: expected '' @ [CHR 39] @ ''/'' @ SSE_API_ROOT_PATH @ ''/'' @ SSE_API_MAIN_PATH @
               [CHR 39] @ [CHR 10]) \<rparr>"

definition create_422 :: response where
  "create_422 =
     \<lparr> rsp_status = 422,
       rsp_body = ''invalid query: expected single field '' @ [CHR 39] @ QUERY_FIELD @ ''=<EVENT ID>'' @
         [CHR 39] @ [CHR 10] \<rparr>"

definition create_503 :: response where
  "create_503 = \<lparr> rsp_status = 503, rsp_body = ''server has reached limit of subscribers'' \<rparr>"

text \<open>The query is the \<open>HashMap\<close> of its fields, as the list of its entries.\<close>

definition parse_query :: "(string \<times> string) list \<Rightarrow> response + u32 option" where
  "parse_query query =
     (if query = [] then Inr None
      else if length query > 1 then Inl create_422
      else case Option.bind (map_of query QUERY_FIELD) parse_u32 of
        Some i \<Rightarrow> Inr (Some i)
      | None \<Rightarrow> Inl create_422)"

record url_props =
  up_event_filter :: "event_filter list"
  up_stream_filter :: endpoint
  up_start_from :: "u32 option"
  up_is_legacy_filter :: bool

definition parse_url_props ::
  "string option \<Rightarrow> (string \<times> string) list \<Rightarrow> bool \<Rightarrow> response + url_props" where
  "parse_url_props maybe_path_param query enable_legacy_filters =
     (let path_param = unwrap_or maybe_path_param SSE_API_ROOT_PATH in
      case get_filter path_param enable_legacy_filters of
        None \<Rightarrow> Inl (create_404 enable_legacy_filters)
      | Some (event_filter, is_legacy_filter) \<Rightarrow>
          (case path_to_filter path_param enable_legacy_filters of
             None \<Rightarrow> Inl (create_404 enable_legacy_filters)
           | Some stream_filter \<Rightarrow>
               and_then (parse_query query) (\<lambda>start_from.
                 Inr \<lparr> up_event_filter = event_filter, up_stream_filter = stream_filter,
                       up_start_from = start_from, up_is_legacy_filter = is_legacy_filter \<rparr>)))"

definition validate :: "nat \<Rightarrow> u32 \<Rightarrow> response option" where
  "validate receiver_count max_concurrent_subscribers =
     (if receiver_count \<ge> unat max_concurrent_subscribers then Some create_503 else None)"

text \<open>The handler of a subscription request: a refusal, or the information passed to the server
  loop together with the parameters of the client's stream.\<close>

definition serve_sse_response_handler ::
  "string option \<Rightarrow> (string \<times> string) list \<Rightarrow> nat \<Rightarrow> u32 \<Rightarrow> bool \<Rightarrow>
   response + new_subscriber_info \<times> url_props" where
  "serve_sse_response_handler maybe_path_param query receiver_count max_concurrent_subscribers
     enable_legacy_filters =
     (case validate receiver_count max_concurrent_subscribers of
        Some value \<Rightarrow> Inl value
      | None \<Rightarrow>
          and_then (parse_url_props maybe_path_param query enable_legacy_filters) (\<lambda>props.
            Inr (\<lparr> ns_start_from = up_start_from props,
                   ns_enable_legacy_filters = enable_legacy_filters \<rparr>, props)))"

subsection \<open>The stream of a client\<close>

text \<open>An item of the client's broadcast receiver: a message, or the number of messages it missed.\<close>

type_synonym broadcast_item = "u64 + broadcast_channel_message"

definition handle_lagged :: "u64 \<Rightarrow> recv_error + server_sent_event" where
  "handle_lagged amount = Inl (RecvError_Lagged amount)"

definition handle_sse_event ::
  "server_sent_event \<Rightarrow> u32 list \<Rightarrow> (recv_error + server_sent_event) option" where
  "handle_sse_event event initial_ids =
     (case sse_id event of
        Some i \<Rightarrow> if i \<in> set initial_ids then None else Some (Inr event)
      | None \<Rightarrow> Some (Inr event))"

fun handle_broadcast_item ::
  "u32 list \<Rightarrow> broadcast_item \<Rightarrow> (recv_error + server_sent_event) option" where
  "handle_broadcast_item initial_ids (Inr (Broadcast_ServerSentEvent event)) =
     handle_sse_event event initial_ids"
| "handle_broadcast_item initial_ids (Inr Broadcast_Shutdown) = Some (Inl RecvError_Closed)"
| "handle_broadcast_item initial_ids (Inl amount) = Some (handle_lagged amount)"

text \<open>The ids recorded while the initial events pass (\<open>initial_stream_ids\<close>).\<close>

definition initial_stream_ids :: "server_sent_event list \<Rightarrow> u32 list" where
  "initial_stream_ids initial = somes (map sse_id initial)"

definition ongoing_stream ::
  "u32 list \<Rightarrow> broadcast_item list \<Rightarrow> (recv_error + server_sent_event) list" where
  "ongoing_stream initial_ids ongoing =
     takeWhile (\<lambda>result. result \<noteq> Inl RecvError_Closed)
       (somes (map (handle_broadcast_item initial_ids) ongoing))"

fun filter_map_result ::
  "casper_env \<Rightarrow> serde_env \<Rightarrow> url_props \<Rightarrow> recv_error + server_sent_event \<Rightarrow>
   (recv_error + warp_event) option" where
  "filter_map_result env ser props (Inr event) =
     map_option Inr (filter_map_server_sent_event env ser event (up_stream_filter props)
       (up_event_filter props) (up_is_legacy_filter props))"
| "filter_map_result env ser props (Inl error) = Some (Inl error)"

definition build_combined_events_stream ::
  "casper_env \<Rightarrow> serde_env \<Rightarrow> url_props \<Rightarrow> server_sent_event list \<Rightarrow>
   (recv_error + server_sent_event) list \<Rightarrow> (recv_error + warp_event) list" where
  "build_combined_events_stream env ser props initial ongoing =
     somes (map (filter_map_result env ser props) (map Inr initial @ ongoing))"

text \<open>The initial events are exhausted before the broadcast receiver is polled, so all their ids
  are known when the first ongoing item is handled.\<close>

definition stream_to_client ::
  "casper_env \<Rightarrow> serde_env \<Rightarrow> url_props \<Rightarrow> server_sent_event list \<Rightarrow> broadcast_item list \<Rightarrow>
   (recv_error + warp_event) list" where
  "stream_to_client env ser props initial ongoing =
     build_combined_events_stream env ser props initial
       (ongoing_stream (initial_stream_ids initial) ongoing)"

text \<open>What reaches the filter of a client that keeps up with the events \<open>events\<close>: the initial events
  and those of \<open>events\<close> whose id was not among them.\<close>

definition received :: "server_sent_event list \<Rightarrow> server_sent_event list \<Rightarrow> server_sent_event list" where
  "received initial events =
     initial @ filter (\<lambda>e. case sse_id e of
                             Some i \<Rightarrow> i \<notin> set (initial_stream_ids initial) | None \<Rightarrow> True) events"

text \<open>The ids on the items a client is sent.\<close>

definition delivered_ids :: "(recv_error + warp_event) list \<Rightarrow> string list" where
  "delivered_ids items = somes (map (\<lambda>item. Option.bind (ok item) we_id) items)"

text \<open>The events of a broadcast receiver, without the other items.\<close>

fun broadcast_event :: "broadcast_item \<Rightarrow> server_sent_event option" where
  "broadcast_event (Inr (Broadcast_ServerSentEvent e)) = Some e"
| "broadcast_event _ = None"

text \<open>An event of the server: a version without id, or anything else with one; and no comment.\<close>

definition well_formed_event :: "server_sent_event \<Rightarrow> bool" where
  "well_formed_event e \<longleftrightarrow>
     sse_comment e = None \<and>
     (case sse_payload e of None \<Rightarrow> False | Some d \<Rightarrow> (sse_id e = None) = is_api_version d)"

text \<open>The filter of an endpoint, and the id a query asks for: \<open>None\<close> when the query is not one.\<close>

fun endpoint_filter :: "endpoint \<Rightarrow> event_filter list" where
  "endpoint_filter Endpoint_Events = EVENTS_FILTER"
| "endpoint_filter Endpoint_Main = MAIN_FILTER"
| "endpoint_filter Endpoint_Deploys = DEPLOYS_FILTER"
| "endpoint_filter Endpoint_Sigs = SIGNATURES_FILTER"

fun requested_start :: "(string \<times> string) list \<Rightarrow> u32 option option" where
  "requested_start [] = Some None"
| "requested_start [(field, value)] =
     (if field = ''start_from'' then map_option Some (parse_u32 value) else None)"
| "requested_start _ = None"

subsection \<open>The request\<close>

lemma get_filter_path:
  "get_filter p legacy_enabled =
     map_option (\<lambda>ep. (endpoint_filter ep, ep \<noteq> Endpoint_Events)) (path_to_filter p legacy_enabled)"
  by (simp add: get_filter_def path_to_filter_def)

lemma parse_query_requested_start:
  "parse_query query =
     (case requested_start query of None \<Rightarrow> Inl create_422 | Some start \<Rightarrow> Inr start)"
  by (cases query rule: requested_start.cases)
    (auto simp: parse_query_def QUERY_FIELD_def split: option.split)

subsection \<open>The filter\<close>

lemma event_to_warp_event_some:
  "event_to_warp_event env ser d legacy i \<noteq> None \<longleftrightarrow> legacy \<longrightarrow> LegacySseData_from env d \<noteq> None"
  by (auto simp: event_to_warp_event_def Let_def split: option.splits)

lemma json_data_or_default_id [simp]: "we_id (json_data_or_default json) = None"
  by (simp add: json_data_or_default_def warp_default_def split: option.split)

lemma event_to_warp_event_id:
  "event_to_warp_event env ser d legacy i = Some w \<Longrightarrow> we_id w = i"
  by (cases i) (auto simp: event_to_warp_event_def Let_def split: if_splits)

lemma filter_map_id:
  assumes "filter_map_server_sent_event env ser e sf ef legacy = Some w"
  shows "we_id w = None \<or> we_id w = map_option u32_to_string (sse_id e)"
proof (cases "sse_payload e")
  case None
  then show ?thesis using assms
    by (auto simp: filter_map_server_sent_event_def build_comment_event_def warp_default_def
        split: if_splits option.splits)
next
  case (Some d)
  then obtain i where i: "determine_id e d = Some i"
    using assms by (auto simp: filter_map_server_sent_event_def split: if_splits option.splits)
  then consider "is_api_version d" | j where "sse_id e = Some j" "i = u32_to_string j"
    by (auto simp: determine_id_def split: option.splits if_splits)
  then show ?thesis using assms Some i
    by cases (auto simp: filter_map_server_sent_event_def build_event_for_outbound_def
        dest: event_to_warp_event_id split: if_splits)
qed

subsection \<open>The stream\<close>

lemma ongoing_stream_events:
  "ongoing_stream ids (map (Inr \<circ> Broadcast_ServerSentEvent) events) =
     map Inr (filter (\<lambda>e. case sse_id e of Some i \<Rightarrow> i \<notin> set ids | None \<Rightarrow> True) events)"
  by (induction events) (auto simp: ongoing_stream_def handle_sse_event_def split: option.split)

lemma somes_map_Inr:
  "somes (map (filter_map_result env ser props) (map Inr events)) =
   map Inr (somes (map (\<lambda>e. filter_map_server_sent_event env ser e (up_stream_filter props)
     (up_event_filter props) (up_is_legacy_filter props)) events))"
  by (induction events) (auto simp: somes_Cons split: option.split)

lemma stream_to_client_events:
  "stream_to_client env ser props initial (map (Inr \<circ> Broadcast_ServerSentEvent) events) =
   map Inr (somes (map (\<lambda>e. filter_map_server_sent_event env ser e (up_stream_filter props)
     (up_event_filter props) (up_is_legacy_filter props)) (received initial events)))"
  unfolding stream_to_client_def build_combined_events_stream_def ongoing_stream_events
    received_def map_append [of Inr, symmetric] somes_map_Inr ..

text \<open>The ids that can appear among the delivered items, in their order.\<close>

definition candidate_ids :: "(recv_error + server_sent_event) list \<Rightarrow> u32 list" where
  "candidate_ids results = somes (map (\<lambda>r. Option.bind (ok r) sse_id) results)"

lemma candidate_ids_simps [simp]:
  "candidate_ids [] = []"
  "candidate_ids (Inl err # rs) = candidate_ids rs"
  "candidate_ids (Inr e # rs) = (case sse_id e of None \<Rightarrow> candidate_ids rs | Some i \<Rightarrow> i # candidate_ids rs)"
  "candidate_ids (rs @ rs') = candidate_ids rs @ candidate_ids rs'"
  by (simp_all add: candidate_ids_def split: option.split)

lemma delivered_ids_Cons:
  "delivered_ids (x # xs) = (case Option.bind (ok x) we_id of None \<Rightarrow> delivered_ids xs
     | Some i \<Rightarrow> i # delivered_ids xs)"
  by (simp add: delivered_ids_def somes_Cons split: option.split)

lemma distinct_delivered_ids:
  assumes "distinct (candidate_ids rs)"
  shows "distinct (delivered_ids (somes (map (filter_map_result env ser props) rs)))
       \<and> set (delivered_ids (somes (map (filter_map_result env ser props) rs)))
           \<subseteq> u32_to_string ` set (candidate_ids rs)"
  using assms
proof (induction rs)
  case Nil
  then show ?case by (simp add: delivered_ids_def)
next
  case (Cons r rs)
  then have IH: "distinct (delivered_ids (somes (map (filter_map_result env ser props) rs)))"
    "set (delivered_ids (somes (map (filter_map_result env ser props) rs)))
       \<subseteq> u32_to_string ` set (candidate_ids rs)"
    by (cases r; auto split: option.splits)+
  show ?case
  proof (cases r)
    case (Inl err)
    then show ?thesis using IH by (simp add: delivered_ids_Cons)
  next
    case (Inr e)
    then show ?thesis
      using IH Cons.prems filter_map_id [of env ser e "up_stream_filter props" "up_event_filter props"
          "up_is_legacy_filter props"]
      by (auto simp: somes_Cons delivered_ids_Cons split: option.splits)
  qed
qed

lemma candidate_ids_initial: "candidate_ids (map Inr initial) = initial_stream_ids initial"
  by (simp add: candidate_ids_def initial_stream_ids_def comp_def)

lemma candidate_ids_ongoing:
  assumes "distinct (somes (map (\<lambda>x. Option.bind (broadcast_event x) sse_id) ongoing))"
  shows "distinct (candidate_ids (ongoing_stream ids ongoing))
       \<and> set (candidate_ids (ongoing_stream ids ongoing)) \<inter> set ids = {}
       \<and> set (candidate_ids (ongoing_stream ids ongoing))
           \<subseteq> set (somes (map (\<lambda>x. Option.bind (broadcast_event x) sse_id) ongoing))"
  using assms
proof (induction ongoing)
  case Nil
  then show ?case by (simp add: ongoing_stream_def)
next
  case (Cons x xs)
  then have IH: "distinct (candidate_ids (ongoing_stream ids xs))"
    "set (candidate_ids (ongoing_stream ids xs)) \<inter> set ids = {}"
    "set (candidate_ids (ongoing_stream ids xs))
       \<subseteq> set (somes (map (\<lambda>x. Option.bind (broadcast_event x) sse_id) xs))"
    by (cases "Option.bind (broadcast_event x) sse_id"; auto simp: somes_Cons)+
  show ?case
  proof (cases "broadcast_event x")
    case None
    then consider "x = Inr Broadcast_Shutdown" | amount where "x = Inl amount"
      by (cases x rule: broadcast_event.cases) auto
    then show ?thesis
      using IH None by cases (auto simp: ongoing_stream_def handle_lagged_def)
  next
    case (Some e)
    then have x: "x = Inr (Broadcast_ServerSentEvent e)"
      by (cases x rule: broadcast_event.cases) auto
    show ?thesis
      using IH Cons.prems
      by (auto simp: x ongoing_stream_def handle_sse_event_def somes_Cons split: option.splits if_splits)
  qed
qed

subsection \<open>Properties\<close>

text \<open>C6: which events an endpoint delivers.  An event of the server reaches the client exactly when
  the endpoint's filter asks for its kind and, on a legacy endpoint, it has a legacy form; the
  shutdown of a node is forwarded on every endpoint, but only when it came from a node.\<close>

theorem endpoint_delivers_iff:
  assumes "well_formed_event e" and "sse_payload e = Some d"
  shows "filter_map_server_sent_event env ser e stream_filter event_filter legacy \<noteq> None \<longleftrightarrow>
     (if d = Shutdown then sse_inbound_filter e \<noteq> None
      else should_include d event_filter \<and> (if legacy then legacy_expressible d else True))"
proof (cases "d = Shutdown")
  case True
  then show ?thesis using assms
    by (auto simp: well_formed_event_def filter_map_server_sent_event_def should_skip_event_def
        determine_id_def should_send_shutdown_def split: option.splits)
next
  case False
  define i where "i = (if is_api_version d then None else map_option u32_to_string (sse_id e))"
  have "filter_map_server_sent_event env ser e stream_filter event_filter legacy =
      (if should_include d event_filter then event_to_warp_event env ser d legacy i else None)"
    using assms False unfolding i_def
    by (cases "is_api_version d")
      (auto simp: well_formed_event_def filter_map_server_sent_event_def should_skip_event_def
        determine_id_def is_shutdown_iff)
  then show ?thesis
    using event_to_warp_event_some [of env ser d legacy i] LegacySseData_from_expressible [of env d] False
    by (auto split: if_splits)
qed

theorem endpoint_delivers_iff_witness:
  "filter_map_server_sent_event reference_env
     \<lparr> json_sse = (\<lambda>_. Some ''{}''), json_legacy = (\<lambda>_. None), json_sse_value = (\<lambda>_. None) \<rparr>
     \<lparr> sse_id = Some 4, sse_payload = Some (Step 1 ''x''), sse_comment = None,
       sse_inbound_filter = None \<rparr> Endpoint_Events EVENTS_FILTER False \<noteq> None"
  by (subst endpoint_delivers_iff [where d = "Step 1 ''x''"])
    (simp_all add: well_formed_event_def EVENTS_FILTER_def)

text \<open>C4: a client never gets the same event twice.  If the initial events and the broadcast events
  have distinct ids each, then all ids delivered to the client are distinct, although an event may
  have been in both.\<close>

theorem stream_delivers_no_duplicate:
  assumes "distinct (initial_stream_ids initial)"
    and "distinct (somes (map (\<lambda>x. Option.bind (broadcast_event x) sse_id) ongoing))"
  shows "distinct (delivered_ids (stream_to_client env ser props initial ongoing))"
proof -
  let ?ids = "initial_stream_ids initial"
  have "distinct (candidate_ids (map Inr initial @ ongoing_stream ?ids ongoing))"
    using candidate_ids_ongoing [OF assms(2), of ?ids] assms(1) by (auto simp: candidate_ids_initial)
  then show ?thesis
    unfolding stream_to_client_def build_combined_events_stream_def
    by (rule distinct_delivered_ids [THEN conjunct1])
qed

theorem stream_delivers_no_duplicate_witness:
  "distinct (delivered_ids (stream_to_client reference_env
     \<lparr> json_sse = (\<lambda>_. Some ''{}''), json_legacy = (\<lambda>_. None), json_sse_value = (\<lambda>_. None) \<rparr>
     \<lparr> up_event_filter = EVENTS_FILTER, up_stream_filter = Endpoint_Events, up_start_from = Some 4,
       up_is_legacy_filter = False \<rparr>
     [\<lparr> sse_id = Some 4, sse_payload = Some (Step 1 ''x''), sse_comment = None,
        sse_inbound_filter = None \<rparr>]
     [Inr (Broadcast_ServerSentEvent \<lparr> sse_id = Some 4, sse_payload = Some (Step 1 ''x''),
        sse_comment = None, sse_inbound_filter = None \<rparr>), Inl 3]))"
  by (rule stream_delivers_no_duplicate) (simp_all add: initial_stream_ids_def)

text \<open>A stream ends with the server.  Nothing that is broadcast after the server's shutdown
  message is delivered, and everything before it is.\<close>

theorem stream_ends_at_shutdown:
  "stream_to_client env ser props initial (before @ Inr Broadcast_Shutdown # after) =
   stream_to_client env ser props initial before"
proof -
  have "ongoing_stream ids (before @ Inr Broadcast_Shutdown # after) = ongoing_stream ids before" for ids
    by (simp add: ongoing_stream_def takeWhile_tail)
  then show ?thesis by (simp add: stream_to_client_def)
qed

text \<open>C9: the answer to a subscription request.  A full server answers 503 whatever is asked; else an
  unknown path is a 404, a query other than one \<open>start_from\<close> with a valid id is a 422, and anything
  else is accepted with the filter of the endpoint, its legacy flag and the parsed id.\<close>

theorem subscription_answer:
  "serve_sse_response_handler path query receivers limit legacy_enabled =
    (if receivers \<ge> unat limit then Inl create_503
     else case path_to_filter (unwrap_or path ''events'') legacy_enabled of
       None \<Rightarrow> Inl (create_404 legacy_enabled)
     | Some endpoint \<Rightarrow>
         (case requested_start query of
            None \<Rightarrow> Inl create_422
          | Some start \<Rightarrow>
              Inr (\<lparr> ns_start_from = start, ns_enable_legacy_filters = legacy_enabled \<rparr>,
                   \<lparr> up_event_filter = endpoint_filter endpoint, up_stream_filter = endpoint,
                     up_start_from = start, up_is_legacy_filter = (endpoint \<noteq> Endpoint_Events) \<rparr>)))"
  by (simp add: serve_sse_response_handler_def validate_def parse_url_props_def get_filter_path
      parse_query_requested_start SSE_API_ROOT_PATH_def Let_def split: option.split)

end
