(* ===== verification/Event_Indexer.thy ===== *)
theory Event_Indexer
  imports Rust_Std
begin

text \<open>
  \<open>event_sidecar/src/event_stream_server/event_indexer.rs\<close>: the source of event
  ids.  The counter is a wrapping \<open>u32\<close> that survives a restart in a cache file.
  The file system is explicit: its files, and the paths on which creating a
  directory, reading or writing fails.
\<close>

record file_system =
  fs_files :: "string \<Rightarrow> u8 list option"
  fs_mkdir_fails :: "string \<Rightarrow> bool"
  fs_read_fails :: "string \<Rightarrow> bool"
  fs_write_fails :: "string \<Rightarrow> bool"

datatype io_error = CreateDirFailed | ReadFailed | NotFound | WriteFailed

fun fs_create_dir_all :: "file_system \<Rightarrow> string \<Rightarrow> io_error + unit" where
  "fs_create_dir_all fs p = (if fs_mkdir_fails fs p then Inl CreateDirFailed else Inr ())"

fun fs_read :: "file_system \<Rightarrow> string \<Rightarrow> io_error + u8 list" where
  "fs_read fs p =
    (if fs_read_fails fs p then Inl ReadFailed
     else case fs_files fs p of None \<Rightarrow> Inl NotFound | Some bytes \<Rightarrow> Inr bytes)"

fun fs_write :: "file_system \<Rightarrow> string \<Rightarrow> u8 list \<Rightarrow> io_error + file_system" where
  "fs_write fs p bytes =
    (if fs_write_fails fs p then Inl WriteFailed
     else Inr (fs\<lparr> fs_files := (fs_files fs)(p := Some bytes) \<rparr>))"

definition path_join :: "string \<Rightarrow> string \<Rightarrow> string" where
  "path_join p name = (if p = [] then name else if last p = CHR ''/'' then p @ name else p @ ''/'' @ name)"

definition CACHE_FILENAME :: string where
  "CACHE_FILENAME = ''sse_index''"

record event_indexer =
  ei_index :: u32
  ei_persistent_cache :: string

definition EventIndexer_new :: "file_system \<Rightarrow> string \<Rightarrow> io_error + event_indexer" where
  "EventIndexer_new fs storage_path =
     and_then (fs_create_dir_all fs storage_path) (\<lambda>_.
       let persistent_cache = path_join storage_path CACHE_FILENAME;
           default_bytes = to_le_bytes 0;
           bytes = (case fs_read fs persistent_cache of
                      Inl error \<Rightarrow> default_bytes
                    | Inr cached_bytes \<Rightarrow>
                        if length cached_bytes = length default_bytes then cached_bytes
                        else default_bytes)
       in Inr \<lparr> ei_index = from_le_bytes bytes, ei_persistent_cache = persistent_cache \<rparr>)"

definition next_index :: "event_indexer \<Rightarrow> u32 \<times> event_indexer" where
  "next_index ix = (ei_index ix, ix\<lparr> ei_index := ei_index ix + 1 \<rparr>)"

text \<open>\<open>Drop\<close>: a failed write leaves the file system as it was.\<close>

definition EventIndexer_drop :: "event_indexer \<Rightarrow> file_system \<Rightarrow> file_system" where
  "EventIndexer_drop ix fs =
     (case fs_write fs (ei_persistent_cache ix) (to_le_bytes (ei_index ix)) of
        Inl error \<Rightarrow> fs
      | Inr fs' \<Rightarrow> fs')"

text \<open>\<open>n\<close> calls of \<^const>\<open>next_index\<close>.\<close>

fun next_indices :: "nat \<Rightarrow> event_indexer \<Rightarrow> u32 list \<times> event_indexer" where
  "next_indices 0 ix = ([], ix)"
| "next_indices (Suc n) ix =
    (let (i, ix') = next_index ix; (is, ix'') = next_indices n ix' in (i # is, ix''))"

lemma next_indices_closed:
  "next_indices n ix =
     (map (\<lambda>i. ei_index ix + of_nat i) [0..<n], ix\<lparr> ei_index := ei_index ix + of_nat n \<rparr>)"
proof (induction n arbitrary: ix)
  case (Suc n)
  have "map (\<lambda>i. ei_index ix + of_nat i) [0..<Suc n] =
        ei_index ix # map (\<lambda>i. ei_index ix + 1 + of_nat i) [0..<n]"
    by (simp add: upt_conv_Cons map_Suc_upt [symmetric] comp_def algebra_simps del: upt_Suc)
  then show ?case by (simp add: Suc.IH next_index_def Let_def algebra_simps)
qed simp

lemma new_after_drop:
  assumes "\<not> fs_mkdir_fails fs p" "\<not> fs_read_fails fs (path_join p CACHE_FILENAME)"
    "\<not> fs_write_fails fs (path_join p CACHE_FILENAME)"
    and "ei_persistent_cache ix = path_join p CACHE_FILENAME"
  shows "EventIndexer_new (EventIndexer_drop ix fs) p = Inr ix"
  using assms by (simp add: EventIndexer_new_def EventIndexer_drop_def Let_def)

text \<open>C7: event ids go on across a restart.  The ids handed out by an indexer, and those handed
  out by the indexer that a later start builds from the cache file it left, form one sequence of
  wrapping successors.\<close>

theorem indices_continue_after_restart:
  assumes "EventIndexer_new fs p = Inr ix"
    and "\<not> fs_read_fails fs (path_join p CACHE_FILENAME)"
    and "\<not> fs_write_fails fs (path_join p CACHE_FILENAME)"
    and "next_indices m ix = (before, ix1)"
    and "EventIndexer_new (EventIndexer_drop ix1 fs) p = Inr ix2"
    and "next_indices n ix2 = (after, ix3)"
  shows "before @ after = map (\<lambda>i. ei_index ix + of_nat i) [0..<m + n]"
proof -
  have "\<not> fs_mkdir_fails fs p" "ei_persistent_cache ix = path_join p CACHE_FILENAME"
    using assms(1) by (auto simp: EventIndexer_new_def Let_def split: if_splits)
  moreover have "ix1 = ix\<lparr> ei_index := ei_index ix + of_nat m \<rparr>"
    using assms(4) by (simp add: next_indices_closed)
  ultimately have "ix2 = ix1"
    using new_after_drop [of fs p ix1] assms(2,3,5) by simp
  then show ?thesis
    using assms(4,6)
    by (auto simp: next_indices_closed upt_add_eq_append [of 0] map_upt_shift algebra_simps)
qed

theorem indices_continue_after_restart_witness:
  "\<exists>fs ix ix1 ix2 ix3 before after.
     EventIndexer_new fs ''d'' = Inr ix \<and> next_indices 2 ix = (before, ix1) \<and>
     EventIndexer_new (EventIndexer_drop ix1 fs) ''d'' = Inr ix2 \<and>
     next_indices 1 ix2 = (after, ix3) \<and> before @ after = [0xFFFFFFFF, 0, 1]"
proof -
  let ?fs = "\<lparr> fs_files = (\<lambda>_. Some [255, 255, 255, 255]), fs_mkdir_fails = (\<lambda>_. False),
               fs_read_fails = (\<lambda>_. False), fs_write_fails = (\<lambda>_. False) \<rparr>"
  let ?c = "path_join ''d'' CACHE_FILENAME"
  let ?ix = "\<lambda>w. \<lparr> ei_index = w, ei_persistent_cache = ?c \<rparr>"
  have le: "from_le_bytes [255, 255, 255, 255] = 0xFFFFFFFF" by code_simp
  have 1: "EventIndexer_new ?fs ''d'' = Inr (?ix 0xFFFFFFFF)"
    by (simp add: EventIndexer_new_def Let_def le del: from_le_bytes.simps)
  have 2: "next_indices 2 (?ix 0xFFFFFFFF) = ([0xFFFFFFFF, 0], ?ix 1)"
    by (simp add: next_indices_closed upt_rec)
  have 3: "EventIndexer_new (EventIndexer_drop (?ix 1) ?fs) ''d'' = Inr (?ix 1)"
    by (rule new_after_drop) simp_all
  have 4: "next_indices 1 (?ix 1) = ([1], ?ix 2)"
    by (simp add: next_indices_closed)
  have "[0xFFFFFFFF, 0] @ [1] = map (\<lambda>i. ei_index (?ix 0xFFFFFFFF) + of_nat i) [0..<2 + 1]"
    by (rule indices_continue_after_restart [OF 1 _ _ 2 3 4]) simp_all
  then show ?thesis using 1 2 3 4 by fastforce
qed

end
