(* ===== verification/Wheel_Buf.thy ===== *)
theory Wheel_Buf
  imports Sidecar_Prelude
begin

text \<open>
  The ring buffer of the \<open>wheelbuf\<close> crate, which is not part of the repository.
  Its operations are a parameter of the event stream server; the locale states
  what the crate documents of them.  The array with a running position below
  implements them and discharges the laws.
\<close>

definition last_n :: "nat \<Rightarrow> 'a list \<Rightarrow> 'a list" where
  "last_n n xs = drop (length xs - n) xs"

record ('e, 'b) wheel_buf_ops =
  wb_new :: "'e list \<Rightarrow> 'b"
  wb_push :: "'b \<Rightarrow> 'e \<Rightarrow> 'b"
  wb_iter :: "'b \<Rightarrow> 'e list"
  wb_capacity :: "'b \<Rightarrow> nat"

text \<open>An array and the number of elements pushed so far.\<close>

record 'e ring =
  ring_data :: "'e list"
  ring_total :: nat

definition ring_push :: "'e ring \<Rightarrow> 'e \<Rightarrow> 'e ring" where
  "ring_push r x =
     \<lparr> ring_data = (ring_data r)[ring_total r mod length (ring_data r) := x],
       ring_total = Suc (ring_total r) \<rparr>"

definition ring_iter :: "'e ring \<Rightarrow> 'e list" where
  "ring_iter r =
     map (\<lambda>i. ring_data r ! (i mod length (ring_data r)))
       [ring_total r - length (ring_data r) ..< ring_total r]"

definition ring_ops :: "('e, 'e ring) wheel_buf_ops" where
  "ring_ops = \<lparr> wb_new = (\<lambda>xs. \<lparr> ring_data = xs, ring_total = 0 \<rparr>),
                wb_push = ring_push, wb_iter = ring_iter,
                wb_capacity = (\<lambda>r. length (ring_data r)) \<rparr>"

lemma last_n_append: "last_n n (last_n n xs @ ys) = last_n n (xs @ ys)"
proof (cases "length xs \<le> n")
  case False
  then have "length xs + length ys - n = length ys + (length xs - n)" by simp
  then have "last_n n (xs @ ys) = drop (length ys) (drop (length xs - n) (xs @ ys))"
    by (simp only: last_n_def length_append drop_drop)
  also have "drop (length xs - n) (xs @ ys) = last_n n xs @ ys"
    by (simp add: last_n_def)
  finally show ?thesis using False by (simp add: last_n_def [of n "last_n n xs @ ys"]) (simp add: last_n_def)
qed (simp add: last_n_def)

locale wheel_buf =
  fixes W :: "('e, 'b) wheel_buf_ops"
  assumes iter_new: "wb_iter W (wb_new W xs) = []"
    and capacity_new: "wb_capacity W (wb_new W xs) = length xs"
    and capacity_push: "wb_capacity W (wb_push W b x) = wb_capacity W b"
    and iter_push: "0 < wb_capacity W b \<Longrightarrow>
      wb_iter W (wb_push W b x) = last_n (wb_capacity W b) (wb_iter W b @ [x])"
begin

lemma iter_foldl_push:
  assumes "0 < wb_capacity W b" and "length (wb_iter W b) \<le> wb_capacity W b"
  shows "wb_iter W (foldl (wb_push W) b xs) = last_n (wb_capacity W b) (wb_iter W b @ xs)
       \<and> wb_capacity W (foldl (wb_push W) b xs) = wb_capacity W b"
  using assms
proof (induction xs arbitrary: b)
  case Nil
  then show ?case by (simp add: last_n_def)
next
  case (Cons x xs)
  let ?b = "wb_push W b x"
  have "wb_iter W (foldl (wb_push W) ?b xs) = last_n (wb_capacity W ?b) (wb_iter W ?b @ xs)
      \<and> wb_capacity W (foldl (wb_push W) ?b xs) = wb_capacity W ?b"
    using Cons.prems by (intro Cons.IH) (simp_all add: capacity_push iter_push last_n_def)
  then show ?case
    using Cons.prems by (simp add: capacity_push iter_push last_n_append)
qed

lemma iter_pushes_new:
  assumes "xs \<noteq> []"
  shows "wb_iter W (foldl (wb_push W) (wb_new W xs) ys) = last_n (length xs) ys"
  using assms iter_foldl_push [of "wb_new W xs" ys] by (simp add: capacity_new iter_new)

end

lemma length_last_n: "length (last_n n xs) = min n (length xs)"
  by (auto simp: last_n_def)

lemma set_last_n_subset: "set (last_n n xs) \<subseteq> set xs"
  by (simp add: last_n_def set_drop_subset)

lemma map_last_n: "map f (last_n n xs) = last_n n (map f xs)"
  by (simp add: last_n_def drop_map)

lemma consec_last_n: "consec ws \<Longrightarrow> consec (last_n n ws)"
  by (simp add: last_n_def consec_drop)

lemma mod_neq_of_close:
  fixes i t n :: nat
  assumes "i < t" and "t < i + n"
  shows "i mod n \<noteq> t mod n"
proof
  assume "i mod n = t mod n"
  then have "n dvd t - i" using assms(1) mod_eq_dvd_iff_nat [of i t n] by simp
  then show False using assms dvd_imp_le [of n "t - i"] by simp
qed

lemma ring_iter_push:
  assumes "0 < length (ring_data r)"
  shows "ring_iter (ring_push r x) = last_n (length (ring_data r)) (ring_iter r @ [x])"
proof -
  let ?n = "length (ring_data r)" and ?t = "ring_total r"
  have "Suc ?t - ?n \<le> ?t" using assms by linarith
  then have "ring_iter (ring_push r x) =
      map (\<lambda>i. (ring_data r)[?t mod ?n := x] ! (i mod ?n)) [Suc ?t - ?n ..< ?t] @ [x]"
    using assms by (simp add: ring_iter_def ring_push_def)
  also have "map (\<lambda>i. (ring_data r)[?t mod ?n := x] ! (i mod ?n)) [Suc ?t - ?n ..< ?t] =
      map (\<lambda>i. ring_data r ! (i mod ?n)) [Suc ?t - ?n ..< ?t]"
  proof (rule map_cong [OF refl])
    fix i assume "i \<in> set [Suc ?t - ?n ..< ?t]"
    then have "?t mod ?n \<noteq> i mod ?n" using mod_neq_of_close [of i ?t ?n] by fastforce
    then show "(ring_data r)[?t mod ?n := x] ! (i mod ?n) = ring_data r ! (i mod ?n)" by simp
  qed
  also have "map (\<lambda>i. ring_data r ! (i mod ?n)) [Suc ?t - ?n ..< ?t] @ [x] =
      last_n ?n (ring_iter r @ [x])"
  proof (cases "?t < ?n")
    case False
    then have "[Suc ?t - ?n ..< ?t] = drop 1 [?t - ?n ..< ?t]" by (simp add: Suc_diff_le)
    moreover have "Suc 0 - ?n = 0" using assms by linarith
    ultimately show ?thesis using False by (simp add: ring_iter_def last_n_def drop_map)
  qed (simp add: ring_iter_def last_n_def)
  finally show ?thesis .
qed

interpretation ring: wheel_buf ring_ops
proof
  fix xs :: "'a list" and b :: "'a ring" and x :: 'a
  show "wb_iter ring_ops (wb_new ring_ops xs) = []"
    by (simp add: ring_ops_def ring_iter_def)
  show "wb_capacity ring_ops (wb_new ring_ops xs) = length xs"
    by (simp add: ring_ops_def)
  show "wb_capacity ring_ops (wb_push ring_ops b x) = wb_capacity ring_ops b"
    by (simp add: ring_ops_def ring_push_def)
  show "0 < wb_capacity ring_ops b \<Longrightarrow>
      wb_iter ring_ops (wb_push ring_ops b x) = last_n (wb_capacity ring_ops b) (wb_iter ring_ops b @ [x])"
    by (simp add: ring_ops_def ring_iter_push)
qed

end
