(* ===== verification/Http_Server.thy ===== *)
theory Http_Server
  imports Sse_Server Event_Indexer Wheel_Buf
begin

text \<open>
  The event stream server: \<open>event_sidecar/src/event_stream_server.rs\<close> (indexing and
  handing over of events) and \<open>event_stream_server/http_server.rs\<close> (the loop that
  buffers and broadcasts events and serves the initial events of new
  subscribers).  The buffer is a parameter with the operations of
  \<^typ>\<open>('e, 'b) wheel_buf_ops\<close>.
\<close>

subsection \<open>Configuration\<close>

record event_stream_config =
  ec_address :: string
  ec_event_stream_buffer_length :: u32
  ec_max_concurrent_subscribers :: u32

definition EventStreamConfig_new :: "u16 \<Rightarrow> u32 option \<Rightarrow> u32 option \<Rightarrow> event_stream_config" where
  "EventStreamConfig_new port buffer_length max_subscribers =
     \<lparr> ec_address = ''0.0.0.0:'' @ nat_to_string (unat port),
       ec_event_stream_buffer_length = unwrap_or buffer_length 5000,
       ec_max_concurrent_subscribers = unwrap_or max_subscribers 100 \<rparr>"

definition ADDITIONAL_PERCENT_FOR_BROADCAST_CHANNEL_SIZE :: u32 where
  "ADDITIONAL_PERCENT_FOR_BROADCAST_CHANNEL_SIZE = 20"

text \<open>\<open>u32\<close> arithmetic of a release build: the product wraps.\<close>

definition get_broadcast_channel_size :: "event_stream_config \<Rightarrow> nat" where
  "get_broadcast_channel_size config =
     unat (ec_event_stream_buffer_length config *
           (100 + ADDITIONAL_PERCENT_FOR_BROADCAST_CHANNEL_SIZE) div 100)"

subsection \<open>Handing events to the server\<close>

type_synonym inbound_data = "u32 option \<times> sse_data \<times> sse_filter option"

text \<open>The server handle: its indexer and what it has sent on the channel to the loop, in order.\<close>

record event_stream_server =
  ess_event_indexer :: event_indexer
  ess_sse_data_sender :: "inbound_data list"

definition broadcast :: "event_stream_server \<Rightarrow> sse_data \<Rightarrow> sse_filter option \<Rightarrow> event_stream_server" where
  "broadcast srv sse_data inbound_filter =
     (let (event_index, indexer) =
        (case sse_data of
           ApiVersion _ \<Rightarrow> (None, ess_event_indexer srv)
         | _ \<Rightarrow> (let (i, ix) = next_index (ess_event_indexer srv) in (Some i, ix)))
      in srv\<lparr> ess_event_indexer := indexer,
              ess_sse_data_sender :=
                ess_sse_data_sender srv @ [(event_index, sse_data, inbound_filter)] \<rparr>)"

subsection \<open>The loop\<close>

type_synonym buffered = "protocol_version \<times> server_sent_event"

record 'b http_server =
  hs_latest_protocol_version :: "protocol_version option"
  hs_buffer :: 'b

definition build_buffer ::
  "(buffered, 'b) wheel_buf_ops \<Rightarrow> event_stream_config \<Rightarrow> 'b" where
  "build_buffer W config =
     (let zero_version = ProtocolVersion 0 0 0 in
      wb_new W (replicate (unat (ec_event_stream_buffer_length config))
        (zero_version, initial_event zero_version)))"

definition mk_event :: "inbound_data \<Rightarrow> server_sent_event" where
  "mk_event d = (case d of (maybe_event_index, data, inbound_filter) \<Rightarrow>
     \<lparr> sse_id = maybe_event_index, sse_payload = Some data, sse_comment = None,
       sse_inbound_filter = inbound_filter \<rparr>)"

definition handle_incoming_data ::
  "(buffered, 'b) wheel_buf_ops \<Rightarrow> inbound_data option \<Rightarrow> 'b http_server \<Rightarrow>
   unit + 'b http_server \<times> broadcast_channel_message" where
  "handle_incoming_data W maybe_data st =
     (case maybe_data of
        Some d \<Rightarrow>
          let event = mk_event d;
              st' = (case fst (snd d) of
                       ApiVersion v \<Rightarrow> st\<lparr> hs_latest_protocol_version := Some v \<rparr>
                     | _ \<Rightarrow>
                         (case hs_latest_protocol_version st of
                            None \<Rightarrow> st
                          | Some v \<Rightarrow> st\<lparr> hs_buffer := wb_push W (hs_buffer st) (v, event) \<rparr>))
          in Inr (st', Broadcast_ServerSentEvent event)
      | None \<Rightarrow> Inl ())"

text \<open>The iteration of the buffered events: \<open>None\<close> stands for the panic of an \<open>unwrap\<close> on an
  event without id.\<close>

fun skip_while_id :: "(u32 \<Rightarrow> bool) \<Rightarrow> buffered list \<Rightarrow> buffered list option" where
  "skip_while_id skip [] = Some []"
| "skip_while_id skip (t # ts) =
    (case sse_id (snd t) of
       None \<Rightarrow> None
     | Some i \<Rightarrow> if skip i then skip_while_id skip ts else Some (t # ts))"

definition in_wraparound_zone :: "u32 \<Rightarrow> buffered list \<Rightarrow> bool option" where
  "in_wraparound_zone buffer_size events =
     (case events of
        [] \<Rightarrow> Some False
      | t # _ \<Rightarrow> map_option (\<lambda>i. i > (- 1) - buffer_size \<or> i < buffer_size) (sse_id (snd t)))"

fun send_buffered :: "protocol_version option \<Rightarrow> buffered list \<Rightarrow> server_sent_event list" where
  "send_buffered observed_protocol_version [] = []"
| "send_buffered observed_protocol_version ((protocol, event) # rest) =
    (if observed_protocol_version = None \<or> observed_protocol_version \<noteq> Some protocol
     then initial_event protocol # event # send_buffered (Some protocol) rest
     else event # send_buffered observed_protocol_version rest)"

definition send_api_version_if_necessary ::
  "bool \<Rightarrow> protocol_version option \<Rightarrow> server_sent_event list" where
  "send_api_version_if_necessary observed_events latest_protocol_version =
     (if \<not> observed_events then
        (case latest_protocol_version of None \<Rightarrow> [] | Some v \<Rightarrow> [initial_event v])
      else [])"

text \<open>The buffered events a subscriber asks for.\<close>

definition requested_events ::
  "(buffered, 'b) wheel_buf_ops \<Rightarrow> 'b \<Rightarrow> u32 \<Rightarrow> buffered list option" where
  "requested_events W buffer start_index =
     (let buffer_size = (of_nat (wb_capacity W buffer) :: u32) in
      case in_wraparound_zone buffer_size (wb_iter W buffer) of
        None \<Rightarrow> None
      | Some zone \<Rightarrow>
          skip_while_id
            (\<lambda>i. if zone then i + buffer_size < start_index + buffer_size else i < start_index)
            (wb_iter W buffer))"

definition register_new_subscriber ::
  "(buffered, 'b) wheel_buf_ops \<Rightarrow> new_subscriber_info \<Rightarrow> 'b http_server \<Rightarrow>
   server_sent_event list option" where
  "register_new_subscriber W subscriber st =
     (let comment = (if ns_enable_legacy_filters subscriber then [legacy_comment_event] else []) in
      case ns_start_from subscriber of
        Some start_index \<Rightarrow>
          (case requested_events W (hs_buffer st) start_index of
             None \<Rightarrow> None
           | Some tuples \<Rightarrow>
               Some (comment @ send_buffered None tuples @
                 send_api_version_if_necessary (tuples \<noteq> []) (hs_latest_protocol_version st)))
      | None \<Rightarrow>
          Some (comment @ send_api_version_if_necessary False (hs_latest_protocol_version st)))"

text \<open>What the loop receives: a subscriber (\<open>None\<close> once its channel is closed) or data (\<open>None\<close>
  once the server handle is dropped); and what it emits.\<close>

datatype loop_input = In_Subscriber "new_subscriber_info option" | In_Data "inbound_data option"

datatype loop_output =
    Out_Initial new_subscriber_info "server_sent_event list"
  | Out_Broadcast broadcast_channel_message

text \<open>The loop, until the data channel closes; then the streams are told to stop.  \<open>None\<close> is a
  panic of the loop; the inputs that are left over when it ends are not handled.\<close>

fun run_loop ::
  "(buffered, 'b) wheel_buf_ops \<Rightarrow> 'b http_server \<Rightarrow> loop_input list \<Rightarrow>
   ('b http_server \<times> loop_output list) option" where
  "run_loop W st [] = Some (st, [])"
| "run_loop W st (In_Subscriber None # inputs) = run_loop W st inputs"
| "run_loop W st (In_Subscriber (Some subscriber) # inputs) =
    (case register_new_subscriber W subscriber st of
       None \<Rightarrow> None
     | Some events \<Rightarrow>
         map_option (\<lambda>(st', out). (st', Out_Initial subscriber events # out)) (run_loop W st inputs))"
| "run_loop W st (In_Data maybe_data # inputs) =
    (case handle_incoming_data W maybe_data st of
       Inl _ \<Rightarrow> Some (st, [Out_Broadcast Broadcast_Shutdown])
     | Inr (st', message) \<Rightarrow>
         map_option (\<lambda>(st'', out). (st'', Out_Broadcast message # out)) (run_loop W st' inputs))"

definition http_server_init ::
  "(buffered, 'b) wheel_buf_ops \<Rightarrow> event_stream_config \<Rightarrow> 'b http_server" where
  "http_server_init W config =
     \<lparr> hs_latest_protocol_version = None, hs_buffer = build_buffer W config \<rparr>"

definition http_server_run ::
  "(buffered, 'b) wheel_buf_ops \<Rightarrow> event_stream_config \<Rightarrow> loop_input list \<Rightarrow>
   ('b http_server \<times> loop_output list) option" where
  "http_server_run W config inputs = run_loop W (http_server_init W config) inputs"

subsection \<open>Specification: the history of events\<close>

text \<open>The data the loop handled, and the calls that produced it.\<close>

fun data_of :: "loop_input list \<Rightarrow> inbound_data list" where
  "data_of [] = []"
| "data_of (In_Data (Some d) # inputs) = d # data_of inputs"
| "data_of (In_Subscriber s # inputs) = data_of inputs"
| "data_of (In_Data None # inputs) = data_of inputs"

fun broadcast_log :: "loop_output list \<Rightarrow> broadcast_channel_message list" where
  "broadcast_log [] = []"
| "broadcast_log (Out_Broadcast m # out) = m # broadcast_log out"
| "broadcast_log (Out_Initial _ _ # out) = broadcast_log out"

text \<open>\<open>indexed_from w data\<close>: versions have no id, and the other events have the ids \<open>w\<close>, \<open>w + 1\<close>, ...\<close>

fun indexed_from :: "u32 \<Rightarrow> inbound_data list \<Rightarrow> bool" where
  "indexed_from w [] = True"
| "indexed_from w ((i, d, f) # data) =
    (if is_api_version d then i = None \<and> indexed_from w data
     else i = Some w \<and> indexed_from (w + 1) data)"

fun api_version_of :: "sse_data \<Rightarrow> protocol_version option" where
  "api_version_of (ApiVersion v) = Some v"
| "api_version_of _ = None"

text \<open>An unbounded server: every event since the first version, with the version it belongs to.\<close>

fun history :: "protocol_version option \<Rightarrow> inbound_data list \<Rightarrow> buffered list" where
  "history v [] = []"
| "history v (d # data) =
    (case api_version_of (fst (snd d)) of
       Some w \<Rightarrow> history (Some w) data
     | None \<Rightarrow> (case v of None \<Rightarrow> history None data | Some w \<Rightarrow> (w, mk_event d) # history v data))"

fun latest_version :: "protocol_version option \<Rightarrow> inbound_data list \<Rightarrow> protocol_version option" where
  "latest_version v [] = v"
| "latest_version v (d # data) =
    latest_version (case api_version_of (fst (snd d)) of Some w \<Rightarrow> Some w | None \<Rightarrow> v) data"

text \<open>The loop's state stands for a history when its buffer holds the newest part of it.\<close>

definition represents ::
  "(buffered, 'b) wheel_buf_ops \<Rightarrow> nat \<Rightarrow> buffered list \<Rightarrow> protocol_version option \<Rightarrow>
   'b http_server \<Rightarrow> bool" where
  "represents W cap hist v st \<longleftrightarrow>
     wb_capacity W (hs_buffer st) = cap \<and> wb_iter W (hs_buffer st) = last_n cap hist \<and>
     hs_latest_protocol_version st = v"

definition broadcasts ::
  "event_stream_server \<Rightarrow> (sse_data \<times> sse_filter option) list \<Rightarrow> event_stream_server" where
  "broadcasts srv events = foldl (\<lambda>s (d, f). broadcast s d f) srv events"

text \<open>The ids a client of the stream sees, in order.\<close>

definition event_ids :: "server_sent_event list \<Rightarrow> u32 list" where
  "event_ids events = somes (map sse_id events)"

text \<open>A client's view: it remembers the last version it was told and reads the events under it.\<close>

fun under_version ::
  "protocol_version option \<Rightarrow> server_sent_event list \<Rightarrow> (protocol_version option \<times> server_sent_event) list"
  where
  "under_version v [] = []"
| "under_version v (e # es) =
    (case Option.bind (sse_payload e) api_version_of of
       Some w \<Rightarrow> under_version (Some w) es
     | None \<Rightarrow> (v, e) # under_version v es)"

subsection \<open>Handing over\<close>

lemma broadcast_sent:
  "ess_sse_data_sender (broadcast srv d f) =
     ess_sse_data_sender srv @
       [(if is_api_version d then None else Some (ei_index (ess_event_indexer srv)), d, f)]"
  "ei_index (ess_event_indexer (broadcast srv d f)) =
     ei_index (ess_event_indexer srv) + (if is_api_version d then 0 else 1)"
  by (cases d; simp add: broadcast_def next_index_def)+

lemma broadcasts_Cons [simp]:
  "broadcasts srv ((d, f) # events) = broadcasts (broadcast srv d f) events"
  by (simp add: broadcasts_def)

lemma broadcasts_Nil [simp]: "broadcasts srv [] = srv"
  by (simp add: broadcasts_def)

lemma broadcasts_indexed:
  "\<exists>data. ess_sse_data_sender (broadcasts srv events) = ess_sse_data_sender srv @ data \<and>
          indexed_from (ei_index (ess_event_indexer srv)) data \<and> map snd data = events"
proof (induction events arbitrary: srv)
  case (Cons e events)
  obtain d f where e: "e = (d, f)" by (cases e)
  obtain data where
    "ess_sse_data_sender (broadcasts (broadcast srv d f) events) =
       ess_sse_data_sender (broadcast srv d f) @ data"
    "indexed_from (ei_index (ess_event_indexer (broadcast srv d f))) data" "map snd data = events"
    using Cons.IH by blast
  then show ?case by (auto simp: e broadcast_sent)
qed simp

subsection \<open>The buffer holds the newest part of the history\<close>

lemma is_api_version_of: "is_api_version d \<longleftrightarrow> api_version_of d \<noteq> None"
  by (cases d) auto

lemma handle_incoming_data_Some:
  "handle_incoming_data W (Some d) st =
     Inr (case api_version_of (fst (snd d)) of
            Some v \<Rightarrow> st\<lparr> hs_latest_protocol_version := Some v \<rparr>
          | None \<Rightarrow>
              (case hs_latest_protocol_version st of
                 None \<Rightarrow> st
               | Some v \<Rightarrow> st\<lparr> hs_buffer := wb_push W (hs_buffer st) (v, mk_event d) \<rparr>),
          Broadcast_ServerSentEvent (mk_event d))"
  by (cases "fst (snd d)") (simp_all add: handle_incoming_data_def Let_def)

lemma history_append:
  "history v (data @ data') = history v data @ history (latest_version v data) data'"
  by (induction v data rule: history.induct) (auto split: option.splits)

lemma latest_version_append:
  "latest_version v (data @ data') = latest_version (latest_version v data) data'"
  by (induction v data rule: latest_version.induct) auto

text \<open>The contract of the ring buffer at the element type of the server.\<close>

locale event_buffer = wheel_buf W for W :: "(buffered, 'b) wheel_buf_ops"
begin

lemma represents_init:
  "represents W (unat (ec_event_stream_buffer_length config)) [] None (http_server_init W config)"
  by (simp add: represents_def http_server_init_def build_buffer_def Let_def capacity_new iter_new
      last_n_def)

lemma handle_incoming_data_represents:
  assumes "represents W cap hist v st" and "0 < cap"
  shows "\<exists>st'. handle_incoming_data W (Some d) st = Inr (st', Broadcast_ServerSentEvent (mk_event d))
     \<and> represents W cap (hist @ history v [d]) (latest_version v [d]) st'"
  using assms
  by (auto simp: handle_incoming_data_Some represents_def capacity_push iter_push last_n_append
      split: option.split)

lemma run_loop_represents:
  assumes "represents W cap hist v st" and "0 < cap"
    and "run_loop W st inputs = Some (st', out)" and "In_Data None \<notin> set inputs"
  shows "represents W cap (hist @ history v (data_of inputs)) (latest_version v (data_of inputs)) st'
     \<and> broadcast_log out = map (Broadcast_ServerSentEvent \<circ> mk_event) (data_of inputs)"
  using assms
proof (induction inputs arbitrary: hist v st out rule: data_of.induct)
  case (2 d inputs)
  obtain st1 where st1:
    "handle_incoming_data W (Some d) st = Inr (st1, Broadcast_ServerSentEvent (mk_event d))"
    "represents W cap (hist @ history v [d]) (latest_version v [d]) st1"
    using handle_incoming_data_represents "2.prems"(1,2) by blast
  with "2.prems"(3) obtain out' where out':
    "run_loop W st1 inputs = Some (st', out')"
    "out = Out_Broadcast (Broadcast_ServerSentEvent (mk_event d)) # out'"
    by auto
  have "represents W cap ((hist @ history v [d]) @ history (latest_version v [d]) (data_of inputs))
      (latest_version (latest_version v [d]) (data_of inputs)) st'
     \<and> broadcast_log out' = map (Broadcast_ServerSentEvent \<circ> mk_event) (data_of inputs)"
    using "2.prems" by (intro "2.IH" [OF st1(2) _ out'(1)]) auto
  moreover have "history v (d # data_of inputs) =
      history v [d] @ history (latest_version v [d]) (data_of inputs)"
    "latest_version v (d # data_of inputs) = latest_version (latest_version v [d]) (data_of inputs)"
    using history_append [of v "[d]" "data_of inputs"]
      latest_version_append [of v "[d]" "data_of inputs"] by (simp_all only: append_Cons append_Nil)
  ultimately show ?case
    by (simp del: history.simps latest_version.simps add: out'(2))
next
  case (3 s inputs)
  then show ?case by (cases s) (auto split: option.splits)
qed auto

end

interpretation ring_events: event_buffer ring_ops
  by unfold_locales

subsection \<open>Ids of the history\<close>

lemma mk_event_simps [simp]:
  "sse_id (mk_event d) = fst d" "sse_payload (mk_event d) = Some (fst (snd d))"
  "sse_comment (mk_event d) = None" "sse_inbound_filter (mk_event d) = snd (snd d)"
  by (simp_all add: mk_event_def split: prod.split)

lemma history_payload:
  "t \<in> set (history v data) \<Longrightarrow>
     \<exists>d. sse_payload (snd t) = Some d \<and> api_version_of d = None \<and> sse_comment (snd t) = None"
  by (induction v data rule: history.induct) (auto split: option.splits)

lemma history_ids_Some:
  "indexed_from w data \<Longrightarrow>
   map (sse_id \<circ> snd) (history (Some u) data) =
     map (\<lambda>i. Some (w + of_nat i)) [0..<length (history (Some u) data)]"
proof (induction w data arbitrary: u rule: indexed_from.induct)
  case (2 w i d f data)
  show ?case
  proof (cases "api_version_of d")
    case None
    then have "indexed_from (w + 1) data" "i = Some w"
      using "2.prems" by (simp_all add: is_api_version_of)
    then show ?thesis
      using None "2.IH"(2) [of u]
      by (simp add: is_api_version_of upt_conv_Cons map_Suc_upt [symmetric] comp_def algebra_simps
          del: upt_Suc)
  next
    case (Some v)
    then show ?thesis using "2.IH"(1) [of v] "2.prems" by (simp add: is_api_version_of)
  qed
qed simp

lemma history_ids:
  "indexed_from w data \<Longrightarrow>
   \<exists>f. map (sse_id \<circ> snd) (history v data) =
     map (\<lambda>i. Some (f + of_nat i)) [0..<length (history v data)]"
proof (induction w data arbitrary: v rule: indexed_from.induct)
  case (2 w i d f data)
  show ?case
  proof (cases v)
    case None
    then show ?thesis
      using "2.IH" "2.prems" by (cases "api_version_of d") (auto simp: is_api_version_of)
  next
    case (Some u)
    then show ?thesis using history_ids_Some [OF "2.prems"] by blast
  qed
qed simp

subsection \<open>Selection of buffered events\<close>

lemma skip_while_id_dropWhile:
  "list_all (\<lambda>t. sse_id (snd t) \<noteq> None) bs \<Longrightarrow>
   skip_while_id P bs = Some (dropWhile (\<lambda>t. P (the (sse_id (snd t)))) bs)"
  by (induction bs) auto

lemma unat_add_u32: "unat (x + y :: u32) = (unat x + unat y) mod 2 ^ 32"
  by (simp add: unat_word_ariths)

definition zone_of :: "nat \<Rightarrow> u32 \<Rightarrow> bool" where
  "zone_of cap f \<longleftrightarrow> f > (- 1) - of_nat cap \<or> f < of_nat cap"

definition shift :: "nat \<Rightarrow> u32 \<Rightarrow> u32 \<Rightarrow> u32" where
  "shift cap f i = (if zone_of cap f then i + of_nat cap else i)"

lemma zone_of_unat:
  assumes "cap < 2 ^ 32"
  shows "zone_of cap f \<longleftrightarrow> unat f + cap \<ge> 2 ^ 32 \<or> unat f < cap"
proof -
  have c: "unat (of_nat cap :: u32) = cap" using assms by (simp add: unat_of_nat)
  have "unat ((- 1 :: u32) - of_nat cap) = 2 ^ 32 - 1 - cap"
    using assms c by (simp add: unat_sub word_le_nat_alt unsigned_minus_1_eq_mask mask_eq_exp_minus_1)
  then show ?thesis using assms c by (auto simp: zone_of_def word_less_nat_alt)
qed

lemma unat_shift:
  assumes "3 * cap \<le> 2 ^ 32" and "0 < cap" and "i \<le> cap"
  shows "unat (shift cap f (f + of_nat i)) = unat (shift cap f f) + i"
proof -
  have cap: "cap < 2 ^ 32" using assms by simp
  have c: "unat (of_nat cap :: u32) = cap" "unat (of_nat i :: u32) = i"
    using cap assms(3) by (simp_all add: unat_of_nat)
  have f: "unat f < 2 ^ 32" by (rule u32_less)
  consider "unat f + cap \<ge> 2 ^ 32" | "unat f < cap" | "unat f + cap < 2 ^ 32" "cap \<le> unat f"
    by linarith
  then show ?thesis
  proof cases
    case 1
    then have m: "(unat f + j + cap) mod 2 ^ 32 = unat f + j + cap - 2 ^ 32" if "j \<le> cap" for j
      using that assms f by (subst le_mod_geq) simp_all
    have "unat (f + of_nat i + of_nat cap) = (unat f + i + cap) mod 2 ^ 32"
      "unat (f + of_nat cap) = (unat f + 0 + cap) mod 2 ^ 32"
      using c by (simp_all add: unat_add_u32 mod_simps)
    then have "unat (f + of_nat i + of_nat cap) = unat (f + of_nat cap) + i"
      using m [of i] m [of 0] assms 1 by simp
    then show ?thesis using 1 cap by (simp add: shift_def zone_of_unat)
  next
    case 2
    then show ?thesis using assms c f cap
      by (simp add: shift_def zone_of_unat unat_add_u32 mod_simps)
  next
    case 3
    then show ?thesis using assms c f cap
      by (simp add: shift_def zone_of_unat unat_add_u32)
  qed
qed

text \<open>The buffered events are consecutive, with first id \<open>f\<close>: the loop skips exactly the
  events before the requested one.\<close>

context event_buffer
begin

lemma requested_events_dropWhile:
  assumes ids: "map (sse_id \<circ> snd) (wb_iter W b) = map (\<lambda>i. Some (f + of_nat i)) [0..<n]"
  shows "requested_events W b start =
    Some (dropWhile (\<lambda>t. shift (wb_capacity W b) f (the (sse_id (snd t)))
                        < shift (wb_capacity W b) f start) (wb_iter W b))"
proof -
  let ?c = "of_nat (wb_capacity W b) :: u32"
  have n: "length (wb_iter W b) = n" using arg_cong [OF ids, of length] by simp
  have nth: "sse_id (snd (wb_iter W b ! i)) = Some (f + of_nat i)" if "i < n" for i
    using arg_cong [OF ids, of "\<lambda>l. l ! i"] that n by simp
  have some: "list_all (\<lambda>t. sse_id (snd t) \<noteq> None) (wb_iter W b)"
    using nth n by (simp add: list_all_length)
  have "in_wraparound_zone ?c (wb_iter W b) =
      Some (if wb_iter W b = [] then False else zone_of (wb_capacity W b) f)"
  proof (cases "wb_iter W b")
    case (Cons t ts)
    then have "sse_id (snd t) = Some f" using nth [of 0] n by simp
    then show ?thesis using Cons by (simp add: in_wraparound_zone_def zone_of_def)
  qed (simp add: in_wraparound_zone_def)
  then show ?thesis
    using some
    by (cases "wb_iter W b") (simp_all add: requested_events_def Let_def skip_while_id_dropWhile shift_def
        del: dropWhile.simps(2) skip_while_id.simps(2))
qed

lemma requested_events_drop:
  assumes ids: "map (sse_id \<circ> snd) (wb_iter W b) = map (\<lambda>i. Some (f + of_nat i)) [0..<n]"
    and "n \<le> wb_capacity W b" and "3 * wb_capacity W b \<le> 2 ^ 32" and "0 < wb_capacity W b"
    and "k \<le> n"
  shows "requested_events W b (f + of_nat k) = Some (drop k (wb_iter W b))"
proof -
  have n: "length (wb_iter W b) = n" using arg_cong [OF ids, of length] by simp
  have nth: "sse_id (snd (wb_iter W b ! i)) = Some (f + of_nat i)" if "i < n" for i
    using arg_cong [OF ids, of "\<lambda>l. l ! i"] that n by simp
  have "shift (wb_capacity W b) f (f + of_nat i) < shift (wb_capacity W b) f (f + of_nat k) \<longleftrightarrow> i < k"
    if "i \<le> n" for i
    using that assms unat_shift [of "wb_capacity W b" i f] unat_shift [of "wb_capacity W b" k f]
    by (simp add: word_less_nat_alt)
  then show ?thesis
    unfolding requested_events_dropWhile [OF ids] option.inject
    using assms(5) n nth by (intro dropWhile_eq_drop) auto
qed

lemma requested_events_all:
  assumes ids: "map (sse_id \<circ> snd) (wb_iter W b) = map (\<lambda>i. Some (f + of_nat i)) [0..<n]"
    and "shift (wb_capacity W b) f start \<le> shift (wb_capacity W b) f f"
  shows "requested_events W b start = Some (wb_iter W b)"
proof (cases "wb_iter W b")
  case Nil
  then show ?thesis by (simp add: requested_events_dropWhile [OF ids])
next
  case (Cons t ts)
  then have "0 < n" using arg_cong [OF ids, of length] by simp
  then have "sse_id (snd t) = Some f"
    using arg_cong [OF ids, of hd] Cons by (simp add: hd_map)
  then show ?thesis
    using assms(2) Cons by (simp add: requested_events_dropWhile [OF ids] not_less)
qed

lemma represents_ids:
  assumes "represents W cap hist v st"
    and "map (sse_id \<circ> snd) hist = map (\<lambda>i. Some (f + of_nat i)) [0..<length hist]"
  shows "map (sse_id \<circ> snd) (wb_iter W (hs_buffer st)) =
    map (\<lambda>i. Some (f + of_nat (length hist - cap) + of_nat i)) [0..<min cap (length hist)]"
proof -
  have "map (sse_id \<circ> snd) (wb_iter W (hs_buffer st)) =
      last_n cap (map (\<lambda>i. Some (f + of_nat i)) [0..<length hist])"
    using assms by (simp add: represents_def map_last_n)
  also have "\<dots> = map (\<lambda>i. Some (f + of_nat (length hist - cap) + of_nat i))
      [0..<min cap (length hist)]"
    by (rule nth_equalityI) (auto simp: last_n_def min_def algebra_simps)
  finally show ?thesis .
qed

end

subsection \<open>What a subscriber is sent\<close>

lemma send_buffered_ids: "event_ids (send_buffered v ts) = event_ids (map snd ts)"
  by (induction v ts rule: send_buffered.induct)
    (auto simp: event_ids_def initial_event_def somes_Cons split: option.split)

lemma send_buffered_under_version:
  assumes "list_all (\<lambda>t. Option.bind (sse_payload (snd t)) api_version_of = None) ts"
  shows "under_version v (send_buffered v ts) = map (\<lambda>(p, e). (Some p, e)) ts"
  using assms
  by (induction v ts rule: send_buffered.induct) (auto simp: initial_event_def)

lemma send_buffered_hd: "ts \<noteq> [] \<Longrightarrow> send_buffered None ts ! 0 = initial_event (fst (hd ts))"
  by (cases ts) auto

context event_buffer
begin

text \<open>The id of every buffered event is known, whatever the loop has handled.\<close>

lemma represents_no_panic:
  assumes "represents W cap hist v st"
    and "list_all (\<lambda>t. sse_id (snd t) \<noteq> None) hist"
  shows "\<exists>events. register_new_subscriber W subscriber st = Some events"
proof -
  have some: "list_all (\<lambda>t. sse_id (snd t) \<noteq> None) (wb_iter W (hs_buffer st))"
    using assms set_last_n_subset [of cap hist] by (auto simp: represents_def list_all_iff)
  then obtain z where
    "in_wraparound_zone (of_nat (wb_capacity W (hs_buffer st))) (wb_iter W (hs_buffer st)) = Some z"
    by (cases "wb_iter W (hs_buffer st)") (auto simp: in_wraparound_zone_def)
  then show ?thesis
    using some
    by (auto simp: register_new_subscriber_def requested_events_def Let_def skip_while_id_dropWhile
        split: option.split)
qed

lemma run_loop_no_panic:
  assumes "represents W cap hist v st" and "0 < cap"
    and "list_all (\<lambda>t. sse_id (snd t) \<noteq> None) hist"
    and "list_all (\<lambda>d. fst d \<noteq> None \<or> is_api_version (fst (snd d))) (data_of inputs)"
  shows "\<exists>st' out. run_loop W st inputs = Some (st', out)"
  using assms
proof (induction inputs arbitrary: hist v st rule: data_of.induct)
  case (2 d inputs)
  obtain st1 where st1:
    "handle_incoming_data W (Some d) st = Inr (st1, Broadcast_ServerSentEvent (mk_event d))"
    "represents W cap (hist @ history v [d]) (latest_version v [d]) st1"
    using handle_incoming_data_represents "2.prems"(1,2) by blast
  have "list_all (\<lambda>t. sse_id (snd t) \<noteq> None) (hist @ history v [d])"
    using "2.prems"(3,4) by (auto simp: is_api_version_of split: option.split)
  then obtain st2 out where "run_loop W st1 inputs = Some (st2, out)"
    using "2.IH" [OF st1(2) "2.prems"(2)] "2.prems"(4) by auto
  then show ?case by (simp add: st1(1))
next
  case (3 s inputs)
  then have "\<exists>st' out. run_loop W st inputs = Some (st', out)" by simp
  moreover have "\<exists>events. register_new_subscriber W x st = Some events" for x
    by (rule represents_no_panic [OF "3.prems"(1,3)])
  ultimately show ?case by (cases s) (auto split: option.split)
next
  case (4 inputs)
  then show ?case by (simp add: handle_incoming_data_def)
qed simp

end

context event_buffer
begin

text \<open>Registration of a subscriber in a state that stands for a history.\<close>

lemma represents_register:
  assumes rep: "represents W cap hist v st"
    and f: "map (sse_id \<circ> snd) hist = map (\<lambda>i. Some (f + of_nat i)) [0..<length hist]"
    and "0 < cap" and "3 * cap \<le> 2 ^ 32" and "length hist - cap \<le> k" and "k \<le> length hist"
  shows "register_new_subscriber W
           \<lparr> ns_start_from = Some (f + of_nat k), ns_enable_legacy_filters = legacy \<rparr> st =
         Some ((if legacy then [legacy_comment_event] else []) @ send_buffered None (drop k hist) @
           send_api_version_if_necessary (k < length hist) v)"
proof -
  let ?g = "f + of_nat (length hist - cap)" and ?k = "k - (length hist - cap)"
  have len: "length hist - cap + ?k = k" using assms(5) by simp
  have "requested_events W (hs_buffer st) (?g + of_nat ?k) = Some (drop ?k (wb_iter W (hs_buffer st)))"
    using assms(3-6) rep
    by (intro requested_events_drop [OF represents_ids [OF rep f]]) (auto simp: represents_def)
  moreover have "drop ?k (wb_iter W (hs_buffer st)) = drop k hist"
    using rep len by (simp add: represents_def last_n_def add.commute)
  moreover have "?g + of_nat ?k = f + of_nat k"
    using len by (simp flip: of_nat_add add: add.assoc)
  ultimately show ?thesis
    using rep assms(6) by (auto simp: register_new_subscriber_def represents_def le_less)
qed

end

lemma latest_version_Some: "latest_version (Some v) data \<noteq> None"
  by (induction data arbitrary: v) (auto split: option.split)

lemma history_nonempty_latest: "history v data \<noteq> [] \<Longrightarrow> latest_version v data \<noteq> None"
proof (induction v data rule: history.induct)
  case (2 v d data)
  then show ?case using latest_version_Some by (auto split: option.splits)
qed simp

lemma indexed_from_ids:
  "indexed_from w data \<Longrightarrow> list_all (\<lambda>d. fst d \<noteq> None \<or> is_api_version (fst (snd d))) data"
  by (induction w data rule: indexed_from.induct) (auto split: if_splits)

subsection \<open>Properties\<close>

lemma http_server_run_represents:
  assumes "event_buffer W" and "0 < unat (ec_event_stream_buffer_length config)"
    and "http_server_run W config inputs = Some (st, out)" and "In_Data None \<notin> set inputs"
  shows "represents W (unat (ec_event_stream_buffer_length config)) (history None (data_of inputs))
      (latest_version None (data_of inputs)) st
    \<and> broadcast_log out = map (Broadcast_ServerSentEvent \<circ> mk_event) (data_of inputs)"
  using event_buffer.run_loop_represents
    [OF assms(1) event_buffer.represents_init [OF assms(1)] assms(2) _ assms(4)] assms(3)
  by (simp add: http_server_run_def)

lemma http_server_run_some:
  assumes "event_buffer W" and "0 < unat (ec_event_stream_buffer_length config)"
    and "indexed_from w (data_of inputs)"
  shows "\<exists>st out. http_server_run W config inputs = Some (st, out)"
  using event_buffer.run_loop_no_panic
    [OF assms(1) event_buffer.represents_init [OF assms(1)] assms(2) _ indexed_from_ids [OF assms(3)]]
  by (simp add: http_server_run_def)

text \<open>A short run over a ring of two events whose ids wrap around, used as a concrete case.\<close>

definition sample_config :: event_stream_config where
  "sample_config = EventStreamConfig_new 19999 (Some 2) None"

definition sample_inputs :: "loop_input list" where
  "sample_inputs = [In_Data (Some (None, ApiVersion (ProtocolVersion 2 0 0), None)),
     In_Data (Some (Some 0xFFFFFFFE, Step 1 ''a'', Some Events)),
     In_Data (Some (Some 0xFFFFFFFF, Step 2 ''b'', Some Events)),
     In_Data (Some (None, ApiVersion (ProtocolVersion 2 1 0), None)),
     In_Data (Some (Some 0, Step 3 ''c'', Some Events))]"

lemma sample_facts:
  "unat (ec_event_stream_buffer_length sample_config) = 2"
  "indexed_from 0xFFFFFFFE (data_of sample_inputs)"
  "In_Data None \<notin> set sample_inputs"
  "history None (data_of sample_inputs) =
     [(ProtocolVersion 2 0 0, mk_event (Some 0xFFFFFFFE, Step 1 ''a'', Some Events)),
      (ProtocolVersion 2 0 0, mk_event (Some 0xFFFFFFFF, Step 2 ''b'', Some Events)),
      (ProtocolVersion 2 1 0, mk_event (Some 0, Step 3 ''c'', Some Events))]"
  "latest_version None (data_of sample_inputs) = Some (ProtocolVersion 2 1 0)"
  by (simp_all add: sample_config_def sample_inputs_def EventStreamConfig_new_def)

text \<open>C3: the server refines an unbounded history.  After any interleaving of events and new
  subscribers, the ring buffer holds exactly the newest events of the history (those since the first
  announced version, each with the version it was emitted under), the remembered version is the last
  one announced, and every event was broadcast once, in order.\<close>

theorem http_server_refines_history:
  assumes "event_buffer W" and "0 < unat (ec_event_stream_buffer_length config)"
    and "http_server_run W config inputs = Some (st, out)" and "In_Data None \<notin> set inputs"
  shows "wb_iter W (hs_buffer st) =
           last_n (unat (ec_event_stream_buffer_length config)) (history None (data_of inputs))
       \<and> hs_latest_protocol_version st = latest_version None (data_of inputs)
       \<and> broadcast_log out = map (Broadcast_ServerSentEvent \<circ> mk_event) (data_of inputs)"
  using http_server_run_represents [OF assms] by (simp add: represents_def)

theorem http_server_refines_history_witness:
  "\<exists>st out. http_server_run ring_ops sample_config sample_inputs = Some (st, out) \<and>
     map (sse_id \<circ> snd) (wb_iter ring_ops (hs_buffer st)) = [Some 0xFFFFFFFF, Some 0] \<and>
     hs_latest_protocol_version st = Some (ProtocolVersion 2 1 0)"
proof -
  have c: "0 < unat (ec_event_stream_buffer_length sample_config)" by (simp add: sample_facts)
  obtain st out where r: "http_server_run ring_ops sample_config sample_inputs = Some (st, out)"
    using http_server_run_some [OF ring_events.event_buffer_axioms c sample_facts(2)] by blast
  show ?thesis
    using http_server_refines_history [OF ring_events.event_buffer_axioms c r sample_facts(3)] r
    by (simp add: sample_facts last_n_def)
qed

text \<open>C2: resuming a stream.  A subscriber that asks for the events from an id on, where that id is
  one that the buffer still holds or the next one to come, is sent exactly the buffered events from
  that id on, also when the ids wrap around inside the buffer.\<close>

theorem subscriber_resumes_at_requested_id:
  assumes "event_buffer W" and "0 < unat (ec_event_stream_buffer_length config)"
    and "3 * unat (ec_event_stream_buffer_length config) \<le> 2 ^ 32"
    and "http_server_run W config inputs = Some (st, out)" and "In_Data None \<notin> set inputs"
    and "indexed_from w (data_of inputs)"
    and "hist = history None (data_of inputs)" and "hist \<noteq> []"
    and "sse_id (snd (hd hist)) = Some first"
    and "length hist - unat (ec_event_stream_buffer_length config) \<le> k" and "k \<le> length hist"
  shows "register_new_subscriber W
           \<lparr> ns_start_from = Some (first + of_nat k), ns_enable_legacy_filters = legacy \<rparr> st =
         Some ((if legacy then [legacy_comment_event] else []) @ send_buffered None (drop k hist) @
           (if k < length hist then [] else [initial_event (the (latest_version None (data_of inputs)))]))"
proof -
  let ?cap = "unat (ec_event_stream_buffer_length config)"
  have rep: "represents W ?cap hist (latest_version None (data_of inputs)) st"
    using http_server_run_represents [OF assms(1,2,4,5)] assms(7) by simp
  obtain f where f: "map (sse_id \<circ> snd) hist = map (\<lambda>i. Some (f + of_nat i)) [0..<length hist]"
    using history_ids [OF assms(6)] assms(7) by blast
  then have "first = f"
    using assms(8,9) by (cases hist) (auto simp: upt_conv_Cons simp del: upt_Suc)
  moreover have "latest_version None (data_of inputs) \<noteq> None"
    using assms(7,8) history_nonempty_latest by metis
  ultimately show ?thesis
    using event_buffer.represents_register [OF assms(1) rep f assms(2,3,10,11)]
    by (auto simp: send_api_version_if_necessary_def)
qed

theorem subscriber_resumes_at_requested_id_witness:
  "\<exists>st out. http_server_run ring_ops sample_config sample_inputs = Some (st, out) \<and>
     register_new_subscriber ring_ops
       \<lparr> ns_start_from = Some 0xFFFFFFFF, ns_enable_legacy_filters = False \<rparr> st =
     Some [initial_event (ProtocolVersion 2 0 0),
           mk_event (Some 0xFFFFFFFF, Step 2 ''b'', Some Events),
           initial_event (ProtocolVersion 2 1 0),
           mk_event (Some 0, Step 3 ''c'', Some Events)]"
proof -
  have c: "0 < unat (ec_event_stream_buffer_length sample_config)"
    "3 * unat (ec_event_stream_buffer_length sample_config) \<le> 2 ^ 32" by (simp_all add: sample_facts)
  obtain st out where r: "http_server_run ring_ops sample_config sample_inputs = Some (st, out)"
    using http_server_run_some [OF ring_events.event_buffer_axioms c(1) sample_facts(2)] by blast
  have "register_new_subscriber ring_ops
      \<lparr> ns_start_from = Some (0xFFFFFFFE + of_nat 1), ns_enable_legacy_filters = False \<rparr> st =
    Some ((if False then [legacy_comment_event] else []) @
      send_buffered None (drop 1 (history None (data_of sample_inputs))) @
      (if 1 < length (history None (data_of sample_inputs)) then []
       else [initial_event (the (latest_version None (data_of sample_inputs)))]))"
    by (rule subscriber_resumes_at_requested_id [OF ring_events.event_buffer_axioms c r
          sample_facts(3) sample_facts(2) refl]) (simp_all add: sample_facts)
  then show ?thesis using r by (simp add: sample_facts)
qed

text \<open>C5: the loop never panics.  The sources unwrap the id of buffered events; since only a version
  may come without an id and versions are not buffered, every run of the loop, with any subscribers at
  any time, goes through.\<close>

theorem http_server_run_never_panics:
  assumes "event_buffer W" and "0 < unat (ec_event_stream_buffer_length config)"
    and "list_all (\<lambda>(i, d, f). i \<noteq> None \<or> is_api_version d) (data_of inputs)"
  shows "\<exists>st out. http_server_run W config inputs = Some (st, out)"
  using event_buffer.run_loop_no_panic
    [OF assms(1) event_buffer.represents_init [OF assms(1)] assms(2), of inputs] assms(3)
  by (simp add: http_server_run_def case_prod_unfold)

theorem http_server_run_never_panics_witness:
  "\<exists>st out. http_server_run ring_ops sample_config
     (In_Subscriber (Some \<lparr> ns_start_from = Some 7, ns_enable_legacy_filters = True \<rparr>) # sample_inputs @
      [In_Subscriber (Some \<lparr> ns_start_from = Some 0, ns_enable_legacy_filters = True \<rparr>)]) = Some (st, out)"
  by (rule http_server_run_never_panics [OF ring_events.event_buffer_axioms])
    (simp_all add: sample_facts(1) sample_inputs_def)

text \<open>The versions interleaved with the buffered events tell the client the version of every
  event: a client that remembers the last version it was told reads each buffered event under the
  version it was emitted under, and reads nothing else.\<close>

theorem buffered_events_keep_their_version:
  "under_version None (send_buffered None (history v data)) =
     map (\<lambda>(p, e). (Some p, e)) (history v data)"
proof (rule send_buffered_under_version)
  show "list_all (\<lambda>t. Option.bind (sse_payload (snd t)) api_version_of = None) (history v data)"
    using history_payload by (fastforce simp: list_all_iff)
qed

text \<open>With a buffer length between 5 and 35791394 the broadcast channel is larger than the
  buffer, as the comment on the constant asks, and it is at most a fifth larger.\<close>

theorem broadcast_channel_larger_than_buffer:
  assumes "5 \<le> unat (ec_event_stream_buffer_length config)"
    and "unat (ec_event_stream_buffer_length config) \<le> 35791394"
  shows "unat (ec_event_stream_buffer_length config) < get_broadcast_channel_size config
       \<and> get_broadcast_channel_size config \<le> unat (ec_event_stream_buffer_length config) * 6 div 5"
proof -
  let ?n = "unat (ec_event_stream_buffer_length config)"
  have "unat (ec_event_stream_buffer_length config * 120 :: u32) = ?n * 120"
    using assms by (simp add: unat_word_ariths)
  then have "get_broadcast_channel_size config = ?n * 120 div 100"
    by (simp add: get_broadcast_channel_size_def ADDITIONAL_PERCENT_FOR_BROADCAST_CHANNEL_SIZE_def
        unat_div_distrib)
  then show ?thesis using assms by linarith
qed

theorem broadcast_channel_larger_than_buffer_witness:
  "get_broadcast_channel_size (EventStreamConfig_new 0 None None) > 5000"
  using broadcast_channel_larger_than_buffer [of "EventStreamConfig_new 0 None None"]
  by (simp add: EventStreamConfig_new_def)

text \<open>Below and above these lengths the comment fails: the product wraps, and small lengths round
  down.\<close>

lemma broadcast_channel_not_larger:
  "get_broadcast_channel_size (EventStreamConfig_new 0 (Some 4) None) = 4"
  "get_broadcast_channel_size (EventStreamConfig_new 0 (Some 35791395) None) = 1"
  by (simp_all add: get_broadcast_channel_size_def EventStreamConfig_new_def
      ADDITIONAL_PERCENT_FOR_BROADCAST_CHANNEL_SIZE_def)

text \<open>A subscriber that asks for an event the buffer no longer holds is meant to get the whole
  buffer.  When the first buffered id sits at the edge of the wrap-around zone it gets nothing: here
  the buffer holds the ids \<open>0xFFFFFFFE\<close> and \<open>0xFFFFFFFF\<close>, and the subscriber asks for \<open>0xFFFFFFFD\<close>.\<close>

lemma evicted_start_gets_nothing:
  "requested_events ring_ops
     \<lparr> ring_data = [(ProtocolVersion 2 0 0, mk_event (Some 0xFFFFFFFE, Step 1 ''a'', None)),
                    (ProtocolVersion 2 0 0, mk_event (Some 0xFFFFFFFF, Step 2 ''b'', None))],
       ring_total = 2 \<rparr> 0xFFFFFFFD = Some []"
  by (simp add: requested_events_def ring_ops_def ring_iter_def in_wraparound_zone_def upt_rec)

end
