(* ===== verification/Event_Stream.thy ===== *)
theory Event_Stream
  imports Http_Server
begin

text \<open>
  One subscriber of a running event stream server, with every interleaving of its
  parts: the producer that broadcasts events, the server loop that takes them
  from the channel, the request handler that announces the subscriber and then
  subscribes to the broadcast channel
  (\<open>serve_sse_response_handler\<close>), and the loop registering the subscriber.  The
  properties say what the subscriber receives.
\<close>

record 'b stream_system =
  sys_server :: event_stream_server
  sys_handled :: nat
  sys_loop :: "'b http_server"
  sys_log :: "broadcast_channel_message list"
  sys_request :: "new_subscriber_info option"
  sys_subscribed_at :: "nat option"
  sys_initial :: "(nat \<times> server_sent_event list) option"

text \<open>The steps.  The loop takes the oldest event that is still in the channel; the handler
  subscribes only after it has announced the subscriber, but nothing orders its subscription and the
  registration by the loop.  The position at which the loop registered the subscriber is recorded
  beside the events it sent.\<close>

inductive sys_step ::
  "(buffered, 'b) wheel_buf_ops \<Rightarrow> 'b stream_system \<Rightarrow> 'b stream_system \<Rightarrow> bool"
  for W :: "(buffered, 'b) wheel_buf_ops" where
  produce: "sys_step W s (s\<lparr> sys_server := broadcast (sys_server s) d f \<rparr>)"
| handle: "sys_handled s < length (ess_sse_data_sender (sys_server s)) \<Longrightarrow>
    handle_incoming_data W (Some (ess_sse_data_sender (sys_server s) ! sys_handled s)) (sys_loop s) =
      Inr (loop', message) \<Longrightarrow>
    sys_step W s (s\<lparr> sys_handled := Suc (sys_handled s), sys_loop := loop',
                     sys_log := sys_log s @ [message] \<rparr>)"
| announce: "sys_request s = None \<Longrightarrow> sys_step W s (s\<lparr> sys_request := Some info \<rparr>)"
| subscribe: "sys_request s \<noteq> None \<Longrightarrow> sys_subscribed_at s = None \<Longrightarrow>
    sys_step W s (s\<lparr> sys_subscribed_at := Some (length (sys_log s)) \<rparr>)"
| register: "sys_request s = Some info \<Longrightarrow> sys_initial s = None \<Longrightarrow>
    register_new_subscriber W info (sys_loop s) = Some events \<Longrightarrow>
    sys_step W s (s\<lparr> sys_initial := Some (length (sys_log s), events) \<rparr>)"

inductive_cases sys_stepE: "sys_step W s s'"

definition sys_init ::
  "(buffered, 'b) wheel_buf_ops \<Rightarrow> event_stream_config \<Rightarrow> event_indexer \<Rightarrow> 'b stream_system" where
  "sys_init W config indexer =
     \<lparr> sys_server = \<lparr> ess_event_indexer = indexer, ess_sse_data_sender = [] \<rparr>,
       sys_handled = 0, sys_loop = http_server_init W config, sys_log = [],
       sys_request = None, sys_subscribed_at = None, sys_initial = None \<rparr>"

definition sys_reachable ::
  "(buffered, 'b) wheel_buf_ops \<Rightarrow> event_stream_config \<Rightarrow> event_indexer \<Rightarrow> 'b stream_system \<Rightarrow> bool" where
  "sys_reachable W config indexer s \<longleftrightarrow> (sys_step W)\<^sup>*\<^sup>* (sys_init W config indexer) s"

text \<open>The same steps as a function of a schedule.\<close>

datatype sys_action =
    A_Produce sse_data "sse_filter option" | A_Handle | A_Announce new_subscriber_info
  | A_Subscribe | A_Register

fun sys_do ::
  "(buffered, 'b) wheel_buf_ops \<Rightarrow> sys_action \<Rightarrow> 'b stream_system \<Rightarrow> 'b stream_system option" where
  "sys_do W (A_Produce d f) s = Some (s\<lparr> sys_server := broadcast (sys_server s) d f \<rparr>)"
| "sys_do W A_Handle s =
    (if sys_handled s < length (ess_sse_data_sender (sys_server s)) then
       (case handle_incoming_data W
               (Some (ess_sse_data_sender (sys_server s) ! sys_handled s)) (sys_loop s) of
          Inr (loop', message) \<Rightarrow>
            Some (s\<lparr> sys_handled := Suc (sys_handled s), sys_loop := loop',
                    sys_log := sys_log s @ [message] \<rparr>)
        | Inl _ \<Rightarrow> None)
     else None)"
| "sys_do W (A_Announce info) s =
    (if sys_request s = None then Some (s\<lparr> sys_request := Some info \<rparr>) else None)"
| "sys_do W A_Subscribe s =
    (if sys_request s \<noteq> None \<and> sys_subscribed_at s = None
     then Some (s\<lparr> sys_subscribed_at := Some (length (sys_log s)) \<rparr>) else None)"
| "sys_do W A_Register s =
    (case (sys_request s, sys_initial s) of
       (Some info, None) \<Rightarrow>
         map_option (\<lambda>events. s\<lparr> sys_initial := Some (length (sys_log s), events) \<rparr>)
           (register_new_subscriber W info (sys_loop s))
     | _ \<Rightarrow> None)"

fun sys_exec ::
  "(buffered, 'b) wheel_buf_ops \<Rightarrow> sys_action list \<Rightarrow> 'b stream_system \<Rightarrow> 'b stream_system option" where
  "sys_exec W [] s = Some s"
| "sys_exec W (a # as) s = Option.bind (sys_do W a s) (sys_exec W as)"

text \<open>The data the loop has handled, and what the subscriber's stream consists of so far.\<close>

definition handled_data :: "'b stream_system \<Rightarrow> inbound_data list" where
  "handled_data s = take (sys_handled s) (ess_sse_data_sender (sys_server s))"

definition ongoing_of :: "'b stream_system \<Rightarrow> nat \<Rightarrow> broadcast_item list" where
  "ongoing_of s subscribed_at = map Inr (drop subscribed_at (sys_log s))"

subsection \<open>Invariant\<close>

text \<open>The position recorded at the registration fixes what was sent: it is what the loop sends after
  the events up to there.\<close>

definition sent_initially ::
  "(buffered, 'b) wheel_buf_ops \<Rightarrow> event_stream_config \<Rightarrow> inbound_data list \<Rightarrow>
   new_subscriber_info option \<Rightarrow> server_sent_event list \<Rightarrow> bool" where
  "sent_initially W config data request events \<longleftrightarrow>
     (\<exists>info loop. request = Some info \<and>
        represents W (unat (ec_event_stream_buffer_length config)) (history None data)
          (latest_version None data) loop \<and>
        register_new_subscriber W info loop = Some events)"

definition sys_inv ::
  "(buffered, 'b) wheel_buf_ops \<Rightarrow> event_stream_config \<Rightarrow> event_indexer \<Rightarrow> 'b stream_system \<Rightarrow> bool" where
  "sys_inv W config indexer s \<longleftrightarrow>
     indexed_from (ei_index indexer) (ess_sse_data_sender (sys_server s)) \<and>
     ei_index (ess_event_indexer (sys_server s)) =
       ei_index indexer +
         of_nat (length (filter (\<lambda>x. \<not> is_api_version (fst (snd x))) (ess_sse_data_sender (sys_server s)))) \<and>
     sys_handled s \<le> length (ess_sse_data_sender (sys_server s)) \<and>
     represents W (unat (ec_event_stream_buffer_length config)) (history None (handled_data s))
       (latest_version None (handled_data s)) (sys_loop s) \<and>
     sys_log s = map (Broadcast_ServerSentEvent \<circ> mk_event) (handled_data s) \<and>
     (\<forall>n. sys_subscribed_at s = Some n \<longrightarrow> n \<le> sys_handled s) \<and>
     (\<forall>n events. sys_initial s = Some (n, events) \<longrightarrow>
        n \<le> sys_handled s \<and> sent_initially W config (take n (handled_data s)) (sys_request s) events)"

lemma indexed_from_append:
  "indexed_from w (xs @ ys) \<longleftrightarrow>
     indexed_from w xs \<and>
     indexed_from (w + of_nat (length (filter (\<lambda>x. \<not> is_api_version (fst (snd x))) xs))) ys"
  by (induction w xs rule: indexed_from.induct) (auto simp: algebra_simps)

lemma indexed_from_take: "indexed_from w xs \<Longrightarrow> indexed_from w (take n xs)"
  by (metis append_take_drop_id indexed_from_append)

lemma take_history:
  "n \<le> length data \<Longrightarrow>
   history v data = history v (take n data) @ history (latest_version v (take n data)) (drop n data)"
  by (metis append_take_drop_id history_append)

lemma sys_inv_produce:
  assumes "sys_inv W config indexer s"
  shows "sys_inv W config indexer (s\<lparr> sys_server := broadcast (sys_server s) d f \<rparr>)"
proof -
  have "handled_data (s\<lparr> sys_server := broadcast (sys_server s) d f \<rparr>) = handled_data s"
    using assms by (simp add: handled_data_def sys_inv_def broadcast_sent)
  then show ?thesis
    using assms by (simp add: sys_inv_def broadcast_sent indexed_from_append)
qed

lemma sys_inv_handle:
  assumes "event_buffer W" and "0 < unat (ec_event_stream_buffer_length config)"
    and inv: "sys_inv W config indexer s"
    and lt: "sys_handled s < length (ess_sse_data_sender (sys_server s))"
    and step: "handle_incoming_data W (Some (ess_sse_data_sender (sys_server s) ! sys_handled s))
      (sys_loop s) = Inr (loop', message)"
  shows "sys_inv W config indexer
    (s\<lparr> sys_handled := Suc (sys_handled s), sys_loop := loop', sys_log := sys_log s @ [message] \<rparr>)"
    (is "sys_inv W config indexer ?s")
proof -
  let ?d = "ess_sse_data_sender (sys_server s) ! sys_handled s"
  have data: "handled_data ?s = handled_data s @ [?d]"
    using lt by (simp add: handled_data_def take_Suc_conv_app_nth)
  have "represents W (unat (ec_event_stream_buffer_length config)) (history None (handled_data s))
      (latest_version None (handled_data s)) (sys_loop s)"
    using inv by (simp add: sys_inv_def)
  then obtain st' where
    h: "handle_incoming_data W (Some ?d) (sys_loop s) = Inr (st', Broadcast_ServerSentEvent (mk_event ?d))"
    and r: "represents W (unat (ec_event_stream_buffer_length config))
      (history None (handled_data s) @ history (latest_version None (handled_data s)) [?d])
      (latest_version (latest_version None (handled_data s)) [?d]) st'"
    using event_buffer.handle_incoming_data_represents [OF assms(1) _ assms(2)] by blast
  have "message = Broadcast_ServerSentEvent (mk_event ?d)" "st' = loop'"
    using h step by simp_all
  moreover have "represents W (unat (ec_event_stream_buffer_length config))
      (history None (handled_data ?s)) (latest_version None (handled_data ?s)) loop'"
    using r \<open>st' = loop'\<close> unfolding data history_append latest_version_append by simp
  moreover have "take n (handled_data ?s) = take n (handled_data s)" if "n \<le> sys_handled s" for n
    using that lt by (simp add: handled_data_def min_def)
  ultimately show ?thesis
    using inv lt data
    by (auto simp: sys_inv_def)
qed

lemma sys_inv_step:
  assumes "event_buffer W" and "0 < unat (ec_event_stream_buffer_length config)"
    and "sys_step W s s'" and inv: "sys_inv W config indexer s"
  shows "sys_inv W config indexer s'"
  using assms(3)
proof cases
  case (produce d f)
  then show ?thesis using sys_inv_produce [OF inv] by simp
next
  case (handle loop' message)
  then show ?thesis using sys_inv_handle [OF assms(1,2) inv] by simp
next
  case (announce info)
  then show ?thesis using inv by (auto simp: sys_inv_def handled_data_def sent_initially_def)
next
  case subscribe
  then show ?thesis using inv by (auto simp: sys_inv_def handled_data_def)
next
  case (register info events)
  then show ?thesis using inv by (auto simp: sys_inv_def handled_data_def sent_initially_def)
qed

lemma sys_reachable_inv:
  assumes "event_buffer W" and "0 < unat (ec_event_stream_buffer_length config)"
    and "sys_reachable W config indexer s"
  shows "sys_inv W config indexer s"
  using assms(3) unfolding sys_reachable_def
proof (induction rule: rtranclp_induct)
  case base
  show ?case
    using event_buffer.represents_init [OF assms(1)]
    by (simp add: sys_inv_def sys_init_def handled_data_def)
next
  case (step s s')
  then show ?case using sys_inv_step [OF assms(1,2)] by blast
qed

subsection \<open>What the subscriber receives\<close>

text \<open>The events with an id among the received ones, that is all but versions and comments.\<close>

definition numbered :: "server_sent_event list \<Rightarrow> server_sent_event list" where
  "numbered events = filter (\<lambda>e. sse_id e \<noteq> None) events"

lemma numbered_simps [simp]:
  "numbered [] = []" "numbered (xs @ ys) = numbered xs @ numbered ys"
  "numbered [initial_event v] = []" "numbered [legacy_comment_event] = []"
  by (simp_all add: numbered_def initial_event_def legacy_comment_event_def)

lemma numbered_send_api_version [simp]: "numbered (send_api_version_if_necessary b v) = []"
  by (simp add: send_api_version_if_necessary_def split: option.split)

lemma numbered_send_buffered:
  "list_all (\<lambda>t. sse_id (snd t) \<noteq> None) ts \<Longrightarrow> numbered (send_buffered v ts) = map snd ts"
  by (induction v ts rule: send_buffered.induct) (auto simp: numbered_def initial_event_def)

lemma initial_stream_ids_append [simp]:
  "initial_stream_ids (xs @ ys) = initial_stream_ids xs @ initial_stream_ids ys"
  by (simp add: initial_stream_ids_def)

lemma initial_stream_ids_numbered: "initial_stream_ids es = map (the \<circ> sse_id) (numbered es)"
  by (induction es) (auto simp: initial_stream_ids_def numbered_def somes_Cons split: option.split)

lemma numbered_history:
  assumes "indexed_from w data" and "v \<noteq> None"
  shows "numbered (map mk_event data) = map snd (history v data)"
  using assms
proof (induction w data arbitrary: v rule: indexed_from.induct)
  case (2 w i d f data)
  show ?case
  proof (cases "api_version_of d")
    case None
    then show ?thesis using "2.prems" "2.IH"(2) [of v] by (auto simp: numbered_def is_api_version_of)
  next
    case (Some u)
    then show ?thesis
      using "2.prems" "2.IH"(1) [of "Some u"] by (auto simp: numbered_def is_api_version_of)
  qed
qed (simp add: numbered_def)

lemma indexed_from_drop: "indexed_from w xs \<Longrightarrow> \<exists>w'. indexed_from w' (drop n xs)"
  by (metis append_take_drop_id indexed_from_append)

lemma numbered_received:
  "numbered (received initial events) =
     numbered initial @
     filter (\<lambda>e. the (sse_id e) \<notin> set (initial_stream_ids initial)) (numbered events)"
  by (auto simp: received_def numbered_def filter_append intro!: filter_cong)

text \<open>The heart of the matter, on lists of events with consecutive ids: \<open>h\<close> is the whole history, of
  which \<open>hr\<close> had been handled when the subscriber was registered, and \<open>a\<close> events when it subscribed.\<close>

lemma merge_initial_and_ongoing:
  fixes h :: "buffered list"
  assumes ids: "map (sse_id \<circ> snd) h = map (\<lambda>i. Some (f + of_nat i)) [0..<length h]"
    and "length h \<le> 2 ^ 32" and h: "h = hr @ t" and "k \<le> a" and "k \<le> length hr"
    and initial: "numbered initial = map snd (drop k hr)"
  shows "map snd (drop k hr) @
         filter (\<lambda>e. the (sse_id e) \<notin> set (initial_stream_ids initial)) (map snd (drop a h)) =
         map snd (drop k hr @ drop (a - length hr) t)"
proof -
  define g where "g = (\<lambda>i. f + of_nat i :: u32)"
  have id: "the (sse_id (snd (h ! i))) = g i" if "i < length h" for i
    using arg_cong [OF ids, of "\<lambda>l. l ! i"] that by (simp add: g_def)
  have inj: "inj_on g {0..<length h}"
    using consec_distinct [OF consec_map_upt [of f "length h"]] assms(2)
    by (simp add: distinct_map g_def)
  have known: "the (sse_id (snd (h ! i))) \<in> set (initial_stream_ids initial) \<longleftrightarrow> k \<le> i \<and> i < length hr"
    if "i < length h" for i
  proof -
    have "drop k hr = map ((!) h) [k..<length hr]"
      using assms(5) by (intro nth_equalityI) (auto simp: h nth_append)
    then have "set (initial_stream_ids initial) = (\<lambda>i. the (sse_id (snd (h ! i)))) ` {k..<length hr}"
      by (simp add: initial_stream_ids_numbered initial comp_def)
    also have "\<dots> = g ` {k..<length hr}"
      using id by (intro image_cong) (simp_all add: h)
    finally have "the (sse_id (snd (h ! i))) \<in> set (initial_stream_ids initial) \<longleftrightarrow>
        g i \<in> g ` {k..<length hr}"
      using id [OF that] by simp
    also have "\<dots> \<longleftrightarrow> i \<in> {k..<length hr}"
      using that h by (intro inj_on_image_mem_iff [OF inj]) auto
    finally show ?thesis by simp
  qed
  have "filter (\<lambda>e. the (sse_id (snd e)) \<notin> set (initial_stream_ids initial)) (drop a hr) = []"
  proof (rule filter_False)
    show "\<forall>e \<in> set (drop a hr). \<not> the (sse_id (snd e)) \<notin> set (initial_stream_ids initial)"
    proof
      fix e assume "e \<in> set (drop a hr)"
      then obtain j where "j < length hr - a" "e = hr ! (a + j)" by (auto simp: in_set_conv_nth)
      then have "a + j < length hr" by linarith
      then have "e = h ! (a + j)" by (simp add: \<open>e = hr ! (a + j)\<close> h nth_append)
      then show "\<not> the (sse_id (snd e)) \<notin> set (initial_stream_ids initial)"
        using known [of "a + j"] assms(4) \<open>a + j < length hr\<close> by (simp add: h)
    qed
  qed
  moreover have
    "filter (\<lambda>e. the (sse_id (snd e)) \<notin> set (initial_stream_ids initial)) (drop (a - length hr) t) =
       drop (a - length hr) t"
  proof (rule filter_True)
    show "\<forall>e \<in> set (drop (a - length hr) t). the (sse_id (snd e)) \<notin> set (initial_stream_ids initial)"
    proof
      fix e assume "e \<in> set (drop (a - length hr) t)"
      then have "e \<in> set t" by (rule in_set_dropD)
      then obtain j where "j < length t" "e = t ! j" by (auto simp: in_set_conv_nth)
      then have "e = h ! (length hr + j)" "length hr + j < length h" by (simp_all add: h)
      then show "the (sse_id (snd e)) \<notin> set (initial_stream_ids initial)"
        using known [of "length hr + j"] by simp
    qed
  qed
  ultimately show ?thesis by (simp add: h filter_map comp_def)
qed

lemma sys_do_step: "sys_do W a s = Some s' \<Longrightarrow> sys_step W s s'"
  by (cases a)
    (auto split: if_splits sum.splits option.splits prod.splits intro: sys_step.intros)

lemma sys_exec_steps: "sys_exec W as s = Some s' \<Longrightarrow> (sys_step W)\<^sup>*\<^sup>* s s'"
proof (induction as arbitrary: s)
  case (Cons a as)
  then obtain s1 where "sys_do W a s = Some s1" "sys_exec W as s1 = Some s'"
    by (cases "sys_do W a s") auto
  then show ?case using Cons.IH sys_do_step by (meson converse_rtranclp_into_rtranclp)
qed simp

lemma drop_log:
  "sys_inv W config indexer s \<Longrightarrow>
   ongoing_of s a = map (Inr \<circ> Broadcast_ServerSentEvent) (map mk_event (drop a (handled_data s)))"
  by (simp add: sys_inv_def ongoing_of_def drop_map)

lemma ids_known:
  assumes "map (sse_id \<circ> snd) h = map (\<lambda>i. Some (f + of_nat i)) [0..<length h]"
  shows "list_all (\<lambda>t. sse_id (snd t) \<noteq> None) h"
proof -
  have "list_all (\<lambda>x. x \<noteq> None) (map (sse_id \<circ> snd) h)" unfolding assms by (simp add: list_all_iff)
  then show ?thesis by (simp add: list_all_iff)
qed

lemma subscriber_numbered:
  assumes W: "event_buffer W" and cap: "cap = unat (ec_event_stream_buffer_length config)" "0 < cap" "3 * cap \<le> 2 ^ 32"
    and reach: "sys_reachable W config indexer s"
    and sub: "sys_subscribed_at s = Some a" and init: "sys_initial s = Some (r, initial)"
    and req: "sys_request s = Some \<lparr> ns_start_from = Some (first + of_nat k), ns_enable_legacy_filters = legacy \<rparr>"
    and defs: "hs = history None (take a (handled_data s))" "hr = history None (take r (handled_data s))"
      "h = history None (handled_data s)"
    and ne: "hs \<noteq> []" and first: "sse_id (snd (hd h)) = Some first"
    and k: "length hr - cap \<le> k" "k \<le> length hr" "k \<le> length hs" and long: "length h \<le> 2 ^ 32"
  shows "numbered (received initial (map mk_event (drop a (handled_data s)))) =
         map snd (drop k hr @ drop (length hs - length hr) (drop (length hr) h))"
proof -
  have inv: "sys_inv W config indexer s"
    using sys_reachable_inv [OF W _ reach] cap by simp
  have data: "indexed_from (ei_index indexer) (handled_data s)" "length (handled_data s) = sys_handled s"
    using inv by (auto simp: sys_inv_def handled_data_def indexed_from_take)
  have a: "a \<le> length (handled_data s)" and r: "r \<le> length (handled_data s)"
    using inv sub init data(2) by (auto simp: sys_inv_def)
  obtain f where f: "map (sse_id \<circ> snd) h = map (\<lambda>i. Some (f + of_nat i)) [0..<length h]"
    using history_ids [OF data(1)] defs(3) by blast
  have split_s: "h = hs @ history (latest_version None (take a (handled_data s))) (drop a (handled_data s))"
    and split_r: "h = hr @ history (latest_version None (take r (handled_data s))) (drop r (handled_data s))"
    unfolding defs by (rule take_history [OF a], rule take_history [OF r])
  have "h \<noteq> []" using ne split_s by simp
  then have "first = f"
    using f first by (cases h) (auto simp: upt_conv_Cons simp del: upt_Suc)
  have fr: "map (sse_id \<circ> snd) hr = map (\<lambda>i. Some (f + of_nat i)) [0..<length hr]"
    using arg_cong [OF f, of "take (length hr)"] split_r by (simp add: take_map)
  obtain loop where rep: "represents W cap hr (latest_version None (take r (handled_data s))) loop"
    and reg: "register_new_subscriber W
      \<lparr> ns_start_from = Some (f + of_nat k), ns_enable_legacy_filters = legacy \<rparr> loop = Some initial"
    using inv init req \<open>first = f\<close> cap(1) defs(2) by (auto simp: sys_inv_def sent_initially_def)
  have some: "list_all (\<lambda>t. sse_id (snd t) \<noteq> None) (drop k hr)"
    using ids_known [OF fr] by (auto simp: list_all_iff dest: in_set_dropD)
  have "numbered initial = map snd (drop k hr)"
    using reg event_buffer.represents_register [OF W rep fr cap(2,3) k(1,2), of legacy]
      numbered_send_buffered [OF some] by auto
  moreover have "numbered (map mk_event (drop a (handled_data s))) = map snd (drop (length hs) h)"
  proof -
    obtain w' where "indexed_from w' (drop a (handled_data s))" using indexed_from_drop data(1) by blast
    moreover have "latest_version None (take a (handled_data s)) \<noteq> None"
      using ne history_nonempty_latest defs(1) by metis
    ultimately have "numbered (map mk_event (drop a (handled_data s))) =
        map snd (history (latest_version None (take a (handled_data s))) (drop a (handled_data s)))"
      by (rule numbered_history)
    also have "history (latest_version None (take a (handled_data s))) (drop a (handled_data s)) =
        drop (length hs) h"
      by (subst split_s) simp
    finally show ?thesis .
  qed
  ultimately show ?thesis
    using merge_initial_and_ongoing [OF f long split_r, of k "length hs" initial] k split_r
    by (simp add: numbered_received)
qed

subsection \<open>What is delivered on the main endpoint\<close>

text \<open>Every event but a shutdown that no node announced.\<close>

definition forwardable :: "server_sent_event \<Rightarrow> bool" where
  "forwardable e \<longleftrightarrow> e = legacy_comment_event \<or>
     well_formed_event e \<and> (sse_payload e \<noteq> Some Shutdown \<or> sse_inbound_filter e \<noteq> None)"

lemma should_include_EVENTS_FILTER [simp]: "should_include d EVENTS_FILTER"
  by (cases d) (simp_all add: EVENTS_FILTER_def)

lemma event_to_warp_event_modern_id: "Option.bind (event_to_warp_event env ser d False i) we_id = i"
  by (cases i) (simp_all add: event_to_warp_event_def Let_def)

lemma forwardable_id:
  assumes "forwardable e"
  shows "Option.bind (filter_map_server_sent_event env ser e sf EVENTS_FILTER False) we_id =
         map_option u32_to_string (sse_id e)"
proof (cases "e = legacy_comment_event")
  case True
  then show ?thesis
    by (simp add: legacy_comment_event_def filter_map_server_sent_event_def should_skip_event_def)
next
  case False
  then obtain d where d: "sse_payload e = Some d" "(sse_id e = None) = is_api_version d"
    "sse_comment e = None" "d \<noteq> Shutdown \<or> sse_inbound_filter e \<noteq> None"
    using assms by (auto simp: forwardable_def well_formed_event_def split: option.splits)
  then show ?thesis
    by (cases "sse_id e"; cases "d = Shutdown")
      (auto simp: filter_map_server_sent_event_def should_skip_event_def determine_id_def
        should_send_shutdown_def build_event_for_outbound_def is_shutdown_iff event_to_warp_event_modern_id)
qed

lemma delivered_ids_forwardable:
  assumes "list_all forwardable es"
  shows "delivered_ids (map Inr (somes (map (\<lambda>e. filter_map_server_sent_event env ser e sf EVENTS_FILTER
           False) es))) = map (u32_to_string \<circ> the \<circ> sse_id) (numbered es)"
  using assms
proof (induction es)
  case (Cons e es)
  then have "Option.bind (filter_map_server_sent_event env ser e sf EVENTS_FILTER False) we_id =
      map_option u32_to_string (sse_id e)"
    by (simp add: forwardable_id)
  then show ?case using Cons
    by (cases "filter_map_server_sent_event env ser e sf EVENTS_FILTER False"; cases "sse_id e")
      (auto simp: numbered_def delivered_ids_Cons)
qed (simp add: delivered_ids_def)

lemma skip_while_id_subset: "skip_while_id P bs = Some ts \<Longrightarrow> set ts \<subseteq> set bs"
  by (induction bs) (auto split: option.splits if_splits)

lemma set_send_buffered: "set (send_buffered v ts) \<subseteq> range initial_event \<union> snd ` set ts"
  by (induction v ts rule: send_buffered.induct) auto

lemma set_send_api_version: "set (send_api_version_if_necessary b v) \<subseteq> range initial_event"
proof -
  consider "send_api_version_if_necessary b v = []"
    | w where "send_api_version_if_necessary b v = [initial_event w]"
    by (cases v; cases b) (auto simp: send_api_version_if_necessary_def)
  then show ?thesis by cases auto
qed

lemma register_sends:
  assumes "represents W cap hist v st" and "register_new_subscriber W info st = Some events"
    and "e \<in> set events"
  shows "e = legacy_comment_event \<or> e \<in> range initial_event \<or> e \<in> snd ` set hist"
proof -
  obtain ts b where ts: "set ts \<subseteq> set hist"
    and ev: "events = (if ns_enable_legacy_filters info then [legacy_comment_event] else []) @
      send_buffered None ts @ send_api_version_if_necessary b (hs_latest_protocol_version st)"
  proof (cases "ns_start_from info")
    case None
    with that [of "[]" False] show ?thesis using assms(2) by (simp add: register_new_subscriber_def)
  next
    case (Some start)
    then obtain ts where r: "requested_events W (hs_buffer st) start = Some ts"
      using assms(2) by (auto simp: register_new_subscriber_def split: option.splits)
    then have "set ts \<subseteq> set (wb_iter W (hs_buffer st))"
      by (auto simp: requested_events_def Let_def split: option.splits dest: skip_while_id_subset)
    then have "set ts \<subseteq> set hist"
      using assms(1) set_last_n_subset [of cap hist] by (auto simp: represents_def)
    then show ?thesis
      using that [of ts "ts \<noteq> []"] assms(2) Some r by (simp add: register_new_subscriber_def)
  qed
  have "set events \<subseteq> {legacy_comment_event} \<union> set (send_buffered None ts) \<union> range initial_event"
    unfolding ev using set_send_api_version by auto
  then show ?thesis using set_send_buffered [of None ts] ts assms(3) by blast
qed

lemma history_events: "t \<in> set (history v data) \<Longrightarrow> \<exists>d \<in> set data. snd t = mk_event d"
  by (induction v data rule: history.induct) (auto split: option.splits)

lemma indexed_well_formed: "indexed_from w data \<Longrightarrow> d \<in> set data \<Longrightarrow> well_formed_event (mk_event d)"
  by (induction w data rule: indexed_from.induct)
    (auto simp: well_formed_event_def split: if_splits)

lemma received_forwardable:
  assumes inv: "sys_inv W config indexer s" and init: "sys_initial s = Some (r, initial)"
    and "list_all (\<lambda>(i, d, f). d \<noteq> Shutdown \<or> f \<noteq> None) (handled_data s)"
  shows "list_all forwardable (received initial (map mk_event (drop a (handled_data s))))"
proof -
  have data: "forwardable (mk_event d)" if "d \<in> set (handled_data s)" for d
  proof -
    have "indexed_from (ei_index indexer) (handled_data s)"
      using inv by (auto simp: sys_inv_def handled_data_def indexed_from_take)
    then have "well_formed_event (mk_event d)" using that by (rule indexed_well_formed)
    moreover have "fst (snd d) \<noteq> Shutdown \<or> snd (snd d) \<noteq> None"
      using that assms(3) by (auto simp: list_all_iff)
    ultimately show ?thesis by (simp add: forwardable_def)
  qed
  obtain info loop where rep:
    "represents W (unat (ec_event_stream_buffer_length config)) (history None (take r (handled_data s)))
      (latest_version None (take r (handled_data s))) loop"
    and reg: "register_new_subscriber W info loop = Some initial"
    using inv init by (auto simp: sys_inv_def sent_initially_def)
  have "forwardable e" if e: "e \<in> set initial" for e
  proof -
    consider "e = legacy_comment_event" | v where "e = initial_event v"
      | t where "t \<in> set (history None (take r (handled_data s)))" "e = snd t"
      using register_sends [OF rep reg e] by auto
    then show ?thesis
    proof cases
      case 3
      then obtain d where "d \<in> set (take r (handled_data s))" "e = mk_event d"
        using history_events [OF 3(1)] by blast
      then show ?thesis using data in_set_takeD by metis
    qed (simp_all add: forwardable_def well_formed_event_def initial_event_def)
  qed
  then show ?thesis
    using data by (auto simp: received_def list_all_iff dest: in_set_dropD)
qed

lemma numbered_ids:
  assumes "map (sse_id \<circ> snd) h = map (\<lambda>i. Some (f + of_nat i)) [0..<length h]"
  shows "map (u32_to_string \<circ> the \<circ> sse_id) (map snd (drop n h)) =
         map (\<lambda>i. u32_to_string (f + of_nat i)) [n..<length h]"
proof -
  have "map (u32_to_string \<circ> the \<circ> sse_id) (map snd (drop n h)) =
      map (u32_to_string \<circ> the) (drop n (map (sse_id \<circ> snd) h))"
    by (simp add: drop_map)
  also have "\<dots> = map (\<lambda>i. u32_to_string (f + of_nat i)) [n..<length h]"
    unfolding assms by (simp add: drop_map)
  finally show ?thesis .
qed

text \<open>What is delivered, wherever the subscription falls in relation to the registration.\<close>

lemma delivered_to_subscriber:
  assumes W: "event_buffer W" and cap: "cap = unat (ec_event_stream_buffer_length config)" "0 < cap" "3 * cap \<le> 2 ^ 32"
    and reach: "sys_reachable W config indexer s"
    and sub: "sys_subscribed_at s = Some a" and init: "sys_initial s = Some (r, initial)"
    and req: "sys_request s = Some \<lparr> ns_start_from = Some (first + of_nat k), ns_enable_legacy_filters = legacy \<rparr>"
    and defs: "hs = history None (take a (handled_data s))" "hr = history None (take r (handled_data s))"
      "h = history None (handled_data s)"
    and ne: "hs \<noteq> []" and first: "sse_id (snd (hd h)) = Some first"
    and k: "length hr - cap \<le> k" "k \<le> length hr" "k \<le> length hs" and long: "length h \<le> 2 ^ 32"
    and fwd: "list_all (\<lambda>(i, d, f). d \<noteq> Shutdown \<or> f \<noteq> None) (handled_data s)"
    and props: "up_event_filter props = EVENTS_FILTER" "\<not> up_is_legacy_filter props"
  shows "delivered_ids (stream_to_client env ser props initial (ongoing_of s a)) =
         map (\<lambda>i. u32_to_string (first + of_nat i))
           ([k..<length hr] @ [max (length hs) (length hr)..<length h])"
proof -
  have inv: "sys_inv W config indexer s"
    using sys_reachable_inv [OF W _ reach] cap by simp
  have data: "indexed_from (ei_index indexer) (handled_data s)" "length (handled_data s) = sys_handled s"
    using inv by (auto simp: sys_inv_def handled_data_def indexed_from_take)
  obtain f where f: "map (sse_id \<circ> snd) h = map (\<lambda>i. Some (f + of_nat i)) [0..<length h]"
    using history_ids [OF data(1)] defs(3) by blast
  have prefix: "h = history None (take n (handled_data s)) @
      history (latest_version None (take n (handled_data s))) (drop n (handled_data s))"
    if "n \<le> sys_handled s" for n
    unfolding defs(3) using that data(2) by (intro take_history) simp
  have "h \<noteq> []" using ne prefix [of a] inv sub defs(1) by (auto simp: sys_inv_def)
  then have "first = f"
    using f first by (cases h) (auto simp: upt_conv_Cons simp del: upt_Suc)
  have hr: "take (length hr) h = hr"
    using prefix [of r] inv init defs(2) by (auto simp: sys_inv_def)
  then have "length hr \<le> length h" by (metis length_take min.cobounded1)
  have "map (sse_id \<circ> snd) hr = take (length hr) (map (sse_id \<circ> snd) h)"
    by (simp only: take_map hr)
  then have fr: "map (sse_id \<circ> snd) hr = map (\<lambda>i. Some (f + of_nat i)) [0..<length hr]"
    unfolding f using \<open>length hr \<le> length h\<close> by (simp add: take_map)
  have "delivered_ids (stream_to_client env ser props initial (ongoing_of s a)) =
      map (u32_to_string \<circ> the \<circ> sse_id)
        (numbered (received initial (map mk_event (drop a (handled_data s)))))"
    unfolding drop_log [OF inv] stream_to_client_events
    using delivered_ids_forwardable [OF received_forwardable [OF inv init fwd, of a]] props by simp
  also have "\<dots> = map (u32_to_string \<circ> the \<circ> sse_id) (map snd (drop k hr)) @
      map (u32_to_string \<circ> the \<circ> sse_id) (map snd (drop (max (length hs) (length hr)) h))"
    unfolding subscriber_numbered [OF assms(1-17)]
    by (simp add: max_def add.commute)
  finally show ?thesis
    using numbered_ids [OF f] numbered_ids [OF fr] \<open>first = f\<close> by simp
qed

subsection \<open>Two schedules\<close>

text \<open>A version and three events with ids 7, 8 and 9, of which the second is handled between the
  subscription and the registration (\<open>timely\<close>), or between the registration and the subscription
  (\<open>late\<close>).\<close>

definition sample_request :: new_subscriber_info where
  "sample_request = \<lparr> ns_start_from = Some 7, ns_enable_legacy_filters = False \<rparr>"

definition schedule :: "sys_action \<Rightarrow> sys_action \<Rightarrow> sys_action list" where
  "schedule x y =
     [A_Produce (ApiVersion (ProtocolVersion 2 0 0)) None, A_Handle,
      A_Produce (Step 1 ''a'') (Some Events), A_Handle, A_Announce sample_request, x,
      A_Produce (Step 2 ''b'') (Some Events), A_Handle, y,
      A_Produce (Step 3 ''c'') (Some Events), A_Handle]"

definition sample_init :: "buffered ring stream_system" where
  "sample_init = sys_init ring_ops (EventStreamConfig_new 0 (Some 3) None)
     \<lparr> ei_index = 7, ei_persistent_cache = ''sse_index'' \<rparr>"

definition timely :: "buffered ring stream_system" where
  "timely = the (sys_exec ring_ops (schedule A_Subscribe A_Register) sample_init)"

definition late :: "buffered ring stream_system" where
  "late = the (sys_exec ring_ops (schedule A_Register A_Subscribe) sample_init)"

lemmas sample_defs =
  sample_request_def schedule_def sample_init_def timely_def late_def sys_init_def
  EventStreamConfig_new_def

lemma sample_reachable:
  "sys_reachable ring_ops (EventStreamConfig_new 0 (Some 3) None)
     \<lparr> ei_index = 7, ei_persistent_cache = ''sse_index'' \<rparr> timely"
  "sys_reachable ring_ops (EventStreamConfig_new 0 (Some 3) None)
     \<lparr> ei_index = 7, ei_persistent_cache = ''sse_index'' \<rparr> late"
proof -
  have "sys_exec ring_ops (schedule A_Subscribe A_Register) sample_init \<noteq> None"
    "sys_exec ring_ops (schedule A_Register A_Subscribe) sample_init \<noteq> None" by code_simp+
  then have "sys_exec ring_ops (schedule A_Subscribe A_Register) sample_init = Some timely"
    "sys_exec ring_ops (schedule A_Register A_Subscribe) sample_init = Some late"
    by (simp_all add: timely_def late_def)
  then show "sys_reachable ring_ops (EventStreamConfig_new 0 (Some 3) None)
     \<lparr> ei_index = 7, ei_persistent_cache = ''sse_index'' \<rparr> timely"
    "sys_reachable ring_ops (EventStreamConfig_new 0 (Some 3) None)
     \<lparr> ei_index = 7, ei_persistent_cache = ''sse_index'' \<rparr> late"
    using sys_exec_steps unfolding sys_reachable_def sample_init_def by blast+
qed

lemma sample_states:
  "sys_subscribed_at timely = Some 2" "map_option fst (sys_initial timely) = Some 3"
  "sys_subscribed_at late = Some 3" "map_option fst (sys_initial late) = Some 2"
  "sys_request timely = Some sample_request" "sys_request late = Some sample_request"
  "handled_data timely = [(None, ApiVersion (ProtocolVersion 2 0 0), None),
     (Some 7, Step 1 ''a'', Some Events), (Some 8, Step 2 ''b'', Some Events),
     (Some 9, Step 3 ''c'', Some Events)]"
  "handled_data late = [(None, ApiVersion (ProtocolVersion 2 0 0), None),
     (Some 7, Step 1 ''a'', Some Events), (Some 8, Step 2 ''b'', Some Events),
     (Some 9, Step 3 ''c'', Some Events)]"
  by code_simp+

subsection \<open>Properties\<close>

text \<open>C1: no event is lost and none is repeated.  Take any interleaving of the producer, the server
  loop and the request handler in which the handler subscribes to the broadcast channel before the loop
  registers the subscriber.  A subscriber that asks for the events from an id that the buffer holds,
  known before it subscribed, is sent on the main endpoint exactly the ids from that one to the newest,
  each once and in order, although the events in between were both buffered and broadcast.\<close>

theorem subscriber_gets_every_event_once:
  assumes "event_buffer W" and "cap = unat (ec_event_stream_buffer_length config)" and "0 < cap"
    and "3 * cap \<le> 2 ^ 32" and "sys_reachable W config indexer s"
    and "sys_subscribed_at s = Some a" and "sys_initial s = Some (r, initial)" and "a \<le> r"
    and "sys_request s =
      Some \<lparr> ns_start_from = Some (first + of_nat k), ns_enable_legacy_filters = legacy \<rparr>"
    and "h = history None (handled_data s)" and "length h \<le> 2 ^ 32"
    and "history None (take a (handled_data s)) \<noteq> []" and "sse_id (snd (hd h)) = Some first"
    and "length (history None (take r (handled_data s))) - cap \<le> k"
    and "k \<le> length (history None (take a (handled_data s)))"
    and "list_all (\<lambda>(i, d, f). d \<noteq> Shutdown \<or> f \<noteq> None) (handled_data s)"
    and "up_event_filter props = EVENTS_FILTER" and "\<not> up_is_legacy_filter props"
  shows "delivered_ids (stream_to_client env ser props initial (ongoing_of s a)) =
         map (\<lambda>i. u32_to_string (first + of_nat i)) [k..<length h]"
proof -
  let ?hs = "history None (take a (handled_data s))" and ?hr = "history None (take r (handled_data s))"
  have "take a (take r (handled_data s)) = take a (handled_data s)" using assms(8) by (simp add: min_def)
  then have le: "length ?hs \<le> length ?hr"
    by (metis append_take_drop_id history_append length_append le_add1)
  have "r \<le> length (handled_data s)"
    using sys_reachable_inv [OF assms(1) _ assms(5)] assms(2,3,7)
    by (auto simp: sys_inv_def handled_data_def)
  then have "length ?hr \<le> length h" using take_history [of r "handled_data s" None] assms(10) by simp
  then have "[k..<length ?hr] @ [max (length ?hs) (length ?hr)..<length h] = [k..<length h]"
    using le assms(15) upt_add_eq_append [of k "length ?hr" "length h - length ?hr"]
    by (simp add: max_def)
  moreover have "k \<le> length ?hr" using le assms(15) by simp
  ultimately show ?thesis
    using delivered_to_subscriber [OF assms(1-7) assms(9) refl refl assms(10) assms(12-14) _ assms(15)
        assms(11,16-18)] by (simp only:)
qed

theorem subscriber_gets_every_event_once_witness:
  "delivered_ids (stream_to_client reference_env
     \<lparr> json_sse = (\<lambda>_. Some ''{}''), json_legacy = (\<lambda>_. None), json_sse_value = (\<lambda>_. None) \<rparr>
     \<lparr> up_event_filter = EVENTS_FILTER, up_stream_filter = Endpoint_Events, up_start_from = Some 7,
       up_is_legacy_filter = False \<rparr>
     (snd (the (sys_initial timely))) (ongoing_of timely 2)) = [''7'', ''8'', ''9'']"
proof -
  obtain initial where i: "sys_initial timely = Some (3, initial)"
    using sample_states(2) by (cases "sys_initial timely") auto
  have "[0..<3] = [0, 1, 2 :: nat]" by (simp add: upt_rec)
  moreover have "u32_to_string 7 = ''7''" "u32_to_string 8 = ''8''" "u32_to_string 9 = ''9''"
    by code_simp+
  ultimately show ?thesis
    using subscriber_gets_every_event_once
      [OF ring_events.event_buffer_axioms refl _ _ sample_reachable(1) sample_states(1) i,
        of 7 0 False "history None (handled_data timely)"
        "\<lparr> up_event_filter = EVENTS_FILTER, up_stream_filter = Endpoint_Events, up_start_from = Some 7,
           up_is_legacy_filter = False \<rparr>" reference_env
        "\<lparr> json_sse = (\<lambda>_. Some ''{}''), json_legacy = (\<lambda>_. None), json_sse_value = (\<lambda>_. None) \<rparr>"]
    by (simp add: i sample_states sample_request_def EventStreamConfig_new_def)
qed

text \<open>C8: the other interleaving loses events.  When the loop registers the subscriber before the
  handler has subscribed to the broadcast channel, the subscriber gets the events up to its registration
  and those after its subscription, and never those the loop handled in between.\<close>

theorem late_subscription_misses_events:
  assumes "event_buffer W" and "cap = unat (ec_event_stream_buffer_length config)" and "0 < cap"
    and "3 * cap \<le> 2 ^ 32" and "sys_reachable W config indexer s"
    and "sys_subscribed_at s = Some a" and "sys_initial s = Some (r, initial)" and "r \<le> a"
    and "sys_request s =
      Some \<lparr> ns_start_from = Some (first + of_nat k), ns_enable_legacy_filters = legacy \<rparr>"
    and "h = history None (handled_data s)" and "length h \<le> 2 ^ 32"
    and "history None (take r (handled_data s)) \<noteq> []" and "sse_id (snd (hd h)) = Some first"
    and "length (history None (take r (handled_data s))) - cap \<le> k"
    and "k \<le> length (history None (take r (handled_data s)))"
    and "list_all (\<lambda>(i, d, f). d \<noteq> Shutdown \<or> f \<noteq> None) (handled_data s)"
    and "up_event_filter props = EVENTS_FILTER" and "\<not> up_is_legacy_filter props"
  shows "delivered_ids (stream_to_client env ser props initial (ongoing_of s a)) =
         map (\<lambda>i. u32_to_string (first + of_nat i))
           ([k..<length (history None (take r (handled_data s)))] @
            [length (history None (take a (handled_data s)))..<length h])"
proof -
  let ?hs = "history None (take a (handled_data s))" and ?hr = "history None (take r (handled_data s))"
  have "take r (take a (handled_data s)) = take r (handled_data s)" using assms(8) by (simp add: min_def)
  then obtain rest where rest: "?hs = ?hr @ rest"
    by (metis append_take_drop_id history_append)
  then show ?thesis
    using delivered_to_subscriber [OF assms(1-7) assms(9) refl refl assms(10) _ assms(13,14,15) _
        assms(11,16-18)] assms(12,15)
    by simp
qed

theorem late_subscription_misses_events_witness:
  "delivered_ids (stream_to_client reference_env
     \<lparr> json_sse = (\<lambda>_. Some ''{}''), json_legacy = (\<lambda>_. None), json_sse_value = (\<lambda>_. None) \<rparr>
     \<lparr> up_event_filter = EVENTS_FILTER, up_stream_filter = Endpoint_Events, up_start_from = Some 7,
       up_is_legacy_filter = False \<rparr>
     (snd (the (sys_initial late))) (ongoing_of late 3)) = [''7'', ''9'']"
proof -
  obtain initial where i: "sys_initial late = Some (2, initial)"
    using sample_states(4) by (cases "sys_initial late") auto
  have "[0..<1] = [0 :: nat]" "[2..<3] = [2 :: nat]" by (simp_all add: upt_rec)
  moreover have "u32_to_string 7 = ''7''" "u32_to_string 9 = ''9''" by code_simp+
  ultimately show ?thesis
    using late_subscription_misses_events
      [OF ring_events.event_buffer_axioms refl _ _ sample_reachable(2) sample_states(3) i,
        of 7 0 False "history None (handled_data late)"
        "\<lparr> up_event_filter = EVENTS_FILTER, up_stream_filter = Endpoint_Events, up_start_from = Some 7,
           up_is_legacy_filter = False \<rparr>" reference_env
        "\<lparr> json_sse = (\<lambda>_. Some ''{}''), json_legacy = (\<lambda>_. None), json_sse_value = (\<lambda>_. None) \<rparr>"]
    by (simp add: i sample_states sample_request_def EventStreamConfig_new_def)
qed

end
