(* ===== verification/Json.thy ===== *)
theory Json
  imports Rust_Std "HOL-Library.Multiset"
begin

text \<open>
  JSON values as the \<open>serde_json\<close> crate has them.  An object is the list of its
  entries in order (the crate is used with its \<open>preserve_order\<close> feature), with
  distinct keys; as the crate documents, removing a key then moves the last entry
  into the place of the removed one.
\<close>

text \<open>A number is an integer or, textually, a floating point number.\<close>

datatype json_number = JInt int | JFloat string

datatype json =
    JNull
  | JBool bool
  | JNumber json_number
  | JString string
  | JArray "json list"
  | JObject "(string \<times> json) list"

type_synonym json_map = "(string \<times> json) list"

fun is_f64 :: "json_number \<Rightarrow> bool" where
  "is_f64 (JFloat _) = True"
| "is_f64 (JInt _) = False"

definition map_get :: "json_map \<Rightarrow> string \<Rightarrow> json option" where
  "map_get m k = map_of m k"

fun position :: "string \<Rightarrow> json_map \<Rightarrow> nat option" where
  "position k [] = None"
| "position k ((k', v) # m) = (if k' = k then Some 0 else map_option Suc (position k m))"

definition swap_remove_at :: "nat \<Rightarrow> 'a list \<Rightarrow> 'a list" where
  "swap_remove_at i xs = (if Suc i = length xs then butlast xs else (butlast xs)[i := last xs])"

definition map_remove :: "string \<Rightarrow> json_map \<Rightarrow> json option \<times> json_map" where
  "map_remove k m =
     (case position k m of
        None \<Rightarrow> (None, m)
      | Some i \<Rightarrow> (Some (snd (m ! i)), swap_remove_at i m))"

definition keys_distinct :: "json_map \<Rightarrow> bool" where
  "keys_distinct m = distinct (map fst m)"

lemma position_Some:
  "position k m = Some i \<Longrightarrow> i < length m \<and> fst (m ! i) = k \<and> (\<forall>j < i. fst (m ! j) \<noteq> k)"
proof (induction m arbitrary: i)
  case (Cons e m)
  obtain k' v where e: "e = (k', v)" by (cases e)
  show ?case
  proof (cases "k' = k")
    case False
    then obtain j where j: "position k m = Some j" "i = Suc j" using Cons.prems e by auto
    then show ?thesis using Cons.IH [OF j(1)] False e by (auto simp: less_Suc_eq_0_disj)
  qed (use Cons.prems e in auto)
qed simp

lemma position_None: "position k m = None \<longleftrightarrow> k \<notin> fst ` set m"
  by (induction k m rule: position.induct) auto

lemma position_map_of: "map_of m k = map_option (\<lambda>i. snd (m ! i)) (position k m)"
  by (induction k m rule: position.induct) (auto simp: option.map_comp comp_def)

lemma mset_swap_remove_at:
  assumes "i < length xs"
  shows "add_mset (xs ! i) (mset (swap_remove_at i xs)) = mset xs"
proof -
  obtain ys y where xs: "xs = ys @ [y]" using assms by (cases xs rule: rev_cases) auto
  show ?thesis
  proof (cases "i < length ys")
    case True
    then show ?thesis
      using mset_update [of i ys y] by (simp add: xs swap_remove_at_def nth_append nth_mem_mset)
  next
    case False
    then show ?thesis using assms by (simp add: xs swap_remove_at_def nth_append)
  qed
qed

lemma map_remove_fst [simp]: "fst (map_remove k m) = map_get m k"
  by (simp add: map_remove_def map_get_def position_map_of split: option.split)

lemma mset_map_remove:
  assumes "keys_distinct m"
  shows "mset (snd (map_remove k m)) = filter_mset (\<lambda>e. fst e \<noteq> k) (mset m)"
proof (cases "position k m")
  case None
  then have "filter (\<lambda>e. fst e \<noteq> k) m = m" by (auto simp: position_None filter_id_conv)
  then show ?thesis using None by (simp add: map_remove_def flip: mset_filter)
next
  case (Some i)
  then have i: "i < length m" "fst (m ! i) = k" using position_Some by auto
  have m: "add_mset (m ! i) (mset (swap_remove_at i m)) = mset m"
    by (rule mset_swap_remove_at [OF i(1)])
  then have "image_mset fst (mset m) = add_mset k (image_mset fst (mset (swap_remove_at i m)))"
    using i(2) by (metis image_mset_add_mset)
  moreover have "count (image_mset fst (mset m)) k \<le> 1"
    using assms by (simp add: keys_distinct_def distinct_count_atmost_1 flip: mset_map)
  ultimately have "count (image_mset fst (mset (swap_remove_at i m))) k = 0" by simp
  then have "k \<notin># image_mset fst (mset (swap_remove_at i m))"
    by (simp only: count_eq_zero_iff not_False_eq_True)
  then have "filter (\<lambda>e. fst e \<noteq> k) (swap_remove_at i m) = swap_remove_at i m"
    by (auto simp: filter_id_conv)
  then have "filter_mset (\<lambda>e. fst e \<noteq> k) (mset (swap_remove_at i m)) = mset (swap_remove_at i m)"
    by (simp flip: mset_filter)
  then show ?thesis using Some i(2) by (simp add: map_remove_def flip: m)
qed

lemma set_map_remove: "keys_distinct m \<Longrightarrow> set (snd (map_remove k m)) = {e \<in> set m. fst e \<noteq> k}"
  using arg_cong [OF mset_map_remove, of m set_mset k] by simp

lemma keys_distinct_map_remove:
  assumes "keys_distinct m"
  shows "keys_distinct (snd (map_remove k m))"
proof -
  have "mset (map fst (snd (map_remove k m))) = image_mset fst (filter_mset (\<lambda>e. fst e \<noteq> k) (mset m))"
    using mset_map_remove [OF assms] by simp
  also have "\<dots> = mset (map fst (filter (\<lambda>e. fst e \<noteq> k) m))" by simp
  finally show ?thesis
    using assms distinct_map_filter unfolding keys_distinct_def by (metis mset_eq_imp_distinct_iff)
qed

lemma map_get_map_remove:
  assumes "keys_distinct m"
  shows "map_get (snd (map_remove k m)) k' = (if k' = k then None else map_get m k')"
proof -
  have "map_of (snd (map_remove k m)) = map_of (filter (\<lambda>e. fst e \<noteq> k) m)"
    using map_of_inject_set [of "snd (map_remove k m)" "filter (\<lambda>e. fst e \<noteq> k) m"]
      keys_distinct_map_remove [OF assms] assms
    by (simp add: keys_distinct_def distinct_map_filter set_map_remove [OF assms])
  then have "map_of (snd (map_remove k m)) k' = map_of (filter (\<lambda>e. fst e \<noteq> k) m) k'" by simp
  also have "\<dots> = (if k' = k then None else map_of m k')"
    by (induction m) auto
  finally show ?thesis by (simp add: map_get_def)
qed

end
