(* ===== verification/Json_Rpc.thy ===== *)
theory Json_Rpc
  imports Json
begin

text \<open>
  The JSON-RPC server library of \<open>json_rpc/src/\<close>: errors, responses, the validation
  of requests, the table of handlers with their rate limiters, the handling of a
  request body, and the HTTP answers to rejected requests.  The JSON parser, the
  textual form of a value, the rate limiter and the serialiser of results are
  parameters.
\<close>

definition quoted :: "string \<Rightarrow> string" where
  "quoted s = [CHR 39] @ s @ [CHR 39]"

definition int_to_string :: "int \<Rightarrow> string" where
  "int_to_string i = (if i < 0 then ''-'' @ nat_to_string (nat (- i)) else nat_to_string (nat i))"

subsection \<open>Errors\<close>

datatype reserved_error_code = ParseError | InvalidRequest | MethodNotFound | InvalidParams | InternalError

fun reserved_code :: "reserved_error_code \<Rightarrow> int \<times> string" where
  "reserved_code ParseError = (-32700, ''Parse error'')"
| "reserved_code InvalidRequest = (-32600, ''Invalid Request'')"
| "reserved_code MethodNotFound = (-32601, ''Method not found'')"
| "reserved_code InvalidParams = (-32602, ''Invalid params'')"
| "reserved_code InternalError = (-32603, ''Internal error'')"

definition request_throttled_code :: "int \<times> string" where
  "request_throttled_code = (429, ''Request throttled'')"

record rpc_error =
  re_code :: int
  re_message :: string
  re_data :: "json option"

text \<open>\<open>Error::new\<close>: whether the code comes from the reserved type, the code and message, and the
  outcome of serialising the additional information.  In the branch for a misplaced reserved code the
  inner binding hides the code that was passed.\<close>

definition Error_new :: "bool \<Rightarrow> int \<times> string \<Rightarrow> string + json \<Rightarrow> rpc_error" where
  "Error_new is_reserved error_code additional_info =
     (let (code, message) = error_code in
      if \<not> is_reserved \<and> - 32768 \<le> code \<and> code \<le> - 32100 then
        (let (code, message) = reserved_code InternalError in
         \<lparr> re_code = code, re_message = message,
           re_data = Some (JString (''attempted to return reserved error code '' @ int_to_string code)) \<rparr>)
      else
        (case additional_info of
           Inr value \<Rightarrow>
             \<lparr> re_code = code, re_message = message,
               re_data = (if value = JNull then None else Some value) \<rparr>
         | Inl error \<Rightarrow>
             (let (code, message) = reserved_code InternalError in
              \<lparr> re_code = code, re_message = message,
                re_data = Some (JString
                  (''failed to json-encode additional info in json-rpc error: '' @ error)) \<rparr>)))"

definition reserved_error :: "reserved_error_code \<Rightarrow> string \<Rightarrow> rpc_error" where
  "reserved_error code text = Error_new True (reserved_code code) (Inr (JString text))"

subsection \<open>Responses\<close>

definition JSON_RPC_VERSION :: string where "JSON_RPC_VERSION = ''2.0''"

datatype rpc_response =
    Response_Success (response_jsonrpc: string) (response_id: json) json
  | Response_Failure (response_jsonrpc: string) (response_id: json) rpc_error

definition new_success :: "json \<Rightarrow> json \<Rightarrow> rpc_response" where
  "new_success i result = Response_Success JSON_RPC_VERSION i result"

definition new_failure :: "json \<Rightarrow> rpc_error \<Rightarrow> rpc_response" where
  "new_failure i error = Response_Failure JSON_RPC_VERSION i error"

fun is_success :: "rpc_response \<Rightarrow> bool" where
  "is_success (Response_Success _ _ _) = True"
| "is_success (Response_Failure _ _ _) = False"

fun is_failure :: "rpc_response \<Rightarrow> bool" where
  "is_failure (Response_Success _ _ _) = False"
| "is_failure (Response_Failure _ _ _) = True"

fun raw_result :: "rpc_response \<Rightarrow> json option" where
  "raw_result (Response_Success _ _ result) = Some result"
| "raw_result (Response_Failure _ _ _) = None"

fun response_error :: "rpc_response \<Rightarrow> rpc_error option" where
  "response_error (Response_Success _ _ _) = None"
| "response_error (Response_Failure _ _ error) = Some error"

subsection \<open>Requests\<close>

datatype missing_id = MissingId

datatype error_or_rejection = EoR_Error json rpc_error | EoR_Rejection missing_id

datatype params = Params_Array "json list" | Params_Object json_map

fun Params_try_from :: "json \<Rightarrow> json \<Rightarrow> error_or_rejection + params" where
  "Params_try_from request_id JNull = Inr (Params_Array [])"
| "Params_try_from request_id (JBool False) = Inl (EoR_Error request_id (reserved_error InvalidRequest
     (''If present, '' @ quoted ''params'' @ '' must be an Array or Object, but was '' @ quoted ''false'')))"
| "Params_try_from request_id (JBool True) = Inl (EoR_Error request_id (reserved_error InvalidRequest
     (''If present, '' @ quoted ''params'' @ '' must be an Array or Object, but was '' @ quoted ''true'')))"
| "Params_try_from request_id (JNumber _) = Inl (EoR_Error request_id (reserved_error InvalidRequest
     (''If present, '' @ quoted ''params'' @ '' must be an Array or Object, but was a Number'')))"
| "Params_try_from request_id (JString _) = Inl (EoR_Error request_id (reserved_error InvalidRequest
     (''If present, '' @ quoted ''params'' @ '' must be an Array or Object, but was a String'')))"
| "Params_try_from request_id (JArray array) = Inr (Params_Array array)"
| "Params_try_from request_id (JObject m) = Inr (Params_Object m)"

fun as_array :: "params \<Rightarrow> json list option" where
  "as_array (Params_Array array) = Some array"
| "as_array (Params_Object _) = None"

definition is_array :: "params \<Rightarrow> bool" where "is_array p = (as_array p \<noteq> None)"

fun as_object :: "params \<Rightarrow> json_map option" where
  "as_object (Params_Object m) = Some m"
| "as_object (Params_Array _) = None"

definition is_object :: "params \<Rightarrow> bool" where "is_object p = (as_object p \<noteq> None)"

fun params_is_empty :: "params \<Rightarrow> bool" where
  "params_is_empty (Params_Array array) = (array = [])"
| "params_is_empty (Params_Object m) = (m = [])"

definition Params_default :: params where "Params_default = Params_Array []"

fun Value_from :: "params \<Rightarrow> json" where
  "Value_from (Params_Array array) = JArray array"
| "Value_from (Params_Object m) = JObject m"

record rpc_request =
  rq_id :: json
  rq_method :: string
  rq_params :: "params option"

fun is_valid :: "json \<Rightarrow> rpc_error + unit" where
  "is_valid (JString _) = Inr ()"
| "is_valid JNull = Inr ()"
| "is_valid (JNumber number) =
    (if is_f64 number then Inl (reserved_error InvalidRequest
       (quoted ''id'' @ '' must not contain fractional parts if it is a number''))
     else Inr ())"
| "is_valid _ = Inl (reserved_error InvalidRequest (quoted ''id'' @ '' should be a string or integer''))"

text \<open>The check of the version field, the method field, the parameters and the id, in this order; \<open>display\<close> is the textual
  form of a JSON value.\<close>

fun check_jsonrpc :: "(json \<Rightarrow> string) \<Rightarrow> json option \<Rightarrow> rpc_error + unit" where
  "check_jsonrpc display (Some (JString jsonrpc)) =
    (if jsonrpc \<noteq> JSON_RPC_VERSION
     then Inl (reserved_error InvalidRequest
       (''Expected '' @ quoted ''jsonrpc'' @ '' to be '' @ quoted ''2.0'' @ '', but got '' @ quoted jsonrpc))
     else Inr ())"
| "check_jsonrpc display (Some (JNumber jsonrpc)) = Inl (reserved_error InvalidRequest
    (''Expected '' @ quoted ''jsonrpc'' @ '' to be a String with value '' @ quoted ''2.0'' @
     '', but got a Number '' @ quoted (display (JNumber jsonrpc))))"
| "check_jsonrpc display (Some jsonrpc) = Inl (reserved_error InvalidRequest
    (''Expected '' @ quoted ''jsonrpc'' @ '' to be a String with value '' @ quoted ''2.0'' @
     '', but got '' @ quoted (display jsonrpc)))"
| "check_jsonrpc display None = Inl (reserved_error InvalidRequest
    (''Missing '' @ quoted ''jsonrpc'' @ '' field''))"

fun check_method :: "json option \<Rightarrow> rpc_error + string" where
  "check_method (Some (JString method)) = Inr method"
| "check_method (Some _) = Inl (reserved_error InvalidRequest
    (''Expected '' @ quoted ''method'' @ '' to be a String''))"
| "check_method None = Inl (reserved_error InvalidRequest (''Missing '' @ quoted ''method'' @ '' field''))"

fun join_fields :: "string list \<Rightarrow> string" where
  "join_fields [] = []"
| "join_fields [f] = quoted f"
| "join_fields (f # fs) = quoted f @ '', '' @ join_fields fs"

fun check_params :: "json \<Rightarrow> json option \<Rightarrow> error_or_rejection + params option" where
  "check_params request_id (Some unvalidated_params) =
     and_then (Params_try_from request_id unvalidated_params) (\<lambda>p. Inr (Some p))"
| "check_params request_id None = Inr None"

fun check_id :: "json option \<Rightarrow> error_or_rejection + json" where
  "check_id (Some i) = and_then (map_err (EoR_Error JNull) (is_valid i)) (\<lambda>_. Inr i)"
| "check_id None = Inl (EoR_Rejection MissingId)"

definition check_unknown :: "bool \<Rightarrow> json \<Rightarrow> json_map \<Rightarrow> error_or_rejection + unit" where
  "check_unknown allow_unknown_fields i request =
     (if \<not> allow_unknown_fields \<and> request \<noteq> [] then
        Inl (EoR_Error i (reserved_error InvalidRequest
          (''Unexpected field'' @ (if length request > 1 then ''s'' else []) @ '': '' @
           join_fields (map fst request))))
      else Inr ())"

definition Request_new ::
  "(json \<Rightarrow> string) \<Rightarrow> json_map \<Rightarrow> bool \<Rightarrow> error_or_rejection + rpc_request" where
  "Request_new display request0 allow_unknown_fields =
     (let early_id = unwrap_or (map_get request0 ''id'') JNull;
          (jsonrpc, request1) = map_remove ''jsonrpc'' request0 in
      and_then (map_err (EoR_Error early_id) (check_jsonrpc display jsonrpc)) (\<lambda>_.
      let (method_field, request2) = map_remove ''method'' request1 in
      and_then (map_err (EoR_Error early_id) (check_method method_field)) (\<lambda>method.
      let (params_field, request3) = map_remove ''params'' request2 in
      and_then (check_params early_id params_field) (\<lambda>params.
      let (id_field, request4) = map_remove ''id'' request3 in
      and_then (check_id id_field) (\<lambda>i.
      and_then (check_unknown allow_unknown_fields i request4) (\<lambda>_.
      Inr \<lparr> rq_id = i, rq_method = method, rq_params = params \<rparr>))))))"

subsection \<open>Handlers\<close>

record config_limit =
  cl_requests :: u32
  cl_period :: u64

definition ConfigLimit_default :: config_limit where
  "ConfigLimit_default = \<lparr> cl_requests = 10, cl_period = 1000 \<rparr>"

text \<open>The rate limiter of the governor crate: building one from a limit, and asking it for a
  permission, which it refuses with the text of the waiting time.\<close>

record 'l limiter_ops =
  limiter_direct :: "config_limit \<Rightarrow> 'l"
  limiter_check :: "'l \<Rightarrow> (string + unit) \<times> 'l"

type_synonym request_handler = "params option \<Rightarrow> rpc_error + json"
type_synonym 'l request_handlers = "string \<Rightarrow> (request_handler \<times> 'l) option"

datatype rpc_metric =
    Observe_response_time string string
  | Inc_method_call string
  | Register_request_size string nat

definition RequestHandlersBuilder_new :: "'l request_handlers" where
  "RequestHandlersBuilder_new = Map.empty"

text \<open>The handler as registered serialises the result of the given one.\<close>

definition wrapped_handler ::
  "('r \<Rightarrow> string + json) \<Rightarrow> (params option \<Rightarrow> rpc_error + 'r) \<Rightarrow> request_handler" where
  "wrapped_handler to_value handler maybe_params =
     (case handler maybe_params of
        Inl error \<Rightarrow> Inl error
      | Inr success \<Rightarrow>
          (case to_value success of
             Inl error \<Rightarrow> Inl (reserved_error InternalError
               (''failed to encode json-rpc response value: '' @ error))
           | Inr value \<Rightarrow> Inr value))"

definition register_handler ::
  "'l limiter_ops \<Rightarrow> ('r \<Rightarrow> string + json) \<Rightarrow> 'l request_handlers \<Rightarrow> string \<Rightarrow>
   (params option \<Rightarrow> rpc_error + 'r) \<Rightarrow> config_limit \<Rightarrow> 'l request_handlers" where
  "register_handler ops to_value builder method handler limit =
     builder(method \<mapsto> (wrapped_handler to_value handler, limiter_direct ops limit))"

text \<open>Handling a request: the response, the handlers with the state of the limiter, and the metrics
  that are reported.\<close>

definition handle_request ::
  "'l limiter_ops \<Rightarrow> 'l request_handlers \<Rightarrow> rpc_request \<Rightarrow> nat \<Rightarrow>
   rpc_response \<times> 'l request_handlers \<times> rpc_metric list" where
  "handle_request ops handlers request request_size =
     (case handlers (rq_method request) of
        None \<Rightarrow>
          (new_failure (rq_id request) (reserved_error MethodNotFound
             (quoted (rq_method request) @ '' is not a supported json-rpc method on this server'')),
           handlers, [Observe_response_time ''unknown-handler'' ''unknown-handler''])
      | Some (handler, limiter) \<Rightarrow>
          (let metrics = [Inc_method_call (rq_method request),
                          Register_request_size (rq_method request) request_size];
               (permission, limiter') = limiter_check ops limiter;
               handlers' = handlers(rq_method request \<mapsto> (handler, limiter'))
           in case permission of
             Inl wait_time \<Rightarrow>
               (new_failure (rq_id request) (Error_new False request_throttled_code
                  (Inr (JString (''retry-after '' @ wait_time @ ''s'')))), handlers', metrics)
           | Inr _ \<Rightarrow>
               (case handler (rq_params request) of
                  Inr result \<Rightarrow>
                    (new_success (rq_id request) result, handlers',
                     metrics @ [Observe_response_time (rq_method request) ''success''])
                | Inl error \<Rightarrow>
                    (new_failure (rq_id request) error, handlers',
                     metrics @ [Observe_response_time (rq_method request) (int_to_string (re_code error))]))))"

text \<open>The handling of a body: \<open>from_slice\<close> is the JSON parser for objects.\<close>

definition handle_body ::
  "(u8 list \<Rightarrow> string + json_map) \<Rightarrow> (json \<Rightarrow> string) \<Rightarrow> 'l limiter_ops \<Rightarrow> u8 list \<Rightarrow>
   'l request_handlers \<Rightarrow> bool \<Rightarrow>
   missing_id + rpc_response \<times> 'l request_handlers \<times> rpc_metric list" where
  "handle_body from_slice display ops body handlers allow_unknown_fields =
     (case from_slice body of
        Inr unvalidated_request \<Rightarrow>
          (case Request_new display unvalidated_request allow_unknown_fields of
             Inr request \<Rightarrow> Inr (handle_request ops handlers request (length body))
           | Inl (EoR_Error i error) \<Rightarrow> Inr (new_failure i error, handlers, [])
           | Inl (EoR_Rejection rejection) \<Rightarrow> Inl rejection)
      | Inl error \<Rightarrow> Inr (new_failure JNull (reserved_error ParseError error), handlers, []))"

subsection \<open>Rejections\<close>

text \<open>A warp rejection: whether it is "not found", the two causes of this library, and the texts of
  the causes of warp that it contains.\<close>

datatype warp_cause = MethodNotAllowed | InvalidHeader | MissingHeader | InvalidQuery | MissingCookie
  | LengthRequired | PayloadTooLarge | UnsupportedMediaType | CorsForbidden

record http_rejection =
  rj_missing_id :: bool
  rj_body_too_large :: "u64 option"
  rj_not_found :: bool
  rj_find :: "warp_cause \<Rightarrow> string option"
  rj_debug :: string

definition missing_id_display :: string where
  "missing_id_display = ''The request is missing the '' @ quoted ''id'' @ '' field''"

definition body_too_large_display :: "u64 \<Rightarrow> string" where
  "body_too_large_display n =
     ''The request payload exceeds the maximum allowed of '' @ nat_to_string (unat n) @ '' bytes''"

text \<open>The causes of warp in the order in which they are looked for, with their status.\<close>

definition warp_cause_status :: "(warp_cause \<times> nat) list" where
  "warp_cause_status =
     [(MethodNotAllowed, 405), (InvalidHeader, 400), (MissingHeader, 415), (InvalidQuery, 400),
      (MissingCookie, 400), (LengthRequired, 411), (PayloadTooLarge, 413),
      (UnsupportedMediaType, 415), (CorsForbidden, 403)]"

fun first_cause :: "http_rejection \<Rightarrow> (warp_cause \<times> nat) list \<Rightarrow> (nat \<times> string) option" where
  "first_cause error [] = None"
| "first_cause error ((cause, code) # rest) =
    (case rj_find error cause of
       Some text \<Rightarrow> Some (code, text)
     | None \<Rightarrow> first_cause error rest)"

definition handle_rejection :: "http_rejection \<Rightarrow> nat \<times> json" where
  "handle_rejection error =
     (let (code, message) =
        (if rj_missing_id error then (400, missing_id_display)
         else if rj_body_too_large error \<noteq> None
           then (413, body_too_large_display (the (rj_body_too_large error)))
         else if rj_not_found error then (404, ''Path not found'')
         else (case first_cause error warp_cause_status of
                 Some found \<Rightarrow> found
               | None \<Rightarrow> (500, ''Internal server error: unhandled rejection: '' @ rj_debug error)))
      in (code, JObject [(''message'', JString message)]))"

text \<open>The answer of \<open>main_filter\<close> recovered by \<open>handle_rejection\<close>, as in \<open>route\<close>: status and either
  the response or the rejection body.\<close>

definition route_body ::
  "(u8 list \<Rightarrow> string + json_map) \<Rightarrow> (json \<Rightarrow> string) \<Rightarrow> 'l limiter_ops \<Rightarrow> u8 list \<Rightarrow>
   'l request_handlers \<Rightarrow> bool \<Rightarrow> nat \<times> (json + rpc_response)" where
  "route_body from_slice display ops body handlers allow_unknown_fields =
     (case handle_body from_slice display ops body handlers allow_unknown_fields of
        Inr (response, _, _) \<Rightarrow> (200, Inr response)
      | Inl MissingId \<Rightarrow>
          (let (code, reply) = handle_rejection
             \<lparr> rj_missing_id = True, rj_body_too_large = None, rj_not_found = False,
               rj_find = (\<lambda>_. None), rj_debug = ''MissingId'' \<rparr>
           in (code, Inl reply)))"

subsection \<open>Specification of a valid request\<close>

definition valid_id :: "json \<Rightarrow> bool" where
  "valid_id i \<longleftrightarrow> i = JNull \<or> (\<exists>s. i = JString s) \<or> (\<exists>n. i = JNumber (JInt n))"

fun params_of :: "json \<Rightarrow> params option" where
  "params_of JNull = Some (Params_Array [])"
| "params_of (JArray array) = Some (Params_Array array)"
| "params_of (JObject m) = Some (Params_Object m)"
| "params_of _ = None"

definition known_fields :: "string set" where
  "known_fields = {''jsonrpc'', ''method'', ''params'', ''id''}"

text \<open>The JSON-RPC specification of a request object, with the null parameters the server accepts.\<close>

definition is_request_object :: "json_map \<Rightarrow> bool \<Rightarrow> rpc_request \<Rightarrow> bool" where
  "is_request_object obj allow_unknown_fields r \<longleftrightarrow>
     map_get obj ''jsonrpc'' = Some (JString ''2.0'') \<and>
     map_get obj ''method'' = Some (JString (rq_method r)) \<and>
     map_get obj ''id'' = Some (rq_id r) \<and> valid_id (rq_id r) \<and>
     (case map_get obj ''params'' of
        None \<Rightarrow> rq_params r = None | Some v \<Rightarrow> rq_params r \<noteq> None \<and> params_of v = rq_params r) \<and>
     (allow_unknown_fields \<or> fst ` set obj \<subseteq> known_fields)"

subsection \<open>Validation\<close>

lemma reserved_error_code [simp]: "re_code (reserved_error c text) = fst (reserved_code c)"
  by (simp add: reserved_error_def Error_new_def case_prod_unfold Let_def)

lemma is_valid_iff: "is_valid i = Inr () \<longleftrightarrow> valid_id i"
proof (cases i)
  case (JNumber n)
  then show ?thesis by (cases n) (auto simp: valid_id_def)
qed (auto simp: valid_id_def)

lemma is_valid_error: "is_valid i = Inl e \<Longrightarrow> re_code e = -32600"
  by (cases i rule: is_valid.cases) (auto split: if_splits)

lemma check_jsonrpc_ok: "check_jsonrpc display v = Inr () \<longleftrightarrow> v = Some (JString ''2.0'')"
  by (cases "(display, v)" rule: check_jsonrpc.cases) (auto simp: JSON_RPC_VERSION_def)

lemma check_jsonrpc_error: "check_jsonrpc display v = Inl e \<Longrightarrow> re_code e = -32600"
  by (cases "(display, v)" rule: check_jsonrpc.cases) (auto split: if_splits)

lemma check_method_ok: "check_method v = Inr x \<longleftrightarrow> v = Some (JString x)"
  by (cases v rule: check_method.cases) auto

lemma check_method_error: "check_method v = Inl e \<Longrightarrow> re_code e = -32600"
  by (cases v rule: check_method.cases) auto

lemma Params_try_from_ok: "Params_try_from i v = Inr p \<longleftrightarrow> params_of v = Some p"
  by (cases "(i, v)" rule: Params_try_from.cases) auto

lemma Params_try_from_error:
  "Params_try_from i v = Inl x \<Longrightarrow> \<exists>e. x = EoR_Error i e \<and> re_code e = -32600"
  by (cases "(i, v)" rule: Params_try_from.cases) auto

lemma map_remove_pair: "map_remove k m = (map_get m k, snd (map_remove k m))"
  by (rule prod_eqI) simp_all

text \<open>The fields that are left over, and the whole validation over the given fields.\<close>

definition leftover :: "json_map \<Rightarrow> json_map" where
  "leftover obj = snd (map_remove ''id'' (snd (map_remove ''params'' (snd (map_remove ''method''
     (snd (map_remove ''jsonrpc'' obj)))))))"

lemma leftover_empty:
  assumes "keys_distinct obj"
  shows "leftover obj = [] \<longleftrightarrow> fst ` set obj \<subseteq> known_fields"
proof -
  have "set (leftover obj) = {e \<in> set obj. fst e \<notin> known_fields}"
    using assms
    by (auto simp: leftover_def set_map_remove keys_distinct_map_remove known_fields_def)
  then show ?thesis by (metis (mono_tags, lifting) Collect_empty_eq image_subset_iff set_empty)
qed

lemma Request_new_fields:
  assumes "keys_distinct obj"
  shows "Request_new display obj allow =
     (let early_id = unwrap_or (map_get obj ''id'') JNull in
      and_then (map_err (EoR_Error early_id) (check_jsonrpc display (map_get obj ''jsonrpc''))) (\<lambda>_.
      and_then (map_err (EoR_Error early_id) (check_method (map_get obj ''method''))) (\<lambda>method.
      and_then (check_params early_id (map_get obj ''params'')) (\<lambda>params.
      and_then (check_id (map_get obj ''id'')) (\<lambda>i.
      and_then (check_unknown allow i (leftover obj)) (\<lambda>_.
      Inr \<lparr> rq_id = i, rq_method = method, rq_params = params \<rparr>))))))"
proof -
  define m1 where "m1 = snd (map_remove ''jsonrpc'' obj)"
  define m2 where "m2 = snd (map_remove ''method'' m1)"
  define m3 where "m3 = snd (map_remove ''params'' m2)"
  define m4 where "m4 = snd (map_remove ''id'' m3)"
  have removed: "map_remove ''jsonrpc'' obj = (map_get obj ''jsonrpc'', m1)"
    "map_remove ''method'' m1 = (map_get obj ''method'', m2)"
    "map_remove ''params'' m2 = (map_get obj ''params'', m3)"
    "map_remove ''id'' m3 = (map_get obj ''id'', m4)"
    using assms
    by (simp_all add: prod_eq_iff m1_def m2_def m3_def m4_def map_get_map_remove keys_distinct_map_remove)
  have "leftover obj = m4" by (simp add: leftover_def m1_def m2_def m3_def m4_def)
  then show ?thesis by (simp only: Request_new_def removed Let_def prod.case)
qed

lemma check_params_ok:
  "check_params i v = Inr p \<longleftrightarrow>
     (case v of None \<Rightarrow> p = None | Some w \<Rightarrow> p \<noteq> None \<and> params_of w = p)"
  by (cases v) (auto simp: and_then_Inr_iff Params_try_from_ok)

lemma check_params_error:
  "check_params i v = Inl x \<Longrightarrow> \<exists>e. x = EoR_Error i e \<and> re_code e = -32600"
  by (cases v) (auto simp: and_then_Inl_iff dest: Params_try_from_error)

lemma check_id_ok: "check_id v = Inr i \<longleftrightarrow> v = Some i \<and> valid_id i"
  by (cases v) (auto simp: result_iffs is_valid_iff [symmetric])

lemma check_unknown_ok:
  "keys_distinct obj \<Longrightarrow>
   check_unknown allow i (leftover obj) = Inr () \<longleftrightarrow> allow \<or> fst ` set obj \<subseteq> known_fields"
  by (simp add: check_unknown_def leftover_empty)

lemma Request_new_ok_iff:
  assumes "keys_distinct obj"
  shows "Request_new display obj allow = Inr r \<longleftrightarrow> is_request_object obj allow r"
  by (cases r; cases "map_get obj ''params''")
    (auto simp: Request_new_fields [OF assms] Let_def result_iffs check_jsonrpc_ok check_method_ok
      Params_try_from_ok check_id_ok check_unknown_ok [OF assms] is_request_object_def)

lemma check_id_error:
  "check_id v = Inl x \<Longrightarrow>
     v = None \<and> x = EoR_Rejection MissingId \<or>
     (\<exists>i e. v = Some i \<and> \<not> valid_id i \<and> x = EoR_Error JNull e \<and> re_code e = -32600)"
  by (cases v) (auto simp: result_iffs is_valid_iff [symmetric] dest: is_valid_error)

lemma check_unknown_error:
  "check_unknown allow i m = Inl x \<Longrightarrow> \<exists>e. x = EoR_Error i e \<and> re_code e = -32600"
  by (auto simp: check_unknown_def split: if_splits)

lemma Request_new_error:
  assumes "keys_distinct obj" and "Request_new display obj allow = Inl x"
  shows "map_get obj ''id'' = None \<and> x = EoR_Rejection MissingId \<or>
    (\<exists>i e. x = EoR_Error i e \<and> re_code e = -32600 \<and>
       (i = unwrap_or (map_get obj ''id'') JNull \<or>
        i = JNull \<and> (\<exists>j. map_get obj ''id'' = Some j \<and> \<not> valid_id j)))"
  using assms(2)
  by (auto simp: Request_new_fields [OF assms(1)] Let_def result_iffs check_id_ok
      dest!: check_jsonrpc_error check_method_error check_params_error check_id_error
        check_unknown_error)

definition is_notification :: "json_map \<Rightarrow> bool" where
  "is_notification obj \<longleftrightarrow> map_get obj ''id'' = None \<and>
     map_get obj ''jsonrpc'' = Some (JString ''2.0'') \<and>
     (\<exists>method. map_get obj ''method'' = Some (JString method)) \<and>
     (\<forall>v. map_get obj ''params'' = Some v \<longrightarrow> params_of v \<noteq> None)"

lemma check_params_defined:
  "(\<exists>p. check_params i v = Inr p) \<longleftrightarrow> (\<forall>w. v = Some w \<longrightarrow> params_of w \<noteq> None)"
  by (cases v) (auto simp: and_then_Inr_iff Params_try_from_ok)

lemma check_id_rejected: "check_id v = Inl (EoR_Rejection r) \<longleftrightarrow> v = None"
proof
  assume "v = None"
  then show "check_id v = Inl (EoR_Rejection r)" by (cases r) simp
qed (auto dest: check_id_error)

lemma Request_new_rejected_iff:
  assumes "keys_distinct obj"
  shows "Request_new display obj allow = Inl (EoR_Rejection r) \<longleftrightarrow> is_notification obj"
proof -
  have no_params: "check_params i v \<noteq> Inl (EoR_Rejection r)" for i v
    using check_params_error by blast
  have no_unknown: "check_unknown allow i m \<noteq> Inl (EoR_Rejection r)" for i m
    using check_unknown_error by blast
  show ?thesis
    by (simp add: Request_new_fields [OF assms] Let_def and_then_Inl_iff map_err_Inl_iff map_err_Inr_iff
        check_jsonrpc_ok check_method_ok no_params no_unknown check_id_rejected is_notification_def
        check_params_defined conj_ac)
qed

lemma route_body_ok:
  "from_slice body = Inr obj \<Longrightarrow>
   Request_new display obj allow \<noteq> Inl (EoR_Rejection MissingId) \<Longrightarrow>
   fst (route_body from_slice display ops body handlers allow) = 200"
  by (auto simp: route_body_def handle_body_def split: sum.split error_or_rejection.split missing_id.split)

lemma response_id_simps [simp]:
  "response_id (new_success i v) = i" "response_id (new_failure i e) = i"
  "response_jsonrpc (new_success i v) = ''2.0''" "response_jsonrpc (new_failure i e) = ''2.0''"
  by (simp_all add: new_success_def new_failure_def JSON_RPC_VERSION_def)

lemma handle_request_id:
  "response_id (fst (handle_request ops handlers request n)) = rq_id request"
  "response_jsonrpc (fst (handle_request ops handlers request n)) = ''2.0''"
  by (simp_all add: handle_request_def Let_def case_prod_unfold split: option.split sum.split)

text \<open>Concrete parameters: a limiter that counts its permissions down, and a parser of one object.\<close>

definition counting_limiter :: "nat limiter_ops" where
  "counting_limiter = \<lparr> limiter_direct = (\<lambda>limit. unat (cl_requests limit)),
     limiter_check = (\<lambda>n. if n = 0 then (Inl ''0.1000'', 0) else (Inr (), n - 1)) \<rparr>"

definition sample_object :: json_map where
  "sample_object = [(''id'', JNumber (JInt 3)), (''jsonrpc'', JString ''2.0''),
     (''method'', JString ''ping''), (''params'', JNull)]"

definition ping_handlers :: "nat request_handlers" where
  "ping_handlers = register_handler counting_limiter Inr RequestHandlersBuilder_new ''ping''
     (\<lambda>p. Inr (JString ''pong'')) ConfigLimit_default"

subsection \<open>Properties\<close>



text \<open>C12: every request with a valid id is answered under that id.  Whatever else is wrong with it,
  and whatever the handlers and the limiters do, a body that parses to an object with a string, integer
  or null id gets one JSON-RPC 2.0 response with exactly this id, and is not rejected.\<close>

theorem response_carries_request_id:
  assumes "from_slice body = Inr obj" and "keys_distinct obj"
    and "map_get obj ''id'' = Some i" and "valid_id i"
  shows "\<exists>response handlers' metrics.
     handle_body from_slice display ops body handlers allow_unknown_fields =
       Inr (response, handlers', metrics) \<and> response_id response = i \<and> response_jsonrpc response = ''2.0''"
proof (cases "Request_new display obj allow_unknown_fields")
  case (Inl x)
  then show ?thesis
    using Request_new_error [OF assms(2) Inl] assms by (auto simp: handle_body_def)
next
  case (Inr request)
  then have "rq_id request = i"
    using Request_new_ok_iff [OF assms(2)] assms(3) by (auto simp: is_request_object_def)
  then show ?thesis
    using handle_request_id [of ops handlers request "length body"] assms(1) Inr
    by (cases "handle_request ops handlers request (length body)") (auto simp: handle_body_def)
qed

theorem response_carries_request_id_witness:
  "\<exists>response handlers' metrics.
     handle_body (\<lambda>_. Inr sample_object) (\<lambda>_. []) counting_limiter [] ping_handlers False =
       Inr (response, handlers', metrics) \<and>
     response_id response = JNumber (JInt 3) \<and> response_jsonrpc response = ''2.0''"
  by (rule response_carries_request_id [where obj = sample_object])
    (simp_all add: sample_object_def keys_distinct_def map_get_def valid_id_def)

text \<open>HTTP statuses.  A body is answered with 200 unless it is a notification, that is a request
  object that is fine but for a missing id; that is answered with 400.\<close>

theorem only_notifications_are_rejected:
  assumes "from_slice body = Inr obj" and "keys_distinct obj"
  shows "fst (route_body from_slice display ops body handlers allow_unknown_fields) =
    (if is_notification obj then 400 else 200)"
proof (cases "Request_new display obj allow_unknown_fields = Inl (EoR_Rejection MissingId)")
  case True
  then have "fst (route_body from_slice display ops body handlers allow_unknown_fields) = 400"
    using assms(1) by (simp add: route_body_def handle_body_def handle_rejection_def)
  then show ?thesis using Request_new_rejected_iff [OF assms(2)] True by simp
next
  case False
  then have "fst (route_body from_slice display ops body handlers allow_unknown_fields) = 200"
    using assms(1) by (rule route_body_ok [rotated])
  then show ?thesis using Request_new_rejected_iff [OF assms(2)] False by simp
qed

theorem only_notifications_are_rejected_witness:
  "fst (route_body (\<lambda>_. Inr (tl sample_object)) (\<lambda>_. []) counting_limiter [] ping_handlers False) = 400"
  by (subst only_notifications_are_rejected [where obj = "tl sample_object"])
    (simp_all add: sample_object_def keys_distinct_def map_get_def is_notification_def)

text \<open>Codes in the reserved range stay reserved.  Whatever code, message and additional
  information an error is built from, a code between -32768 and -32100 can only come from the reserved
  codes of the library; any other attempt becomes an internal error.\<close>

theorem reserved_codes_stay_reserved:
  "re_code (Error_new is_reserved (code, message) info) =
     (if \<not> is_reserved \<and> - 32768 \<le> code \<and> code \<le> - 32100 \<or> (\<exists>e. info = Inl e) then - 32603 else code)"
  by (auto simp: Error_new_def split: sum.split)

text \<open>Dispatch.  After a handler is registered, a request for its method runs it, under its fresh
  limiter, and answers with its serialised result or its error; requests for other methods are answered
  as before.\<close>

theorem registered_handler_is_called:
  assumes "limiter_check ops (limiter_direct ops limit) = (Inr (), limiter')"
  shows "fst (handle_request ops (register_handler ops to_value handlers method handler limit)
            \<lparr> rq_id = i, rq_method = method, rq_params = params \<rparr> n) =
         (case handler params of
            Inl error \<Rightarrow> new_failure i error
          | Inr result \<Rightarrow>
              (case to_value result of
                 Inr value \<Rightarrow> new_success i value
               | Inl error \<Rightarrow> new_failure i (reserved_error InternalError
                   (''failed to encode json-rpc response value: '' @ error)))) \<and>
         (if other = method then True
          else fst (handle_request ops (register_handler ops to_value handlers method handler limit)
                 \<lparr> rq_id = i, rq_method = other, rq_params = params \<rparr> n) =
               fst (handle_request ops handlers \<lparr> rq_id = i, rq_method = other, rq_params = params \<rparr> n))"
  using assms
  by (auto simp: handle_request_def register_handler_def wrapped_handler_def Let_def
      split: sum.split option.split prod.split)

theorem registered_handler_is_called_witness:
  "fst (handle_request counting_limiter ping_handlers
     \<lparr> rq_id = JNull, rq_method = ''ping'', rq_params = None \<rparr> 0) = new_success JNull (JString ''pong'')"
  using registered_handler_is_called [of counting_limiter ConfigLimit_default 9 Inr
      RequestHandlersBuilder_new "''ping''" "\<lambda>p. Inr (JString ''pong'')" JNull None 0 "''ping''"]
  by (simp add: ping_handlers_def counting_limiter_def ConfigLimit_default_def)

end
