(* ===== verification/Sse_Connection.thy ===== *)
theory Sse_Connection
  imports Rust_Std Sse_Data
begin

text \<open>
  One connection to an endpoint of a node: the keep-alive monitor of
  \<open>listener/src/keep_alive_monitor.rs\<close>, and from \<open>listener/src/sse_connector.rs\<close> the
  byte stream it guards and the loop that retries the initial connection.  Times are
  in milliseconds; the HTTP client is a parameter.
\<close>

subsection \<open>Keep-alive monitor\<close>

text \<open>The state the two tasks of the monitor share: when data was last seen, and the token.\<close>

record keep_alive_monitor =
  ka_no_message_timeout :: nat
  ka_last_message_seen_at :: "nat option"
  ka_cancelled :: bool

definition KeepAliveMonitor_new :: "nat \<Rightarrow> keep_alive_monitor" where
  "KeepAliveMonitor_new no_message_timeout =
     \<lparr> ka_no_message_timeout = no_message_timeout, ka_last_message_seen_at = None, ka_cancelled = False \<rparr>"

text \<open>What happens to the monitor, with the time: the observing task handles a tick, or the checker
  wakes up.\<close>

datatype monitor_event = Data_Observed nat | Check nat

definition data_observing_task :: "keep_alive_monitor \<Rightarrow> nat \<Rightarrow> keep_alive_monitor" where
  "data_observing_task m now = m\<lparr> ka_last_message_seen_at := Some now \<rparr>"

text \<open>The checker stops once it has cancelled the token.\<close>

definition last_seen_checker_task :: "keep_alive_monitor \<Rightarrow> nat \<Rightarrow> keep_alive_monitor" where
  "last_seen_checker_task m now =
     (if ka_cancelled m then m
      else case ka_last_message_seen_at m of
        Some last_seen_at \<Rightarrow>
          (if now - last_seen_at > ka_no_message_timeout m then m\<lparr> ka_cancelled := True \<rparr> else m)
      | None \<Rightarrow> m\<lparr> ka_last_message_seen_at := Some now \<rparr>)"

fun monitor_step :: "keep_alive_monitor \<Rightarrow> monitor_event \<Rightarrow> keep_alive_monitor" where
  "monitor_step m (Data_Observed now) = data_observing_task m now"
| "monitor_step m (Check now) = last_seen_checker_task m now"

definition monitor_run :: "keep_alive_monitor \<Rightarrow> monitor_event list \<Rightarrow> keep_alive_monitor" where
  "monitor_run m events = fold (\<lambda>e m. monitor_step m e) events m"

subsection \<open>Byte stream\<close>

datatype sse_data_streaming_error = NoDataTimeout | ConnectionError

text \<open>What the \<open>select!\<close> of the stream picks: the next item of the response, its end, or the
  cancellation.\<close>

datatype 'b stream_select = Received_Bytes 'b | Receive_Error | Received_End | Token_Cancelled

fun build_byte_stream :: "'b stream_select list \<Rightarrow> (sse_data_streaming_error + 'b) list" where
  "build_byte_stream [] = []"
| "build_byte_stream (Received_Bytes bytes # rest) = Inr bytes # build_byte_stream rest"
| "build_byte_stream (Receive_Error # rest) = [Inl ConnectionError]"
| "build_byte_stream (Received_End # rest) = []"
| "build_byte_stream (Token_Cancelled # rest) = [Inl NoDataTimeout]"

subsection \<open>Connecting\<close>

text \<open>An \<open>anyhow\<close> error: its message and those of the errors it gives context to.\<close>

type_synonym anyhow = "string list"

definition context_msg :: "string \<Rightarrow> anyhow \<Rightarrow> anyhow" where
  "context_msg message error = message # error"

datatype connection_manager_error = NonRecoverableError anyhow | InitialConnectionError anyhow

record url =
  url_address :: string
  url_path :: string
  url_query :: "string option"

record sse_connection =
  sc_max_attempts :: nat
  sc_bind_address :: url

definition couldnt_connect ::
  "(url \<Rightarrow> string) \<Rightarrow> connection_manager_error option \<Rightarrow> url \<Rightarrow> nat \<Rightarrow> connection_manager_error" where
  "couldnt_connect url_debug last_error address attempts =
     (let message = ''Couldn'' @ [CHR 39] @ ''t connect to address '' @ url_debug address @ '' in '' @
            nat_to_string attempts @ '' attempts''
      in case last_error of
        None \<Rightarrow> NonRecoverableError [message]
      | Some (InitialConnectionError error) \<Rightarrow> InitialConnectionError (context_msg message error)
      | Some (NonRecoverableError error) \<Rightarrow> NonRecoverableError (context_msg message error))"

text \<open>The retry loop; \<open>internal_connect k\<close> is the outcome of attempt \<open>k\<close>.  The second component of the
  result counts the attempts made.\<close>

function connect_loop ::
  "(url \<Rightarrow> string) \<Rightarrow> (nat \<Rightarrow> url \<Rightarrow> connection_manager_error + 's) \<Rightarrow> url \<Rightarrow> nat \<Rightarrow> nat \<Rightarrow>
   connection_manager_error option \<Rightarrow> (connection_manager_error + 's) \<times> nat" where
  "connect_loop url_debug internal_connect address max_attempts retry_count last_error =
     (if retry_count \<le> max_attempts then
        (case internal_connect retry_count address of
           Inr event_stream \<Rightarrow> (Inr event_stream, Suc retry_count)
         | Inl (NonRecoverableError error) \<Rightarrow> (Inl (NonRecoverableError error), Suc retry_count)
         | Inl (InitialConnectionError error) \<Rightarrow>
             connect_loop url_debug internal_connect address max_attempts (Suc retry_count)
               (Some (InitialConnectionError error)))
      else (Inl (couldnt_connect url_debug last_error address max_attempts), retry_count))"
  by pat_completeness auto
termination
  by (relation "measure (\<lambda>(_, _, _, max_attempts, retry_count, _). Suc max_attempts - retry_count)") auto

declare connect_loop.simps [simp del]

definition SseConnection_connect ::
  "(url \<Rightarrow> string) \<Rightarrow> (nat \<Rightarrow> url \<Rightarrow> connection_manager_error + 's) \<Rightarrow> sse_connection \<Rightarrow> u32 option \<Rightarrow>
   (connection_manager_error + 's) \<times> nat" where
  "SseConnection_connect url_debug internal_connect connection current_event_id =
     (let bind_address =
        (case current_event_id of
           None \<Rightarrow> sc_bind_address connection
         | Some event_id \<Rightarrow>
             (sc_bind_address connection)\<lparr> url_query := Some (''start_from='' @ u32_to_string event_id) \<rparr>)
      in connect_loop url_debug internal_connect bind_address (sc_max_attempts connection) 0 None)"

subsection \<open>Lemmas\<close>

text \<open>What the monitor takes for the time of the last activity: that of the last data or, before any
  data, the first check.\<close>

fun data_time :: "monitor_event \<Rightarrow> nat option" where
  "data_time (Data_Observed now) = Some now"
| "data_time (Check now) = None"

fun check_time :: "monitor_event \<Rightarrow> nat option" where
  "check_time (Data_Observed now) = None"
| "check_time (Check now) = Some now"

definition last_activity :: "monitor_event list \<Rightarrow> nat option" where
  "last_activity events =
     (let observed = somes (map data_time events); checks = somes (map check_time events) in
      if observed \<noteq> [] then Some (last observed) else if checks \<noteq> [] then Some (hd checks) else None)"

definition overdue :: "nat \<Rightarrow> monitor_event list \<Rightarrow> nat \<Rightarrow> bool" where
  "overdue timeout earlier now \<longleftrightarrow>
     (case last_activity earlier of None \<Rightarrow> False | Some seen \<Rightarrow> now - seen > timeout)"

lemma last_activity_Nil [simp]: "last_activity [] = None"
  by (simp add: last_activity_def)

lemma last_activity_snoc:
  "last_activity (events @ [Data_Observed now]) = Some now"
  "last_activity (events @ [Check now]) =
     (case last_activity events of None \<Rightarrow> Some now | Some seen \<Rightarrow> Some seen)"
  by (simp_all add: last_activity_def Let_def)

lemma monitor_run_snoc: "monitor_run m (events @ [e]) = monitor_step (monitor_run m events) e"
  by (simp add: monitor_run_def)

text \<open>As long as the token is not cancelled the state is the last activity, and it is cancelled exactly
  when some check was overdue.\<close>

lemma monitor_run_state:
  "(let m = monitor_run (KeepAliveMonitor_new timeout) events in
    ka_no_message_timeout m = timeout \<and>
    (\<not> ka_cancelled m \<longrightarrow> ka_last_message_seen_at m = last_activity events) \<and>
    (ka_cancelled m \<longleftrightarrow> (\<exists>earlier now later. events = earlier @ Check now # later \<and> overdue timeout earlier now)))"
proof (induction events rule: rev_induct)
  case Nil
  then show ?case by (simp add: monitor_run_def KeepAliveMonitor_new_def)
next
  case (snoc e events)
  define m where "m = monitor_run (KeepAliveMonitor_new timeout) events"
  have IH: "ka_no_message_timeout m = timeout" "\<not> ka_cancelled m \<Longrightarrow> ka_last_message_seen_at m = last_activity events"
    "ka_cancelled m \<longleftrightarrow> (\<exists>earlier now later. events = earlier @ Check now # later \<and> overdue timeout earlier now)"
    using snoc by (simp_all add: Let_def m_def)
  have split: "(\<exists>earlier now later. events @ [e] = earlier @ Check now # later \<and> overdue timeout earlier now) \<longleftrightarrow>
      ka_cancelled m \<or> (\<exists>now. e = Check now \<and> overdue timeout events now)"
    (is "?L \<longleftrightarrow> _ \<or> ?R")
  proof
    assume ?L
    then obtain earlier now later where
      *: "events @ [e] = earlier @ Check now # later" "overdue timeout earlier now" by blast
    show "ka_cancelled m \<or> ?R"
    proof (cases later rule: rev_cases)
      case (snoc later' x)
      then have "events = earlier @ Check now # later'" using *(1) by simp
      then show ?thesis using *(2) IH(3) by blast
    qed (use * in simp)
  next
    assume "ka_cancelled m \<or> ?R"
    then show ?L
    proof
      assume "ka_cancelled m"
      then obtain earlier now later where "events = earlier @ Check now # later" "overdue timeout earlier now"
        using IH(3) by blast
      then have "events @ [e] = earlier @ Check now # (later @ [e])" "overdue timeout earlier now" by simp_all
      then show ?L by blast
    qed auto
  qed
  show ?case unfolding Let_def monitor_run_snoc m_def [symmetric] split
    using IH(1,2)
    by (cases e) (auto simp: data_observing_task_def last_seen_checker_task_def last_activity_snoc
        overdue_def split: option.splits)
qed

lemma connect_loop_spec:
  assumes "retry_count \<le> Suc max_attempts"
  shows "connect_loop url_debug internal_connect address max_attempts retry_count last_error =
    (case find (\<lambda>k. \<nexists>error. internal_connect k address = Inl (InitialConnectionError error))
       [retry_count..<Suc max_attempts] of
       Some k \<Rightarrow> (internal_connect k address, Suc k)
     | None \<Rightarrow> (Inl (couldnt_connect url_debug
         (if retry_count \<le> max_attempts then Some (projl (internal_connect max_attempts address))
          else last_error) address max_attempts), Suc max_attempts))"
  using assms
proof (induction url_debug internal_connect address max_attempts retry_count last_error
    rule: connect_loop.induct)
  case (1 url_debug internal_connect address max_attempts retry_count last_error)
  show ?case
  proof (cases "retry_count \<le> max_attempts")
    case True
    then have upt: "[retry_count..<Suc max_attempts] = retry_count # [Suc retry_count..<Suc max_attempts]"
      by (simp only: upt_conv_Cons less_Suc_eq_le)
    show ?thesis
    proof (cases "\<exists>error. internal_connect retry_count address = Inl (InitialConnectionError error)")
      case False
      then show ?thesis using True upt
        by (subst connect_loop.simps)
          (auto split: sum.split connection_manager_error.split)
    next
      case again: True
      then obtain error where e: "internal_connect retry_count address = Inl (InitialConnectionError error)" ..
      then have "connect_loop url_debug internal_connect address max_attempts retry_count last_error =
          connect_loop url_debug internal_connect address max_attempts (Suc retry_count)
            (Some (InitialConnectionError error))"
        using True by (subst connect_loop.simps) simp
      also have "\<dots> = (case find (\<lambda>k. \<nexists>error. internal_connect k address = Inl (InitialConnectionError error))
           [Suc retry_count..<Suc max_attempts] of
           Some k \<Rightarrow> (internal_connect k address, Suc k)
         | None \<Rightarrow> (Inl (couldnt_connect url_debug
             (if Suc retry_count \<le> max_attempts then Some (projl (internal_connect max_attempts address))
              else Some (InitialConnectionError error)) address max_attempts), Suc max_attempts))"
        by (rule "1.IH" [OF True e]) (use True in auto)
      finally show ?thesis using True upt e
        by (cases "retry_count = max_attempts") (simp_all del: upt_Suc)
    qed
  next
    case False
    then have "retry_count = Suc max_attempts" using "1.prems" by simp
    then show ?thesis by (subst connect_loop.simps) simp
  qed
qed

subsection \<open>Properties\<close>

text \<open>C19: the keep-alive monitor cancels a connection exactly when it is stale.  Whatever the order of
  ticks and checks, the token is cancelled if and only if at some check the last data before it (or,
  if there was none yet, the first check) is longer ago than the configured timeout.\<close>

theorem keep_alive_cancels_iff_stale:
  "ka_cancelled (monitor_run (KeepAliveMonitor_new timeout) events) =
     (\<exists>earlier now later. events = earlier @ Check now # later \<and>
        (case last_activity earlier of None \<Rightarrow> False | Some seen \<Rightarrow> now - seen > timeout))"
  using monitor_run_state [of timeout events] by (simp add: Let_def overdue_def)

text \<open>C20: the initial connection.  The loop makes attempts until one succeeds or fails for good, and
  returns the outcome of that one; if all of them fail temporarily it gives up after one more attempt
  than the configured maximum, with the error of the last one.  The event id, if known, is asked for in
  the query of every attempt.\<close>

theorem connect_returns_first_final_outcome:
  "SseConnection_connect url_debug internal_connect connection current_event_id =
    (let address = (sc_bind_address connection)\<lparr> url_query :=
           (case current_event_id of
              None \<Rightarrow> url_query (sc_bind_address connection)
            | Some event_id \<Rightarrow> Some (''start_from='' @ u32_to_string event_id)) \<rparr>;
         final = (\<lambda>k. \<nexists>error. internal_connect k address = Inl (InitialConnectionError error))
     in case find final [0..<Suc (sc_max_attempts connection)] of
          Some k \<Rightarrow> (internal_connect k address, Suc k)
        | None \<Rightarrow> (Inl (couldnt_connect url_debug
            (Some (projl (internal_connect (sc_max_attempts connection) address))) address
            (sc_max_attempts connection)), Suc (sc_max_attempts connection)))"
  by (cases current_event_id) (simp_all add: SseConnection_connect_def Let_def connect_loop_spec del: upt_Suc)

end
