(* ===== verification/Connection_Manager.thy ===== *)
theory Connection_Manager
  imports Sse_Connection
begin

text \<open>
  The handling of one connection, from \<open>listener/src/connection_manager.rs\<close> and
  \<open>listener/src/types.rs\<close>: the first message has to be the API version, every further
  one is parsed, tagged and passed on, and its id is reported for a later reconnection.
\<close>

subsection \<open>Data\<close>

text \<open>An item of the event stream: an event with its id and data as text, or an error.\<close>

record raw_event =
  raw_id :: string
  raw_data :: string

type_synonym event_result = "string + raw_event"

record sse_event =
  se_id :: u32
  se_data :: sse_data
  se_source :: url
  se_inbound_filter :: sse_filter
  se_api_version :: string
  se_network_name :: string

definition SseEvent_new ::
  "u32 \<Rightarrow> sse_data \<Rightarrow> url \<Rightarrow> sse_filter \<Rightarrow> string \<Rightarrow> string \<Rightarrow> sse_event" where
  "SseEvent_new i d source inbound_filter api_version network_name =
     \<lparr> se_id = i, se_data = d, se_source = source\<lparr> url_path := [] \<rparr>,
       se_inbound_filter = inbound_filter, se_api_version = api_version,
       se_network_name = network_name \<rparr>"

text \<open>What the manager relies on: the parser of events, the textual forms of a version, of a URL and of
  a text, and, for each channel, whether its receiver still takes the next message when a number of
  messages has been sent.\<close>

record cm_env =
  cm_from_str :: "string \<Rightarrow> string + sse_data"
  cm_version_display :: "protocol_version \<Rightarrow> string"
  cm_url_display :: "url \<Rightarrow> string"
  cm_url_debug :: "url \<Rightarrow> string"
  cm_str_debug :: "string \<Rightarrow> string"
  cm_events_open :: "nat \<Rightarrow> bool"
  cm_ids_open :: "nat \<Rightarrow> bool"

text \<open>The manager, with what it has sent over its two channels, the errors it has counted
  and the sizes of messages it has observed.\<close>

record connection_manager =
  cm_bind_address :: url
  cm_current_event_id :: "u32 option"
  cm_filter :: sse_filter
  cm_api_version :: "protocol_version option"
  cm_network_name :: string
  cm_sse_events :: "sse_event list"
  cm_event_ids :: "(sse_filter \<times> u32) list"
  cm_errors :: "string list"
  cm_message_sizes :: "(string \<times> nat) list"

subsection \<open>Operations\<close>

definition starts_with :: "string \<Rightarrow> string \<Rightarrow> bool" where
  "starts_with s p = (take (length p) s = p)"

fun str_contains :: "string \<Rightarrow> string \<Rightarrow> bool" where
  "str_contains [] p = (p = [])"
| "str_contains (c # s) p = (starts_with (c # s) p \<or> str_contains s p)"

definition deserialize :: "cm_env \<Rightarrow> string \<Rightarrow> string + sse_data" where
  "deserialize env json_raw =
     map_err (\<lambda>err. ''Couldn'' @ [CHR 39] @ ''t deserialize Error when deserializing SSE event from node: '' @ err)
       (cm_from_str env json_raw)"

definition count_error :: "string \<Rightarrow> connection_manager \<Rightarrow> connection_manager" where
  "count_error reason cm = cm\<lparr> cm_errors := cm_errors cm @ [reason] \<rparr>"

definition observe_bytes :: "string \<Rightarrow> nat \<Rightarrow> connection_manager \<Rightarrow> connection_manager" where
  "observe_bytes sse_type_label payload_size cm =
     cm\<lparr> cm_message_sizes := cm_message_sizes cm @ [(sse_type_label, payload_size)] \<rparr>"

text \<open>Sending over the channel for events and over the channel for ids.\<close>

definition send_sse_event ::
  "cm_env \<Rightarrow> sse_event \<Rightarrow> connection_manager \<Rightarrow> bool \<times> connection_manager" where
  "send_sse_event env event cm =
     (if cm_events_open env (length (cm_sse_events cm))
      then (True, cm\<lparr> cm_sse_events := cm_sse_events cm @ [event] \<rparr>) else (False, cm))"

definition send_event_id ::
  "cm_env \<Rightarrow> sse_filter \<times> u32 \<Rightarrow> connection_manager \<Rightarrow> bool \<times> connection_manager" where
  "send_event_id env report cm =
     (if cm_ids_open env (length (cm_event_ids cm))
      then (True, cm\<lparr> cm_event_ids := cm_event_ids cm @ [report] \<rparr>) else (False, cm))"

definition ERROR_WHEN_TRYING_TO_SEND_MESSAGE :: string where
  "ERROR_WHEN_TRYING_TO_SEND_MESSAGE =
     ''Error when trying to send message in ConnectionManager#handle_event''"

definition handle_event ::
  "cm_env \<Rightarrow> raw_event \<Rightarrow> connection_manager \<Rightarrow> (anyhow + unit) \<times> connection_manager" where
  "handle_event env event cm =
     (case deserialize env (raw_data event) of
        Inl serde_error \<Rightarrow>
          (Inl [''Serde Error: '' @ serde_error],
           count_error (''deserialization_error:'' @ filter_display (cm_filter cm)) cm)
      | Inr sse_data \<Rightarrow>
          (let cm1 = observe_bytes (type_label sse_data) (length (raw_data event)) cm in
           case cm_api_version cm of
             None \<Rightarrow> (Inl [''Expected ApiVersion to be present when handling messages.''], cm1)
           | Some api_version \<Rightarrow>
               (let sse_event = SseEvent_new (unwrap_or (parse_u32 (raw_id event)) 0) sse_data
                      (cm_bind_address cm) (cm_filter cm) (cm_version_display env api_version)
                      (cm_network_name cm);
                    (sent, cm') = send_sse_event env sse_event cm1
                in if sent then (Inr (), cm')
                   else (Inl [ERROR_WHEN_TRYING_TO_SEND_MESSAGE],
                         count_error ''sending_downstream_failed'' cm'))))"

text \<open>The report of the id of an event, in the loop of \<open>handle_stream\<close>.\<close>

definition observe_event_id ::
  "cm_env \<Rightarrow> raw_event \<Rightarrow> connection_manager \<Rightarrow>
   (connection_manager_error + unit) \<times> connection_manager" where
  "observe_event_id env event cm =
     (case parse_u32 (raw_id event) of
        Some i \<Rightarrow>
          (let (sent, cm') = send_event_id env (cm_filter cm, i) (cm\<lparr> cm_current_event_id := Some i \<rparr>)
           in (if sent then Inr ()
               else Inl (NonRecoverableError [''Error when trying to report observed event id channel closed'']),
               cm'))
      | None \<Rightarrow>
          (Inr (), if str_contains (raw_data event) ''ApiVersion'' then cm
                   else count_error ''event_without_id'' cm))"

fun handle_stream ::
  "cm_env \<Rightarrow> event_result list \<Rightarrow> connection_manager \<Rightarrow>
   (connection_manager_error + unit) \<times> connection_manager" where
  "handle_stream env [] cm =
     (Inl (NonRecoverableError
        [''Event stream closed for filter: '' @ cm_url_debug env (cm_bind_address cm)]), cm)"
| "handle_stream env (Inl stream_error # receiver) cm =
     (Inl (NonRecoverableError
        [''EventStream Error ('' @ filter_display (cm_filter cm) @ ''): '' @ stream_error]),
      count_error ''fetching_from_stream_failed'' cm)"
| "handle_stream env (Inr event # receiver) cm =
     (case observe_event_id env event cm of
        (Inl error, cm1) \<Rightarrow> (Inl error, cm1)
      | (Inr _, cm1) \<Rightarrow>
          (case handle_event env event cm1 of
             (Inl error, cm2) \<Rightarrow> (Inl (NonRecoverableError error), cm2)
           | (Inr _, cm2) \<Rightarrow> handle_stream env receiver cm2))"

definition try_handle_api_version_message ::
  "cm_env \<Rightarrow> raw_event \<Rightarrow> event_result list \<Rightarrow> connection_manager \<Rightarrow>
   (connection_manager_error + event_result list) \<times> connection_manager" where
  "try_handle_api_version_message env event receiver cm =
     (case deserialize env (raw_data event) of
        Inr (ApiVersion semver) \<Rightarrow>
          (let cm1 = (observe_bytes ''ApiVersion'' (length (raw_data event)) cm)
                 \<lparr> cm_api_version := Some semver \<rparr>;
               sse_event = SseEvent_new 0 (ApiVersion semver) (cm_bind_address cm) (cm_filter cm)
                 (cm_version_display env semver) (cm_network_name cm);
               (sent, cm2) = send_sse_event env sse_event cm1
           in if sent then (Inr receiver, cm2)
              else (Inl (NonRecoverableError [ERROR_WHEN_TRYING_TO_SEND_MESSAGE]),
                    count_error ''api_version_sending_failed'' cm2))
      | Inr _ \<Rightarrow>
          (Inl (NonRecoverableError
             [''When trying to deserialize ApiVersion got other type of message'']),
           count_error ''api_version_expected'' cm)
      | Inl x \<Rightarrow>
          (Inl (NonRecoverableError
             [''Error when trying to deserialize ApiVersion '' @ x @ ''. Raw data of event: '' @
              raw_data event]),
           count_error ''api_version_deserialization_failed'' cm))"

fun consume_api_version ::
  "cm_env \<Rightarrow> event_result list \<Rightarrow> connection_manager \<Rightarrow>
   (connection_manager_error + event_result list) \<times> connection_manager" where
  "consume_api_version env [] cm = (Inl (InitialConnectionError [''First event was empty'']), cm)"
| "consume_api_version env (Inl error # receiver) cm =
     (Inl (NonRecoverableError [''failed to get first event: '' @ error]), cm)"
| "consume_api_version env (Inr event # receiver) cm =
     (if str_contains (raw_data event) ''ApiVersion''
      then try_handle_api_version_message env event receiver cm
      else (Inl (NonRecoverableError
        [''Expected first message to be ApiVersion, got: '' @ cm_str_debug env (raw_data event)]), cm))"

text \<open>Connecting: \<open>connector\<close> is the outcome of the connector for the current event id.\<close>

definition cm_connect ::
  "cm_env \<Rightarrow> (u32 option \<Rightarrow> connection_manager_error + event_result list) \<Rightarrow> connection_manager \<Rightarrow>
   (connection_manager_error + event_result list) \<times> connection_manager" where
  "cm_connect env connector cm =
     (case connector (cm_current_event_id cm) of
        Inr event_tx \<Rightarrow> consume_api_version env event_tx cm
      | Inl error \<Rightarrow> (Inl error, cm))"

text \<open>The whole handling; \<open>wait\<close> is the result of the rendezvous with the other connections, if they
  have to be synchronised.  The last component says whether a success or a failure was registered
  there.\<close>

definition do_start_handling ::
  "cm_env \<Rightarrow> (u32 option \<Rightarrow> connection_manager_error + event_result list) \<Rightarrow> bool option \<Rightarrow>
   connection_manager \<Rightarrow>
   (connection_manager_error + unit) \<times> connection_manager \<times> bool option" where
  "do_start_handling env connector maybe_wait cm =
     (case cm_connect env connector cm of
        (Inl error, cm1) \<Rightarrow> (Inl error, cm1, map_option (\<lambda>_. False) maybe_wait)
      | (Inr stream, cm1) \<Rightarrow>
          (case maybe_wait of
             Some False \<Rightarrow>
               (Inl (NonRecoverableError [''Failed to connect to all filters. Disconnecting from '' @
                  cm_url_display env (cm_bind_address cm1)]), cm1, Some True)
           | _ \<Rightarrow>
               (let (result, cm2) = handle_stream env stream cm1
                in (result, cm2, map_option (\<lambda>_. True) maybe_wait))))"

definition new_manager :: "url \<Rightarrow> u32 option \<Rightarrow> sse_filter \<Rightarrow> string \<Rightarrow> connection_manager" where
  "new_manager bind_address start_from_event_id inbound_filter network_name =
     \<lparr> cm_bind_address = bind_address, cm_current_event_id = start_from_event_id, cm_filter = inbound_filter,
       cm_api_version = None, cm_network_name = network_name, cm_sse_events = [], cm_event_ids = [],
       cm_errors = [], cm_message_sizes = [] \<rparr>"

subsection \<open>Specification\<close>

text \<open>The events a connection passes on: those up to the first error of the stream or of the parser.
  The id of an event that cannot be parsed is still reported.\<close>

fun accepted :: "cm_env \<Rightarrow> event_result list \<Rightarrow> (raw_event \<times> sse_data) list" where
  "accepted env (Inr event # items) =
     (case deserialize env (raw_data event) of
        Inr d \<Rightarrow> (event, d) # accepted env items
      | Inl _ \<Rightarrow> [])"
| "accepted env (Inl _ # items) = []"
| "accepted env [] = []"

fun observed_ids :: "cm_env \<Rightarrow> event_result list \<Rightarrow> u32 list" where
  "observed_ids env (Inr event # items) =
     (case parse_u32 (raw_id event) of None \<Rightarrow> [] | Some i \<Rightarrow> [i]) @
     (case deserialize env (raw_data event) of Inr _ \<Rightarrow> observed_ids env items | Inl _ \<Rightarrow> [])"
| "observed_ids env (Inl _ # items) = []"
| "observed_ids env [] = []"

definition tagged :: "cm_env \<Rightarrow> connection_manager \<Rightarrow> protocol_version \<Rightarrow> raw_event \<times> sse_data \<Rightarrow> sse_event" where
  "tagged env cm version = (\<lambda>(event, d).
     SseEvent_new (unwrap_or (parse_u32 (raw_id event)) 0) d (cm_bind_address cm) (cm_filter cm)
       (cm_version_display env version) (cm_network_name cm))"

text \<open>A session: the API version the connection starts with and what follows it.\<close>

fun session :: "cm_env \<Rightarrow> connection_manager_error + event_result list \<Rightarrow>
  (protocol_version \<times> event_result list) option" where
  "session env (Inr (Inr event # items)) =
     (if str_contains (raw_data event) ''ApiVersion'' then
        (case deserialize env (raw_data event) of
           Inr (ApiVersion version) \<Rightarrow> Some (version, items)
         | _ \<Rightarrow> None)
      else None)"
| "session env (Inr (Inl _ # items)) = None"
| "session env (Inr []) = None"
| "session env (Inl _) = None"

definition channels_open :: "cm_env \<Rightarrow> bool" where
  "channels_open env \<longleftrightarrow> (\<forall>n. cm_events_open env n \<and> cm_ids_open env n)"

subsection \<open>Lemmas\<close>

lemma count_error_simps [simp]:
  "cm_bind_address (count_error r cm) = cm_bind_address cm" "cm_filter (count_error r cm) = cm_filter cm"
  "cm_api_version (count_error r cm) = cm_api_version cm"
  "cm_network_name (count_error r cm) = cm_network_name cm"
  "cm_sse_events (count_error r cm) = cm_sse_events cm" "cm_event_ids (count_error r cm) = cm_event_ids cm"
  "cm_current_event_id (count_error r cm) = cm_current_event_id cm"
  by (simp_all add: count_error_def)

lemma observe_bytes_simps [simp]:
  "cm_bind_address (observe_bytes l n cm) = cm_bind_address cm"
  "cm_filter (observe_bytes l n cm) = cm_filter cm"
  "cm_api_version (observe_bytes l n cm) = cm_api_version cm"
  "cm_network_name (observe_bytes l n cm) = cm_network_name cm"
  "cm_sse_events (observe_bytes l n cm) = cm_sse_events cm"
  "cm_event_ids (observe_bytes l n cm) = cm_event_ids cm"
  "cm_current_event_id (observe_bytes l n cm) = cm_current_event_id cm"
  by (simp_all add: observe_bytes_def)

lemma send_open [simp]:
  "channels_open env \<Longrightarrow> send_sse_event env e cm = (True, cm\<lparr> cm_sse_events := cm_sse_events cm @ [e] \<rparr>)"
  "channels_open env \<Longrightarrow> send_event_id env r cm = (True, cm\<lparr> cm_event_ids := cm_event_ids cm @ [r] \<rparr>)"
  by (simp_all add: send_sse_event_def send_event_id_def channels_open_def)

abbreviation cm_identity ::
  "connection_manager \<Rightarrow> url \<times> sse_filter \<times> protocol_version option \<times> string" where
  "cm_identity cm \<equiv> (cm_bind_address cm, cm_filter cm, cm_api_version cm, cm_network_name cm)"

lemma observe_event_id_open:
  assumes "channels_open env"
  shows "\<exists>cm'. observe_event_id env event cm = (Inr (), cm') \<and> cm_identity cm' = cm_identity cm \<and>
    cm_sse_events cm' = cm_sse_events cm \<and>
    cm_event_ids cm' = cm_event_ids cm @ map (Pair (cm_filter cm))
       (case parse_u32 (raw_id event) of None \<Rightarrow> [] | Some i \<Rightarrow> [i]) \<and>
    cm_current_event_id cm' = (case parse_u32 (raw_id event) of
       None \<Rightarrow> cm_current_event_id cm | Some i \<Rightarrow> Some i)"
  using assms by (cases "parse_u32 (raw_id event)") (simp_all add: observe_event_id_def)

lemma handle_event_open:
  assumes "channels_open env" and "cm_api_version cm = Some version"
    and "deserialize env (raw_data event) = Inr d"
  shows "\<exists>cm'. handle_event env event cm = (Inr (), cm') \<and> cm_identity cm' = cm_identity cm \<and>
    cm_sse_events cm' = cm_sse_events cm @ [tagged env cm version (event, d)] \<and>
    cm_event_ids cm' = cm_event_ids cm \<and> cm_current_event_id cm' = cm_current_event_id cm"
  using assms by (simp add: handle_event_def tagged_def Let_def)

lemma handle_event_error:
  assumes "deserialize env (raw_data event) = Inl e"
  shows "\<exists>error cm'. handle_event env event cm = (Inl error, cm') \<and>
    cm_sse_events cm' = cm_sse_events cm \<and> cm_event_ids cm' = cm_event_ids cm \<and>
    cm_current_event_id cm' = cm_current_event_id cm"
  using assms by (simp add: handle_event_def)

lemma tagged_cong: "cm_identity cm' = cm_identity cm \<Longrightarrow> tagged env cm' version = tagged env cm version"
  by (simp add: tagged_def fun_eq_iff)

text \<open>With open channels the stream is handled up to the first error, which ends the connection.\<close>

lemma handle_stream_open:
  "channels_open env \<Longrightarrow> cm_api_version cm = Some version \<Longrightarrow>
   \<exists>error cm'. handle_stream env items cm = (Inl (NonRecoverableError error), cm') \<and>
     cm_sse_events cm' = cm_sse_events cm @ map (tagged env cm version) (accepted env items) \<and>
     cm_event_ids cm' = cm_event_ids cm @ map (Pair (cm_filter cm)) (observed_ids env items) \<and>
     cm_current_event_id cm' =
       (if observed_ids env items = [] then cm_current_event_id cm else Some (last (observed_ids env items)))"
proof (induction env items cm rule: handle_stream.induct)
  case (3 env event items cm)
  obtain cm1 where cm1: "observe_event_id env event cm = (Inr (), cm1)" "cm_identity cm1 = cm_identity cm"
    "cm_sse_events cm1 = cm_sse_events cm"
    "cm_event_ids cm1 = cm_event_ids cm @ map (Pair (cm_filter cm))
       (case parse_u32 (raw_id event) of None \<Rightarrow> [] | Some i \<Rightarrow> [i])"
    "cm_current_event_id cm1 = (case parse_u32 (raw_id event) of
       None \<Rightarrow> cm_current_event_id cm | Some i \<Rightarrow> Some i)"
    using observe_event_id_open [OF "3.prems"(1)] by blast
  show ?case
  proof (cases "deserialize env (raw_data event)")
    case (Inl e)
    then show ?thesis
      using handle_event_error [OF Inl, of cm1] cm1 by (auto split: option.split)
  next
    case (Inr d)
    have version: "cm_api_version cm1 = Some version" using cm1(2) "3.prems"(2) by simp
    obtain cm2 where cm2: "handle_event env event cm1 = (Inr (), cm2)" "cm_identity cm2 = cm_identity cm1"
      "cm_sse_events cm2 = cm_sse_events cm1 @ [tagged env cm1 version (event, d)]"
      "cm_event_ids cm2 = cm_event_ids cm1" "cm_current_event_id cm2 = cm_current_event_id cm1"
      using handle_event_open [OF "3.prems"(1) version Inr] by blast
    have same: "tagged env cm1 version = tagged env cm version" "tagged env cm2 version = tagged env cm version"
      using tagged_cong cm1(2) cm2(2) by metis+
    have "cm_api_version cm2 = Some version" using cm2(2) version by simp
    then obtain error cm' where
      "handle_stream env items cm2 = (Inl (NonRecoverableError error), cm')"
      "cm_sse_events cm' = cm_sse_events cm2 @ map (tagged env cm2 version) (accepted env items)"
      "cm_event_ids cm' = cm_event_ids cm2 @ map (Pair (cm_filter cm2)) (observed_ids env items)"
      "cm_current_event_id cm' = (if observed_ids env items = [] then cm_current_event_id cm2
         else Some (last (observed_ids env items)))"
      using "3.IH" [OF cm1(1) [symmetric] refl cm2(1) [symmetric] refl "3.prems"(1)] by auto
    then show ?thesis
      using cm1 cm2 Inr same by (auto split: option.split)
  qed
qed simp_all

lemma api_version_message_open:
  assumes "channels_open env" and "session env (Inr items0) = Some (version, items)"
  shows "\<exists>cm'. consume_api_version env items0 cm = (Inr items, cm') \<and>
    cm_identity cm' = (cm_bind_address cm, cm_filter cm, Some version, cm_network_name cm) \<and>
    cm_sse_events cm' = cm_sse_events cm @ [SseEvent_new 0 (ApiVersion version) (cm_bind_address cm)
       (cm_filter cm) (cm_version_display env version) (cm_network_name cm)] \<and>
    cm_event_ids cm' = cm_event_ids cm"
  using assms
  by (cases "(env, Inr items0 :: connection_manager_error + event_result list)" rule: session.cases)
    (auto simp: try_handle_api_version_message_def split: if_splits sum.splits sse_data.splits)

lemma no_session:
  assumes "channels_open env" and "session env (Inr items0) = None"
  shows "\<exists>error cm'. consume_api_version env items0 cm = (Inl error, cm') \<and>
    cm_sse_events cm' = cm_sse_events cm \<and> cm_event_ids cm' = cm_event_ids cm"
  using assms
  by (cases "(env, Inr items0 :: connection_manager_error + event_result list)" rule: session.cases)
    (auto simp: try_handle_api_version_message_def split: if_splits sum.splits sse_data.splits)

lemma tagged_new_manager:
  "tagged env (new_manager address start_from inbound_filter network) version =
     (\<lambda>(event, d). SseEvent_new (unwrap_or (parse_u32 (raw_id event)) 0) d address inbound_filter
        (cm_version_display env version) network)"
  by (simp add: tagged_def new_manager_def)

lemma do_start_handling_open:
  assumes "channels_open env"
  shows "\<exists>error cm' registered.
     do_start_handling env connector maybe_wait (new_manager address start_from inbound_filter network) =
       (Inl error, cm', registered) \<and>
     (case session env (connector start_from) of
        None \<Rightarrow> cm_sse_events cm' = [] \<and> cm_event_ids cm' = [] \<and>
          registered = map_option (\<lambda>_. False) maybe_wait
      | Some (version, items) \<Rightarrow>
          registered = map_option (\<lambda>_. True) maybe_wait \<and>
          cm_sse_events cm' =
            SseEvent_new 0 (ApiVersion version) address inbound_filter (cm_version_display env version) network #
            (if maybe_wait = Some False then []
             else map (tagged env (new_manager address start_from inbound_filter network) version) (accepted env items)) \<and>
          cm_event_ids cm' =
            (if maybe_wait = Some False then [] else map (Pair inbound_filter) (observed_ids env items)))"
proof (cases "connector start_from")
  case (Inl error)
  then show ?thesis by (simp add: do_start_handling_def cm_connect_def new_manager_def)
next
  case (Inr items0)
  define cm where "cm = new_manager address start_from inbound_filter network"
  have cm: "cm_current_event_id cm = start_from" "cm_sse_events cm = []" "cm_event_ids cm = []"
    "cm_bind_address cm = address" "cm_filter cm = inbound_filter" "cm_network_name cm = network"
    by (simp_all add: cm_def new_manager_def)
  show ?thesis
  proof (cases "session env (connector start_from)")
    case None
    then show ?thesis
      using no_session [OF assms, of items0 cm] Inr cm
      by (auto simp: do_start_handling_def cm_connect_def simp flip: cm_def)
  next
    case (Some a)
    then obtain version items where s: "session env (Inr items0) = Some (version, items)"
      using Inr by (cases a) simp
    obtain cm1 where cm1: "consume_api_version env items0 cm = (Inr items, cm1)"
      "cm_identity cm1 = (address, inbound_filter, Some version, network)"
      "cm_sse_events cm1 = [SseEvent_new 0 (ApiVersion version) address inbound_filter
         (cm_version_display env version) network]" "cm_event_ids cm1 = []"
      using api_version_message_open [OF assms s, of cm] cm by auto
    obtain error cm2 where cm2: "handle_stream env items cm1 = (Inl (NonRecoverableError error), cm2)"
      "cm_sse_events cm2 = cm_sse_events cm1 @ map (tagged env cm1 version) (accepted env items)"
      "cm_event_ids cm2 = cm_event_ids cm1 @ map (Pair (cm_filter cm1)) (observed_ids env items)"
      using handle_stream_open [OF assms, of cm1 version items] cm1(2) by auto
    have "tagged env cm1 version = tagged env cm version"
      using cm1(2) cm by (simp add: tagged_def)
    then show ?thesis
      using s Inr cm cm1 cm2
      by (auto simp: do_start_handling_def cm_connect_def simp flip: cm_def split: option.split bool.split)
  qed
qed

subsection \<open>Property\<close>

text \<open>C16: what a connection passes on.  If the first message of the stream is the API version, it is
  sent on, and then, unless another connection failed, every event up to the first one that cannot be
  read or parsed, in order, each with its id, the version, the network and the filter, and the ids are
  reported in the same order; otherwise nothing is sent and a failure is registered.  In both cases the
  handling ends with an error.\<close>

theorem session_forwards_events:
  assumes "channels_open env"
  shows "\<exists>error cm' registered.
     do_start_handling env connector maybe_wait (new_manager address start_from inbound_filter network) =
       (Inl error, cm', registered) \<and>
     (case session env (connector start_from) of
        None \<Rightarrow> cm_sse_events cm' = [] \<and> cm_event_ids cm' = [] \<and>
          registered = map_option (\<lambda>_. False) maybe_wait
      | Some (version, items) \<Rightarrow>
          registered = map_option (\<lambda>_. True) maybe_wait \<and>
          cm_sse_events cm' =
            SseEvent_new 0 (ApiVersion version) address inbound_filter (cm_version_display env version) network #
            (if maybe_wait = Some False then []
             else map (\<lambda>(event, d). SseEvent_new (unwrap_or (parse_u32 (raw_id event)) 0) d address
                    inbound_filter (cm_version_display env version) network) (accepted env items)) \<and>
          cm_event_ids cm' =
            (if maybe_wait = Some False then [] else map (Pair inbound_filter) (observed_ids env items)))"
  using do_start_handling_open [OF assms, of connector maybe_wait address start_from inbound_filter network]
  unfolding tagged_new_manager .

text \<open>A parser of two messages, for the witness.\<close>

definition sample_env :: cm_env where
  "sample_env = \<lparr> cm_from_str = (\<lambda>s. if s = ''ApiVersion'' then Inr (ApiVersion (ProtocolVersion 2 0 0))
       else if s = ''Shutdown'' then Inr Shutdown else Inl ''bad''),
     cm_version_display = (\<lambda>_. ''2.0.0''), cm_url_display = url_address, cm_url_debug = url_address,
     cm_str_debug = id, cm_events_open = (\<lambda>_. True), cm_ids_open = (\<lambda>_. True) \<rparr>"

definition sample_url :: url where
  "sample_url = \<lparr> url_address = ''http://node'', url_path = ''events'', url_query = None \<rparr>"

definition sample_stream :: "event_result list" where
  "sample_stream = [Inr \<lparr> raw_id = [], raw_data = ''ApiVersion'' \<rparr>,
     Inr \<lparr> raw_id = u32_to_string 7, raw_data = ''Shutdown'' \<rparr>, Inr \<lparr> raw_id = u32_to_string 8, raw_data = ''?'' \<rparr>]"

theorem session_forwards_events_witness:
  "\<exists>error cm' registered.
     do_start_handling sample_env (\<lambda>_. Inr sample_stream) None (new_manager sample_url (Some 0) Events ''net'') =
       (Inl error, cm', registered) \<and>
     map se_id (cm_sse_events cm') = [0, 7] \<and> cm_event_ids cm' = [(Events, 7), (Events, 8)]"
proof -
  have "channels_open sample_env" by (simp add: channels_open_def sample_env_def)
  moreover have "session sample_env (Inr sample_stream) = Some (ProtocolVersion 2 0 0, tl sample_stream)"
    by (simp add: sample_env_def sample_stream_def deserialize_def starts_with_def)
  moreover have "accepted sample_env (tl sample_stream) =
      [(\<lparr> raw_id = u32_to_string 7, raw_data = ''Shutdown'' \<rparr>, Shutdown)]"
    "observed_ids sample_env (tl sample_stream) = [7, 8]"
    by (simp_all add: sample_env_def sample_stream_def deserialize_def)
  ultimately show ?thesis
    using session_forwards_events [of sample_env "\<lambda>_. Inr sample_stream" None sample_url "Some 0" Events "''net''"]
    by (auto simp: SseEvent_new_def)
qed

end
