(* ===== verification/Connection_Tasks.thy ===== *)
theory Connection_Tasks
  imports Sidecar_Prelude
begin

text \<open>
  The rendezvous of the connection tasks of a listener, from
  \<open>listener/src/connection_tasks.rs\<close>: every task reports its success or failure, and
  those that connected wait for the overall result.  The atomic operations of the
  tasks interleave; the model has one step for each of them, with the waiting queue
  and the stored permit of tokio's \<open>Notify\<close>.
\<close>

text \<open>Where a task is in \<open>register_success\<close>, \<open>register_failure\<close> and \<open>wait\<close>, which
  \<open>do_start_handling\<close> calls after connecting: before the counter is raised or the flag set, between
  the atomic operations, in the queue of the notifier, or returned with the overall result.\<close>

datatype task_pc =
    Connecting
  | Added nat
  | Notifying_Success
  | Notifying_Failure
  | Check_Failure
  | Check_Successes
  | Awaiting
  | Waiting
  | Woken
  | Returned bool

record connection_tasks =
  ct_total :: nat
  ct_successes :: nat
  ct_failure :: bool
  ct_permit :: bool
  ct_waiters :: "nat list"
  ct_pc :: "nat \<Rightarrow> task_pc"

definition ConnectionTasks_new :: "nat \<Rightarrow> connection_tasks" where
  "ConnectionTasks_new n =
     \<lparr> ct_total = n, ct_successes = 0, ct_failure = False, ct_permit = False, ct_waiters = [],
       ct_pc = (\<lambda>_. Connecting) \<rparr>"

definition goto :: "connection_tasks \<Rightarrow> nat \<Rightarrow> task_pc \<Rightarrow> connection_tasks" where
  "goto s i pc = s\<lparr> ct_pc := (ct_pc s)(i := pc) \<rparr>"

text \<open>\<open>Notify::notify_one\<close>: the first waiting task is woken, or a permit is stored.\<close>

definition notify_one :: "connection_tasks \<Rightarrow> connection_tasks" where
  "notify_one s =
     (case ct_waiters s of
        [] \<Rightarrow> s\<lparr> ct_permit := True \<rparr>
      | w # ws \<Rightarrow> goto (s\<lparr> ct_waiters := ws \<rparr>) w Woken)"

text \<open>The first atomic operation of the two ways to register.\<close>

definition register_success :: "connection_tasks \<Rightarrow> nat \<Rightarrow> connection_tasks" where
  "register_success s i =
     (let successes = Suc (ct_successes s) in
      goto (s\<lparr> ct_successes := successes \<rparr>) i (Added successes))"

definition register_failure :: "connection_tasks \<Rightarrow> nat \<Rightarrow> connection_tasks" where
  "register_failure s i = goto (s\<lparr> ct_failure := True \<rparr>) i Notifying_Failure"

text \<open>\<open>Notify::notified\<close> takes a stored permit or queues the task.\<close>

definition notified :: "connection_tasks \<Rightarrow> nat \<Rightarrow> connection_tasks" where
  "notified s i =
     (if ct_permit s then goto (s\<lparr> ct_permit := False \<rparr>) i Woken
      else goto (s\<lparr> ct_waiters := ct_waiters s @ [i] \<rparr>) i Waiting)"

text \<open>One atomic operation of task \<open>i\<close>; \<open>connected i\<close> is the outcome of its connection attempt.\<close>

definition task_step :: "(nat \<Rightarrow> bool) \<Rightarrow> connection_tasks \<Rightarrow> nat \<Rightarrow> connection_tasks option" where
  "task_step connected s i =
     (if ct_total s \<le> i then None
      else case ct_pc s i of
        Connecting \<Rightarrow> Some (if connected i then register_success s i else register_failure s i)
      | Added successes \<Rightarrow>
          Some (goto s i (if ct_total s \<le> successes \<or> ct_failure s then Notifying_Success
                          else Check_Failure))
      | Notifying_Success \<Rightarrow> Some (goto (notify_one s) i Check_Failure)
      | Notifying_Failure \<Rightarrow> Some (goto (notify_one s) i (Returned False))
      | Check_Failure \<Rightarrow> Some (goto s i (if ct_failure s then Returned False else Check_Successes))
      | Check_Successes \<Rightarrow>
          Some (goto s i (if ct_total s \<le> ct_successes s then Returned True else Awaiting))
      | Awaiting \<Rightarrow> Some (notified s i)
      | Waiting \<Rightarrow> None
      | Woken \<Rightarrow> Some (goto (notify_one s) i Check_Failure)
      | Returned _ \<Rightarrow> None)"

text \<open>A step of any task, and the run of a schedule.\<close>

inductive tasks_step :: "(nat \<Rightarrow> bool) \<Rightarrow> connection_tasks \<Rightarrow> connection_tasks \<Rightarrow> bool"
  for connected :: "nat \<Rightarrow> bool" where
  tasks_step_task: "task_step connected s i = Some s' \<Longrightarrow> tasks_step connected s s'"

inductive_cases tasks_stepE: "tasks_step connected s s'"

fun tasks_run :: "(nat \<Rightarrow> bool) \<Rightarrow> nat list \<Rightarrow> connection_tasks \<Rightarrow> connection_tasks option" where
  "tasks_run connected [] s = Some s"
| "tasks_run connected (i # schedule) s =
     (case task_step connected s i of None \<Rightarrow> None | Some s' \<Rightarrow> tasks_run connected schedule s')"

lemma tasks_run_steps:
  "tasks_run connected schedule s = Some s' \<Longrightarrow> (tasks_step connected ^^ length schedule) s s'"
proof (induction schedule arbitrary: s)
  case (Cons i schedule)
  then obtain t where "task_step connected s i = Some t" "tasks_run connected schedule t = Some s'"
    by (auto split: option.splits)
  then have "tasks_step connected s t" "(tasks_step connected ^^ length schedule) t s'"
    using Cons.IH by (auto intro: tasks_step_task)
  then show ?case by (simp only: list.size add_Suc_right add_0_right relpowp_Suc_I2)
qed simp

subsection \<open>The invariant\<close>

definition decided :: "connection_tasks \<Rightarrow> bool" where
  "decided s \<longleftrightarrow> ct_failure s \<or> ct_total s \<le> ct_successes s"

definition registered :: "(nat \<Rightarrow> bool) \<Rightarrow> connection_tasks \<Rightarrow> nat set" where
  "registered connected s = {i. i < ct_total s \<and> connected i \<and> ct_pc s i \<noteq> Connecting}"

text \<open>A task that is going to notify another one.\<close>

fun will_notify :: "connection_tasks \<Rightarrow> task_pc \<Rightarrow> bool" where
  "will_notify s (Added successes) = (ct_total s \<le> successes \<or> ct_failure s)"
| "will_notify s Notifying_Success = True"
| "will_notify s Notifying_Failure = True"
| "will_notify s Woken = True"
| "will_notify s _ = False"

definition notification_pending :: "connection_tasks \<Rightarrow> bool" where
  "notification_pending s \<longleftrightarrow> (\<exists>i < ct_total s. will_notify s (ct_pc s i))"

text \<open>The counter and the flag say what has been registered; the queue holds the waiting tasks; a
  returned result is the decision; and the decision is never unnoticed: as long as a task has to be
  told, some task is going to notify, or the permit is there and nobody waits.\<close>

definition counters_inv :: "(nat \<Rightarrow> bool) \<Rightarrow> connection_tasks \<Rightarrow> bool" where
  "counters_inv connected s \<longleftrightarrow>
     ct_successes s = card (registered connected s) \<and>
     (ct_failure s \<longleftrightarrow> (\<exists>i < ct_total s. \<not> connected i \<and> ct_pc s i \<noteq> Connecting))"

definition queue_inv :: "connection_tasks \<Rightarrow> bool" where
  "queue_inv s \<longleftrightarrow> distinct (ct_waiters s) \<and>
     set (ct_waiters s) = {i. i < ct_total s \<and> ct_pc s i = Waiting}"

definition result_inv :: "connection_tasks \<Rightarrow> bool" where
  "result_inv s \<longleftrightarrow> (\<forall>i < ct_total s.
     (ct_pc s i = Returned True \<longrightarrow> ct_total s \<le> ct_successes s) \<and>
     (ct_pc s i = Returned False \<longrightarrow> ct_failure s))"

definition wake_inv :: "connection_tasks \<Rightarrow> bool" where
  "wake_inv s \<longleftrightarrow>
     (decided s \<longrightarrow> notification_pending s \<or> ct_permit s \<and> ct_waiters s = []) \<and>
     (ct_permit s \<or> notification_pending s \<longrightarrow> decided s)"

definition added_inv :: "connection_tasks \<Rightarrow> bool" where
  "added_inv s \<longleftrightarrow> (\<forall>i < ct_total s. \<forall>n. ct_pc s i = Added n \<longrightarrow> n \<le> ct_successes s)"

definition failing_inv :: "(nat \<Rightarrow> bool) \<Rightarrow> connection_tasks \<Rightarrow> bool" where
  "failing_inv connected s \<longleftrightarrow>
     (\<forall>i < ct_total s. ct_pc s i = Notifying_Failure \<longrightarrow> \<not> connected i)"

definition tasks_inv :: "(nat \<Rightarrow> bool) \<Rightarrow> connection_tasks \<Rightarrow> bool" where
  "tasks_inv connected s \<longleftrightarrow> counters_inv connected s \<and> queue_inv s \<and> result_inv s \<and>
     wake_inv s \<and> added_inv s \<and> failing_inv connected s"

lemma goto_simps [simp]:
  "ct_total (goto s i pc) = ct_total s" "ct_successes (goto s i pc) = ct_successes s"
  "ct_failure (goto s i pc) = ct_failure s" "ct_permit (goto s i pc) = ct_permit s"
  "ct_waiters (goto s i pc) = ct_waiters s" "ct_pc (goto s i pc) = (ct_pc s)(i := pc)"
  by (simp_all add: goto_def)

lemma notify_one_simps [simp]:
  "ct_total (notify_one s) = ct_total s" "ct_successes (notify_one s) = ct_successes s"
  "ct_failure (notify_one s) = ct_failure s" "ct_waiters (notify_one s) = tl (ct_waiters s)"
  "ct_permit (notify_one s) = (ct_permit s \<or> ct_waiters s = [])"
  by (simp_all add: notify_one_def split: list.split)

lemma notify_one_pc:
  "ct_pc (notify_one s) j =
     (if ct_waiters s \<noteq> [] \<and> j = hd (ct_waiters s) then Woken else ct_pc s j)"
  by (simp add: notify_one_def split: list.split)

lemmas task_ops = register_success_def register_failure_def notified_def Let_def

text \<open>How a step looks: which task moves, from where.\<close>

lemma task_step_cases:
  assumes "task_step connected s i = Some s'"
  obtains
    (success) "ct_pc s i = Connecting" "connected i" "s' = register_success s i" "i < ct_total s"
  | (failure) "ct_pc s i = Connecting" "\<not> connected i" "s' = register_failure s i" "i < ct_total s"
  | (notify) pc where "will_notify s (ct_pc s i)" "pc = Check_Failure \<or>
       ct_pc s i = Notifying_Failure \<and> pc = Returned False" "\<nexists>n. ct_pc s i = Added n"
       "s' = goto (notify_one s) i pc" "i < ct_total s"
  | (to_notify) n where "ct_pc s i = Added n" "will_notify s (Added n)" "s' = goto s i Notifying_Success"
       "i < ct_total s"
  | (await) "ct_pc s i = Awaiting" "s' = notified s i" "i < ct_total s"
  | (local) pc where "\<not> will_notify s (ct_pc s i)" "s' = goto s i pc" "i < ct_total s"
       "ct_pc s i \<noteq> Connecting" "ct_pc s i \<noteq> Waiting" "\<not> will_notify s pc" "pc \<noteq> Waiting"
       "pc \<noteq> Connecting" "\<nexists>n. pc = Added n"
       "pc = Returned True \<longrightarrow> ct_total s \<le> ct_successes s" "pc = Returned False \<longrightarrow> ct_failure s"
  using assms
  by (cases "ct_pc s i") (auto simp: task_step_def split: if_splits)

lemma counters_inv_cong:
  assumes "ct_total s' = ct_total s" "ct_successes s' = ct_successes s" "ct_failure s' = ct_failure s"
    and "\<And>j. j < ct_total s \<Longrightarrow> (ct_pc s' j = Connecting) = (ct_pc s j = Connecting)"
  shows "counters_inv connected s' = counters_inv connected s"
proof -
  have "registered connected s' = registered connected s" using assms by (auto simp: registered_def)
  then show ?thesis using assms by (auto simp: counters_inv_def)
qed

lemma counters_inv_step:
  assumes "task_step connected s i = Some s'" and "counters_inv connected s" and "queue_inv s"
  shows "counters_inv connected s'"
  using assms(1)
proof (cases rule: task_step_cases)
  case success
  then have "registered connected s' = insert i (registered connected s)"
    by (auto simp: registered_def task_ops)
  moreover have "i \<notin> registered connected s" "finite (registered connected s)"
    using success by (simp_all add: registered_def)
  ultimately show ?thesis using assms(2) success by (auto simp: counters_inv_def task_ops)
next
  case failure
  then have "registered connected s' = registered connected s"
    by (auto simp: registered_def task_ops)
  then show ?thesis using assms(2) failure by (auto simp: counters_inv_def task_ops)
next
  case (notify pc)
  have "(ct_pc s' j = Connecting) = (ct_pc s j = Connecting)" if "j < ct_total s" for j
    using notify assms(3) that hd_in_set [of "ct_waiters s"]
    by (auto simp: notify_one_pc queue_inv_def)
  then have "counters_inv connected s' = counters_inv connected s"
    using notify by (intro counters_inv_cong) simp_all
  then show ?thesis using assms(2) by simp
next
  case (to_notify n)
  then have "counters_inv connected s' = counters_inv connected s"
    by (intro counters_inv_cong) simp_all
  then show ?thesis using assms(2) by simp
next
  case await
  then have "counters_inv connected s' = counters_inv connected s"
    by (intro counters_inv_cong) (simp_all add: notified_def)
  then show ?thesis using assms(2) by simp
next
  case (local pc)
  then have "counters_inv connected s' = counters_inv connected s"
    by (intro counters_inv_cong) simp_all
  then show ?thesis using assms(2) by simp
qed

definition waiting :: "connection_tasks \<Rightarrow> nat set" where
  "waiting s = {i. i < ct_total s \<and> ct_pc s i = Waiting}"

lemma waiting_update:
  assumes "ct_total t = ct_total s" and "ct_pc t = (ct_pc s)(i := pc)" and "ct_pc s i \<noteq> Waiting"
    and "i < ct_total s"
  shows "waiting t = (if pc = Waiting then insert i (waiting s) else waiting s)"
  using assms by (auto simp: waiting_def)

lemma queue_inv_iff: "queue_inv s \<longleftrightarrow> distinct (ct_waiters s) \<and> set (ct_waiters s) = waiting s"
  by (simp add: queue_inv_def waiting_def)

lemma queue_inv_step:
  assumes "task_step connected s i = Some s'" and "queue_inv s"
  shows "queue_inv s'"
  using assms(1)
proof (cases rule: task_step_cases)
  case (notify pc)
  then have i: "ct_pc s i \<noteq> Waiting" and pc: "pc \<noteq> Waiting" by auto
  show ?thesis
  proof (cases "ct_waiters s")
    case Nil
    then have "waiting s' = waiting s"
      using i pc notify(5) by (auto simp: waiting_def notify(4) notify_one_pc)
    then show ?thesis using assms(2) Nil by (simp add: queue_inv_iff notify(4))
  next
    case (Cons w ws)
    then have "waiting s' = waiting s - {w}"
      using i pc by (auto simp: waiting_def notify(4) notify_one_pc)
    then show ?thesis using assms(2) Cons by (auto simp: queue_inv_iff notify(4))
  qed
next
  case success
  then have "waiting s' = waiting s" by (subst waiting_update [where i = i]) (auto simp: task_ops)
  then show ?thesis using assms(2) success by (simp add: queue_inv_iff task_ops)
next
  case failure
  then have "waiting s' = waiting s" by (subst waiting_update [where i = i]) (auto simp: task_ops)
  then show ?thesis using assms(2) failure by (simp add: queue_inv_iff task_ops)
next
  case (to_notify n)
  then have "waiting s' = waiting s" by (subst waiting_update [where i = i]) auto
  then show ?thesis using assms(2) to_notify by (simp add: queue_inv_iff)
next
  case await
  then have "waiting s' = (if ct_permit s then waiting s else insert i (waiting s))"
    by (subst waiting_update [where i = i and pc = "if ct_permit s then Woken else Waiting"])
      (auto simp: notified_def)
  moreover have "i \<notin> waiting s" using await by (simp add: waiting_def)
  ultimately show ?thesis using assms(2) await by (simp add: queue_inv_iff notified_def)
next
  case (local pc)
  then have "waiting s' = waiting s" by (subst waiting_update [where i = i]) auto
  then show ?thesis using assms(2) local by (simp add: queue_inv_iff)
qed

lemma result_inv_step:
  assumes "task_step connected s i = Some s'" and "result_inv s" and "failing_inv connected s"
    and "counters_inv connected s"
  shows "result_inv s'"
  using assms(1)
proof (cases rule: task_step_cases)
  case (notify pc)
  then have "ct_pc s i = Notifying_Failure \<Longrightarrow> ct_failure s"
    using assms(3,4) by (auto simp: failing_inv_def counters_inv_def)
  then show ?thesis using notify assms(2) by (auto simp: result_inv_def notify_one_pc)
qed (use assms(2) in \<open>auto simp: result_inv_def task_ops le_SucI\<close>)

lemma added_inv_step:
  assumes "task_step connected s i = Some s'" and "added_inv s"
  shows "added_inv s'"
  using assms(1)
proof (cases rule: task_step_cases)
  case (notify pc)
  then show ?thesis using assms(2) by (auto simp: added_inv_def notify_one_pc)
qed (use assms(2) in \<open>auto simp: added_inv_def task_ops le_SucI\<close>)

lemma failing_inv_step:
  assumes "task_step connected s i = Some s'" and "failing_inv connected s"
  shows "failing_inv connected s'"
  using assms(1)
proof (cases rule: task_step_cases)
  case (notify pc)
  then show ?thesis using assms(2) by (auto simp: failing_inv_def notify_one_pc)
next
  case (local pc)
  then show ?thesis using assms(2) by (auto simp: failing_inv_def)
qed (use assms(2) in \<open>auto simp: failing_inv_def task_ops\<close>)

lemma will_notify_cong:
  "ct_total s' = ct_total s \<Longrightarrow> ct_failure s' = ct_failure s \<Longrightarrow> will_notify s' pc = will_notify s pc"
  by (cases pc) simp_all

lemma notification_pendingI:
  "i < ct_total s \<Longrightarrow> will_notify s (ct_pc s i) \<Longrightarrow> notification_pending s"
  by (auto simp: notification_pending_def)

lemma notification_pending_goto:
  assumes "\<not> will_notify s (ct_pc s i)" and "ct_total t = ct_total s" "ct_failure t = ct_failure s"
    and "ct_pc t = (ct_pc s)(i := pc)"
  shows "notification_pending t \<longleftrightarrow> notification_pending s \<or> i < ct_total s \<and> will_notify s pc"
proof
  assume "notification_pending s \<or> i < ct_total s \<and> will_notify s pc"
  then obtain j where "j < ct_total s" "j = i \<and> will_notify s pc \<or> j \<noteq> i \<and> will_notify s (ct_pc s j)"
    using assms(1) by (auto simp: notification_pending_def)
  then show "notification_pending t"
    using assms will_notify_cong [OF assms(2,3)] by (intro notification_pendingI [of j]) auto
qed (use assms will_notify_cong [OF assms(2,3)] in \<open>auto simp: notification_pending_def split: if_splits\<close>)

lemma wake_inv_step:
  assumes "task_step connected s i = Some s'" and "wake_inv s" and "queue_inv s"
  shows "wake_inv s'"
  using assms(1)
proof (cases rule: task_step_cases)
  case success
  have pending: "notification_pending s' \<longleftrightarrow>
      notification_pending s \<or> will_notify s (Added (Suc (ct_successes s)))"
    using success
    by (subst notification_pending_goto [where i = i and s = s and pc = "Added (Suc (ct_successes s))"])
      (auto simp: task_ops)
  have "ct_failure s' = ct_failure s" "ct_total s' = ct_total s"
    "ct_successes s' = Suc (ct_successes s)" "ct_permit s' = ct_permit s" "ct_waiters s' = ct_waiters s"
    using success by (simp_all add: task_ops)
  then show ?thesis using assms(2) by (auto simp: wake_inv_def pending decided_def)
next
  case failure
  then have "notification_pending s'"
    by (intro notification_pendingI [of i]) (simp_all add: task_ops)
  then show ?thesis using failure by (simp add: wake_inv_def decided_def task_ops)
next
  case (notify pc)
  have "decided s'"
    using assms(2) notification_pendingI [OF notify(5,1)] notify(4)
    by (simp add: wake_inv_def decided_def)
  moreover have "notification_pending s'" if "ct_waiters s = w # ws" for w ws
  proof (rule notification_pendingI [of w])
    have "w < ct_total s" "ct_pc s w = Waiting" using assms(3) that by (auto simp: queue_inv_def)
    then show "w < ct_total s'" "will_notify s' (ct_pc s' w)"
      using notify that by (auto simp: notify_one_pc)
  qed
  ultimately show ?thesis using notify(4) by (cases "ct_waiters s") (auto simp: wake_inv_def)
next
  case (to_notify n)
  have "decided s"
    using assms(2) notification_pendingI [OF to_notify(4)] to_notify(1,2) by (simp add: wake_inv_def)
  moreover have "notification_pending s'"
    using to_notify by (intro notification_pendingI [of i]) simp_all
  ultimately show ?thesis using to_notify by (simp add: wake_inv_def decided_def)
next
  case await
  have pending: "notification_pending s' \<longleftrightarrow> notification_pending s \<or> ct_permit s"
    using await
    by (subst notification_pending_goto [where i = i and s = s
          and pc = "if ct_permit s then Woken else Waiting"]) (auto simp: notified_def)
  have "decided s' = decided s" "\<not> ct_permit s'"
    using await by (simp_all add: notified_def decided_def)
  then show ?thesis using assms(2) by (auto simp: wake_inv_def pending)
next
  case (local pc)
  have "notification_pending s' = notification_pending s"
    using local by (subst notification_pending_goto [where i = i and s = s and pc = pc]) auto
  then show ?thesis using assms(2) local by (simp add: wake_inv_def decided_def)
qed

lemma tasks_inv_step:
  "tasks_step connected s s' \<Longrightarrow> tasks_inv connected s \<Longrightarrow> tasks_inv connected s'"
  by (auto simp: tasks_inv_def elim!: tasks_stepE
      intro: counters_inv_step queue_inv_step result_inv_step added_inv_step failing_inv_step
        wake_inv_step)

lemma tasks_inv_new: "0 < n \<Longrightarrow> tasks_inv connected (ConnectionTasks_new n)"
  by (simp add: tasks_inv_def counters_inv_def registered_def queue_inv_def result_inv_def wake_inv_def
      added_inv_def failing_inv_def decided_def notification_pending_def ConnectionTasks_new_def)

lemma tasks_inv_run:
  "(tasks_step connected ^^ k) s s' \<Longrightarrow> tasks_inv connected s \<Longrightarrow> tasks_inv connected s'"
  by (induction k arbitrary: s') (auto intro: tasks_inv_step)

lemma tasks_total_step: "tasks_step connected s s' \<Longrightarrow> ct_total s' = ct_total s"
  by (auto elim!: tasks_stepE task_step_cases simp: task_ops)

lemma tasks_total_run: "(tasks_step connected ^^ k) s s' \<Longrightarrow> ct_total s' = ct_total s"
  by (induction k arbitrary: s') (auto dest: tasks_total_step)

subsection \<open>Every run is finite\<close>

text \<open>What is still ahead of a task.  A task that was woken finds the decision when it checks again,
  so it does not come back to the queue.\<close>

fun rank :: "connection_tasks \<Rightarrow> task_pc \<Rightarrow> nat" where
  "rank s Connecting = 12"
| "rank s (Added _) = 11"
| "rank s Notifying_Success = 10"
| "rank s Notifying_Failure = 10"
| "rank s Check_Failure = (if decided s then 2 else 9)"
| "rank s Check_Successes = (if ct_total s \<le> ct_successes s then 1 else 8)"
| "rank s Awaiting = 7"
| "rank s Waiting = 6"
| "rank s Woken = 5"
| "rank s (Returned _) = 0"

definition effort :: "connection_tasks \<Rightarrow> nat" where
  "effort s = (\<Sum>i < ct_total s. rank s (ct_pc s i))"

lemma rank_mono:
  assumes "ct_total t = ct_total s" and "ct_successes s \<le> ct_successes t"
    and "ct_failure s \<longrightarrow> ct_failure t"
  shows "rank t pc \<le> rank s pc"
  using assms by (cases pc) (auto simp: decided_def)

lemma effort_less:
  assumes "ct_total t = ct_total s" and "i < ct_total s" and "rank t (ct_pc t i) < rank s (ct_pc s i)"
    and "\<And>j. j < ct_total s \<Longrightarrow> rank t (ct_pc t j) \<le> rank s (ct_pc s j)"
  shows "effort t < effort s"
  unfolding effort_def assms(1) by (rule sum_strict_mono_ex1) (use assms(2-) in auto)

lemma notify_one_rank:
  assumes "queue_inv s"
  shows "rank s (ct_pc (notify_one s) j) \<le> rank s (ct_pc s j)"
proof (cases "ct_waiters s")
  case (Cons w ws)
  then have "ct_pc s w = Waiting" using assms by (auto simp: queue_inv_def)
  then show ?thesis using Cons by (simp add: notify_one_pc)
qed (simp add: notify_one_pc)

lemma goto_notify_effort:
  assumes "queue_inv s" and "i < ct_total s" and "rank s pc < rank s (ct_pc s i)"
  shows "effort (goto (notify_one s) i pc) < effort s"
proof (rule effort_less [where i = i])
  have "rank (goto (notify_one s) i pc) q \<le> rank s q" for q by (rule rank_mono) simp_all
  then show "rank (goto (notify_one s) i pc) (ct_pc (goto (notify_one s) i pc) i) < rank s (ct_pc s i)"
    "\<And>j. j < ct_total s \<Longrightarrow>
       rank (goto (notify_one s) i pc) (ct_pc (goto (notify_one s) i pc) j) \<le> rank s (ct_pc s j)"
    using assms(3) notify_one_rank [OF assms(1)]
    by (auto intro: le_less_trans order_trans less_imp_le)
qed (use assms in simp_all)

lemma update_effort:
  assumes "ct_total t = ct_total s" and "ct_successes s \<le> ct_successes t"
    and "ct_failure s \<longrightarrow> ct_failure t" and "ct_pc t = (ct_pc s)(i := pc)" and "i < ct_total s"
    and "rank t pc < rank s (ct_pc s i)"
  shows "effort t < effort s"
  using assms rank_mono [OF assms(1-3)] by (intro effort_less [where i = i]) auto

lemma task_step_effort:
  assumes "task_step connected s i = Some s'" and "tasks_inv connected s"
  shows "effort s' < effort s"
proof -
  have i: "i < ct_total s" using assms(1) by (simp add: task_step_def split: if_splits)
  have q: "queue_inv s" using assms(2) by (simp add: tasks_inv_def)
  note step = assms(1) [unfolded task_step_def]
  show ?thesis
  proof (cases "ct_pc s i")
    case Connecting
    then show ?thesis using step i
      by (intro update_effort [where i = i and pc =
            "if connected i then Added (Suc (ct_successes s)) else Notifying_Failure"])
        (auto simp: task_ops split: if_splits)
  next
    case (Added n)
    then show ?thesis using step i
      by (intro update_effort [where i = i and pc =
            "if ct_total s \<le> n \<or> ct_failure s then Notifying_Success else Check_Failure"])
        (auto split: if_splits)
  next
    case Notifying_Success
    then show ?thesis using step i q by (auto intro!: goto_notify_effort)
  next
    case Notifying_Failure
    then show ?thesis using step i q by (auto intro!: goto_notify_effort)
  next
    case Check_Failure
    then show ?thesis using step i
      by (intro update_effort [where i = i and pc =
            "if ct_failure s then Returned False else Check_Successes"])
        (auto simp: decided_def split: if_splits)
  next
    case Check_Successes
    then show ?thesis using step i
      by (intro update_effort [where i = i and pc =
            "if ct_total s \<le> ct_successes s then Returned True else Awaiting"])
        (auto split: if_splits)
  next
    case Awaiting
    then show ?thesis using step i
      by (intro update_effort [where i = i and pc = "if ct_permit s then Woken else Waiting"])
        (auto simp: notified_def split: if_splits)
  next
    case Woken
    then have "decided s"
      using assms(2) notification_pendingI [OF i] by (simp add: tasks_inv_def wake_inv_def)
    then show ?thesis using step i q Woken by (auto intro!: goto_notify_effort)
  qed (use step i in auto)
qed

lemma tasks_run_effort:
  "(tasks_step connected ^^ k) s s' \<Longrightarrow> tasks_inv connected s \<Longrightarrow> k + effort s' \<le> effort s"
proof (induction k arbitrary: s')
  case (Suc k)
  then obtain t where t: "(tasks_step connected ^^ k) s t" "tasks_step connected t s'" by auto
  then have "tasks_inv connected t" using Suc.prems(2) by (blast intro: tasks_inv_run)
  then have "effort s' < effort t" using t(2) by (auto elim!: tasks_stepE dest: task_step_effort)
  then show ?case using Suc.IH [OF t(1) Suc.prems(2)] by simp
qed simp

subsection \<open>No task is left waiting\<close>

lemma stuck_task:
  assumes "\<nexists>s'. tasks_step connected s s'" and "i < ct_total s"
  shows "ct_pc s i = Waiting \<or> (\<exists>b. ct_pc s i = Returned b)"
proof -
  have "task_step connected s i = None"
    using assms(1) by (cases "task_step connected s i") (auto dest: tasks_step_task)
  then show ?thesis using assms(2) by (cases "ct_pc s i") (simp_all add: task_step_def)
qed

lemma all_registered_decided:
  assumes "counters_inv connected s" and "\<forall>i < ct_total s. ct_pc s i \<noteq> Connecting"
  shows "decided s"
proof (cases "\<exists>i < ct_total s. \<not> connected i")
  case False
  then have "registered connected s = {..< ct_total s}" using assms(2) by (auto simp: registered_def)
  then show ?thesis using assms(1) by (simp add: counters_inv_def decided_def)
qed (use assms in \<open>auto simp: counters_inv_def decided_def\<close>)

lemma stuck_returned:
  assumes "tasks_inv connected s" and "\<nexists>s'. tasks_step connected s s'" and "i < ct_total s"
  shows "\<exists>b. ct_pc s i = Returned b"
proof -
  note stuck = stuck_task [OF assms(2)]
  have "decided s"
    using assms(1) by (intro all_registered_decided) (auto simp: tasks_inv_def dest!: stuck)
  moreover have "\<not> notification_pending s"
    by (auto simp: notification_pending_def dest: stuck)
  ultimately have "ct_waiters s = []" using assms(1) by (simp add: tasks_inv_def wake_inv_def)
  then have "ct_pc s i \<noteq> Waiting" using assms(1,3) by (auto simp: tasks_inv_def queue_inv_def)
  then show ?thesis using stuck [OF assms(3)] by simp
qed

lemma returned_is_decision:
  assumes "tasks_inv connected s" and "i < ct_total s" and "ct_pc s i = Returned b"
  shows "b \<longleftrightarrow> (\<forall>j < ct_total s. connected j)"
proof (cases b)
  case True
  then have "ct_total s \<le> card (registered connected s)"
    using assms by (auto simp: tasks_inv_def result_inv_def counters_inv_def)
  then have "registered connected s = {..< ct_total s}"
    by (intro card_seteq) (auto simp: registered_def)
  then show ?thesis using True by (auto simp: registered_def)
next
  case False
  then show ?thesis using assms by (auto simp: tasks_inv_def result_inv_def counters_inv_def)
qed

subsection \<open>Property\<close>

text \<open>C14: the rendezvous of the connection tasks neither hangs nor disagrees.  Whatever the
  interleaving of the atomic operations of the tasks, a run has at most twelve steps per task; a task
  that has returned from waiting has returned true exactly if all tasks connect; and when no task can
  make a step any more, all of them have returned.\<close>

theorem connection_tasks_agree:
  assumes "(tasks_step connected ^^ k) (ConnectionTasks_new n) s" and "0 < n"
  shows "k \<le> 12 * n \<and>
    (\<forall>i < n. \<forall>b. ct_pc s i = Returned b \<longrightarrow> b = (\<forall>j < n. connected j)) \<and>
    ((\<nexists>s'. tasks_step connected s s') \<longrightarrow>
       (\<forall>i < n. ct_pc s i = Returned (\<forall>j < n. connected j)))"
proof -
  have inv: "tasks_inv connected s" using tasks_inv_run [OF assms(1) tasks_inv_new [OF assms(2)]] .
  have n: "ct_total s = n" using tasks_total_run [OF assms(1)] by (simp add: ConnectionTasks_new_def)
  have "effort (ConnectionTasks_new n) = 12 * n" by (simp add: effort_def ConnectionTasks_new_def)
  then have "k \<le> 12 * n" using tasks_run_effort [OF assms(1) tasks_inv_new [OF assms(2)]] by simp
  moreover have "b = (\<forall>j < n. connected j)" if "i < n" "ct_pc s i = Returned b" for i b
    using returned_is_decision [OF inv, of i b] that n by simp
  moreover have "\<exists>b. ct_pc s i = Returned b" if "\<nexists>s'. tasks_step connected s s'" "i < n" for i
    using stuck_returned [OF inv, of i] that n by simp
  ultimately show ?thesis by blast
qed

theorem connection_tasks_agree_witness:
  "(\<exists>s. tasks_run (\<lambda>_. True) [0, 0, 0, 0, 0, 1, 1, 1, 1, 1, 0, 0, 0] (ConnectionTasks_new 2) = Some s \<and>
     ct_pc s 0 = Returned True \<and> ct_pc s 1 = Returned True)"
proof -
  obtain s where s: "tasks_run (\<lambda>_. True) [0, 0, 0, 0, 0, 1, 1, 1, 1, 1, 0, 0, 0] (ConnectionTasks_new 2) = Some s"
    "ct_pc s 0 = Returned True" "ct_pc s 1 = Returned True"
    by (simp add: ConnectionTasks_new_def task_step_def task_ops goto_def notify_one_def)
  show ?thesis using connection_tasks_agree [OF tasks_run_steps [OF s(1)]] s by auto
qed

end
