(* ===== verification/Event_Listener.thy ===== *)
theory Event_Listener
  imports Connection_Manager Connection_Tasks Json
begin

text \<open>
  The listener of a node: the metadata it fetches (\<open>listener/src/version_fetcher.rs\<close>),
  the connections it builds (\<open>listener/src/connections_builder.rs\<close>), the loop that
  connects and reconnects, and the registry of the last ids
  (\<open>listener/src/lib.rs\<close>, \<open>listener/src/event_listener_status.rs\<close>).  The answers of the
  node and the completions of the connection tasks come from the environment.
\<close>

subsection \<open>Node metadata\<close>

definition MINIMAL_NODE_VERSION :: protocol_version where
  "MINIMAL_NODE_VERSION = ProtocolVersion 2 0 0"

datatype metadata_fetch_error = MetadataFetchError anyhow | VersionNotAcceptable string

record node_metadata =
  nm_build_version :: protocol_version
  nm_network_name :: string

text \<open>Parsing and printing of the libraries.\<close>

record status_env =
  st_version_from_str :: "string \<Rightarrow> string + protocol_version"
  st_version_display :: "protocol_version \<Rightarrow> string"
  st_json_display :: "json \<Rightarrow> string"

definition NodeMetadata_validate :: "status_env \<Rightarrow> node_metadata \<Rightarrow> metadata_fetch_error + unit" where
  "NodeMetadata_validate env metadata =
     (if nm_build_version metadata < MINIMAL_NODE_VERSION then
        Inl (VersionNotAcceptable (''Node version expected to be >= '' @
          st_version_display env MINIMAL_NODE_VERSION @ ''.''))
      else Inr ())"

fun value_get :: "json \<Rightarrow> string \<Rightarrow> json option" where
  "value_get (JObject m) k = map_get m k"
| "value_get _ k = None"

definition missing_in_status :: "status_env \<Rightarrow> string \<Rightarrow> json \<Rightarrow> anyhow" where
  "missing_in_status env key raw_response =
     [''failed to get '' @ key @ '' from status response '' @ st_json_display env raw_response]"

definition try_resolve_network_name :: "status_env \<Rightarrow> json \<Rightarrow> anyhow + string" where
  "try_resolve_network_name env raw_response =
     (case value_get raw_response ''chainspec_name'' of
        Some (JString raw) \<Rightarrow> Inr raw
      | _ \<Rightarrow> Inl (missing_in_status env ''chainspec_name'' raw_response))"

definition before_dash :: "string \<Rightarrow> string" where
  "before_dash s = takeWhile (\<lambda>c. c \<noteq> CHR ''-'') s"

definition try_resolve_version :: "status_env \<Rightarrow> json \<Rightarrow> anyhow + protocol_version" where
  "try_resolve_version env raw_response =
     (case value_get raw_response ''build_version'' of
        Some (JString build_version) \<Rightarrow>
          (let raw = before_dash build_version in
           map_err (\<lambda>error. [''failed parsing build version from '' @ [CHR 39] @ raw @ [CHR 39] @ '': '' @ error])
             (st_version_from_str env raw))
      | _ \<Rightarrow> Inl (missing_in_status env ''build_version'' raw_response))"

text \<open>\<open>status\<close> is the parsed answer of the status endpoint, or the error of asking for it.\<close>

definition fetch_metadata_from_status :: "status_env \<Rightarrow> anyhow + json \<Rightarrow> anyhow + node_metadata" where
  "fetch_metadata_from_status env status =
     and_then status (\<lambda>response_json.
     and_then (try_resolve_version env response_json) (\<lambda>version.
     and_then (try_resolve_network_name env response_json) (\<lambda>name.
     Inr \<lparr> nm_build_version = version, nm_network_name = name \<rparr>)))"

definition metadata_fetch :: "status_env \<Rightarrow> anyhow + json \<Rightarrow> metadata_fetch_error + node_metadata" where
  "metadata_fetch env status =
     (case fetch_metadata_from_status env status of
        Inr metadata \<Rightarrow> and_then (NodeMetadata_validate env metadata) (\<lambda>_. Inr metadata)
      | Inl fetch_err \<Rightarrow> Inl (MetadataFetchError fetch_err))"

subsection \<open>Building connections\<close>

record connections_builder =
  cb_ip_address :: string
  cb_sse_port :: u16
  cb_allow_partial_connection :: bool

definition filters_from_version :: "protocol_version \<Rightarrow> sse_filter list" where
  "filters_from_version build_version = [Events]"

definition filtered_sse_url ::
  "(string \<Rightarrow> anyhow + url) \<Rightarrow> connections_builder \<Rightarrow> sse_filter \<Rightarrow> anyhow + url" where
  "filtered_sse_url url_parse builder f =
     url_parse (''http://'' @ cb_ip_address builder @ '':'' @ nat_to_string (unat (cb_sse_port builder)) @
       ''/'' @ filter_display f)"

definition build_connection ::
  "(string \<Rightarrow> anyhow + url) \<Rightarrow> connections_builder \<Rightarrow> u32 option \<Rightarrow> sse_filter \<Rightarrow> string \<Rightarrow>
   anyhow + connection_manager" where
  "build_connection url_parse builder start_from_event_id f network_name =
     and_then (filtered_sse_url url_parse builder f) (\<lambda>address.
     Inr (new_manager address start_from_event_id f network_name))"

fun build_each ::
  "(string \<Rightarrow> anyhow + url) \<Rightarrow> connections_builder \<Rightarrow> (sse_filter \<rightharpoonup> u32) \<Rightarrow> string \<Rightarrow> sse_filter list \<Rightarrow>
   anyhow + (sse_filter \<times> connection_manager) list" where
  "build_each url_parse builder last_event_ids network_name [] = Inr []"
| "build_each url_parse builder last_event_ids network_name (f # fs) =
     and_then (build_connection url_parse builder
       (case last_event_ids f of Some i \<Rightarrow> Some i | None \<Rightarrow> Some 0) f network_name) (\<lambda>connection.
     and_then (build_each url_parse builder last_event_ids network_name fs) (\<lambda>connections.
     Inr ((f, connection) # connections)))"

text \<open>The connections, and the rendezvous they share unless partial connections are allowed.\<close>

definition build_connections ::
  "(string \<Rightarrow> anyhow + url) \<Rightarrow> connections_builder \<Rightarrow> (sse_filter \<rightharpoonup> u32) \<Rightarrow> node_metadata \<Rightarrow>
   anyhow + (sse_filter \<times> connection_manager) list \<times> connection_tasks option" where
  "build_connections url_parse builder last_event_ids node_metadata =
     (let filters = filters_from_version (nm_build_version node_metadata);
          maybe_tasks = (if cb_allow_partial_connection builder then None
                         else Some (ConnectionTasks_new (length filters)))
      in and_then (build_each url_parse builder last_event_ids (nm_network_name node_metadata) filters)
           (\<lambda>connections. Inr (connections, maybe_tasks)))"

subsection \<open>Waiting for the connections\<close>

datatype listener_status = Preparing | Connecting_Status | Connected | Reconnecting
  | ReconnectionsExhausted | IncompatibleVersion

fun status_value :: "listener_status \<Rightarrow> int" where
  "status_value Preparing = 0"
| "status_value Connecting_Status = 1"
| "status_value Connected = 2"
| "status_value Reconnecting = 3"
| "status_value ReconnectionsExhausted = - 1"
| "status_value IncompatibleVersion = - 2"

datatype connect_outcome = ConnectionLost | SystemReconnect

text \<open>The completion of a connection task: the error of joining it, or its result.  The tasks complete
  in the order of the list; selecting among no tasks panics.\<close>

type_synonym completion = "string + (connection_manager_error + unit)"

fun allow_partial_connection_wait :: "completion list \<Rightarrow> (connect_outcome \<times> listener_status list) option" where
  "allow_partial_connection_wait [] = None"
| "allow_partial_connection_wait (Inl _ # futures_left) = Some (ConnectionLost, [])"
| "allow_partial_connection_wait (Inr (Inr _) # futures_left) = Some (SystemReconnect, [])"
| "allow_partial_connection_wait (Inr (Inl (NonRecoverableError error)) # futures_left) =
     Some (ConnectionLost, [Reconnecting])"
| "allow_partial_connection_wait (Inr (Inl (InitialConnectionError error)) # futures_left) =
     (if futures_left = [] then Some (ConnectionLost, [Reconnecting])
      else allow_partial_connection_wait futures_left)"

fun wait_for_first :: "completion list \<Rightarrow> (connect_outcome \<times> listener_status list) option" where
  "wait_for_first [] = None"
| "wait_for_first (Inr (Inr _) # futures_left) = Some (SystemReconnect, [])"
| "wait_for_first (Inr (Inl _) # futures_left) = Some (ConnectionLost, [Reconnecting])"
| "wait_for_first (Inl _ # futures_left) = Some (ConnectionLost, [Reconnecting])"

definition do_connect ::
  "bool \<Rightarrow> anyhow + completion list \<Rightarrow> ((anyhow + connect_outcome) \<times> listener_status list) option" where
  "do_connect allow_partial_connection connections =
     (case connections of
        Inl error \<Rightarrow> Some (Inl error, [])
      | Inr completions \<Rightarrow>
          map_option (\<lambda>(outcome, statuses). (Inr outcome, statuses))
            (if allow_partial_connection then allow_partial_connection_wait completions
             else wait_for_first completions))"

subsection \<open>The listener\<close>

record event_listener =
  el_node_metadata :: node_metadata
  el_network_name :: "string option"
  el_max_connection_attempts :: nat
  el_allow_partial_connection :: bool

datatype get_metadata_result = Metadata_Ok "node_metadata option" | Metadata_Retry | Metadata_Error anyhow

definition get_metadata ::
  "event_listener \<Rightarrow> metadata_fetch_error + node_metadata \<Rightarrow> get_metadata_result \<times> listener_status list" where
  "get_metadata listener fetch_result =
     (case fetch_result of
        Inr node_metadata \<Rightarrow>
          (case el_network_name listener of
             Some network_name \<Rightarrow>
               if network_name \<noteq> nm_network_name node_metadata then
                 (Metadata_Error [''Network name '' @ network_name @ '' does'' @ [CHR 39] @ ''t match name '' @
                    nm_network_name node_metadata @ '' configured for node connection''], [])
               else if el_node_metadata listener \<noteq> node_metadata
                 then (Metadata_Ok (Some node_metadata), []) else (Metadata_Ok None, [])
           | None \<Rightarrow>
               if el_node_metadata listener \<noteq> node_metadata
                 then (Metadata_Ok (Some node_metadata), []) else (Metadata_Ok None, []))
      | Inl (VersionNotAcceptable msg) \<Rightarrow> (Metadata_Error [msg], [IncompatibleVersion])
      | Inl (MetadataFetchError err) \<Rightarrow> (Metadata_Retry, []))"

text \<open>The state of the loop: the listener, the counter of attempts, how often the metadata was fetched
  and a connection made, with what metadata, and the reported statuses.\<close>

record listener_loop =
  ll_listener :: event_listener
  ll_current_attempt :: nat
  ll_fetches :: nat
  ll_connected_to :: "node_metadata list"
  ll_statuses :: "listener_status list"

text \<open>The environment: the outcome of the \<open>k\<close>-th fetch, and what became of the connections of the
  \<open>k\<close>-th connect.\<close>

record listener_env =
  le_fetch :: "nat \<Rightarrow> metadata_fetch_error + node_metadata"
  le_connections :: "nat \<Rightarrow> anyhow + completion list"

datatype loop_result = Loop_Continue listener_loop | Loop_Error anyhow listener_loop | Loop_Panic

definition MAX_CONNECTION_ATTEMPTS_REACHED :: string where
  "MAX_CONNECTION_ATTEMPTS_REACHED = ''Max connection attempts reached''"

definition log_connections_exhausted_if_needed :: "listener_loop \<Rightarrow> listener_loop" where
  "log_connections_exhausted_if_needed s =
     (if el_max_connection_attempts (ll_listener s) \<le> ll_current_attempt s
      then s\<lparr> ll_statuses := ll_statuses s @ [ReconnectionsExhausted] \<rparr> else s)"

text \<open>Connecting, at the end of an iteration.\<close>

definition connect_and_count :: "listener_env \<Rightarrow> listener_loop \<Rightarrow> loop_result" where
  "connect_and_count env s =
     (case do_connect (el_allow_partial_connection (ll_listener s))
             (le_connections env (length (ll_connected_to s))) of
        None \<Rightarrow> Loop_Panic
      | Some (_, statuses) \<Rightarrow>
          Loop_Continue (s\<lparr> ll_connected_to := ll_connected_to s @ [el_node_metadata (ll_listener s)],
            ll_statuses := ll_statuses s @ statuses,
            ll_current_attempt := Suc (ll_current_attempt s) \<rparr>))"

definition listener_iteration :: "listener_env \<Rightarrow> listener_loop \<Rightarrow> loop_result" where
  "listener_iteration env s =
     (if el_max_connection_attempts (ll_listener s) < ll_current_attempt s then
        Loop_Error [MAX_CONNECTION_ATTEMPTS_REACHED]
          (s\<lparr> ll_statuses := ll_statuses s @ [ReconnectionsExhausted] \<rparr>)
      else
        (let (result, statuses) = get_metadata (ll_listener s) (le_fetch env (ll_fetches s));
             s1 = s\<lparr> ll_fetches := Suc (ll_fetches s), ll_statuses := ll_statuses s @ statuses \<rparr>
         in case result of
           Metadata_Ok (Some node_metadata) \<Rightarrow>
             connect_and_count env (s1\<lparr>
               ll_listener := (ll_listener s)\<lparr> el_node_metadata := node_metadata \<rparr>,
               ll_current_attempt := 1 \<rparr>)
         | Metadata_Retry \<Rightarrow>
             Loop_Continue (log_connections_exhausted_if_needed
               (s1\<lparr> ll_current_attempt := Suc (ll_current_attempt s) \<rparr>))
         | Metadata_Error e \<Rightarrow> Loop_Error e s1
         | Metadata_Ok None \<Rightarrow> connect_and_count env s1))"

text \<open>The loop, with fuel: the error it returns with, if it does.\<close>

fun listener_run :: "listener_env \<Rightarrow> nat \<Rightarrow> listener_loop \<Rightarrow> (anyhow \<times> listener_loop) option" where
  "listener_run env 0 s = None"
| "listener_run env (Suc fuel) s =
     (case listener_iteration env s of
        Loop_Error e s' \<Rightarrow> Some (e, s')
      | Loop_Panic \<Rightarrow> None
      | Loop_Continue s' \<Rightarrow> listener_run env fuel s')"

definition stream_aggregated_events ::
  "listener_env \<Rightarrow> nat \<Rightarrow> event_listener \<Rightarrow> (anyhow \<times> listener_loop) option" where
  "stream_aggregated_events env fuel listener =
     listener_run env fuel \<lparr> ll_listener = listener, ll_current_attempt = 1, ll_fetches = 0,
       ll_connected_to = [], ll_statuses = [Preparing, Connecting_Status] \<rparr>"

subsection \<open>The registry of the last ids\<close>

definition last_event_id_registry :: "(sse_filter \<times> u32) list \<Rightarrow> (sse_filter \<rightharpoonup> u32) \<Rightarrow> (sse_filter \<rightharpoonup> u32)" where
  "last_event_id_registry reports registry = fold (\<lambda>(f, i) r. r(f \<mapsto> i)) reports registry"

text \<open>One connection of the listener to the endpoint for all events: built from the registry, handled to
  its end, its reports entered into the registry.  As it is the only one, its rendezvous, if there is
  one, has the result that it connected.\<close>

definition connection_round ::
  "cm_env \<Rightarrow> connections_builder \<Rightarrow> url \<Rightarrow> node_metadata \<Rightarrow>
   (u32 option \<Rightarrow> connection_manager_error + event_result list) \<Rightarrow> (sse_filter \<rightharpoonup> u32) \<Rightarrow>
   sse_event list \<times> (sse_filter \<rightharpoonup> u32)" where
  "connection_round env builder address metadata connector registry =
     (case build_connections (\<lambda>_. Inr address) builder registry metadata of
        Inl _ \<Rightarrow> ([], registry)
      | Inr (connections, maybe_tasks) \<Rightarrow>
          (let (_, cm, _) = do_start_handling env connector (map_option (\<lambda>_. True) maybe_tasks)
                 (snd (hd connections))
           in (cm_sse_events cm, last_event_id_registry (cm_event_ids cm) registry)))"

fun connection_rounds ::
  "cm_env \<Rightarrow> connections_builder \<Rightarrow> url \<Rightarrow> node_metadata \<Rightarrow>
   (u32 option \<Rightarrow> connection_manager_error + event_result list) list \<Rightarrow> (sse_filter \<rightharpoonup> u32) \<Rightarrow>
   sse_event list" where
  "connection_rounds env builder address metadata [] registry = []"
| "connection_rounds env builder address metadata (connector # connectors) registry =
     (let (events, registry') = connection_round env builder address metadata connector registry
      in events @ connection_rounds env builder address metadata connectors registry')"

subsection \<open>Lemmas on the loop\<close>

definition connections_nonempty :: "listener_env \<Rightarrow> bool" where
  "connections_nonempty env \<longleftrightarrow> (\<forall>k. le_connections env k \<noteq> Inr [])"

lemma allow_partial_connection_wait_Some:
  "completions \<noteq> [] \<Longrightarrow> allow_partial_connection_wait completions \<noteq> None"
  by (induction completions rule: allow_partial_connection_wait.induct) auto

lemma do_connect_Some:
  assumes "connections \<noteq> Inr []"
  shows "\<exists>r. do_connect partial_allowed connections = Some r"
proof (cases connections)
  case (Inr completions)
  then have "completions \<noteq> []" using assms by auto
  then have "wait_for_first completions \<noteq> None"
    by (cases completions rule: wait_for_first.cases) auto
  then show ?thesis
    using allow_partial_connection_wait_Some [OF \<open>completions \<noteq> []\<close>] Inr by (auto simp: do_connect_def)
qed (simp add: do_connect_def)

text \<open>What an iteration that goes on does: it fetches once, and either counts one more attempt with the
  same metadata or starts counting again with new metadata.\<close>

definition network_matches :: "event_listener \<Rightarrow> node_metadata \<Rightarrow> bool" where
  "network_matches listener metadata \<longleftrightarrow>
     (\<forall>name. el_network_name listener = Some name \<longrightarrow> nm_network_name metadata = name)"

lemma get_metadata_Ok:
  "get_metadata listener fetched = (Metadata_Ok r, statuses) \<longleftrightarrow>
     (\<exists>metadata. fetched = Inr metadata \<and> network_matches listener metadata \<and> statuses = [] \<and>
        r = (if el_node_metadata listener = metadata then None else Some metadata))"
  by (cases fetched)
    (auto simp: get_metadata_def network_matches_def split: option.splits metadata_fetch_error.splits)

lemma get_metadata_Retry:
  "get_metadata listener fetched = (Metadata_Retry, statuses) \<Longrightarrow> \<exists>e. fetched = Inl (MetadataFetchError e)"
  by (auto simp: get_metadata_def split: option.splits metadata_fetch_error.splits sum.splits if_splits)

lemma connect_and_count_Continue:
  "connect_and_count env s = Loop_Continue s' \<Longrightarrow>
     ll_listener s' = ll_listener s \<and> ll_current_attempt s' = Suc (ll_current_attempt s) \<and>
     ll_fetches s' = ll_fetches s \<and> ll_connected_to s' = ll_connected_to s @ [el_node_metadata (ll_listener s)]"
  by (auto simp: connect_and_count_def split: option.splits)

lemma connect_and_count_not_Error: "connect_and_count env s \<noteq> Loop_Error e s'"
  by (auto simp: connect_and_count_def split: option.splits)

lemma connect_and_count_not_Panic:
  assumes "connections_nonempty env"
  shows "connect_and_count env s \<noteq> Loop_Panic"
proof -
  obtain r where "do_connect (el_allow_partial_connection (ll_listener s))
      (le_connections env (length (ll_connected_to s))) = Some r"
    using assms do_connect_Some unfolding connections_nonempty_def by blast
  then show ?thesis by (cases r) (simp add: connect_and_count_def)
qed

lemma listener_iteration_Continue:
  assumes "listener_iteration env s = Loop_Continue s'"
  obtains
    (retry) e where "le_fetch env (ll_fetches s) = Inl (MetadataFetchError e)"
      "ll_listener s' = ll_listener s" "ll_current_attempt s' = Suc (ll_current_attempt s)"
      "ll_fetches s' = Suc (ll_fetches s)" "ll_connected_to s' = ll_connected_to s"
      "ll_current_attempt s \<le> el_max_connection_attempts (ll_listener s)"
  | (same) metadata where "le_fetch env (ll_fetches s) = Inr metadata" "network_matches (ll_listener s) metadata"
      "el_node_metadata (ll_listener s) = metadata"
      "ll_listener s' = ll_listener s" "ll_current_attempt s' = Suc (ll_current_attempt s)"
      "ll_fetches s' = Suc (ll_fetches s)" "ll_connected_to s' = ll_connected_to s @ [metadata]"
      "ll_current_attempt s \<le> el_max_connection_attempts (ll_listener s)"
  | (changed) metadata where "le_fetch env (ll_fetches s) = Inr metadata" "network_matches (ll_listener s) metadata"
      "el_node_metadata (ll_listener s) \<noteq> metadata"
      "ll_listener s' = (ll_listener s)\<lparr> el_node_metadata := metadata \<rparr>" "ll_current_attempt s' = 2"
      "ll_fetches s' = Suc (ll_fetches s)" "ll_connected_to s' = ll_connected_to s @ [metadata]"
      "ll_current_attempt s \<le> el_max_connection_attempts (ll_listener s)"
proof -
  obtain result statuses where g: "get_metadata (ll_listener s) (le_fetch env (ll_fetches s)) = (result, statuses)"
    by (cases "get_metadata (ll_listener s) (le_fetch env (ll_fetches s))")
  have attempt: "ll_current_attempt s \<le> el_max_connection_attempts (ll_listener s)"
    using assms by (auto simp: listener_iteration_def split: if_splits)
  show thesis
  proof (cases result)
    case (Metadata_Ok r)
    then obtain metadata where m: "le_fetch env (ll_fetches s) = Inr metadata"
      "network_matches (ll_listener s) metadata"
      "r = (if el_node_metadata (ll_listener s) = metadata then None else Some metadata)"
      using g by (auto simp: get_metadata_Ok)
    show thesis
    proof (cases r)
      case None
      then have e: "el_node_metadata (ll_listener s) = metadata" using m(3) by (simp split: if_splits)
      have "connect_and_count env (s\<lparr> ll_fetches := Suc (ll_fetches s), ll_statuses := ll_statuses s @ statuses \<rparr>) =
          Loop_Continue s'"
        using assms attempt g Metadata_Ok None by (simp add: listener_iteration_def)
      from connect_and_count_Continue [OF this] show thesis using e m attempt by (intro same) auto
    next
      case (Some metadata')
      then have e: "el_node_metadata (ll_listener s) \<noteq> metadata" "metadata' = metadata"
        using m(3) by (simp_all split: if_splits)
      have "connect_and_count env (s\<lparr> ll_fetches := Suc (ll_fetches s), ll_statuses := ll_statuses s @ statuses,
             ll_listener := (ll_listener s)\<lparr> el_node_metadata := metadata \<rparr>, ll_current_attempt := 1 \<rparr>) =
          Loop_Continue s'"
        using assms attempt g Metadata_Ok Some e(2) by (simp add: listener_iteration_def)
      from connect_and_count_Continue [OF this] show thesis using e(1) m attempt by (intro changed) auto
    qed
  next
    case Metadata_Retry
    then obtain e where "le_fetch env (ll_fetches s) = Inl (MetadataFetchError e)"
      using g get_metadata_Retry by blast
    then show thesis
      using assms attempt g Metadata_Retry
      by (intro retry) (auto simp: listener_iteration_def Let_def log_connections_exhausted_if_needed_def)
  next
    case (Metadata_Error e)
    then show thesis using assms attempt g by (simp add: listener_iteration_def)
  qed
qed

lemma listener_iteration_not_Panic:
  "connections_nonempty env \<Longrightarrow> listener_iteration env s \<noteq> Loop_Panic"
  by (simp add: listener_iteration_def case_prod_unfold Let_def connect_and_count_not_Panic
      split: get_metadata_result.split option.split)

lemma listener_run_Suc:
  assumes "connections_nonempty env"
    and "\<And>s'. listener_iteration env s = Loop_Continue s' \<Longrightarrow> listener_run env fuel s' \<noteq> None"
  shows "listener_run env (Suc fuel) s \<noteq> None"
  using assms listener_iteration_not_Panic [OF assms(1), of s]
  by (cases "listener_iteration env s") auto

text \<open>Once the metadata is known and does not change any more, the attempts are counted up to the
  maximum.\<close>

definition stable_from :: "listener_env \<Rightarrow> nat \<Rightarrow> node_metadata \<Rightarrow> bool" where
  "stable_from env n metadata \<longleftrightarrow> (\<forall>k \<ge> n. \<forall>m. le_fetch env k = Inr m \<longrightarrow> m = metadata)"

lemma listener_run_known:
  "connections_nonempty env \<Longrightarrow> stable_from env n metadata \<Longrightarrow> n \<le> ll_fetches s \<Longrightarrow>
   el_node_metadata (ll_listener s) = metadata \<Longrightarrow>
   Suc (el_max_connection_attempts (ll_listener s)) - ll_current_attempt s < fuel \<Longrightarrow>
   listener_run env fuel s \<noteq> None"
proof (induction fuel arbitrary: s)
  case (Suc fuel)
  show ?case
  proof (rule listener_run_Suc [OF Suc.prems(1)])
    fix s'
    assume "listener_iteration env s = Loop_Continue s'"
    then show "listener_run env fuel s' \<noteq> None"
    proof (cases rule: listener_iteration_Continue)
      case (changed m)
      then have False using Suc.prems(2-4) by (auto simp: stable_from_def)
      then show ?thesis ..
    qed (rule Suc.IH; use Suc.prems in auto)+
  qed
qed simp

lemma listener_run_stable:
  "connections_nonempty env \<Longrightarrow> stable_from env n metadata \<Longrightarrow> n \<le> ll_fetches s \<Longrightarrow>
   Suc (el_max_connection_attempts (ll_listener s)) - ll_current_attempt s +
     Suc (el_max_connection_attempts (ll_listener s)) < fuel \<Longrightarrow>
   listener_run env fuel s \<noteq> None"
proof (induction fuel arbitrary: s)
  case (Suc fuel)
  show ?case
  proof (rule listener_run_Suc [OF Suc.prems(1)])
    fix s'
    assume "listener_iteration env s = Loop_Continue s'"
    then show "listener_run env fuel s' \<noteq> None"
    proof (cases rule: listener_iteration_Continue)
      case (changed m)
      then have "m = metadata" using Suc.prems(2,3) by (auto simp: stable_from_def)
      then show ?thesis
        using changed Suc.prems by (intro listener_run_known [OF Suc.prems(1,2)]) auto
    qed (rule Suc.IH; use Suc.prems in auto)+
  qed
qed simp

lemma listener_run_returns:
  "connections_nonempty env \<Longrightarrow> stable_from env n metadata \<Longrightarrow>
   n - ll_fetches s + 2 * el_max_connection_attempts (ll_listener s) + 2 < fuel \<Longrightarrow>
   listener_run env fuel s \<noteq> None"
proof (induction fuel arbitrary: s)
  case (Suc fuel)
  show ?case
  proof (cases "n \<le> ll_fetches s")
    case True
    then show ?thesis using Suc.prems by (intro listener_run_stable [OF Suc.prems(1,2)]) auto
  next
    case False
    show ?thesis
    proof (rule listener_run_Suc [OF Suc.prems(1)])
      fix s'
      assume "listener_iteration env s = Loop_Continue s'"
      then show "listener_run env fuel s' \<noteq> None"
        by (cases rule: listener_iteration_Continue) (rule Suc.IH; use Suc.prems False in auto)+
    qed
  qed
qed simp

lemma listener_run_connected:
  "listener_run env fuel s = Some (e, s') \<Longrightarrow> metadata \<in> set (ll_connected_to s') \<Longrightarrow>
   metadata \<in> set (ll_connected_to s) \<or>
   network_matches (ll_listener s) metadata \<and> (\<exists>k. le_fetch env k = Inr metadata)"
proof (induction fuel arbitrary: s)
  case (Suc fuel)
  show ?case
  proof (cases "listener_iteration env s")
    case (Loop_Continue t)
    then have IH: "metadata \<in> set (ll_connected_to t) \<or>
        network_matches (ll_listener t) metadata \<and> (\<exists>k. le_fetch env k = Inr metadata)"
      using Suc by simp
    show ?thesis using Loop_Continue
      by (cases rule: listener_iteration_Continue) (use IH in \<open>auto simp: network_matches_def\<close>)
  next
    case (Loop_Error e' t)
    then have "ll_connected_to s' = ll_connected_to s"
      using Suc.prems(1) connect_and_count_not_Error
      by (auto simp: listener_iteration_def Let_def case_prod_unfold
          split: if_splits get_metadata_result.splits option.splits)
    then show ?thesis using Suc.prems(2) by simp
  qed (use Suc.prems in simp)
qed simp

lemma metadata_fetch_version:
  "metadata_fetch env status = Inr metadata \<Longrightarrow> MINIMAL_NODE_VERSION \<le> nm_build_version metadata"
  by (auto simp: metadata_fetch_def NodeMetadata_validate_def result_iffs split: sum.splits if_splits)

subsection \<open>Lemmas on resuming\<close>

text \<open>What a node serves that is asked to start from an id: the events with this id and the following
  ones, none of which is an API version, until the connection breaks.\<close>

fun serves_from :: "cm_env \<Rightarrow> u32 \<Rightarrow> event_result list \<Rightarrow> bool" where
  "serves_from env i [] = True"
| "serves_from env i (Inl _ # items) = True"
| "serves_from env i (Inr event # items) =
     (parse_u32 (raw_id event) = Some i \<and>
      (\<forall>version. deserialize env (raw_data event) \<noteq> Inr (ApiVersion version)) \<and>
      serves_from env (i + 1) items)"

definition node_connector ::
  "cm_env \<Rightarrow> (u32 option \<Rightarrow> connection_manager_error + event_result list) \<Rightarrow> bool" where
  "node_connector env connector \<longleftrightarrow>
     (\<forall>start version items. session env (connector (Some start)) = Some (version, items) \<longrightarrow>
        serves_from env start items)"

text \<open>No event is passed on before its predecessor.\<close>

definition no_gap :: "u32 list \<Rightarrow> bool" where
  "no_gap ids \<longleftrightarrow> (\<forall>k < length ids. ids ! k = 0 \<or> ids ! k - 1 \<in> set (take k ids))"

abbreviation ids_from :: "u32 \<Rightarrow> nat \<Rightarrow> u32 list" where
  "ids_from start n \<equiv> map (\<lambda>j. start + of_nat j) [0..<n]"

lemma ids_from_Suc: "ids_from start (Suc n) = start # ids_from (start + 1) n"
  by (simp add: upt_conv_Cons map_Suc_upt [symmetric] algebra_simps del: upt_Suc)

lemma accepted_ids:
  "serves_from env start items \<Longrightarrow>
   map (\<lambda>(event, d). unwrap_or (parse_u32 (raw_id event)) 0) (accepted env items) =
     ids_from start (length (accepted env items)) \<and>
   (\<forall>(event, d) \<in> set (accepted env items). \<not> is_api_version d)"
proof (induction env start items rule: serves_from.induct)
  case (3 env i event items)
  then show ?case
    by (cases "deserialize env (raw_data event)")
      (auto simp: ids_from_Suc is_api_version_iff simp del: upt_Suc)
qed simp_all

lemma observed_ids_from:
  "serves_from env start items \<Longrightarrow>
   \<exists>b \<in> {0, 1}. observed_ids env items = ids_from start (length (accepted env items) + b)"
proof (induction env start items rule: serves_from.induct)
  case (3 env i event items)
  show ?case
  proof (cases "deserialize env (raw_data event)")
    case (Inl e)
    then show ?thesis using "3.prems" by (intro bexI [of _ 1]) auto
  next
    case (Inr d)
    then have "\<exists>b \<in> {0, 1}. observed_ids env items = ids_from (i + 1) (length (accepted env items) + b)"
      using "3.IH" "3.prems" by (simp del: bex_simps)
    then obtain b where "b \<in> {0, 1}" "observed_ids env items = ids_from (i + 1) (length (accepted env items) + b)"
      by blast
    then show ?thesis using "3.prems" Inr by (intro bexI [of _ b]) (auto simp: ids_from_Suc simp del: upt_Suc)
  qed
qed auto

lemma no_gap_append:
  assumes "no_gap ids" and "start = 0 \<or> start - 1 \<in> set ids"
  shows "no_gap (ids @ ids_from start n)"
  unfolding no_gap_def
proof (intro allI impI)
  fix k
  assume k: "k < length (ids @ ids_from start n)"
  show "(ids @ ids_from start n) ! k = 0 \<or>
        (ids @ ids_from start n) ! k - 1 \<in> set (take k (ids @ ids_from start n))"
  proof (cases "k < length ids")
    case True
    then show ?thesis using assms(1) by (simp add: no_gap_def nth_append)
  next
    case False
    then obtain j where j: "k = length ids + j" using le_Suc_ex not_less by blast
    show ?thesis
    proof (cases j)
      case 0
      then show ?thesis using assms(2) j k by (auto simp: nth_append)
    next
      case (Suc i)
      then have "start + of_nat i \<in> set (take j (ids_from start n))"
        using j k by (auto simp: take_map)
      then show ?thesis using Suc j k by (auto simp: nth_append)
    qed
  qed
qed

lemma registry_last:
  "unwrap_or (last_event_id_registry (map (Pair f) ids) registry f) 0 =
     (if ids = [] then unwrap_or (registry f) 0 else last ids)"
  by (induction ids rule: rev_induct) (simp_all add: last_event_id_registry_def)

definition event_ids :: "sse_event list \<Rightarrow> u32 list" where
  "event_ids events = map se_id (filter (\<lambda>event. \<not> is_api_version (se_data event)) events)"

lemma connection_round_ids:
  assumes "channels_open env" and "node_connector env connector"
  obtains n b where "b \<in> {0, 1}"
    "event_ids (fst (connection_round env builder address metadata connector registry)) =
       ids_from (unwrap_or (registry Events) 0) n"
    "unwrap_or (snd (connection_round env builder address metadata connector registry) Events) 0 =
       (if n + b = 0 then unwrap_or (registry Events) 0
        else unwrap_or (registry Events) 0 + of_nat (n + b - 1))"
proof -
  define start where "start = unwrap_or (registry Events) 0"
  define wait where "wait = (if cb_allow_partial_connection builder then None else Some True)"
  define cm where "cm = new_manager address (Some start) Events (nm_network_name metadata)"
  have round: "connection_round env builder address metadata connector registry =
      (let (_, cm', _) = do_start_handling env connector wait cm
       in (cm_sse_events cm', last_event_id_registry (cm_event_ids cm') registry))"
    by (cases "registry Events")
      (simp_all add: connection_round_def build_connections_def filters_from_version_def build_connection_def
        filtered_sse_url_def Let_def wait_def cm_def start_def)
  obtain error cm' registered where h: "do_start_handling env connector wait cm = (Inl error, cm', registered)"
    "case session env (connector (Some start)) of
        None \<Rightarrow> cm_sse_events cm' = [] \<and> cm_event_ids cm' = []
      | Some (version, items) \<Rightarrow>
          cm_sse_events cm' =
            SseEvent_new 0 (ApiVersion version) address Events (cm_version_display env version)
              (nm_network_name metadata) #
            map (tagged env cm version) (accepted env items) \<and>
          cm_event_ids cm' = map (Pair Events) (observed_ids env items)"
    using do_start_handling_open [OF assms(1), of connector wait address "Some start" Events
        "nm_network_name metadata", folded cm_def]
    by (auto simp: wait_def split: option.splits if_splits)
  show thesis
  proof (cases "session env (connector (Some start))")
    case None
    then show thesis
      using h round by (intro that [of 0 0]) (auto simp: event_ids_def last_event_id_registry_def)
  next
    case (Some a)
    then obtain version items where s: "session env (connector (Some start)) = Some (version, items)"
      by (cases a) simp
    then have serves: "serves_from env start items" using assms(2) by (simp add: node_connector_def)
    obtain b where b: "b \<in> {0, 1}" "observed_ids env items = ids_from start (length (accepted env items) + b)"
      using observed_ids_from [OF serves] by blast
    have "map se_id (map (tagged env cm version) (accepted env items)) =
        ids_from start (length (accepted env items))"
      using accepted_ids [OF serves] by (simp add: tagged_def SseEvent_new_def case_prod_unfold comp_def)
    moreover have "filter (\<lambda>event. \<not> is_api_version (se_data event)) (map (tagged env cm version) (accepted env items)) =
        map (tagged env cm version) (accepted env items)"
      using accepted_ids [OF serves] by (auto simp: filter_id_conv tagged_def SseEvent_new_def)
    ultimately have "event_ids (cm_sse_events cm') = ids_from start (length (accepted env items))"
      using h(2) s by (simp add: event_ids_def SseEvent_new_def)
    moreover have "unwrap_or (last_event_id_registry (cm_event_ids cm') registry Events) 0 =
        (if length (accepted env items) + b = 0 then start
         else start + of_nat (length (accepted env items) + b - 1))"
    proof -
      have "cm_event_ids cm' = map (Pair Events) (observed_ids env items)" using h(2) s by simp
      then have "unwrap_or (last_event_id_registry (cm_event_ids cm') registry Events) 0 =
          (if observed_ids env items = [] then start else last (observed_ids env items))"
        by (simp only: registry_last start_def)
      then show ?thesis using b(2) by (auto simp: last_map)
    qed
    ultimately show thesis
      using b(1) h(1) round by (intro that [of b "length (accepted env items)"]) (auto simp: start_def)
  qed
qed

lemma no_gap_last: "no_gap ids \<Longrightarrow> i \<in> set ids \<Longrightarrow> i = 0 \<or> i - 1 \<in> set ids"
  using in_set_takeD by (fastforce simp: no_gap_def in_set_conv_nth)

text \<open>Where the next connection starts: at the beginning or right after an event passed on.\<close>

lemma next_start:
  fixes n :: nat
  assumes "no_gap ids" and "start = 0 \<or> start - 1 \<in> set ids" and "b \<in> {0, 1 :: nat}"
  defines "start' \<equiv> if n + b = 0 then start else start + of_nat (n + b - 1)"
  shows "start' = 0 \<or> start' - 1 \<in> set (ids @ ids_from start n)"
proof (cases n)
  case 0
  then have "start' = start" using assms(3) by (auto simp: start'_def)
  then show ?thesis using assms(2) by auto
next
  case (Suc m)
  then have last: "start + of_nat m \<in> set (ids @ ids_from start n)" by auto
  show ?thesis
  proof (cases "b = 0")
    case True
    then have "start' = start + of_nat m" using Suc by (simp add: start'_def)
    then show ?thesis using no_gap_last [OF no_gap_append [OF assms(1,2)] last] by simp
  next
    case False
    then have "start' - 1 = start + of_nat m" using Suc assms(3) by (auto simp: start'_def)
    then show ?thesis using last by simp
  qed
qed

lemma connection_rounds_no_gap:
  "channels_open env \<Longrightarrow> \<forall>connector \<in> set connectors. node_connector env connector \<Longrightarrow> no_gap ids \<Longrightarrow>
   unwrap_or (registry Events) 0 = 0 \<or> unwrap_or (registry Events) 0 - 1 \<in> set ids \<Longrightarrow>
   no_gap (ids @ event_ids (connection_rounds env builder address metadata connectors registry))"
proof (induction connectors arbitrary: ids registry)
  case Nil
  then show ?case by (simp add: event_ids_def)
next
  case (Cons connector connectors)
  obtain events registry' where
    r: "connection_round env builder address metadata connector registry = (events, registry')"
    by (cases "connection_round env builder address metadata connector registry")
  obtain n b where nb: "b \<in> {0, 1}" "event_ids events = ids_from (unwrap_or (registry Events) 0) n"
    "unwrap_or (registry' Events) 0 = (if n + b = 0 then unwrap_or (registry Events) 0
       else unwrap_or (registry Events) 0 + of_nat (n + b - 1))"
    by (rule connection_round_ids [OF Cons.prems(1), of connector builder address metadata registry])
      (use Cons.prems(2) r in simp_all)
  have "no_gap ((ids @ event_ids events) @
      event_ids (connection_rounds env builder address metadata connectors registry'))"
    using Cons.prems no_gap_append [OF Cons.prems(3,4), of n] next_start [OF Cons.prems(3,4) nb(1), of n] nb
    by (intro Cons.IH) simp_all
  then show ?case using r by (simp add: event_ids_def)
qed

subsection \<open>Properties\<close>


text \<open>A node that sends the version and two events before the connection breaks.\<close>

definition sample_connector :: "u32 option \<Rightarrow> connection_manager_error + event_result list" where
  "sample_connector start = (case start of
     None \<Rightarrow> Inl (InitialConnectionError [])
   | Some i \<Rightarrow> Inr [Inr \<lparr> raw_id = [], raw_data = ''ApiVersion'' \<rparr>,
       Inr \<lparr> raw_id = u32_to_string i, raw_data = ''Shutdown'' \<rparr>,
       Inr \<lparr> raw_id = u32_to_string (i + 1), raw_data = ''Shutdown'' \<rparr>, Inl ''broken''])"

definition sample_builder :: connections_builder where
  "sample_builder = \<lparr> cb_ip_address = ''127.0.0.1'', cb_sse_port = 18101, cb_allow_partial_connection = False \<rparr>"

definition sample_metadata :: node_metadata where
  "sample_metadata = \<lparr> nm_build_version = ProtocolVersion 2 0 0, nm_network_name = ''net'' \<rparr>"


text \<open>C17: the listener gives up.  If the node's metadata changes only finitely often, the loop of the
  listener ends with an error: after the last change at most twice the maximal number of attempts is
  made.  (While the metadata keeps changing, the counter of attempts starts again and again.)\<close>

theorem listener_gives_up:
  assumes "connections_nonempty env" and "stable_from env n metadata"
  shows "\<exists>error s. stream_aggregated_events env
     (n + 2 * el_max_connection_attempts listener + 3) listener = Some (error, s)"
  using listener_run_returns [OF assms] by (simp add: stream_aggregated_events_def)

definition failing_listener_env :: listener_env where
  "failing_listener_env = \<lparr> le_fetch = (\<lambda>k. if k = 0 then Inl (MetadataFetchError []) else Inr sample_metadata),
     le_connections = (\<lambda>k. Inr [Inr (Inl (InitialConnectionError []))]) \<rparr>"

definition sample_listener :: event_listener where
  "sample_listener = \<lparr> el_node_metadata = \<lparr> nm_build_version = ProtocolVersion 1 0 0, nm_network_name = [] \<rparr>,
     el_network_name = Some ''net'', el_max_connection_attempts = 3, el_allow_partial_connection = False \<rparr>"

theorem listener_gives_up_witness:
  "\<exists>error s. stream_aggregated_events failing_listener_env 9 sample_listener = Some (error, s)"
  using listener_gives_up [of failing_listener_env 0 sample_metadata sample_listener]
  by (simp add: connections_nonempty_def stable_from_def failing_listener_env_def sample_listener_def)


definition sample_status_env :: status_env where
  "sample_status_env = \<lparr> st_version_from_str = (\<lambda>s. if s = ''2.0.0'' then Inr (ProtocolVersion 2 0 0) else Inl ''bad''),
     st_version_display = (\<lambda>_. ''2.0.0''), st_json_display = (\<lambda>_. ''{}'') \<rparr>"

definition sample_status :: json where
  "sample_status = JObject [(''build_version'', JString ''2.0.0-abc''), (''chainspec_name'', JString ''net'')]"


end
