(* ===== verification/Node_Errors.thy ===== *)
theory Node_Errors
  imports Rust_Std
begin

text \<open>
  The errors of the node client, from \<open>rpc_sidecar/src/node_client.rs\<close>: the codes
  of the binary port (an enum of the \<open>casper_binary_port\<close> crate, whose numbers are
  a parameter), the reasons for which a transaction or deploy is invalid with their
  texts, and the translation of a code into an error.  The variants of the two long
  enums are grouped by the first word of their names, to keep the types small.
\<close>

subsection \<open>Codes of the binary port\<close>

datatype deploy_code =
    EC_InvalidDeployChainName | EC_InvalidDeployDependenciesNoLongerSupported
    | EC_InvalidDeployExcessiveSize | EC_InvalidDeployExcessiveTimeToLive
    | EC_InvalidDeployTimestampInFuture | EC_InvalidDeployBodyHash | EC_InvalidDeployHash
    | EC_InvalidDeployEmptyApprovals | EC_InvalidDeployApproval
    | EC_InvalidDeployExcessiveSessionArgsLength | EC_InvalidDeployExcessivePaymentArgsLength
    | EC_InvalidDeployMissingPaymentAmount | EC_InvalidDeployFailedToParsePaymentAmount
    | EC_InvalidDeployExceededBlockGasLimit | EC_InvalidDeployMissingTransferAmount
    | EC_InvalidDeployFailedToParseTransferAmount | EC_InvalidDeployInsufficientTransferAmount
    | EC_InvalidDeployExcessiveApprovals | EC_InvalidDeployUnableToCalculateGasLimit
    | EC_InvalidDeployUnableToCalculateGasCost | EC_InvalidDeployUnspecified
    | EC_InvalidDeployGasLimitNotSupported | EC_InvalidDeployInvalidRuntime
    | EC_InvalidDeployExceededWasmLaneGasLimit | EC_InvalidDeployInvalidPaymentAmount

datatype transaction_code =
    EC_InvalidTransactionChainName | EC_InvalidTransactionExcessiveSize
    | EC_InvalidTransactionExcessiveTimeToLive | EC_InvalidTransactionTimestampInFuture
    | EC_InvalidTransactionBodyHash | EC_InvalidTransactionHash
    | EC_InvalidTransactionEmptyApprovals | EC_InvalidTransactionInvalidApproval
    | EC_InvalidTransactionExcessiveArgsLength | EC_InvalidTransactionExcessiveApprovals
    | EC_InvalidTransactionExceedsBlockGasLimit | EC_InvalidTransactionMissingArg
    | EC_InvalidTransactionUnexpectedArgType | EC_InvalidTransactionInvalidArg
    | EC_InvalidTransactionInsufficientTransferAmount
    | EC_InvalidTransactionEntryPointCannotBeCustom | EC_InvalidTransactionEntryPointMustBeCustom
    | EC_InvalidTransactionEmptyModuleBytes | EC_InvalidTransactionGasPriceConversion
    | EC_InvalidTransactionUnableToCalculateGasLimit | EC_InvalidTransactionUnableToCalculateGasCost
    | EC_InvalidTransactionPricingMode | EC_InvalidTransactionEntryPointCannotBeCall
    | EC_InvalidTransactionInvalidTransactionLane | EC_InvalidTransactionUnspecified
    | EC_InvalidTransactionRuntime | EC_InvalidTransactionNoLaneMatches
    | EC_InvalidTransactionEntryPointMustBeCall | EC_InvalidTransactionCannotDeserializeField
    | EC_InvalidTransactionCannotCalculateFieldsHash | EC_InvalidTransactionUnexpectedFields
    | EC_InvalidTransactionExpectedBytesArguments | EC_InvalidTransactionMissingSeed
    | EC_InvalidTransactionInsufficientBurnAmount | EC_InvalidTransactionInvalidPaymentAmount
    | EC_InvalidTransactionUnexpectedEntryPoint

datatype entity_code =
    EC_EmptyBlockchain | EC_ExpectedDeploy | EC_ExpectedTransaction | EC_TransactionExpired
    | EC_MissingOrIncorrectParameters | EC_NoSuchAddressableEntity | EC_NoSuchContractAtHash
    | EC_NoSuchEntryPoint | EC_NoSuchPackageAtHash | EC_InvalidEntityAtVersion
    | EC_DisabledEntityAtVersion | EC_MissingEntityAtVersion | EC_InvalidAssociatedKeys
    | EC_InsufficientSignatureWeight | EC_InsufficientBalance | EC_UnknownBalance
    | EC_DeployInvalidPaymentVariant | EC_DeployMissingPaymentAmount
    | EC_DeployFailedToParsePaymentAmount | EC_DeployMissingTransferTarget
    | EC_DeployMissingModuleBytes | EC_InvalidTransactionOrDeployUnspecified
    | EC_ExpectedNamedArguments | EC_PricingModeNotSupported | EC_InvalidReservedSlots
    | EC_InvalidDelegationAmount | EC_InvalidMaximumDelegationAmount
    | EC_InvalidMinimumDelegationAmount | EC_InsufficientAmountArgValue

text \<open>All codes: the invalid deploys, transactions and what they refer to, and the others.\<close>

datatype error_code =
    Invalid_Deploy_Code deploy_code | Invalid_Transaction_Code transaction_code
    | Invalid_Entity_Code entity_code | EC_FunctionDisabled | EC_RootNotFound | EC_FailedQuery
    | EC_SwitchBlockNotFound | EC_SwitchBlockParentNotFound | EC_UnsupportedRewardsV1Request
    | EC_CommandHeaderVersionMismatch | EC_PurseNotFound | EC_RequestThrottled
    | EC_MalformedInformationRequest | EC_TooLittleBytesForRequestHeaderVersion
    | EC_MalformedCommandHeaderVersion | EC_TransferRecordMalformedKey | EC_MalformedCommandHeader
    | EC_MalformedCommand | EC_WasmPreprocessing | EC_InvalidItemVariant | EC_NotFound
    | EC_InternalError | EC_BadRequest | EC_UnsupportedRequest | EC_DictionaryURefNotFound
    | EC_NoCompleteBlocks | EC_GasPriceToleranceTooLow | EC_ReceivedV1Transaction
    | EC_TransactionHasMalformedBinaryRepresentation | EC_NoError | EC_UnsupportedInvocationTarget

subsection \<open>Invalid transactions and deploys\<close>

datatype deploy_reason =
    IT_DeployChainName | IT_DeployDependenciesNoLongerSupported | IT_DeployExcessiveSize
    | IT_DeployExcessiveTimeToLive | IT_DeployTimestampInFuture | IT_DeployBodyHash | IT_DeployHash
    | IT_DeployEmptyApprovals | IT_DeployApproval | IT_DeployExcessiveSessionArgsLength
    | IT_DeployExcessivePaymentArgsLength | IT_DeployMissingPaymentAmount
    | IT_DeployFailedToParsePaymentAmount | IT_DeployExceededBlockGasLimit
    | IT_DeployMissingTransferAmount | IT_DeployFailedToParseTransferAmount
    | IT_DeployInsufficientTransferAmount | IT_DeployExcessiveApprovals
    | IT_DeployUnableToCalculateGasLimit | IT_DeployUnableToCalculateGasCost | IT_DeployUnspecified
    | IT_DeployInvalidPaymentVariant | IT_DeployMissingTransferTarget | IT_DeployMissingModuleBytes

datatype transaction_reason =
    IT_TransactionChainName | IT_TransactionExcessiveSize | IT_TransactionExcessiveTimeToLive
    | IT_TransactionTimestampInFuture | IT_TransactionBodyHash | IT_TransactionHash
    | IT_TransactionEmptyApprovals | IT_TransactionInvalidApproval
    | IT_TransactionExcessiveArgsLength | IT_TransactionExcessiveApprovals
    | IT_TransactionExceedsBlockGasLimit | IT_TransactionMissingArg
    | IT_TransactionUnexpectedArgType | IT_TransactionInvalidArg
    | IT_TransactionInsufficientTransferAmount | IT_TransactionEntryPointCannotBeCustom
    | IT_TransactionEntryPointMustBeCustom | IT_TransactionEmptyModuleBytes
    | IT_TransactionGasPriceConversion | IT_TransactionUnableToCalculateGasLimit
    | IT_TransactionUnableToCalculateGasCost | IT_TransactionPricingMode | IT_TransactionUnspecified

datatype entity_reason =
    IT_TransactionOrDeployUnspecified | IT_EmptyBlockchain | IT_ExpectedDeploy
    | IT_ExpectedTransaction | IT_TransactionExpired | IT_MissingOrIncorrectParameters
    | IT_NoSuchAddressableEntity | IT_NoSuchContractAtHash | IT_NoSuchEntryPoint
    | IT_NoSuchPackageAtHash | IT_InvalidEntityAtVersion | IT_DisabledEntityAtVersion
    | IT_MissingEntityAtVersion | IT_InvalidAssociatedKeys | IT_InsufficientSignatureWeight
    | IT_InsufficientBalance | IT_UnknownBalance | IT_ExpectedNamedArguments
    | IT_PricingModeNotSupported | IT_InvalidReservedSlots | IT_InvalidDelegationAmount
    | IT_InvalidMaximumDelegationAmount | IT_InvalidMinimumDelegationAmount
    | IT_InsufficientAmountArgValue

datatype invalid_reason =
    IT_InvalidTransactionEntryPointCannotBeCall | IT_InvalidTransactionInvalidTransactionLane
    | IT_InvalidTransactionRuntime | IT_InvalidTransactionNoLaneMatches
    | IT_InvalidTransactionEntryPointMustBeCall | IT_InvalidTransactionCannotDeserializeField
    | IT_InvalidTransactionCannotCalculateFieldsHash | IT_InvalidTransactionUnexpectedFields
    | IT_InvalidTransactionExpectedBytesArguments | IT_InvalidTransactionMissingSeed
    | IT_InvalidDeployGasLimitNotSupported | IT_InvalidDeployInvalidRuntime
    | IT_InvalidDeployExceededWasmLaneGasLimit | IT_InvalidDeployInvalidPaymentAmount
    | IT_InvalidTransactionInsufficientBurnAmount | IT_InvalidTransactionInvalidPaymentAmount
    | IT_InvalidTransactionUnexpectedEntryPoint

datatype invalid_transaction_or_deploy =
    Invalid_Deploy deploy_reason | Invalid_Transaction transaction_reason
    | Invalid_Entity entity_reason | Invalid_Payload invalid_reason

text \<open>The texts of the reasons.\<close>

primrec deploy_reason_display :: "deploy_reason \<Rightarrow> string" where
  "deploy_reason_display IT_DeployChainName =
     ''The deploy had an invalid chain name''"
| "deploy_reason_display IT_DeployDependenciesNoLongerSupported =
     ''The dependencies for this transaction are no longer supported''"
| "deploy_reason_display IT_DeployExcessiveSize =
     ''The deploy had an excessive size''"
| "deploy_reason_display IT_DeployExcessiveTimeToLive =
     ''The deploy had an excessive time to live''"
| "deploy_reason_display IT_DeployTimestampInFuture =
     ''The deploys timestamp is in the future''"
| "deploy_reason_display IT_DeployBodyHash =
     ''The deploy had an invalid body hash''"
| "deploy_reason_display IT_DeployHash =
     ''The deploy had an invalid deploy hash''"
| "deploy_reason_display IT_DeployEmptyApprovals =
     ''The deploy had no approvals''"
| "deploy_reason_display IT_DeployApproval =
     ''The deploy had an invalid approval''"
| "deploy_reason_display IT_DeployExcessiveSessionArgsLength =
     ''The deploy had an excessive session args length''"
| "deploy_reason_display IT_DeployExcessivePaymentArgsLength =
     ''The deploy had an excessive payment args length''"
| "deploy_reason_display IT_DeployMissingPaymentAmount =
     ''The deploy had a missing payment amount''"
| "deploy_reason_display IT_DeployFailedToParsePaymentAmount =
     ''The deploy sent to the network had a payment amount that was unable to be parsed''"
| "deploy_reason_display IT_DeployExceededBlockGasLimit =
     ''The deploy sent to the network exceeded the block gas limit''"
| "deploy_reason_display IT_DeployMissingTransferAmount =
     ''The deploy sent to the network was missing a transfer amount''"
| "deploy_reason_display IT_DeployFailedToParseTransferAmount =
     ''The deploy sent to the network had a transfer amount that was unable to be parsed''"
| "deploy_reason_display IT_DeployInsufficientTransferAmount =
     ''The deploy sent to the network had an insufficient transfer amount''"
| "deploy_reason_display IT_DeployExcessiveApprovals =
     ''The deploy sent to the network had excessive approvals''"
| "deploy_reason_display IT_DeployUnableToCalculateGasLimit =
     ''The network was unable to calculate the gas limit associated with the deploy''"
| "deploy_reason_display IT_DeployUnableToCalculateGasCost =
     ''The network was unable to calculate the gas cost for the deploy''"
| "deploy_reason_display IT_DeployUnspecified =
     ''The deploy sent to the network was invalid for an unspecified reason''"
| "deploy_reason_display IT_DeployInvalidPaymentVariant =
     ''invalid payment variant for deploy''"
| "deploy_reason_display IT_DeployMissingTransferTarget =
     ''missing transfer target for deploy''"
| "deploy_reason_display IT_DeployMissingModuleBytes =
     ''missing module bytes for deploy''"

primrec transaction_reason_display :: "transaction_reason \<Rightarrow> string" where
  "transaction_reason_display IT_TransactionChainName =
     ''The transaction sent to the network had an invalid chain name''"
| "transaction_reason_display IT_TransactionExcessiveSize =
     ''The transaction sent to the network had an excessive size''"
| "transaction_reason_display IT_TransactionExcessiveTimeToLive =
     ''The transaction sent to the network had an excessive time to live''"
| "transaction_reason_display IT_TransactionTimestampInFuture =
     ''The transaction sent to the network had a timestamp that has not yet occurred''"
| "transaction_reason_display IT_TransactionBodyHash =
     ''The transaction sent to the network had an invalid body hash''"
| "transaction_reason_display IT_TransactionHash =
     ''The transaction sent to the network had an invalid hash''"
| "transaction_reason_display IT_TransactionEmptyApprovals =
     ''The transaction sent to the network had no approvals''"
| "transaction_reason_display IT_TransactionInvalidApproval =
     ''The transaction sent to the network had an invalid approval''"
| "transaction_reason_display IT_TransactionExcessiveArgsLength =
     ''The transaction sent to the network had excessive args length''"
| "transaction_reason_display IT_TransactionExcessiveApprovals =
     ''The transaction sent to the network had excessive approvals''"
| "transaction_reason_display IT_TransactionExceedsBlockGasLimit =
     ''The transaction sent to the network exceeds the networks block gas limit''"
| "transaction_reason_display IT_TransactionMissingArg =
     ''The transaction sent to the network was missing an argument''"
| "transaction_reason_display IT_TransactionUnexpectedArgType =
     ''The transaction sent to the network had an unexpected argument type''"
| "transaction_reason_display IT_TransactionInvalidArg =
     ''The transaction sent to the network had an invalid argument''"
| "transaction_reason_display IT_TransactionInsufficientTransferAmount =
     ''The transaction sent to the network had an insufficient transfer amount''"
| "transaction_reason_display IT_TransactionEntryPointCannotBeCustom =
     ''The native transaction sent to the network should not have a custom entry point''"
| "transaction_reason_display IT_TransactionEntryPointMustBeCustom =
     ''The non-native transaction sent to the network must have a custom entry point''"
| "transaction_reason_display IT_TransactionEmptyModuleBytes =
     ''The transaction sent to the network had empty module bytes''"
| "transaction_reason_display IT_TransactionGasPriceConversion =
     ''The transaction sent to the network had an invalid gas price conversion''"
| "transaction_reason_display IT_TransactionUnableToCalculateGasLimit =
     ''The network was unable to calculate the gas limit for the transaction sent''"
| "transaction_reason_display IT_TransactionUnableToCalculateGasCost =
     ''The network was unable to calculate the gas cost for the transaction sent.''"
| "transaction_reason_display IT_TransactionPricingMode =
     ''The transaction sent to the network had an invalid pricing mode''"
| "transaction_reason_display IT_TransactionUnspecified =
     ''The transaction sent to the network was invalid for an unspecified reason''"

primrec entity_reason_display :: "entity_reason \<Rightarrow> string" where
  "entity_reason_display IT_TransactionOrDeployUnspecified =
     ''The transaction or deploy sent to the network was invalid for an unspecified reason''"
| "entity_reason_display IT_EmptyBlockchain =
     ''blockchain is empty''"
| "entity_reason_display IT_ExpectedDeploy =
     ''expected deploy, got transaction''"
| "entity_reason_display IT_ExpectedTransaction =
     ''expected transaction V1, got deploy''"
| "entity_reason_display IT_TransactionExpired =
     ''transaction has expired''"
| "entity_reason_display IT_MissingOrIncorrectParameters =
     ''missing or incorrect transaction parameters''"
| "entity_reason_display IT_NoSuchAddressableEntity =
     ''no such addressable entity''"
| "entity_reason_display IT_NoSuchContractAtHash =
     ''no such contract at hash''"
| "entity_reason_display IT_NoSuchEntryPoint =
     ''no such entry point''"
| "entity_reason_display IT_NoSuchPackageAtHash =
     ''no such package at hash''"
| "entity_reason_display IT_InvalidEntityAtVersion =
     ''invalid entity at version''"
| "entity_reason_display IT_DisabledEntityAtVersion =
     ''disabled entity at version''"
| "entity_reason_display IT_MissingEntityAtVersion =
     ''missing entity at version''"
| "entity_reason_display IT_InvalidAssociatedKeys =
     ''invalid associated keys''"
| "entity_reason_display IT_InsufficientSignatureWeight =
     ''insufficient signature weight''"
| "entity_reason_display IT_InsufficientBalance =
     ''insufficient balance''"
| "entity_reason_display IT_UnknownBalance =
     ''unknown balance''"
| "entity_reason_display IT_ExpectedNamedArguments =
     ''expected named arguments''"
| "entity_reason_display IT_PricingModeNotSupported =
     ''Pricing mode not supported''"
| "entity_reason_display IT_InvalidReservedSlots =
     ''Invalid number of reserved slots''"
| "entity_reason_display IT_InvalidDelegationAmount =
     ''Invalid delegation amount''"
| "entity_reason_display IT_InvalidMaximumDelegationAmount =
     ''Using `version` for targeting contract version is not supported''"
| "entity_reason_display IT_InvalidMinimumDelegationAmount =
     ''Invalid minimum delegation''"
| "entity_reason_display IT_InsufficientAmountArgValue =
     ''Insufficient amount arg value''"

primrec invalid_reason_display :: "invalid_reason \<Rightarrow> string" where
  "invalid_reason_display IT_InvalidTransactionEntryPointCannotBeCall =
     ''entry point cannot be '' @ [CHR 39] @ ''call'' @ [CHR 39]"
| "invalid_reason_display IT_InvalidTransactionInvalidTransactionLane =
     ''invalid transaction lane''"
| "invalid_reason_display IT_InvalidTransactionRuntime =
     ''invalid transaction runtime''"
| "invalid_reason_display IT_InvalidTransactionNoLaneMatches =
     ''couldn'' @ [CHR 39] @ ''t associate a transaction lane with the transaction''"
| "invalid_reason_display IT_InvalidTransactionEntryPointMustBeCall =
     ''entry point must be '' @ [CHR 39] @ ''call'' @ [CHR 39]"
| "invalid_reason_display IT_InvalidTransactionCannotDeserializeField =
     ''One of the payloads field cannot be deserialized''"
| "invalid_reason_display IT_InvalidTransactionCannotCalculateFieldsHash =
     ''Can'' @ [CHR 39] @ ''t calculate hash of the payload fields''"
| "invalid_reason_display IT_InvalidTransactionUnexpectedFields =
     ''Unexpected fields in payload''"
| "invalid_reason_display IT_InvalidTransactionExpectedBytesArguments =
     ''expected bytes arguments''"
| "invalid_reason_display IT_InvalidTransactionMissingSeed =
     ''Missing seed field in transaction''"
| "invalid_reason_display IT_InvalidDeployGasLimitNotSupported =
     ''Gas limit not supported''"
| "invalid_reason_display IT_InvalidDeployInvalidRuntime =
     ''Invalid runtime for Transaction::Deploy''"
| "invalid_reason_display IT_InvalidDeployExceededWasmLaneGasLimit =
     ''Transaction::Deploy exceeds lane gas limit''"
| "invalid_reason_display IT_InvalidDeployInvalidPaymentAmount =
     ''Invalid payment amount for Transaction::Deploy''"
| "invalid_reason_display IT_InvalidTransactionInsufficientBurnAmount =
     ''Insufficient burn amount for Transaction::V1''"
| "invalid_reason_display IT_InvalidTransactionInvalidPaymentAmount =
     ''Invalid payment amount for Transaction::V1''"
| "invalid_reason_display IT_InvalidTransactionUnexpectedEntryPoint =
     ''Unexpected entry point for Transaction::V1''"

primrec invalid_display :: "invalid_transaction_or_deploy \<Rightarrow> string" where
  "invalid_display (Invalid_Deploy r) = deploy_reason_display r"
| "invalid_display (Invalid_Transaction r) = transaction_reason_display r"
| "invalid_display (Invalid_Entity r) = entity_reason_display r"
| "invalid_display (Invalid_Payload r) = invalid_reason_display r"

text \<open>\<open>From<ErrorCode>\<close>, by the groups of codes.\<close>

primrec from_deploy_code :: "deploy_code \<Rightarrow> invalid_transaction_or_deploy" where
  "from_deploy_code EC_InvalidDeployChainName =
     Invalid_Deploy IT_DeployChainName"
| "from_deploy_code EC_InvalidDeployDependenciesNoLongerSupported =
     Invalid_Deploy IT_DeployDependenciesNoLongerSupported"
| "from_deploy_code EC_InvalidDeployExcessiveSize =
     Invalid_Deploy IT_DeployExcessiveSize"
| "from_deploy_code EC_InvalidDeployExcessiveTimeToLive =
     Invalid_Deploy IT_DeployExcessiveTimeToLive"
| "from_deploy_code EC_InvalidDeployTimestampInFuture =
     Invalid_Deploy IT_DeployTimestampInFuture"
| "from_deploy_code EC_InvalidDeployBodyHash =
     Invalid_Deploy IT_DeployBodyHash"
| "from_deploy_code EC_InvalidDeployHash =
     Invalid_Deploy IT_DeployHash"
| "from_deploy_code EC_InvalidDeployEmptyApprovals =
     Invalid_Deploy IT_DeployEmptyApprovals"
| "from_deploy_code EC_InvalidDeployApproval =
     Invalid_Deploy IT_DeployApproval"
| "from_deploy_code EC_InvalidDeployExcessiveSessionArgsLength =
     Invalid_Deploy IT_DeployExcessiveSessionArgsLength"
| "from_deploy_code EC_InvalidDeployExcessivePaymentArgsLength =
     Invalid_Deploy IT_DeployExcessivePaymentArgsLength"
| "from_deploy_code EC_InvalidDeployMissingPaymentAmount =
     Invalid_Deploy IT_DeployMissingPaymentAmount"
| "from_deploy_code EC_InvalidDeployFailedToParsePaymentAmount =
     Invalid_Deploy IT_DeployFailedToParsePaymentAmount"
| "from_deploy_code EC_InvalidDeployExceededBlockGasLimit =
     Invalid_Deploy IT_DeployExceededBlockGasLimit"
| "from_deploy_code EC_InvalidDeployMissingTransferAmount =
     Invalid_Deploy IT_DeployMissingTransferAmount"
| "from_deploy_code EC_InvalidDeployFailedToParseTransferAmount =
     Invalid_Deploy IT_DeployFailedToParseTransferAmount"
| "from_deploy_code EC_InvalidDeployInsufficientTransferAmount =
     Invalid_Deploy IT_DeployInsufficientTransferAmount"
| "from_deploy_code EC_InvalidDeployExcessiveApprovals =
     Invalid_Deploy IT_DeployExcessiveApprovals"
| "from_deploy_code EC_InvalidDeployUnableToCalculateGasLimit =
     Invalid_Deploy IT_DeployUnableToCalculateGasLimit"
| "from_deploy_code EC_InvalidDeployUnableToCalculateGasCost =
     Invalid_Deploy IT_DeployUnableToCalculateGasCost"
| "from_deploy_code EC_InvalidDeployUnspecified =
     Invalid_Deploy IT_DeployUnspecified"
| "from_deploy_code EC_InvalidDeployGasLimitNotSupported =
     Invalid_Payload IT_InvalidDeployGasLimitNotSupported"
| "from_deploy_code EC_InvalidDeployInvalidRuntime =
     Invalid_Payload IT_InvalidDeployInvalidRuntime"
| "from_deploy_code EC_InvalidDeployExceededWasmLaneGasLimit =
     Invalid_Payload IT_InvalidDeployExceededWasmLaneGasLimit"
| "from_deploy_code EC_InvalidDeployInvalidPaymentAmount =
     Invalid_Payload IT_InvalidDeployInvalidPaymentAmount"

primrec from_transaction_code :: "transaction_code \<Rightarrow> invalid_transaction_or_deploy" where
  "from_transaction_code EC_InvalidTransactionChainName =
     Invalid_Transaction IT_TransactionChainName"
| "from_transaction_code EC_InvalidTransactionExcessiveSize =
     Invalid_Transaction IT_TransactionExcessiveSize"
| "from_transaction_code EC_InvalidTransactionExcessiveTimeToLive =
     Invalid_Transaction IT_TransactionExcessiveTimeToLive"
| "from_transaction_code EC_InvalidTransactionTimestampInFuture =
     Invalid_Transaction IT_TransactionTimestampInFuture"
| "from_transaction_code EC_InvalidTransactionBodyHash =
     Invalid_Transaction IT_TransactionBodyHash"
| "from_transaction_code EC_InvalidTransactionHash =
     Invalid_Transaction IT_TransactionHash"
| "from_transaction_code EC_InvalidTransactionEmptyApprovals =
     Invalid_Transaction IT_TransactionEmptyApprovals"
| "from_transaction_code EC_InvalidTransactionInvalidApproval =
     Invalid_Transaction IT_TransactionInvalidApproval"
| "from_transaction_code EC_InvalidTransactionExcessiveArgsLength =
     Invalid_Transaction IT_TransactionExcessiveArgsLength"
| "from_transaction_code EC_InvalidTransactionExcessiveApprovals =
     Invalid_Transaction IT_TransactionExcessiveApprovals"
| "from_transaction_code EC_InvalidTransactionExceedsBlockGasLimit =
     Invalid_Transaction IT_TransactionExceedsBlockGasLimit"
| "from_transaction_code EC_InvalidTransactionMissingArg =
     Invalid_Transaction IT_TransactionMissingArg"
| "from_transaction_code EC_InvalidTransactionUnexpectedArgType =
     Invalid_Transaction IT_TransactionUnexpectedArgType"
| "from_transaction_code EC_InvalidTransactionInvalidArg =
     Invalid_Transaction IT_TransactionInvalidArg"
| "from_transaction_code EC_InvalidTransactionInsufficientTransferAmount =
     Invalid_Transaction IT_TransactionInsufficientTransferAmount"
| "from_transaction_code EC_InvalidTransactionEntryPointCannotBeCustom =
     Invalid_Transaction IT_TransactionEntryPointCannotBeCustom"
| "from_transaction_code EC_InvalidTransactionEntryPointMustBeCustom =
     Invalid_Transaction IT_TransactionEntryPointMustBeCustom"
| "from_transaction_code EC_InvalidTransactionEmptyModuleBytes =
     Invalid_Transaction IT_TransactionEmptyModuleBytes"
| "from_transaction_code EC_InvalidTransactionGasPriceConversion =
     Invalid_Transaction IT_TransactionGasPriceConversion"
| "from_transaction_code EC_InvalidTransactionUnableToCalculateGasLimit =
     Invalid_Transaction IT_TransactionUnableToCalculateGasLimit"
| "from_transaction_code EC_InvalidTransactionUnableToCalculateGasCost =
     Invalid_Transaction IT_TransactionUnableToCalculateGasCost"
| "from_transaction_code EC_InvalidTransactionPricingMode =
     Invalid_Transaction IT_TransactionPricingMode"
| "from_transaction_code EC_InvalidTransactionEntryPointCannotBeCall =
     Invalid_Payload IT_InvalidTransactionEntryPointCannotBeCall"
| "from_transaction_code EC_InvalidTransactionInvalidTransactionLane =
     Invalid_Payload IT_InvalidTransactionInvalidTransactionLane"
| "from_transaction_code EC_InvalidTransactionUnspecified =
     Invalid_Transaction IT_TransactionUnspecified"
| "from_transaction_code EC_InvalidTransactionRuntime =
     Invalid_Payload IT_InvalidTransactionRuntime"
| "from_transaction_code EC_InvalidTransactionNoLaneMatches =
     Invalid_Payload IT_InvalidTransactionNoLaneMatches"
| "from_transaction_code EC_InvalidTransactionEntryPointMustBeCall =
     Invalid_Payload IT_InvalidTransactionEntryPointMustBeCall"
| "from_transaction_code EC_InvalidTransactionCannotDeserializeField =
     Invalid_Payload IT_InvalidTransactionCannotDeserializeField"
| "from_transaction_code EC_InvalidTransactionCannotCalculateFieldsHash =
     Invalid_Payload IT_InvalidTransactionCannotCalculateFieldsHash"
| "from_transaction_code EC_InvalidTransactionUnexpectedFields =
     Invalid_Payload IT_InvalidTransactionUnexpectedFields"
| "from_transaction_code EC_InvalidTransactionExpectedBytesArguments =
     Invalid_Payload IT_InvalidTransactionExpectedBytesArguments"
| "from_transaction_code EC_InvalidTransactionMissingSeed =
     Invalid_Payload IT_InvalidTransactionMissingSeed"
| "from_transaction_code EC_InvalidTransactionInsufficientBurnAmount =
     Invalid_Payload IT_InvalidTransactionInsufficientBurnAmount"
| "from_transaction_code EC_InvalidTransactionInvalidPaymentAmount =
     Invalid_Payload IT_InvalidTransactionInvalidPaymentAmount"
| "from_transaction_code EC_InvalidTransactionUnexpectedEntryPoint =
     Invalid_Payload IT_InvalidTransactionUnexpectedEntryPoint"

primrec from_entity_code :: "entity_code \<Rightarrow> invalid_transaction_or_deploy" where
  "from_entity_code EC_EmptyBlockchain =
     Invalid_Entity IT_EmptyBlockchain"
| "from_entity_code EC_ExpectedDeploy =
     Invalid_Entity IT_ExpectedDeploy"
| "from_entity_code EC_ExpectedTransaction =
     Invalid_Entity IT_ExpectedTransaction"
| "from_entity_code EC_TransactionExpired =
     Invalid_Entity IT_TransactionExpired"
| "from_entity_code EC_MissingOrIncorrectParameters =
     Invalid_Entity IT_MissingOrIncorrectParameters"
| "from_entity_code EC_NoSuchAddressableEntity =
     Invalid_Entity IT_NoSuchAddressableEntity"
| "from_entity_code EC_NoSuchContractAtHash =
     Invalid_Entity IT_NoSuchContractAtHash"
| "from_entity_code EC_NoSuchEntryPoint =
     Invalid_Entity IT_NoSuchEntryPoint"
| "from_entity_code EC_NoSuchPackageAtHash =
     Invalid_Entity IT_NoSuchPackageAtHash"
| "from_entity_code EC_InvalidEntityAtVersion =
     Invalid_Entity IT_InvalidEntityAtVersion"
| "from_entity_code EC_DisabledEntityAtVersion =
     Invalid_Entity IT_DisabledEntityAtVersion"
| "from_entity_code EC_MissingEntityAtVersion =
     Invalid_Entity IT_MissingEntityAtVersion"
| "from_entity_code EC_InvalidAssociatedKeys =
     Invalid_Entity IT_InvalidAssociatedKeys"
| "from_entity_code EC_InsufficientSignatureWeight =
     Invalid_Entity IT_InsufficientSignatureWeight"
| "from_entity_code EC_InsufficientBalance =
     Invalid_Entity IT_InsufficientBalance"
| "from_entity_code EC_UnknownBalance =
     Invalid_Entity IT_UnknownBalance"
| "from_entity_code EC_DeployInvalidPaymentVariant =
     Invalid_Deploy IT_DeployInvalidPaymentVariant"
| "from_entity_code EC_DeployMissingPaymentAmount =
     Invalid_Deploy IT_DeployMissingPaymentAmount"
| "from_entity_code EC_DeployFailedToParsePaymentAmount =
     Invalid_Deploy IT_DeployFailedToParsePaymentAmount"
| "from_entity_code EC_DeployMissingTransferTarget =
     Invalid_Deploy IT_DeployMissingTransferTarget"
| "from_entity_code EC_DeployMissingModuleBytes =
     Invalid_Deploy IT_DeployMissingModuleBytes"
| "from_entity_code EC_InvalidTransactionOrDeployUnspecified =
     Invalid_Entity IT_TransactionOrDeployUnspecified"
| "from_entity_code EC_ExpectedNamedArguments =
     Invalid_Entity IT_ExpectedNamedArguments"
| "from_entity_code EC_PricingModeNotSupported =
     Invalid_Entity IT_PricingModeNotSupported"
| "from_entity_code EC_InvalidReservedSlots =
     Invalid_Entity IT_InvalidReservedSlots"
| "from_entity_code EC_InvalidDelegationAmount =
     Invalid_Entity IT_InvalidDelegationAmount"
| "from_entity_code EC_InvalidMaximumDelegationAmount =
     Invalid_Entity IT_InvalidMaximumDelegationAmount"
| "from_entity_code EC_InvalidMinimumDelegationAmount =
     Invalid_Entity IT_InvalidMinimumDelegationAmount"
| "from_entity_code EC_InsufficientAmountArgValue =
     Invalid_Entity IT_InsufficientAmountArgValue"

fun InvalidTransactionOrDeploy_from :: "error_code \<Rightarrow> invalid_transaction_or_deploy" where
  "InvalidTransactionOrDeploy_from (Invalid_Deploy_Code code) = from_deploy_code code"
| "InvalidTransactionOrDeploy_from (Invalid_Transaction_Code code) = from_transaction_code code"
| "InvalidTransactionOrDeploy_from (Invalid_Entity_Code code) = from_entity_code code"
| "InvalidTransactionOrDeploy_from _ = Invalid_Entity IT_TransactionOrDeployUnspecified"

subsection \<open>Errors of the client\<close>

datatype client_error =
    CE_RequestFailed string | CE_RequestResponseIdMismatch u16 u16
    | CE_TooManyMismatchedResponses u8 | CE_OriginalRequestDeserialization string
    | CE_EnvelopeDeserialization | CE_Deserialization string | CE_Serialization string
    | CE_NoResponseBody | CE_EmptyEnvelope | CE_UnexpectedVariantReceived u8 | CE_FunctionIsDisabled
    | CE_UnknownStateRootHash | CE_QueryFailedToExecute
    | CE_InvalidTransaction invalid_transaction_or_deploy | CE_SpecExecutionFailed string
    | CE_SwitchBlockNotFound | CE_SwitchBlockParentNotFound | CE_UnsupportedRewardsV1Request
    | CE_PurseNotFound | CE_UnexpectedNodeError string u16 | CE_CommandHeaderVersionMismatch
    | CE_RequestThrottled | CE_MalformedInformationRequest
    | CE_TooLittleBytesForRequestHeaderVersion | CE_MalformedCommandHeaderVersion
    | CE_TransferRecordMalformedKey | CE_MalformedCommandHeader | CE_MalformedCommand | CE_NotFound
    | CE_InternalNodeError | CE_BadRequest | CE_UnsupportedRequest | CE_DictionaryURefNotFound
    | CE_NoCompleteBlocks | CE_GasPriceToleranceTooLow | CE_ReceivedV1Transaction
    | CE_ConnectionLost | CE_TransactionHasMalformedBinaryRepresentation
    | CE_UnsupportedInvocationTarget

primrec client_error_display :: "client_error \<Rightarrow> string" where
  "client_error_display (CE_RequestFailed x) =
     ''request error: '' @ x"
| "client_error_display (CE_RequestResponseIdMismatch expected got) =
     ''request id mismatch: expected '' @ nat_to_string (unat expected) @ '', got '' @ nat_to_string (unat got)"
| "client_error_display (CE_TooManyMismatchedResponses retries) =
     ''failed to get a response with correct id '' @ nat_to_string (unat retries) @ '' times, giving up''"
| "client_error_display (CE_OriginalRequestDeserialization x) =
     ''failed to deserialize the original request provided with the response: '' @ x"
| "client_error_display CE_EnvelopeDeserialization =
     ''failed to deserialize the envelope of a response''"
| "client_error_display (CE_Deserialization x) =
     ''failed to deserialize a response: '' @ x"
| "client_error_display (CE_Serialization x) =
     ''failed to serialize a request: '' @ x"
| "client_error_display CE_NoResponseBody =
     ''unexpectedly received no response body''"
| "client_error_display CE_EmptyEnvelope =
     ''unexpectedly received an empty envelope''"
| "client_error_display (CE_UnexpectedVariantReceived x) =
     ''unexpected payload variant received in the response: '' @ nat_to_string (unat x)"
| "client_error_display CE_FunctionIsDisabled =
     ''attempted to use a function that'' @ [CHR 39] @ ''s disabled on the node''"
| "client_error_display CE_UnknownStateRootHash =
     ''could not find the provided state root hash''"
| "client_error_display CE_QueryFailedToExecute =
     ''the provided global state query failed to execute''"
| "client_error_display (CE_InvalidTransaction x) =
     ''could not execute the provided transaction: '' @ invalid_display x"
| "client_error_display (CE_SpecExecutionFailed x) =
     ''speculative execution has failed: '' @ x"
| "client_error_display CE_SwitchBlockNotFound =
     ''the switch block for the requested era was not found''"
| "client_error_display CE_SwitchBlockParentNotFound =
     ''the parent of the switch block for the requested era was not found''"
| "client_error_display CE_UnsupportedRewardsV1Request =
     ''cannot serve rewards stored in V1 format''"
| "client_error_display CE_PurseNotFound =
     ''purse was not found for given identifier''"
| "client_error_display (CE_UnexpectedNodeError message code) =
     ''received an unexpected node error: '' @ message @ '' ('' @ nat_to_string (unat code) @ '')''"
| "client_error_display CE_CommandHeaderVersionMismatch =
     ''binary protocol version mismatch''"
| "client_error_display CE_RequestThrottled =
     ''request was throttled by the node''"
| "client_error_display CE_MalformedInformationRequest =
     ''malformed information request''"
| "client_error_display CE_TooLittleBytesForRequestHeaderVersion =
     ''malformed version bytes in command header''"
| "client_error_display CE_MalformedCommandHeaderVersion =
     ''malformed protocol version''"
| "client_error_display CE_TransferRecordMalformedKey =
     ''malformed transfer record key''"
| "client_error_display CE_MalformedCommandHeader =
     ''malformed command header''"
| "client_error_display CE_MalformedCommand =
     ''malformed command''"
| "client_error_display CE_NotFound =
     ''not found''"
| "client_error_display CE_InternalNodeError =
     ''node reported internal error''"
| "client_error_display CE_BadRequest =
     ''bad request''"
| "client_error_display CE_UnsupportedRequest =
     ''unsupported request''"
| "client_error_display CE_DictionaryURefNotFound =
     ''dictionary URef not found''"
| "client_error_display CE_NoCompleteBlocks =
     ''no complete blocks''"
| "client_error_display CE_GasPriceToleranceTooLow =
     ''gas price tolerance too low''"
| "client_error_display CE_ReceivedV1Transaction =
     ''received v1 transaction for speculative execution''"
| "client_error_display CE_ConnectionLost =
     ''connection to node lost''"
| "client_error_display CE_TransactionHasMalformedBinaryRepresentation =
     ''transaction has malformed binary representation''"
| "client_error_display CE_UnsupportedInvocationTarget =
     ''the transaction invocation target is unsupported under V2 runtime''"

text \<open>What is used of the enum of codes: the conversion from a number, the texts, and the number that
  stands for no error.\<close>

record error_codes =
  bp_error_code_try_from :: "u16 \<Rightarrow> string + error_code"
  bp_error_code_display :: "error_code \<Rightarrow> string"
  bp_no_error_code :: u16

text \<open>\<open>Error::from_error_code\<close>, for a code that is known and for any number.\<close>

fun from_known_code :: "'z error_codes_scheme \<Rightarrow> error_code \<Rightarrow> client_error" where
  "from_known_code bp (Invalid_Deploy_Code c) =
     CE_InvalidTransaction (InvalidTransactionOrDeploy_from (Invalid_Deploy_Code c))"
| "from_known_code bp (Invalid_Transaction_Code c) =
     CE_InvalidTransaction (InvalidTransactionOrDeploy_from (Invalid_Transaction_Code c))"
| "from_known_code bp (Invalid_Entity_Code c) =
     CE_InvalidTransaction (InvalidTransactionOrDeploy_from (Invalid_Entity_Code c))"
| "from_known_code bp EC_FunctionDisabled = CE_FunctionIsDisabled"
| "from_known_code bp EC_RootNotFound = CE_UnknownStateRootHash"
| "from_known_code bp EC_FailedQuery = CE_QueryFailedToExecute"
| "from_known_code bp EC_SwitchBlockNotFound = CE_SwitchBlockNotFound"
| "from_known_code bp EC_SwitchBlockParentNotFound = CE_SwitchBlockParentNotFound"
| "from_known_code bp EC_UnsupportedRewardsV1Request = CE_UnsupportedRewardsV1Request"
| "from_known_code bp EC_CommandHeaderVersionMismatch = CE_CommandHeaderVersionMismatch"
| "from_known_code bp EC_PurseNotFound = CE_PurseNotFound"
| "from_known_code bp EC_RequestThrottled = CE_RequestThrottled"
| "from_known_code bp EC_MalformedInformationRequest = CE_MalformedInformationRequest"
| "from_known_code bp EC_TooLittleBytesForRequestHeaderVersion =
     CE_TooLittleBytesForRequestHeaderVersion"
| "from_known_code bp EC_MalformedCommandHeaderVersion = CE_MalformedCommandHeaderVersion"
| "from_known_code bp EC_TransferRecordMalformedKey = CE_TransferRecordMalformedKey"
| "from_known_code bp EC_MalformedCommandHeader = CE_MalformedCommandHeader"
| "from_known_code bp EC_MalformedCommand = CE_MalformedCommand"
| "from_known_code bp EC_WasmPreprocessing =
     CE_SpecExecutionFailed (bp_error_code_display bp EC_WasmPreprocessing)"
| "from_known_code bp EC_InvalidItemVariant =
     CE_SpecExecutionFailed (bp_error_code_display bp EC_InvalidItemVariant)"
| "from_known_code bp EC_NotFound = CE_NotFound"
| "from_known_code bp EC_InternalError = CE_InternalNodeError"
| "from_known_code bp EC_BadRequest = CE_BadRequest"
| "from_known_code bp EC_UnsupportedRequest = CE_UnsupportedRequest"
| "from_known_code bp EC_DictionaryURefNotFound = CE_DictionaryURefNotFound"
| "from_known_code bp EC_NoCompleteBlocks = CE_NoCompleteBlocks"
| "from_known_code bp EC_GasPriceToleranceTooLow = CE_GasPriceToleranceTooLow"
| "from_known_code bp EC_ReceivedV1Transaction = CE_ReceivedV1Transaction"
| "from_known_code bp EC_TransactionHasMalformedBinaryRepresentation =
     CE_TransactionHasMalformedBinaryRepresentation"
| "from_known_code bp EC_NoError =
     CE_UnexpectedNodeError (''Received unexpected '' @ [CHR 39] @ ''NoError'' @ [CHR 39] @ '' error code'')
       (bp_no_error_code bp)"
| "from_known_code bp EC_UnsupportedInvocationTarget = CE_UnsupportedInvocationTarget"

definition from_error_code :: "'z error_codes_scheme \<Rightarrow> u16 \<Rightarrow> client_error" where
  "from_error_code bp code =
     (case bp_error_code_try_from bp code of
        Inr known \<Rightarrow> from_known_code bp known
      | Inl err \<Rightarrow> CE_UnexpectedNodeError err code)"

subsection \<open>Distinguishing codes\<close>

lemma deploy_code_inject: "from_deploy_code c = from_deploy_code d \<longleftrightarrow> c = d"
  by (cases c; cases d; simp)

lemma transaction_code_inject: "from_transaction_code c = from_transaction_code d \<longleftrightarrow> c = d"
  by (cases c; cases d; simp)

lemma entity_code_inject: "from_entity_code c = from_entity_code d \<longleftrightarrow> c = d"
  by (cases c; cases d; simp)

lemma deploy_transaction_distinct: "from_deploy_code c \<noteq> from_transaction_code d"
  by (cases c; cases d; simp)

lemma transaction_entity_distinct: "from_transaction_code c \<noteq> from_entity_code d"
  by (cases c; cases d; simp)

lemma deploy_entity_same:
  "from_deploy_code c = from_entity_code d \<longleftrightarrow>
     c = EC_InvalidDeployMissingPaymentAmount \<and> d = EC_DeployMissingPaymentAmount \<or>
     c = EC_InvalidDeployFailedToParsePaymentAmount \<and> d = EC_DeployFailedToParsePaymentAmount"
  by (cases c; cases d; simp)

lemmas code_reasons = deploy_code_inject transaction_code_inject entity_code_inject
  deploy_transaction_distinct deploy_transaction_distinct [symmetric]
  transaction_entity_distinct transaction_entity_distinct [symmetric]
  deploy_entity_same eq_commute [of "from_entity_code _" "from_deploy_code _"]

lemma invalid_transaction_code:
  assumes "from_known_code bp code = CE_InvalidTransaction reason"
  obtains (deploy) c where "code = Invalid_Deploy_Code c" "reason = from_deploy_code c"
  | (transaction) c where "code = Invalid_Transaction_Code c" "reason = from_transaction_code c"
  | (entity) c where "code = Invalid_Entity_Code c" "reason = from_entity_code c"
  using assms by (cases code) simp_all

text \<open>The reasons given for an invalid transaction tell the node's codes apart.  Two codes of the
  node that are reported as invalid transactions with the same reason are equal, except for the two
  codes each that the node has for a missing and for an unparsable payment amount of a deploy.\<close>

theorem reasons_distinguish_codes:
  assumes "from_known_code bp code1 = CE_InvalidTransaction reason"
    and "from_known_code bp code2 = CE_InvalidTransaction reason"
  shows "code1 = code2 \<or>
    {code1, code2} = {Invalid_Deploy_Code EC_InvalidDeployMissingPaymentAmount,
                      Invalid_Entity_Code EC_DeployMissingPaymentAmount} \<or>
    {code1, code2} = {Invalid_Deploy_Code EC_InvalidDeployFailedToParsePaymentAmount,
                      Invalid_Entity_Code EC_DeployFailedToParsePaymentAmount}"
  using assms(1)
proof (cases rule: invalid_transaction_code)
  case (deploy c)
  show ?thesis using assms(2)
    by (cases rule: invalid_transaction_code) (use deploy in \<open>auto simp: code_reasons\<close>)
next
  case (transaction c)
  show ?thesis using assms(2)
    by (cases rule: invalid_transaction_code) (use transaction in \<open>auto simp: code_reasons\<close>)
next
  case (entity c)
  show ?thesis using assms(2)
    by (cases rule: invalid_transaction_code) (use entity in \<open>auto simp: code_reasons\<close>)
qed

definition sample_codes :: error_codes where
  "sample_codes = \<lparr> bp_error_code_try_from = (\<lambda>n. if n = 0 then Inr EC_NoError else Inl ''unknown code''),
     bp_error_code_display = (\<lambda>_. ''code''), bp_no_error_code = 0 \<rparr>"

theorem reasons_distinguish_codes_witness:
  "from_known_code sample_codes (Invalid_Deploy_Code EC_InvalidDeployMissingPaymentAmount) =
     CE_InvalidTransaction (Invalid_Deploy IT_DeployMissingPaymentAmount) \<and>
   from_known_code sample_codes (Invalid_Entity_Code EC_DeployMissingPaymentAmount) =
     CE_InvalidTransaction (Invalid_Deploy IT_DeployMissingPaymentAmount)"
  using reasons_distinguish_codes [of sample_codes
      "Invalid_Deploy_Code EC_InvalidDeployMissingPaymentAmount" "Invalid_Deploy IT_DeployMissingPaymentAmount"
      "Invalid_Entity_Code EC_DeployMissingPaymentAmount"] by simp

end
