(* ===== verification/Node_Client.thy ===== *)
theory Node_Client
  imports Node_Errors Casper_Types
begin

text \<open>
  The client of the node's binary port, from \<open>rpc_sidecar/src/node_client.rs\<close>, with
  \<open>encode_request\<close> and \<open>parse_response\<close> of \<open>rpc_sidecar/src/lib.rs\<close>: the requests of
  the trait \<open>NodeClient\<close>, the numbering of requests and matching of responses, the
  reconnection, and the delays between attempts to connect.  The encodings of the
  binary port are a parameter, as are the outcomes of sending, receiving and
  connecting.
\<close>

subsection \<open>Commands and responses\<close>

text \<open>The identifiers of the binary port, with the variants that the sidecar uses.  Addresses and URefs are
  their serialised texts.\<close>

datatype block_identifier = BlockIdentifier_Hash block_hash | BlockIdentifier_Height u64

datatype state_identifier =
    GlobalState_BlockHash block_hash | GlobalState_BlockHeight u64 | GlobalState_StateRootHash digest

datatype key_tag = KeyTag_Bid | KeyTag_BidAddr | KeyTag_Other u8

datatype state_key =
    Key_Account account_hash
  | Key_Hash digest
  | Key_EraInfo era_id
  | Key_EraSummary
  | Key_SystemEntityRegistry
  | Key_SystemEntity digest
  | Key_Other casper_key

datatype key_prefix =
    Prefix_NamedKeysByEntity opaque | Prefix_EntryPointsV1ByEntity opaque | Prefix_EntryPointsV2ByEntity opaque

datatype port_purse_identifier =
    PortPurse_PublicKey public_key | PortPurse_Account account_hash | PortPurse_Entity opaque | PortPurse_Purse opaque

datatype port_entity_identifier =
    PortEntity_ContractHash digest | PortEntity_PublicKey public_key | PortEntity_AccountHash account_hash
  | PortEntity_EntityAddr opaque

datatype port_package_identifier = PortPackage_PackageAddr digest | PortPackage_ContractPackageHash digest

datatype dictionary_item_identifier =
    DictionaryItem_AccountNamedKey account_hash string string
  | DictionaryItem_ContractNamedKey digest string string
  | DictionaryItem_EntityNamedKey opaque string string
  | DictionaryItem_URef opaque string
  | DictionaryItem_DictionaryItem digest

datatype port_era_identifier = PortEra_Era era_id | PortEra_Block block_identifier

datatype entity_qualifier =
    Qualifier_Item state_key "string list"
  | Qualifier_AllItems key_tag
  | Qualifier_ItemsByPrefix key_prefix
  | Qualifier_Balance port_purse_identifier
  | Qualifier_DictionaryItem dictionary_item_identifier

record global_state_request =
  gs_state_identifier :: "state_identifier option"
  gs_qualifier :: entity_qualifier

datatype get_request =
    GetRequest_Record u8 "u8 list"
  | GetRequest_Information u8 "u8 list"
  | GetRequest_State global_state_request
  | GetRequest_Trie digest

datatype command =
    Command_Get get_request
  | Command_TryAcceptTransaction transaction
  | Command_TrySpeculativeExec transaction

datatype information_request =
    Info_BlockHeader "block_identifier option"
  | Info_BlockWithSignatures "block_identifier option"
  | Info_Transaction transaction_hash bool
  | Info_Peers
  | Info_AvailableBlockRange
  | Info_ChainspecRawBytes
  | Info_ConsensusValidatorChanges
  | Info_LatestSwitchBlockHeader
  | Info_NodeStatus
  | Info_Reward "port_era_identifier option" public_key "public_key option"
  | Info_Package "state_identifier option" port_package_identifier
  | Info_Entity "state_identifier option" port_entity_identifier bool

record binary_response =
  br_error_code :: u16
  br_type_tag :: "u8 option"
  br_payload :: "u8 list"

record response_and_request =
  rr_response :: binary_response
  rr_request :: "u8 list"

text \<open>What is used of the crate \<open>casper_binary_port\<close>: the classification of responses and the
  encodings.\<close>

record binary_port = error_codes +
  bp_is_success :: "binary_response \<Rightarrow> bool"
  bp_is_not_found :: "binary_response \<Rightarrow> bool"
  bp_information :: "information_request \<Rightarrow> get_request"
  bp_header_version :: u16
  bp_header_to_bytes :: "command \<Rightarrow> u16 \<Rightarrow> u8 list"
  bp_command_to_bytes :: "command \<Rightarrow> u8 list"
  bp_u32_from_bytes :: "u8 list \<Rightarrow> string + u32 \<times> u8 list"
  bp_u16_from_bytes :: "u8 list \<Rightarrow> string + u16 \<times> u8 list"
  bp_header_from_bytes :: "u8 list \<Rightarrow> string + u16 \<times> u8 list"
  bp_envelope_from_bytes :: "u8 list \<Rightarrow> string + response_and_request"

text \<open>A type that can be a payload: its tag and its decoder.\<close>

record 'a payload_entity =
  pe_response_type :: u8
  pe_from_bytes :: "u8 list \<Rightarrow> string + 'a"

text \<open>Encoding a request always succeeds, as \<open>generate_payload\<close> expects.\<close>

definition encode_request :: "binary_port \<Rightarrow> command \<Rightarrow> u16 \<Rightarrow> u8 list" where
  "encode_request bp req i = bp_header_to_bytes bp req i @ bp_command_to_bytes bp req"

text \<open>\<open>parse_response\<close>, and \<open>parse_response_bincode\<close>, which differs in the decoder only.\<close>

definition parse_response ::
  "binary_port \<Rightarrow> 'a payload_entity \<Rightarrow> binary_response \<Rightarrow> client_error + 'a option" where
  "parse_response bp entity resp =
     (if bp_is_not_found bp resp then Inr None
      else if \<not> bp_is_success bp resp then Inl (from_error_code bp (br_error_code resp))
      else case br_type_tag resp of
        Some found \<Rightarrow>
          (if found = pe_response_type entity then
             (case pe_from_bytes entity (br_payload resp) of
                Inr a \<Rightarrow> Inr (Some a)
              | Inl err \<Rightarrow> Inl (CE_Deserialization err))
           else Inl (CE_UnexpectedVariantReceived found))
      | None \<Rightarrow> Inr None)"

fun ok_or :: "'e \<Rightarrow> 'a option \<Rightarrow> 'e + 'a" where
  "ok_or e None = Inl e"
| "ok_or e (Some a) = Inr a"

subsection \<open>The trait NodeClient\<close>

text \<open>A client sends a command in some state; all other operations of the trait are written with
  that.\<close>

type_synonym ('s, 'a) client_op = "'s \<Rightarrow> (client_error + 'a) \<times> 's"
type_synonym 's sender = "command \<Rightarrow> ('s, response_and_request) client_op"

definition then_ok :: "('s, 'a) client_op \<Rightarrow> ('a \<Rightarrow> client_error + 'b) \<Rightarrow> ('s, 'b) client_op" where
  "then_ok op f s = (let (result, s') = op s in (and_then result f, s'))"

definition parse_into ::
  "binary_port \<Rightarrow> 'a payload_entity \<Rightarrow> response_and_request \<Rightarrow> client_error + 'a option" where
  "parse_into bp entity resp = parse_response bp entity (rr_response resp)"

definition parse_nonempty ::
  "binary_port \<Rightarrow> 'a payload_entity \<Rightarrow> response_and_request \<Rightarrow> client_error + 'a" where
  "parse_nonempty bp entity resp = and_then (parse_into bp entity resp) (ok_or CE_EmptyEnvelope)"

definition read_record :: "'s sender \<Rightarrow> u8 \<Rightarrow> u8 list \<Rightarrow> ('s, response_and_request) client_op" where
  "read_record send record_id key = send (Command_Get (GetRequest_Record record_id key))"

definition read_info ::
  "binary_port \<Rightarrow> 's sender \<Rightarrow> information_request \<Rightarrow> ('s, response_and_request) client_op" where
  "read_info bp send req = send (Command_Get (bp_information bp req))"

definition query_state ::
  "'s sender \<Rightarrow> state_identifier option \<Rightarrow> entity_qualifier \<Rightarrow> ('s, response_and_request) client_op" where
  "query_state send state_identifier qualifier =
     send (Command_Get (GetRequest_State
       \<lparr> gs_state_identifier = state_identifier, gs_qualifier = qualifier \<rparr>))"

definition query_global_state ::
  "binary_port \<Rightarrow> 's sender \<Rightarrow> 'a payload_entity \<Rightarrow> state_identifier option \<Rightarrow> state_key \<Rightarrow> string list \<Rightarrow>
   ('s, 'a option) client_op" where
  "query_global_state bp send entity state_identifier base_key path =
     then_ok (query_state send state_identifier (Qualifier_Item base_key path)) (parse_into bp entity)"

definition query_global_state_by_tag ::
  "binary_port \<Rightarrow> 's sender \<Rightarrow> 'a payload_entity \<Rightarrow> state_identifier option \<Rightarrow> key_tag \<Rightarrow> ('s, 'a) client_op" where
  "query_global_state_by_tag bp send entity state_identifier tag =
     then_ok (query_state send state_identifier (Qualifier_AllItems tag)) (parse_nonempty bp entity)"

definition query_global_state_by_prefix ::
  "binary_port \<Rightarrow> 's sender \<Rightarrow> 'a payload_entity \<Rightarrow> state_identifier option \<Rightarrow> key_prefix \<Rightarrow> ('s, 'a) client_op" where
  "query_global_state_by_prefix bp send entity state_identifier key_prefix =
     then_ok (query_state send state_identifier (Qualifier_ItemsByPrefix key_prefix)) (parse_nonempty bp entity)"

definition read_balance ::
  "binary_port \<Rightarrow> 's sender \<Rightarrow> 'a payload_entity \<Rightarrow> state_identifier option \<Rightarrow> port_purse_identifier \<Rightarrow> ('s, 'a) client_op" where
  "read_balance bp send entity state_identifier purse_identifier =
     then_ok (query_state send state_identifier (Qualifier_Balance purse_identifier)) (parse_nonempty bp entity)"

definition read_trie_bytes ::
  "binary_port \<Rightarrow> 's sender \<Rightarrow> (u8 list option) payload_entity \<Rightarrow> digest \<Rightarrow> ('s, u8 list option) client_op" where
  "read_trie_bytes bp send entity trie_key =
     then_ok (send (Command_Get (GetRequest_Trie trie_key))) (parse_nonempty bp entity)"

definition query_dictionary_item ::
  "binary_port \<Rightarrow> 's sender \<Rightarrow> 'a payload_entity \<Rightarrow> state_identifier option \<Rightarrow> dictionary_item_identifier \<Rightarrow>
   ('s, 'a option) client_op" where
  "query_dictionary_item bp send entity state_identifier identifier =
     then_ok (query_state send state_identifier (Qualifier_DictionaryItem identifier)) (parse_into bp entity)"

definition try_accept_transaction :: "binary_port \<Rightarrow> 's sender \<Rightarrow> transaction \<Rightarrow> ('s, unit) client_op" where
  "try_accept_transaction bp send transaction =
     then_ok (send (Command_TryAcceptTransaction transaction)) (\<lambda>response.
       if bp_is_success bp (rr_response response) then Inr ()
       else Inl (from_error_code bp (br_error_code (rr_response response))))"

definition exec_speculatively ::
  "binary_port \<Rightarrow> 's sender \<Rightarrow> 'a payload_entity \<Rightarrow> transaction \<Rightarrow> ('s, 'a) client_op" where
  "exec_speculatively bp send entity transaction =
     then_ok (send (Command_TrySpeculativeExec transaction)) (parse_nonempty bp entity)"

definition read_block_transfers ::
  "binary_port \<Rightarrow> 's sender \<Rightarrow> 'a payload_entity \<Rightarrow> u8 \<Rightarrow> block_hash \<Rightarrow> ('s, 'a option) client_op" where
  "read_block_transfers bp send entity transfer_record hash =
     then_ok (read_record send transfer_record hash) (parse_into bp entity)"

definition read_block_header ::
  "binary_port \<Rightarrow> 's sender \<Rightarrow> 'a payload_entity \<Rightarrow> block_identifier option \<Rightarrow> ('s, 'a option) client_op" where
  "read_block_header bp send entity block_identifier =
     then_ok (read_info bp send (Info_BlockHeader block_identifier)) (parse_into bp entity)"

definition read_block_with_signatures ::
  "binary_port \<Rightarrow> 's sender \<Rightarrow> 'a payload_entity \<Rightarrow> block_identifier option \<Rightarrow> ('s, 'a option) client_op" where
  "read_block_with_signatures bp send entity block_identifier =
     then_ok (read_info bp send (Info_BlockWithSignatures block_identifier)) (parse_into bp entity)"

definition read_transaction_with_execution_info ::
  "binary_port \<Rightarrow> 's sender \<Rightarrow> 'a payload_entity \<Rightarrow> transaction_hash \<Rightarrow> bool \<Rightarrow> ('s, 'a option) client_op" where
  "read_transaction_with_execution_info bp send entity hash with_finalized_approvals =
     then_ok (read_info bp send (Info_Transaction hash with_finalized_approvals)) (parse_into bp entity)"

definition read_peers :: "binary_port \<Rightarrow> 's sender \<Rightarrow> 'a payload_entity \<Rightarrow> ('s, 'a) client_op" where
  "read_peers bp send entity = then_ok (read_info bp send Info_Peers) (parse_nonempty bp entity)"

definition read_available_block_range :: "binary_port \<Rightarrow> 's sender \<Rightarrow> 'a payload_entity \<Rightarrow> ('s, 'a) client_op" where
  "read_available_block_range bp send entity =
     then_ok (read_info bp send Info_AvailableBlockRange) (parse_nonempty bp entity)"

definition read_chainspec_bytes :: "binary_port \<Rightarrow> 's sender \<Rightarrow> 'a payload_entity \<Rightarrow> ('s, 'a) client_op" where
  "read_chainspec_bytes bp send entity =
     then_ok (read_info bp send Info_ChainspecRawBytes) (parse_nonempty bp entity)"

definition read_validator_changes :: "binary_port \<Rightarrow> 's sender \<Rightarrow> 'a payload_entity \<Rightarrow> ('s, 'a) client_op" where
  "read_validator_changes bp send entity =
     then_ok (read_info bp send Info_ConsensusValidatorChanges) (parse_nonempty bp entity)"

definition read_latest_switch_block_header ::
  "binary_port \<Rightarrow> 's sender \<Rightarrow> 'a payload_entity \<Rightarrow> ('s, 'a option) client_op" where
  "read_latest_switch_block_header bp send entity =
     then_ok (read_info bp send Info_LatestSwitchBlockHeader) (parse_into bp entity)"

definition read_node_status :: "binary_port \<Rightarrow> 's sender \<Rightarrow> 'a payload_entity \<Rightarrow> ('s, 'a) client_op" where
  "read_node_status bp send entity =
     then_ok (read_info bp send Info_NodeStatus) (parse_nonempty bp entity)"

definition read_reward ::
  "binary_port \<Rightarrow> 's sender \<Rightarrow> 'a payload_entity \<Rightarrow> port_era_identifier option \<Rightarrow> public_key \<Rightarrow> public_key option \<Rightarrow>
   ('s, 'a option) client_op" where
  "read_reward bp send entity era_identifier validator delegator =
     then_ok (read_info bp send (Info_Reward era_identifier validator delegator)) (parse_into bp entity)"

text \<open>Packages and entities: the tag of the response decides what is decoded.\<close>

datatype ('p, 'c) package_response = PackageResponse_Package 'p | PackageResponse_ContractPackage 'c

definition read_package ::
  "binary_port \<Rightarrow> 's sender \<Rightarrow> 'c payload_entity \<Rightarrow> 'p payload_entity \<Rightarrow> state_identifier option \<Rightarrow> port_package_identifier \<Rightarrow>
   ('s, ('p, 'c) package_response option) client_op" where
  "read_package bp send contract_package package state_identifier identifier =
     then_ok (read_info bp send (Info_Package state_identifier identifier)) (\<lambda>resp.
       if br_type_tag (rr_response resp) = Some (pe_response_type contract_package)
       then and_then (parse_into bp contract_package resp)
              (\<lambda>r. Inr (map_option PackageResponse_ContractPackage r))
       else and_then (parse_into bp package resp) (\<lambda>r. Inr (map_option PackageResponse_Package r)))"

datatype ('e, 'a, 'c) entity_response =
    EntityResponse_Entity 'e | EntityResponse_Account 'a | EntityResponse_Contract 'c

definition read_entity ::
  "binary_port \<Rightarrow> 's sender \<Rightarrow> 'c payload_entity \<Rightarrow> 'a payload_entity \<Rightarrow> 'e payload_entity \<Rightarrow>
   state_identifier option \<Rightarrow> port_entity_identifier \<Rightarrow> bool \<Rightarrow> ('s, ('e, 'a, 'c) entity_response option) client_op" where
  "read_entity bp send contract account entity state_identifier identifier include_bytecode =
     then_ok (read_info bp send (Info_Entity state_identifier identifier include_bytecode)) (\<lambda>resp.
       if br_type_tag (rr_response resp) = Some (pe_response_type contract)
       then and_then (parse_into bp contract resp) (\<lambda>r. Inr (map_option EntityResponse_Contract r))
       else if br_type_tag (rr_response resp) = Some (pe_response_type account)
       then and_then (parse_into bp account resp) (\<lambda>r. Inr (map_option EntityResponse_Account r))
       else and_then (parse_into bp entity resp) (\<lambda>r. Inr (map_option EntityResponse_Entity r)))"

subsection \<open>The contract of a client\<close>

text \<open>\<open>decoded bp entity resp r\<close>: the node accepted the request, and \<open>r\<close> is the payload of its
  response, or there is none.\<close>

definition decoded :: "binary_port \<Rightarrow> 'a payload_entity \<Rightarrow> response_and_request \<Rightarrow> 'a option \<Rightarrow> bool" where
  "decoded bp entity resp r \<longleftrightarrow>
     (case r of
        None \<Rightarrow> bp_is_not_found bp (rr_response resp) \<or>
                bp_is_success bp (rr_response resp) \<and> br_type_tag (rr_response resp) = None
      | Some a \<Rightarrow> bp_is_success bp (rr_response resp) \<and>
                  br_type_tag (rr_response resp) = Some (pe_response_type entity) \<and>
                  pe_from_bytes entity (br_payload (rr_response resp)) = Inr a)"

lemma parse_into_decoded: "parse_into bp entity resp = Inr r \<Longrightarrow> decoded bp entity resp r"
  by (auto simp: parse_into_def parse_response_def decoded_def split: if_splits option.splits sum.splits)

lemma ok_or_Inr [simp]: "ok_or e x = Inr a \<longleftrightarrow> x = Some a"
  by (cases x) auto

lemma parse_nonempty_decoded: "parse_nonempty bp entity resp = Inr a \<Longrightarrow> decoded bp entity resp (Some a)"
  by (auto simp: parse_nonempty_def and_then_Inr_iff intro: parse_into_decoded)

lemma snd_then_ok [simp]: "snd (then_ok op f s) = snd (op s)"
  by (simp add: then_ok_def Let_def case_prod_unfold)

lemma then_ok_Inr:
  "then_ok op f s = (Inr b, s') \<longleftrightarrow> (\<exists>a. op s = (Inr a, s') \<and> f a = Inr b)"
  by (cases "op s") (auto simp: then_ok_def and_then_Inr_iff)

lemmas client_op_defs =
  read_record_def read_info_def query_state_def query_global_state_def query_global_state_by_tag_def
  query_global_state_by_prefix_def read_balance_def read_trie_bytes_def query_dictionary_item_def
  try_accept_transaction_def exec_speculatively_def read_block_transfers_def read_block_header_def
  read_block_with_signatures_def read_transaction_with_execution_info_def read_peers_def
  read_available_block_range_def read_chainspec_bytes_def read_validator_changes_def
  read_latest_switch_block_header_def read_node_status_def read_reward_def read_package_def read_entity_def

text \<open>What an implementation of \<open>send_request\<close> promises: it keeps an invariant, and the
  response it returns answers the command, in a sense of its own.\<close>

locale node_client =
  fixes send :: "'s sender"
    and inv :: "'s \<Rightarrow> bool"
    and answers :: "command \<Rightarrow> response_and_request \<Rightarrow> 's \<Rightarrow> bool"
  assumes send_keeps: "inv s \<Longrightarrow> inv (snd (send c s))"
    and send_answers: "send c s = (Inr resp, s') \<Longrightarrow> answers c resp s'"
begin

lemma operations_keep:
  assumes "inv s"
  shows "inv (snd (query_global_state bp send entity si base_key path s))"
    and "inv (snd (query_global_state_by_tag bp send entity si tag s))"
    and "inv (snd (query_global_state_by_prefix bp send entity si key_prefix s))"
    and "inv (snd (read_balance bp send entity si purse s))"
    and "inv (snd (read_trie_bytes bp send trie_entity trie_key s))"
    and "inv (snd (query_dictionary_item bp send entity si item s))"
    and "inv (snd (try_accept_transaction bp send transaction s))"
    and "inv (snd (exec_speculatively bp send entity transaction s))"
    and "inv (snd (read_block_transfers bp send entity tr block s))"
    and "inv (snd (read_block_header bp send entity bi s))"
    and "inv (snd (read_block_with_signatures bp send entity bi s))"
    and "inv (snd (read_transaction_with_execution_info bp send entity thash finalized s))"
    and "inv (snd (read_peers bp send entity s))"
    and "inv (snd (read_available_block_range bp send entity s))"
    and "inv (snd (read_chainspec_bytes bp send entity s))"
    and "inv (snd (read_validator_changes bp send entity s))"
    and "inv (snd (read_latest_switch_block_header bp send entity s))"
    and "inv (snd (read_node_status bp send entity s))"
    and "inv (snd (read_reward bp send entity era validator delegator s))"
    and "inv (snd (read_package bp send contract_package package si package_ident s))"
    and "inv (snd (read_entity bp send contract account entity si ident bytecode s))"
  using assms by (simp_all add: client_op_defs send_keeps)

lemma then_parse_into:
  assumes "then_ok (send c) (parse_into bp entity) s = (Inr r, s')"
  shows "\<exists>resp. answers c resp s' \<and> decoded bp entity resp r"
  using assms unfolding then_ok_Inr by (blast intro: send_answers parse_into_decoded)

lemma then_parse_nonempty:
  assumes "then_ok (send c) (parse_nonempty bp entity) s = (Inr a, s')"
  shows "\<exists>resp. answers c resp s' \<and> decoded bp entity resp (Some a)"
  using assms unfolding then_ok_Inr by (blast intro: send_answers parse_nonempty_decoded)

lemma try_accept_transaction_answers:
  assumes "try_accept_transaction bp send transaction s = (Inr u, s')"
  shows "\<exists>resp. answers (Command_TryAcceptTransaction transaction) resp s' \<and> bp_is_success bp (rr_response resp)"
  using assms unfolding try_accept_transaction_def then_ok_Inr
  by (auto split: if_splits dest: send_answers)

lemma read_entity_answers:
  assumes "read_entity bp send contract account entity si ident bytecode s = (Inr (Some r), s')"
  shows "\<exists>resp. answers (Command_Get (bp_information bp (Info_Entity si ident bytecode))) resp s' \<and>
    (case r of
       EntityResponse_Contract c \<Rightarrow> decoded bp contract resp (Some c)
     | EntityResponse_Account a \<Rightarrow> decoded bp account resp (Some a)
     | EntityResponse_Entity e \<Rightarrow> decoded bp entity resp (Some e))"
proof -
  obtain resp where resp: "send (Command_Get (bp_information bp (Info_Entity si ident bytecode))) s = (Inr resp, s')"
    and r: "(if br_type_tag (rr_response resp) = Some (pe_response_type contract)
       then and_then (parse_into bp contract resp) (\<lambda>r. Inr (map_option EntityResponse_Contract r))
       else if br_type_tag (rr_response resp) = Some (pe_response_type account)
       then and_then (parse_into bp account resp) (\<lambda>r. Inr (map_option EntityResponse_Account r))
       else and_then (parse_into bp entity resp) (\<lambda>r. Inr (map_option EntityResponse_Entity r))) = Inr (Some r)"
    using assms by (auto simp: read_entity_def read_info_def then_ok_Inr)
  have "case r of
       EntityResponse_Contract c \<Rightarrow> decoded bp contract resp (Some c)
     | EntityResponse_Account a \<Rightarrow> decoded bp account resp (Some a)
     | EntityResponse_Entity e \<Rightarrow> decoded bp entity resp (Some e)"
    using r by (auto simp: and_then_Inr_iff dest: parse_into_decoded split: if_splits)
  with send_answers [OF resp] show ?thesis by blast
qed

end

end
