(* ===== verification/Rpc_Errors.thy ===== *)
theory Rpc_Errors
  imports Json_Rpc Node_Client
begin

text \<open>
  The errors of the JSON-RPC methods, from \<open>rpc_sidecar/src/rpcs/error.rs\<close>,
  \<open>rpcs/error_code.rs\<close> and \<open>ErrorData\<close> of \<open>rpcs/common.rs\<close>: the causes of a failure,
  their texts and codes, and the error objects they become.  The textual forms and the
  serialisation of values of \<open>casper_types\<close> are a parameter.
\<close>

subsection \<open>Codes\<close>

datatype rpc_error_code =
    RC_NoSuchDeploy
  | RC_NoSuchBlock
  | RC_FailedToParseQueryKey
  | RC_QueryFailed
  | RC_QueryFailedToExecute
  | RC_FailedToParseGetBalanceURef
  | RC_FailedToGetBalance
  | RC_GetBalanceFailedToExecute
  | RC_InvalidDeploy
  | RC_NoSuchAccount
  | RC_FailedToGetDictionaryURef
  | RC_FailedToGetTrie
  | RC_NoSuchStateRoot
  | RC_NoMainPurse
  | RC_NoSuchTransaction
  | RC_VariantMismatch
  | RC_InvalidTransaction
  | RC_InvalidBlock
  | RC_NodeRequestFailed
  | RC_FunctionIsDisabled
  | RC_NoSuchAddressableEntity
  | RC_AccountMigratedToEntity
  | RC_NoRewardsFound
  | RC_SwitchBlockNotFound
  | RC_SwitchBlockParentNotFound
  | RC_UnsupportedRewardsV1Request
  | RC_PurseNotFound

primrec rpc_error_code_number :: "rpc_error_code \<Rightarrow> int" where
  "rpc_error_code_number RC_NoSuchDeploy = -32000"
| "rpc_error_code_number RC_NoSuchBlock = -32001"
| "rpc_error_code_number RC_FailedToParseQueryKey = -32002"
| "rpc_error_code_number RC_QueryFailed = -32003"
| "rpc_error_code_number RC_QueryFailedToExecute = -32004"
| "rpc_error_code_number RC_FailedToParseGetBalanceURef = -32005"
| "rpc_error_code_number RC_FailedToGetBalance = -32006"
| "rpc_error_code_number RC_GetBalanceFailedToExecute = -32007"
| "rpc_error_code_number RC_InvalidDeploy = -32008"
| "rpc_error_code_number RC_NoSuchAccount = -32009"
| "rpc_error_code_number RC_FailedToGetDictionaryURef = -32010"
| "rpc_error_code_number RC_FailedToGetTrie = -32011"
| "rpc_error_code_number RC_NoSuchStateRoot = -32012"
| "rpc_error_code_number RC_NoMainPurse = -32013"
| "rpc_error_code_number RC_NoSuchTransaction = -32014"
| "rpc_error_code_number RC_VariantMismatch = -32015"
| "rpc_error_code_number RC_InvalidTransaction = -32016"
| "rpc_error_code_number RC_InvalidBlock = -32017"
| "rpc_error_code_number RC_NodeRequestFailed = -32018"
| "rpc_error_code_number RC_FunctionIsDisabled = -32019"
| "rpc_error_code_number RC_NoSuchAddressableEntity = -32020"
| "rpc_error_code_number RC_AccountMigratedToEntity = -32021"
| "rpc_error_code_number RC_NoRewardsFound = -32022"
| "rpc_error_code_number RC_SwitchBlockNotFound = -32023"
| "rpc_error_code_number RC_SwitchBlockParentNotFound = -32024"
| "rpc_error_code_number RC_UnsupportedRewardsV1Request = -32025"
| "rpc_error_code_number RC_PurseNotFound = -32026"

primrec rpc_error_code_text :: "rpc_error_code \<Rightarrow> string" where
  "rpc_error_code_text RC_NoSuchDeploy = ''No such deploy''"
| "rpc_error_code_text RC_NoSuchBlock = ''No such block''"
| "rpc_error_code_text RC_FailedToParseQueryKey = ''Failed to parse query key''"
| "rpc_error_code_text RC_QueryFailed = ''Query failed''"
| "rpc_error_code_text RC_QueryFailedToExecute = ''Query failed to execute''"
| "rpc_error_code_text RC_FailedToParseGetBalanceURef = ''Failed to parse get-balance URef''"
| "rpc_error_code_text RC_FailedToGetBalance = ''Failed to get balance''"
| "rpc_error_code_text RC_GetBalanceFailedToExecute = ''get-balance failed to execute''"
| "rpc_error_code_text RC_InvalidDeploy = ''Invalid Deploy''"
| "rpc_error_code_text RC_NoSuchAccount = ''No such account''"
| "rpc_error_code_text RC_FailedToGetDictionaryURef = ''Failed to get dictionary URef''"
| "rpc_error_code_text RC_FailedToGetTrie = ''Failed to get trie''"
| "rpc_error_code_text RC_NoSuchStateRoot = ''No such state root''"
| "rpc_error_code_text RC_NoMainPurse = ''Failed to get main purse''"
| "rpc_error_code_text RC_NoSuchTransaction = ''No such transaction''"
| "rpc_error_code_text RC_VariantMismatch = ''Variant mismatch internal error''"
| "rpc_error_code_text RC_InvalidTransaction = ''Invalid transaction''"
| "rpc_error_code_text RC_InvalidBlock = ''Invalid block''"
| "rpc_error_code_text RC_NodeRequestFailed = ''Node request failure''"
| "rpc_error_code_text RC_FunctionIsDisabled = ''Function needed to execute this request is disabled''"
| "rpc_error_code_text RC_NoSuchAddressableEntity = ''No such addressable entity''"
| "rpc_error_code_text RC_AccountMigratedToEntity = ''Account migrated to an addressable entity''"
| "rpc_error_code_text RC_NoRewardsFound = ''No rewards found''"
| "rpc_error_code_text RC_SwitchBlockNotFound = ''Switch block not found''"
| "rpc_error_code_text RC_SwitchBlockParentNotFound = ''Switch block parent not found''"
| "rpc_error_code_text RC_UnsupportedRewardsV1Request = ''Cannot serve rewards stored in V1 format''"
| "rpc_error_code_text RC_PurseNotFound = ''Purse not found''"


subsection \<open>Causes\<close>

record available_block_range =
  abr_low :: u64
  abr_high :: u64

datatype rpc_failure =
    RE_NodeRequest string client_error
  | RE_NoBlockFound "block_identifier option" available_block_range
  | RE_NoTransactionWithHash transaction_hash
  | RE_NoDeployWithHash deploy_hash
  | RE_FoundTransactionInsteadOfDeploy
  | RE_GlobalStateEntryNotFound
  | RE_InvalidPurseURef string
  | RE_InvalidDictionaryKey string
  | RE_InvalidTypeUnderDictionaryKey string
  | RE_DictionaryKeyNotFound
  | RE_DictionaryNameNotFound
  | RE_MainPurseNotFound
  | RE_AccountNotFound
  | RE_AddressableEntityNotFound
  | RE_RewardNotFound
  | RE_AccountMigratedToEntity
  | RE_DictionaryValueIsNotAUref key_tag
  | RE_DictionaryKeyCouldNotBeParsed string
  | RE_InvalidTransaction invalid_transaction_or_deploy
  | RE_InvalidDeploy invalid_transaction_or_deploy
  | RE_InvalidPurseBalance
  | RE_InvalidAccountInfo
  | RE_InvalidAddressableEntity
  | RE_InvalidAuctionState
  | RE_InvalidNamedKeys string
  | RE_InvalidEntryPoints string
  | RE_SpecExecReturnedNothing
  | RE_BytesreprFailure string

text \<open>What is used of \<open>casper_types\<close> here.\<close>

record rpc_texts =
  rt_transaction_hash :: "transaction_hash \<Rightarrow> string"
  rt_deploy_hash :: "deploy_hash \<Rightarrow> string"
  rt_key_tag :: "key_tag \<Rightarrow> string"
  rt_range_to_value :: "available_block_range \<Rightarrow> string + json"

primrec failure_display :: "'z rpc_texts_scheme \<Rightarrow> rpc_failure \<Rightarrow> string" where
  "failure_display rt (RE_NodeRequest what err) =
     ''request for '' @ what @ '' has failed: '' @ client_error_display err"
| "failure_display rt (RE_NoBlockFound _ _) = ''no block found for the provided identifier''"
| "failure_display rt (RE_NoTransactionWithHash hash) = ''no transaction for hash '' @ rt_transaction_hash rt hash"
| "failure_display rt (RE_NoDeployWithHash hash) = ''no deploy for hash '' @ rt_deploy_hash rt hash"
| "failure_display rt RE_FoundTransactionInsteadOfDeploy = ''found a transaction when searching for a deploy''"
| "failure_display rt RE_GlobalStateEntryNotFound = ''value was not found in the global state''"
| "failure_display rt (RE_InvalidPurseURef err) = ''the requested purse URef was invalid: '' @ err"
| "failure_display rt (RE_InvalidDictionaryKey err) = ''the provided dictionary key was invalid: '' @ err"
| "failure_display rt (RE_InvalidTypeUnderDictionaryKey err) =
     ''the provided dictionary key points at an unexpected type: '' @ err"
| "failure_display rt RE_DictionaryKeyNotFound =
     ''the provided dictionary key doesn'' @ [CHR 39] @ ''t exist''"
| "failure_display rt RE_DictionaryNameNotFound =
     ''the provided dictionary name doesn'' @ [CHR 39] @ ''t exist''"
| "failure_display rt RE_MainPurseNotFound = ''the requested main purse was not found''"
| "failure_display rt RE_AccountNotFound = ''the requested account was not found''"
| "failure_display rt RE_AddressableEntityNotFound = ''the requested addressable entity was not found''"
| "failure_display rt RE_RewardNotFound = ''the requested reward was not found''"
| "failure_display rt RE_AccountMigratedToEntity =
     ''the requested account has been migrated to an addressable entity''"
| "failure_display rt (RE_DictionaryValueIsNotAUref tag) =
     ''the provided dictionary value is '' @ rt_key_tag rt tag @ '' instead of a URef''"
| "failure_display rt (RE_DictionaryKeyCouldNotBeParsed err) =
     ''the provided dictionary key could not be parsed: '' @ err"
| "failure_display rt (RE_InvalidTransaction err) = ''the transaction was invalid: '' @ invalid_display err"
| "failure_display rt (RE_InvalidDeploy err) = ''the deploy was invalid: '' @ invalid_display err"
| "failure_display rt RE_InvalidPurseBalance = ''the requested purse balance could not be parsed''"
| "failure_display rt RE_InvalidAccountInfo = ''the requested account info could not be parsed''"
| "failure_display rt RE_InvalidAddressableEntity = ''the requested addressable entity could not be parsed''"
| "failure_display rt RE_InvalidAuctionState = ''the auction state was invalid''"
| "failure_display rt (RE_InvalidNamedKeys err) = ''the named keys were invalid: '' @ err"
| "failure_display rt (RE_InvalidEntryPoints err) = ''the entry points were invalid: '' @ err"
| "failure_display rt RE_SpecExecReturnedNothing = ''speculative execution returned nothing''"
| "failure_display rt (RE_BytesreprFailure err) = ''unexpected bytesrepr failure: '' @ err"

text \<open>\<open>Error::code\<close>; the requests to the node that failed are told apart by the client's error.\<close>

fun node_request_code :: "client_error \<Rightarrow> rpc_error_code" where
  "node_request_code CE_UnknownStateRootHash = RC_NoSuchStateRoot"
| "node_request_code CE_QueryFailedToExecute = RC_QueryFailedToExecute"
| "node_request_code CE_FunctionIsDisabled = RC_FunctionIsDisabled"
| "node_request_code CE_SwitchBlockNotFound = RC_SwitchBlockNotFound"
| "node_request_code CE_SwitchBlockParentNotFound = RC_SwitchBlockParentNotFound"
| "node_request_code CE_UnsupportedRewardsV1Request = RC_UnsupportedRewardsV1Request"
| "node_request_code CE_PurseNotFound = RC_PurseNotFound"
| "node_request_code (CE_SpecExecutionFailed _) = RC_InvalidDeploy"
| "node_request_code _ = RC_NodeRequestFailed"

primrec failure_code :: "rpc_failure \<Rightarrow> rpc_error_code option" where
  "failure_code (RE_NodeRequest _ err) = Some (node_request_code err)"
| "failure_code (RE_NoBlockFound _ _) = Some RC_NoSuchBlock"
| "failure_code (RE_NoTransactionWithHash _) = Some RC_NoSuchTransaction"
| "failure_code (RE_NoDeployWithHash _) = Some RC_NoSuchDeploy"
| "failure_code RE_FoundTransactionInsteadOfDeploy = Some RC_VariantMismatch"
| "failure_code RE_GlobalStateEntryNotFound = Some RC_QueryFailed"
| "failure_code (RE_InvalidPurseURef _) = Some RC_FailedToParseGetBalanceURef"
| "failure_code (RE_InvalidDictionaryKey _) = Some RC_FailedToParseQueryKey"
| "failure_code (RE_InvalidTypeUnderDictionaryKey _) = Some RC_FailedToGetDictionaryURef"
| "failure_code RE_DictionaryKeyNotFound = Some RC_FailedToGetDictionaryURef"
| "failure_code RE_DictionaryNameNotFound = Some RC_FailedToGetDictionaryURef"
| "failure_code RE_MainPurseNotFound = Some RC_NoMainPurse"
| "failure_code RE_AccountNotFound = Some RC_NoSuchAccount"
| "failure_code RE_AddressableEntityNotFound = Some RC_NoSuchAddressableEntity"
| "failure_code RE_RewardNotFound = Some RC_NoRewardsFound"
| "failure_code RE_AccountMigratedToEntity = Some RC_AccountMigratedToEntity"
| "failure_code (RE_DictionaryValueIsNotAUref _) = Some RC_FailedToGetDictionaryURef"
| "failure_code (RE_DictionaryKeyCouldNotBeParsed _) = Some RC_FailedToGetDictionaryURef"
| "failure_code (RE_InvalidTransaction _) = Some RC_InvalidTransaction"
| "failure_code (RE_InvalidDeploy _) = Some RC_InvalidDeploy"
| "failure_code RE_InvalidPurseBalance = Some RC_FailedToGetBalance"
| "failure_code RE_InvalidAccountInfo = None"
| "failure_code RE_InvalidAddressableEntity = None"
| "failure_code RE_InvalidAuctionState = None"
| "failure_code (RE_InvalidNamedKeys _) = None"
| "failure_code (RE_InvalidEntryPoints _) = None"
| "failure_code RE_SpecExecReturnedNothing = Some RC_InvalidDeploy"
| "failure_code (RE_BytesreprFailure _) = None"

subsection \<open>Error objects\<close>

text \<open>\<open>ErrorData\<close>, which is serialised without a tag.\<close>

datatype error_data = MissingBlockOrStateRoot string available_block_range

fun error_data_to_value :: "'z rpc_texts_scheme \<Rightarrow> error_data \<Rightarrow> string + json" where
  "error_data_to_value rt (MissingBlockOrStateRoot message available_block_range) =
     and_then (rt_range_to_value rt available_block_range) (\<lambda>range.
       Inr (JObject [(''message'', JString message), (''available_block_range'', range)]))"

definition rpc_error_of_code :: "rpc_error_code \<Rightarrow> string + json \<Rightarrow> rpc_error" where
  "rpc_error_of_code code additional_info =
     Error_new False (rpc_error_code_number code, rpc_error_code_text code) additional_info"

definition RpcError_from :: "'z rpc_texts_scheme \<Rightarrow> rpc_failure \<Rightarrow> rpc_error" where
  "RpcError_from rt failure =
     (case failure of
        RE_NoBlockFound _ available_block_range \<Rightarrow>
          rpc_error_of_code RC_NoSuchBlock
            (error_data_to_value rt (MissingBlockOrStateRoot (failure_display rt failure) available_block_range))
      | _ \<Rightarrow>
          (case failure_code failure of
             Some code \<Rightarrow> rpc_error_of_code code (Inr (JString (failure_display rt failure)))
           | None \<Rightarrow> reserved_error InternalError (failure_display rt failure)))"

subsection \<open>Properties\<close>

text \<open>The documented behaviour of the block range: it can be serialised.\<close>

definition ranges_serialise :: "'z rpc_texts_scheme \<Rightarrow> bool" where
  "ranges_serialise rt \<longleftrightarrow> (\<forall>range. \<exists>v. rt_range_to_value rt range = Inr v)"

lemma rpc_error_code_number_inject:
  "rpc_error_code_number c = rpc_error_code_number d \<longleftrightarrow> c = d"
  by (cases c; cases d; simp)

lemma rpc_error_code_number_range: "- 32026 \<le> rpc_error_code_number c \<and> rpc_error_code_number c \<le> - 32000"
  by (cases c) simp_all

lemma rpc_error_of_code_number:
  "re_code (rpc_error_of_code code (Inr v)) = rpc_error_code_number code"
  using rpc_error_code_number_range [of code] by (simp add: rpc_error_of_code_def Error_new_def)

lemma RpcError_from_code:
  assumes "ranges_serialise rt"
  shows "re_code (RpcError_from rt failure) =
    (case failure_code failure of Some code \<Rightarrow> rpc_error_code_number code | None \<Rightarrow> - 32603)"
proof (cases "\<exists>i range. failure = RE_NoBlockFound i range")
  case True
  then obtain i range where f: "failure = RE_NoBlockFound i range" by blast
  obtain v where "rt_range_to_value rt range = Inr v" using assms ranges_serialise_def by blast
  then have "error_data_to_value rt (MissingBlockOrStateRoot (failure_display rt failure) range) =
      Inr (JObject [(''message'', JString (failure_display rt failure)), (''available_block_range'', v)])"
    by simp
  then show ?thesis
    using f by (simp add: RpcError_from_def rpc_error_of_code_number del: error_data_to_value.simps)
next
  case False
  then have "RpcError_from rt failure =
      (case failure_code failure of
         Some code \<Rightarrow> rpc_error_of_code code (Inr (JString (failure_display rt failure)))
       | None \<Rightarrow> reserved_error InternalError (failure_display rt failure))"
    by (auto simp: RpcError_from_def split: rpc_failure.split)
  then show ?thesis by (simp add: rpc_error_of_code_number split: option.split)
qed


definition sample_texts :: rpc_texts where
  "sample_texts = \<lparr> rt_transaction_hash = (\<lambda>_. ''hash''), rt_deploy_hash = (\<lambda>_. ''hash''),
     rt_key_tag = (\<lambda>_. ''tag''),
     rt_range_to_value = (\<lambda>range. Inr (JObject [(''low'', JNumber (JInt (uint (abr_low range)))),
       (''high'', JNumber (JInt (uint (abr_high range))))])) \<rparr>"


end
