(* ===== verification/Framed_Client.thy ===== *)
theory Framed_Client
  imports Node_Client Sse_Connection
begin

text \<open>
  \<open>FramedNodeClient\<close> of \<open>rpc_sidecar/src/node_client.rs\<close>: requests over one connection
  to the node, numbered modulo $2^{16}$, with late responses of earlier requests
  skipped, and a reconnection when a request fails.
\<close>

subsection \<open>Matching a response with its request\<close>

definition extract_header :: "binary_port \<Rightarrow> u8 list \<Rightarrow> string + u16 \<times> u8 list" where
  "extract_header bp payload =
     (if length payload < 2 then Inl ''Not enough bytes to read version of the command header''
      else case bp_u16_from_bytes bp payload of
        Inl _ \<Rightarrow> Inl ''Could not read header version from request''
      | Inr (binary_protocol_version, _) \<Rightarrow>
          if binary_protocol_version \<noteq> bp_header_version bp
          then Inl ''Header version does not meet expectation''
          else case bp_header_from_bytes bp payload of
            Inr header \<Rightarrow> Inr header
          | Inl error \<Rightarrow> Inl (''Malformed CommandHeader definition: '' @ error))"

definition try_parse_request_id :: "binary_port \<Rightarrow> u8 list \<Rightarrow> string + u16" where
  "try_parse_request_id bp request =
     (if length request < 4 then
        Inl (''Node responded with request that doesn'' @ [CHR 39] @
             ''t have enough bytes to read payload length'')
      else
        and_then (bp_u32_from_bytes bp request) (\<lambda>(payload_length, remainder).
          if payload_length \<noteq> of_nat (length remainder) then
            Inl ''Node responded with request that has a mismatch in declared bytes vs the payload length''
          else and_then (extract_header bp remainder) (\<lambda>(header_id, _). Inr header_id)))"

text \<open>An id that cannot be read counts as 0.\<close>

definition validate_response ::
  "binary_port \<Rightarrow> response_and_request \<Rightarrow> u16 \<Rightarrow> client_error + response_and_request" where
  "validate_response bp resp expected_id =
     (let original_id = (case try_parse_request_id bp (rr_request resp) of Inr i \<Rightarrow> i | Inl e \<Rightarrow> 0) in
      if original_id \<noteq> expected_id
      then Inl (CE_RequestResponseIdMismatch expected_id original_id)
      else Inr resp)"

subsection \<open>State\<close>

text \<open>The client, with the requests it has sent and the metrics it has registered.  A connection: what becomes of the next messages sent, and what arrives.  Sending or receiving
  past the end of the lists times out.\<close>

datatype send_outcome = Sent | Send_Timeout | Send_Error string

datatype receive_outcome = Receive_Timeout | Receive_Closed | Receive_Error string | Received_Message "u8 list"

record connection =
  cn_sends :: "send_outcome list"
  cn_inbound :: "receive_outcome list"

datatype client_metric = Timeout_Metric string | Mismatched_Id

record framed_node_client =
  fc_client :: connection
  fc_reconnect :: bool
  fc_current_request_id :: u16
  fc_requests :: "(u16 \<times> u8 list) list"
  fc_metrics :: "client_metric list"

definition MAX_MISMATCHED_ID_RETRIES :: u8 where "MAX_MISMATCHED_ID_RETRIES = 100"

definition INITIAL_REQUEST_ID :: u16 where "INITIAL_REQUEST_ID = 0"

definition next_id :: "framed_node_client \<Rightarrow> u16 \<times> framed_node_client" where
  "next_id fc = (fc_current_request_id fc, fc\<lparr> fc_current_request_id := fc_current_request_id fc + 1 \<rparr>)"

definition generate_payload ::
  "binary_port \<Rightarrow> command \<Rightarrow> framed_node_client \<Rightarrow> (u16 \<times> u8 list) \<times> framed_node_client" where
  "generate_payload bp req fc =
     (let (i, fc') = next_id fc in ((i, encode_request bp req i), fc'))"

definition register_metric :: "client_metric \<Rightarrow> framed_node_client \<Rightarrow> framed_node_client" where
  "register_metric m fc = fc\<lparr> fc_metrics := fc_metrics fc @ [m] \<rparr>"

definition conn_send :: "u16 \<times> u8 list \<Rightarrow> framed_node_client \<Rightarrow> send_outcome \<times> framed_node_client" where
  "conn_send payload fc =
     (let fc1 = fc\<lparr> fc_requests := fc_requests fc @ [payload] \<rparr> in
      case cn_sends (fc_client fc) of
        [] \<Rightarrow> (Send_Timeout, fc1)
      | outcome # rest \<Rightarrow> (outcome, fc1\<lparr> fc_client := (fc_client fc)\<lparr> cn_sends := rest \<rparr> \<rparr>))"

definition conn_next :: "framed_node_client \<Rightarrow> receive_outcome \<times> framed_node_client" where
  "conn_next fc =
     (case cn_inbound (fc_client fc) of
        [] \<Rightarrow> (Receive_Timeout, fc)
      | outcome # rest \<Rightarrow> (outcome, fc\<lparr> fc_client := (fc_client fc)\<lparr> cn_inbound := rest \<rparr> \<rparr>))"

subsection \<open>Requests\<close>

text \<open>The loop that reads responses, with the number of rounds left.\<close>

primrec receive_response ::
  "binary_port \<Rightarrow> u16 \<Rightarrow> nat \<Rightarrow> framed_node_client \<Rightarrow>
   (client_error + response_and_request) \<times> framed_node_client" where
  "receive_response bp request_id 0 fc =
     (Inl (CE_TooManyMismatchedResponses MAX_MISMATCHED_ID_RETRIES), fc)"
| "receive_response bp request_id (Suc rounds) fc =
     (let (outcome, fc1) = conn_next fc in
      case outcome of
        Receive_Timeout \<Rightarrow> (Inl CE_ConnectionLost, register_metric (Timeout_Metric ''receiving_response'') fc1)
      | Receive_Closed \<Rightarrow> (Inl CE_ConnectionLost, fc1)
      | Receive_Error err \<Rightarrow> (Inl (CE_RequestFailed err), fc1)
      | Received_Message payload \<Rightarrow>
          (case bp_envelope_from_bytes bp payload of
             Inl err \<Rightarrow> (Inl CE_EnvelopeDeserialization, fc1)
           | Inr resp \<Rightarrow>
               (case validate_response bp resp request_id of
                  Inr response \<Rightarrow> (Inr response, fc1)
                | Inl err \<Rightarrow>
                    (let fc2 = register_metric Mismatched_Id fc1 in
                     if (case err of CE_RequestResponseIdMismatch expected got \<Rightarrow> got < expected | _ \<Rightarrow> False)
                     then receive_response bp request_id rounds fc2
                     else (Inl err, fc2)))))"

definition send_request_internal ::
  "binary_port \<Rightarrow> command \<Rightarrow> framed_node_client \<Rightarrow>
   (client_error + response_and_request) \<times> framed_node_client" where
  "send_request_internal bp req fc =
     (let ((request_id, payload), fc1) = generate_payload bp req fc;
          (outcome, fc2) = conn_send (request_id, payload) fc1
      in case outcome of
        Send_Timeout \<Rightarrow>
          (Inl (CE_RequestFailed ''timeout''), register_metric (Timeout_Metric ''sending_payload'') fc2)
      | Send_Error err \<Rightarrow> (Inl (CE_RequestFailed err), fc2)
      | Sent \<Rightarrow> receive_response bp request_id (unat MAX_MISMATCHED_ID_RETRIES) fc2)"

text \<open>What the environment decides for one request: whether the lock of the client is taken in time,
  and the outcome of reconnecting, if it comes in time.\<close>

record request_env =
  rq_access :: bool
  rq_reconnect :: "(anyhow + connection) option"

definition send_request ::
  "binary_port \<Rightarrow> request_env \<Rightarrow> command \<Rightarrow> framed_node_client \<Rightarrow>
   (client_error + response_and_request) \<times> framed_node_client" where
  "send_request bp env req fc =
     (if \<not> rq_access env then
        (Inl CE_ConnectionLost, register_metric (Timeout_Metric ''acquiring_client'') fc)
      else
        (let (result, fc1) = send_request_internal bp req fc in
         case result of
           Inr response \<Rightarrow> (Inr response, fc1)
         | Inl err \<Rightarrow>
             (case rq_reconnect env of
                Some (Inr new_client) \<Rightarrow>
                  send_request_internal bp req (fc1\<lparr> fc_client := new_client \<rparr>)
              | Some (Inl err) \<Rightarrow> (Inl CE_ConnectionLost, fc1\<lparr> fc_reconnect := True \<rparr>)
              | None \<Rightarrow>
                  (Inl CE_ConnectionLost,
                   register_metric (Timeout_Metric ''reacquiring_connection'') fc1))))"

subsection \<open>Connecting\<close>

record exponential_backoff =
  eb_initial_delay_ms :: u64
  eb_max_delay_ms :: u64
  eb_coefficient :: u64
  eb_max_attempts :: u32

text \<open>The loop of attempts: \<open>tcp k\<close> is the outcome of the \<open>k\<close>-th attempt, counted from one.  The
  result comes with the delays that were waited; the multiplication wraps.\<close>

function connect_attempts ::
  "exponential_backoff \<Rightarrow> string \<Rightarrow> (nat \<Rightarrow> string + 'c) \<Rightarrow> u64 \<Rightarrow> nat \<Rightarrow> (anyhow + 'c) \<times> u64 list" where
  "connect_attempts backoff_config tcp_socket tcp wait current_attempt =
     (case tcp current_attempt of
        Inr stream \<Rightarrow> (Inr stream, [])
      | Inl err \<Rightarrow>
          if unat (eb_max_attempts backoff_config) < Suc current_attempt then
            (Inl [''Couldn'' @ [CHR 39] @ ''t connect to node '' @ tcp_socket @ '' after '' @
                  nat_to_string current_attempt @ '' attempts''], [])
          else
            (let (result, waits) = connect_attempts backoff_config tcp_socket tcp
               (min (wait * eb_coefficient backoff_config) (eb_max_delay_ms backoff_config))
               (Suc current_attempt)
             in (result, wait # waits)))"
  by pat_completeness auto
termination
  by (relation "measure (\<lambda>(config, _, _, _, current). Suc (unat (eb_max_attempts config)) - current)") auto

declare connect_attempts.simps [simp del]

definition connect_with_retries ::
  "exponential_backoff \<Rightarrow> string \<Rightarrow> (nat \<Rightarrow> string + 'c) \<Rightarrow> (anyhow + 'c) \<times> u64 list" where
  "connect_with_retries backoff_config tcp_socket tcp =
     connect_attempts backoff_config tcp_socket tcp (eb_initial_delay_ms backoff_config) 1"

text \<open>The loop that reconnects whenever it is notified, over the outcomes of reconnecting; it ends with
  the first one that fails.\<close>

fun reconnect_loop :: "(anyhow + connection) list \<Rightarrow> framed_node_client \<Rightarrow> anyhow option \<times> framed_node_client" where
  "reconnect_loop [] fc = (None, fc)"
| "reconnect_loop (Inr new_client # outcomes) fc =
     reconnect_loop outcomes (fc\<lparr> fc_client := new_client, fc_reconnect := False \<rparr>)"
| "reconnect_loop (Inl err # outcomes) fc = (Some err, fc\<lparr> fc_reconnect := False \<rparr>)"

text \<open>One round of the keep-alive loop; the result of the request is ignored.\<close>

definition keepalive_request :: "u8 \<Rightarrow> command" where
  "keepalive_request protocol_version_tag = Command_Get (GetRequest_Information protocol_version_tag [])"

definition keepalive_round ::
  "binary_port \<Rightarrow> u8 \<Rightarrow> request_env \<Rightarrow> framed_node_client \<Rightarrow> framed_node_client" where
  "keepalive_round bp protocol_version_tag env fc =
     snd (send_request bp env (keepalive_request protocol_version_tag) fc)"

text \<open>The constructor: it connects, and compares the name of the network if one is configured;
  \<open>chainspec_name\<close> reads it off the status of the node.\<close>

definition FramedNodeClient_new ::
  "binary_port \<Rightarrow> request_env \<Rightarrow> exponential_backoff \<Rightarrow> string \<Rightarrow> (nat \<Rightarrow> string + connection) \<Rightarrow>
   'n payload_entity \<Rightarrow> ('n \<Rightarrow> string) \<Rightarrow> string option \<Rightarrow> anyhow + framed_node_client" where
  "FramedNodeClient_new bp env backoff_config tcp_socket tcp node_status chainspec_name maybe_network_name =
     (case fst (connect_with_retries backoff_config tcp_socket tcp) of
        Inl err \<Rightarrow> Inl err
      | Inr stream \<Rightarrow>
          (let fc = \<lparr> fc_client = stream, fc_reconnect = False, fc_current_request_id = INITIAL_REQUEST_ID,
                      fc_requests = [], fc_metrics = [] \<rparr>
           in case maybe_network_name of
             None \<Rightarrow> Inr fc
           | Some network_name \<Rightarrow>
               (case read_node_status bp (send_request bp env) node_status fc of
                  (Inl err, _) \<Rightarrow> Inl [client_error_display err]
                | (Inr status, fc1) \<Rightarrow>
                    if network_name \<noteq> chainspec_name status then
                      Inl [''Network name '' @ chainspec_name status @ '' does'' @ [CHR 39] @
                           ''t match name '' @ network_name @ '' configured for node RPC connection'']
                    else Inr fc1)))"

subsection \<open>Lemmas on requests\<close>

lemma register_metric_simps [simp]:
  "fc_client (register_metric m fc) = fc_client fc"
  "fc_requests (register_metric m fc) = fc_requests fc"
  "fc_current_request_id (register_metric m fc) = fc_current_request_id fc"
  by (simp_all add: register_metric_def)

lemma conn_next_simps [simp]:
  "fc_requests (snd (conn_next fc)) = fc_requests fc"
  "fc_current_request_id (snd (conn_next fc)) = fc_current_request_id fc"
  by (simp_all add: conn_next_def split: list.split)

lemma conn_send_simps [simp]:
  "fc_requests (snd (conn_send p fc)) = fc_requests fc @ [p]"
  "fc_current_request_id (snd (conn_send p fc)) = fc_current_request_id fc"
  by (simp_all add: conn_send_def Let_def split: list.split)

lemma validate_response_Inr:
  "validate_response bp resp i = Inr r \<longleftrightarrow>
     r = resp \<and> (try_parse_request_id bp (rr_request resp) = Inr i \<or>
                 (\<exists>e. try_parse_request_id bp (rr_request resp) = Inl e) \<and> i = 0)"
  by (auto simp: validate_response_def Let_def split: sum.splits)

lemma receive_response_keeps:
  "fc_requests (snd (receive_response bp i rounds fc)) = fc_requests fc \<and>
   fc_current_request_id (snd (receive_response bp i rounds fc)) = fc_current_request_id fc"
proof (induction rounds arbitrary: fc)
  case (Suc rounds)
  obtain outcome fc1 where n: "conn_next fc = (outcome, fc1)" by (cases "conn_next fc")
  then have "fc_requests fc1 = fc_requests fc" "fc_current_request_id fc1 = fc_current_request_id fc"
    using conn_next_simps [of fc] by simp_all
  then show ?case
    using n Suc.IH by (auto simp: Let_def split: receive_outcome.split sum.split)
qed simp

lemma receive_response_Inr:
  "receive_response bp i rounds fc = (Inr resp, fc') \<Longrightarrow> validate_response bp resp i = Inr resp"
proof (induction rounds arbitrary: fc)
  case (Suc rounds)
  then show ?case
    by (auto simp: Let_def case_prod_unfold validate_response_Inr
        split: receive_outcome.splits sum.splits if_splits)
qed simp

text \<open>One internal request takes the next id and sends one message.\<close>

lemma send_request_internal_cases:
  assumes "send_request_internal bp req fc = (result, fc')"
  shows "fc_requests fc' = fc_requests fc @ [(fc_current_request_id fc, encode_request bp req (fc_current_request_id fc))]"
    and "fc_current_request_id fc' = fc_current_request_id fc + 1"
    and "\<And>resp. result = Inr resp \<Longrightarrow> validate_response bp resp (fc_current_request_id fc) = Inr resp"
proof -
  define i where "i = fc_current_request_id fc"
  define fc1 where "fc1 = fc\<lparr> fc_current_request_id := i + 1 \<rparr>"
  obtain outcome fc2 where c: "conn_send (i, encode_request bp req i) fc1 = (outcome, fc2)"
    by (cases "conn_send (i, encode_request bp req i) fc1")
  then have fc2: "fc_requests fc2 = fc_requests fc @ [(i, encode_request bp req i)]"
    "fc_current_request_id fc2 = i + 1"
    using conn_send_simps [of "(i, encode_request bp req i)" fc1] by (simp_all add: fc1_def)
  have eq: "send_request_internal bp req fc =
      (case outcome of
         Send_Timeout \<Rightarrow> (Inl (CE_RequestFailed ''timeout''), register_metric (Timeout_Metric ''sending_payload'') fc2)
       | Send_Error err \<Rightarrow> (Inl (CE_RequestFailed err), fc2)
       | Sent \<Rightarrow> receive_response bp i (unat MAX_MISMATCHED_ID_RETRIES) fc2)"
    using c unfolding i_def
    by (simp add: send_request_internal_def generate_payload_def next_id_def Let_def fc1_def i_def)
  show "fc_requests fc' = fc_requests fc @ [(fc_current_request_id fc, encode_request bp req (fc_current_request_id fc))]"
    "fc_current_request_id fc' = fc_current_request_id fc + 1"
    using assms eq fc2 receive_response_keeps [of bp i "unat MAX_MISMATCHED_ID_RETRIES" fc2]
    by (auto simp: i_def split: send_outcome.splits)
  show "\<And>resp. result = Inr resp \<Longrightarrow> validate_response bp resp (fc_current_request_id fc) = Inr resp"
    using assms eq by (auto simp: i_def split: send_outcome.splits dest: receive_response_Inr)
qed

text \<open>A whole request is at most two internal ones, and answers with the response of the last.\<close>

lemma send_request_cases:
  assumes "send_request bp env req fc = (result, fc')"
  obtains (none) "fc_requests fc' = fc_requests fc" "fc_current_request_id fc' = fc_current_request_id fc"
      "result = Inl CE_ConnectionLost"
  | (one) r fc1 where "send_request_internal bp req fc = (r, fc1)" "fc_requests fc' = fc_requests fc1"
      "fc_current_request_id fc' = fc_current_request_id fc1" "\<And>resp. result = Inr resp \<Longrightarrow> r = Inr resp"
  | (two) err fc1 new_client where "send_request_internal bp req fc = (Inl err, fc1)"
      "send_request_internal bp req (fc1\<lparr> fc_client := new_client \<rparr>) = (result, fc')"
proof (cases "rq_access env")
  case False
  then show thesis using assms none by (auto simp: send_request_def)
next
  case True
  obtain r fc1 where r: "send_request_internal bp req fc = (r, fc1)"
    by (cases "send_request_internal bp req fc")
  show thesis
  proof (cases r)
    case (Inr resp)
    then show thesis using assms True r one by (auto simp: send_request_def)
  next
    case (Inl err)
    show thesis
    proof (cases "rq_reconnect env")
      case None
      then show thesis using assms True r Inl one [OF r] by (auto simp: send_request_def)
    next
      case (Some outcome)
      then show thesis using assms True r Inl one [OF r] two [of err fc1]
        by (cases outcome) (auto simp: send_request_def)
    qed
  qed
qed

subsection \<open>The client keeps the contract\<close>

text \<open>The \<open>k\<close>-th request has the id \<open>k\<close>, modulo $2^{16}$.\<close>

definition numbered :: "framed_node_client \<Rightarrow> bool" where
  "numbered fc \<longleftrightarrow>
     map fst (fc_requests fc) = map of_nat [0..<length (fc_requests fc)] \<and>
     fc_current_request_id fc = of_nat (length (fc_requests fc))"

definition answered :: "binary_port \<Rightarrow> command \<Rightarrow> response_and_request \<Rightarrow> framed_node_client \<Rightarrow> bool" where
  "answered bp req resp fc \<longleftrightarrow>
     (\<exists>before i. fc_requests fc = before @ [(i, encode_request bp req i)] \<and> validate_response bp resp i = Inr resp)"

lemma send_request_internal_numbered:
  assumes "numbered fc" "send_request_internal bp req fc = (result, fc')"
  shows "numbered fc'"
  using assms(1) send_request_internal_cases [OF assms(2)] by (simp add: numbered_def)

lemma numbered_client [simp]: "numbered (fc\<lparr> fc_client := new_client \<rparr>) \<longleftrightarrow> numbered fc"
  by (simp add: numbered_def)

lemma send_request_numbered:
  assumes "numbered fc"
  shows "numbered (snd (send_request bp env req fc))"
proof (cases "send_request bp env req fc")
  case (Pair result fc')
  from this have "numbered fc'"
  proof (cases rule: send_request_cases)
    case none
    then show ?thesis using assms by (simp add: numbered_def)
  next
    case (one r fc1)
    then show ?thesis using send_request_internal_numbered [OF assms one(1)] by (simp add: numbered_def)
  next
    case (two err fc1 new_client)
    show ?thesis
      using send_request_internal_numbered [OF _ two(2)] send_request_internal_numbered [OF assms two(1)] by simp
  qed
  with Pair show ?thesis by simp
qed

lemma send_request_answered:
  assumes "send_request bp env req fc = (Inr resp, fc')"
  shows "answered bp req resp fc'"
  using assms
proof (cases rule: send_request_cases)
  case none
  then show ?thesis by simp
next
  case (one r fc1)
  then show ?thesis using send_request_internal_cases [OF one(1)] by (simp add: answered_def)
next
  case (two err fc1 new_client)
  show ?thesis using send_request_internal_cases [OF two(2)] by (simp add: answered_def)
qed

interpretation framed: node_client "send_request bp env" numbered "answered bp" for bp env
  by unfold_locales (simp_all add: send_request_numbered send_request_answered)

text \<open>The activities that share the client: requests, the keep-alive loop and the reconnecting loop.\<close>

inductive client_step :: "binary_port \<Rightarrow> framed_node_client \<Rightarrow> framed_node_client \<Rightarrow> bool" for bp where
  Step_request: "client_step bp fc (snd (send_request bp env req fc))"
| Step_keepalive: "client_step bp fc (keepalive_round bp protocol_version_tag env fc)"
| Step_reconnect: "client_step bp fc (snd (reconnect_loop outcomes fc))"

lemma reconnect_loop_numbered: "numbered fc \<Longrightarrow> numbered (snd (reconnect_loop outcomes fc))"
  by (induction outcomes fc rule: reconnect_loop.induct) (simp_all add: numbered_def)

lemma client_steps_numbered:
  assumes "(client_step bp)\<^sup>*\<^sup>* fc fc'" "numbered fc"
  shows "numbered fc'"
  using assms
proof (induction rule: rtranclp_induct)
  case (step y z)
  from step(2) show ?case
    by cases (use step in \<open>simp_all add: send_request_numbered keepalive_round_def reconnect_loop_numbered\<close>)
qed simp

lemma new_client_numbered:
  assumes "FramedNodeClient_new bp env backoff_config tcp_socket tcp node_status chainspec_name network_name = Inr fc"
  shows "numbered fc"
proof -
  define fc0 where "fc0 stream = \<lparr> fc_client = stream, fc_reconnect = False,
    fc_current_request_id = INITIAL_REQUEST_ID, fc_requests = [], fc_metrics = [] \<rparr>" for stream
  have fc0: "numbered (fc0 stream)" for stream
    by (simp add: numbered_def fc0_def INITIAL_REQUEST_ID_def)
  have "numbered (snd (read_node_status bp (send_request bp env) node_status (fc0 stream)))" for stream
    by (rule framed.operations_keep) (rule fc0)
  then have "numbered fc1" if "read_node_status bp (send_request bp env) node_status (fc0 stream) = (r, fc1)" for stream r fc1
    using that by (metis snd_conv)
  then show ?thesis
    using assms fc0
    by (auto simp: FramedNodeClient_new_def fc0_def [symmetric] Let_def
        split: sum.splits option.splits prod.splits if_splits)
qed

lemma u16_of_nat_eq: "(of_nat i :: u16) = of_nat j \<Longrightarrow> i < j \<Longrightarrow> 65536 \<le> j - i"
proof -
  assume "(of_nat i :: u16) = of_nat j" "i < j"
  then have "i mod 65536 = j mod 65536"
    by (simp add: word_unat_eq_iff unat_of_nat)
  then have "65536 dvd j - i" using \<open>i < j\<close> by (metis less_imp_le_nat mod_eq_dvd_iff_nat)
  with \<open>i < j\<close> show ?thesis by (simp add: dvd_imp_le)
qed

subsection \<open>Late responses\<close>

definition stale_message :: "binary_port \<Rightarrow> u16 \<Rightarrow> u8 list \<Rightarrow> bool" where
  "stale_message bp i payload \<longleftrightarrow>
     (case bp_envelope_from_bytes bp payload of
        Inl _ \<Rightarrow> False
      | Inr resp \<Rightarrow> (case try_parse_request_id bp (rr_request resp) of Inl _ \<Rightarrow> 0 < i | Inr j \<Rightarrow> j < i))"

lemma stale_message_validate:
  assumes "stale_message bp i payload" "bp_envelope_from_bytes bp payload = Inr resp"
  shows "\<exists>got. validate_response bp resp i = Inl (CE_RequestResponseIdMismatch i got) \<and> got < i"
  using assms by (auto simp: stale_message_def validate_response_def split: sum.splits)

lemma receive_response_stale:
  assumes "cn_inbound (fc_client fc) = Received_Message payload # rest" "stale_message bp i payload"
  shows "receive_response bp i (Suc rounds) fc =
    receive_response bp i rounds (register_metric Mismatched_Id
      (fc\<lparr> fc_client := (fc_client fc)\<lparr> cn_inbound := rest \<rparr> \<rparr>))"
proof -
  obtain resp where resp: "bp_envelope_from_bytes bp payload = Inr resp"
    using assms(2) by (auto simp: stale_message_def split: sum.splits)
  show ?thesis
    using stale_message_validate [OF assms(2) resp] assms(1) resp by (auto simp: conn_next_def)
qed

lemma receive_response_skips:
  assumes "cn_inbound (fc_client fc) = map Received_Message stale @ Received_Message answer # later"
    and "list_all (stale_message bp i) stale" "length stale < rounds"
    and "bp_envelope_from_bytes bp answer = Inr resp" "try_parse_request_id bp (rr_request resp) = Inr i"
  shows "\<exists>fc'. receive_response bp i rounds fc = (Inr resp, fc') \<and> cn_inbound (fc_client fc') = later \<and>
    fc_metrics fc' = fc_metrics fc @ replicate (length stale) Mismatched_Id"
  using assms
proof (induction stale arbitrary: fc rounds)
  case Nil
  obtain n where "rounds = Suc n" using Nil.prems(3) by (cases rounds) auto
  with Nil show ?case by (simp add: conn_next_def validate_response_def)
next
  case (Cons payload stale)
  obtain n where n: "rounds = Suc n" using Cons.prems(3) by (cases rounds) auto
  define fc1 where "fc1 = register_metric Mismatched_Id
    (fc\<lparr> fc_client := (fc_client fc)\<lparr> cn_inbound := map Received_Message stale @ Received_Message answer # later \<rparr> \<rparr>)"
  have "receive_response bp i rounds fc = receive_response bp i n fc1"
    unfolding n fc1_def by (rule receive_response_stale) (use Cons.prems(1,2) in auto)
  moreover have "\<exists>fc'. receive_response bp i n fc1 = (Inr resp, fc') \<and> cn_inbound (fc_client fc') = later \<and>
    fc_metrics fc' = fc_metrics fc1 @ replicate (length stale) Mismatched_Id"
    by (rule Cons.IH) (use Cons.prems n in \<open>simp_all add: fc1_def\<close>)
  ultimately show ?case by (simp add: fc1_def register_metric_def)
qed

lemma send_request_internal_skips:
  assumes "cn_sends (fc_client fc) = Sent # sends"
    and "cn_inbound (fc_client fc) = map Received_Message stale @ Received_Message answer # later"
    and "list_all (stale_message bp (fc_current_request_id fc)) stale" "length stale < 100"
    and "bp_envelope_from_bytes bp answer = Inr resp"
    and "try_parse_request_id bp (rr_request resp) = Inr (fc_current_request_id fc)"
  shows "\<exists>fc'. send_request_internal bp req fc = (Inr resp, fc') \<and> cn_inbound (fc_client fc') = later \<and>
    fc_metrics fc' = fc_metrics fc @ replicate (length stale) Mismatched_Id"
proof -
  define i where "i = fc_current_request_id fc"
  define fc2 where "fc2 = fc\<lparr> fc_current_request_id := i + 1, fc_requests := fc_requests fc @ [(i, encode_request bp req i)],
    fc_client := (fc_client fc)\<lparr> cn_sends := sends \<rparr> \<rparr>"
  have "send_request_internal bp req fc = receive_response bp i 100 fc2"
    using assms(1) by (simp add: send_request_internal_def generate_payload_def next_id_def conn_send_def Let_def
        fc2_def i_def MAX_MISMATCHED_ID_RETRIES_def)
  moreover have "\<exists>fc'. receive_response bp i 100 fc2 = (Inr resp, fc') \<and> cn_inbound (fc_client fc') = later \<and>
    fc_metrics fc' = fc_metrics fc2 @ replicate (length stale) Mismatched_Id"
    by (rule receive_response_skips [of _ stale answer]) (use assms in \<open>simp_all add: fc2_def i_def\<close>)
  ultimately show ?thesis by (simp add: fc2_def)
qed

text \<open>The response to the last id before the counter wraps is not taken for a late one.\<close>

lemma wrapped_response_is_an_error:
  assumes "cn_inbound (fc_client fc) = Received_Message late # rest"
    and "bp_envelope_from_bytes bp late = Inr resp" "try_parse_request_id bp (rr_request resp) = Inr 65535"
  shows "fst (receive_response bp 0 (Suc rounds) fc) = Inl (CE_RequestResponseIdMismatch 0 65535)"
  using assms by (simp add: conn_next_def validate_response_def)

subsection \<open>Delays\<close>

definition next_delay :: "exponential_backoff \<Rightarrow> u64 \<Rightarrow> u64" where
  "next_delay config wait = min (wait * eb_coefficient config) (eb_max_delay_ms config)"

definition delays :: "exponential_backoff \<Rightarrow> u64 \<Rightarrow> nat \<Rightarrow> u64 list" where
  "delays config wait n = map (\<lambda>k. (next_delay config ^^ k) wait) [0..<n]"

lemma delays_Suc: "delays config wait (Suc n) = wait # delays config (next_delay config wait) n"
  by (simp add: delays_def upt_conv_Cons map_Suc_upt [symmetric] funpow_swap1 del: upt_Suc)

lemma delays_0 [simp]: "delays config wait 0 = []"
  by (simp add: delays_def)

definition attempts_allowed :: "exponential_backoff \<Rightarrow> nat" where
  "attempts_allowed config = max 1 (unat (eb_max_attempts config))"

definition connected :: "string + 'c \<Rightarrow> bool" where
  "connected outcome \<longleftrightarrow> (case outcome of Inr _ \<Rightarrow> True | Inl _ \<Rightarrow> False)"

lemma not_connected: "\<not> connected outcome \<Longrightarrow> \<exists>e. outcome = Inl e"
  by (cases outcome) (auto simp: connected_def)

text \<open>Attempts fail until one succeeds or none is left.\<close>

lemma connect_attempts_succeeds:
  assumes "tcp n = Inr stream" "\<And>k. m \<le> k \<Longrightarrow> k < n \<Longrightarrow> \<not> connected (tcp k)"
    and "m \<le> n" "n \<le> attempts_allowed config" "1 \<le> m"
  shows "connect_attempts config socket tcp wait m = (Inr stream, delays config wait (n - m))"
  using assms
proof (induction "n - m" arbitrary: m wait)
  case 0
  then show ?case by (simp add: connect_attempts.simps)
next
  case (Suc d)
  have "m < n" using Suc.hyps(2) by simp
  then obtain e where e: "tcp m = Inl e" using Suc.prems(2) [of m] not_connected by blast
  have "connect_attempts config socket tcp (next_delay config wait) (Suc m) =
    (Inr stream, delays config (next_delay config wait) (n - Suc m))"
    by (rule Suc.hyps(1)) (use Suc.prems Suc.hyps(2) in auto)
  moreover have "n - m = Suc (n - Suc m)" "\<not> unat (eb_max_attempts config) < Suc m"
    using Suc.hyps(2) Suc.prems by (auto simp: attempts_allowed_def)
  ultimately show ?case
    using e by (simp add: connect_attempts.simps [of _ _ _ wait] next_delay_def [symmetric] delays_Suc)
qed

lemma connect_attempts_fails:
  assumes "\<And>k. m \<le> k \<Longrightarrow> k \<le> attempts_allowed config \<Longrightarrow> \<not> connected (tcp k)"
    and "1 \<le> m" "m \<le> attempts_allowed config"
  shows "\<exists>err. connect_attempts config socket tcp wait m = (Inl err, delays config wait (attempts_allowed config - m))"
  using assms
proof (induction "attempts_allowed config - m" arbitrary: m wait)
  case 0
  obtain e where "tcp m = Inl e" using 0 not_connected by blast
  with 0 show ?case by (simp add: connect_attempts.simps attempts_allowed_def split: if_splits)
next
  case (Suc d)
  obtain e where e: "tcp m = Inl e" using Suc.prems not_connected by blast
  have "\<exists>err. connect_attempts config socket tcp (next_delay config wait) (Suc m) =
    (Inl err, delays config (next_delay config wait) (attempts_allowed config - Suc m))"
    by (rule Suc.hyps(1)) (use Suc.prems Suc.hyps(2) in auto)
  moreover have "attempts_allowed config - m = Suc (attempts_allowed config - Suc m)"
    "\<not> unat (eb_max_attempts config) < Suc m"
    using Suc.hyps(2) Suc.prems by (auto simp: attempts_allowed_def)
  ultimately show ?case
    using e by (auto simp: connect_attempts.simps [of _ _ _ wait] next_delay_def [symmetric] delays_Suc)
qed

lemma min_mult_cap: "min (min a m * c) m = min (a * c) (m :: nat)"
proof (cases "a \<le> m")
  case False
  then have "m \<le> a" by simp
  then show ?thesis by (cases c) (simp_all add: min_def trans_le_add1)
qed simp

text \<open>Without overflow, the delays grow geometrically up to the maximum.\<close>

lemma next_delay_iterate:
  assumes "unat w * unat (eb_coefficient config) < 2 ^ 64"
    and "unat (eb_max_delay_ms config) * unat (eb_coefficient config) < 2 ^ 64"
  shows "unat ((next_delay config ^^ Suc k) w) =
    min (unat w * unat (eb_coefficient config) ^ Suc k) (unat (eb_max_delay_ms config))"
proof (induction k)
  case 0
  have "unat (w * eb_coefficient config) = unat w * unat (eb_coefficient config)"
    using assms(1) by (simp add: unat_mult_lem [THEN iffD1])
  then show ?case by (auto simp: next_delay_def min_def word_le_nat_alt)
next
  case (Suc k)
  define c M where "c = unat (eb_coefficient config)" and "M = unat (eb_max_delay_ms config)"
  define v where "v = (next_delay config ^^ Suc k) w"
  have v: "unat v = min (unat w * c ^ Suc k) M" using Suc by (simp add: v_def c_def M_def)
  then have "unat v * c \<le> M * c" by simp
  then have "unat v * c < 2 ^ 64" using assms(2) unfolding c_def M_def by (rule le_less_trans)
  then have "unat (v * eb_coefficient config) = unat v * c"
    by (simp add: c_def unat_mult_lem [THEN iffD1])
  then have "unat (next_delay config v) = min (unat v * c) M"
    by (auto simp: next_delay_def min_def word_le_nat_alt M_def)
  also have "\<dots> = min (unat w * c ^ Suc (Suc k)) M"
    unfolding v min_mult_cap by (simp add: mult_ac)
  finally show ?case by (simp add: v_def c_def M_def)
qed

lemma map_unat_delays:
  assumes "unat w * unat (eb_coefficient config) < 2 ^ 64"
    and "unat (eb_max_delay_ms config) * unat (eb_coefficient config) < 2 ^ 64"
  shows "map unat (delays config w n) = map (\<lambda>k.
    if k = 0 then unat w
    else min (unat w * unat (eb_coefficient config) ^ k) (unat (eb_max_delay_ms config))) [0..<n]"
proof -
  have "unat ((next_delay config ^^ k) w) = (if k = 0 then unat w
    else min (unat w * unat (eb_coefficient config) ^ k) (unat (eb_max_delay_ms config)))" for k
    using next_delay_iterate [OF assms, of "k - 1"] by (cases k) simp_all
  then show ?thesis by (simp add: delays_def)
qed

subsection \<open>Properties\<close>

text \<open>A binary port for examples: headers are version, kind and id, numbers are little-endian, and a
  response is the request it echoes.\<close>

definition le16 :: "u8 \<Rightarrow> u8 \<Rightarrow> u16" where
  "le16 b0 b1 = ucast b0 + 256 * ucast b1"

definition sample_port :: binary_port where
  "sample_port = \<lparr> bp_error_code_try_from = (\<lambda>n. if n = 0 then Inr EC_NoError else Inl ''unknown code''),
     bp_error_code_display = (\<lambda>_. ''code''), bp_no_error_code = 0,
     bp_is_success = (\<lambda>r. br_error_code r = 0), bp_is_not_found = (\<lambda>r. br_error_code r = 1),
     bp_information = (\<lambda>_. GetRequest_Information 0 []),
     bp_header_version = 1, bp_header_to_bytes = (\<lambda>_ i. [1, 0, 7, ucast i, ucast (i div 256)]),
     bp_command_to_bytes = (\<lambda>_. []),
     bp_u32_from_bytes = (\<lambda>bs. case bs of b0 # b1 # b2 # b3 # rest \<Rightarrow>
         Inr (ucast b0 + 256 * (ucast b1 + 256 * (ucast b2 + 256 * ucast b3)), rest) | _ \<Rightarrow> Inl ''early end''),
     bp_u16_from_bytes = (\<lambda>bs. case bs of b0 # b1 # rest \<Rightarrow> Inr (le16 b0 b1, rest) | _ \<Rightarrow> Inl ''early end''),
     bp_header_from_bytes = (\<lambda>bs. case bs of v0 # v1 # t # i0 # i1 # rest \<Rightarrow> Inr (le16 i0 i1, rest)
                                        | _ \<Rightarrow> Inl ''early end''),
     bp_envelope_from_bytes = (\<lambda>bs. Inr \<lparr> rr_response =
         \<lparr> br_error_code = 0, br_type_tag = Some 7, br_payload = bs \<rparr>, rr_request = bs \<rparr>) \<rparr>"

definition sample_client :: "u8 list list \<Rightarrow> u16 \<Rightarrow> framed_node_client" where
  "sample_client messages i =
     \<lparr> fc_client = \<lparr> cn_sends = [Sent], cn_inbound = map Received_Message messages \<rparr>,
       fc_reconnect = False, fc_current_request_id = i, fc_requests = [], fc_metrics = [] \<rparr>"

definition sample_request_env :: request_env where
  "sample_request_env = \<lparr> rq_access = True, rq_reconnect = None \<rparr>"

definition sample_tag :: "u8 \<Rightarrow> (u8 list) payload_entity" where
  "sample_tag t = \<lparr> pe_response_type = t, pe_from_bytes = Inr \<rparr>"

lemma sample_port_sel:
  "bp_information sample_port info = GetRequest_Information 0 []"
  "bp_is_success sample_port r \<longleftrightarrow> br_error_code r = 0"
  "bp_is_not_found sample_port r \<longleftrightarrow> br_error_code r = 1"
  by (simp_all add: sample_port_def)

lemmas sample_port_defs = sample_port_def sample_client_def sample_request_env_def sample_tag_def le16_def
  try_parse_request_id_def extract_header_def



text \<open>C22: late responses do not disturb the client.  If up to 99 responses with smaller ids, or with none
  while the expected one is positive, arrive before the response to a request, the request still returns
  its own response, counts the others, and leaves what arrives after it.\<close>

theorem late_responses_are_skipped:
  assumes "cn_sends (fc_client fc) = Sent # sends"
    and "cn_inbound (fc_client fc) = map Received_Message stale @ Received_Message answer # later"
    and "list_all (stale_message bp (fc_current_request_id fc)) stale" "length stale < 100"
    and "bp_envelope_from_bytes bp answer = Inr resp"
    and "try_parse_request_id bp (rr_request resp) = Inr (fc_current_request_id fc)"
    and "rq_access env"
  shows "\<exists>fc'. send_request bp env req fc = (Inr resp, fc') \<and> cn_inbound (fc_client fc') = later \<and>
    fc_metrics fc' = fc_metrics fc @ replicate (length stale) Mismatched_Id"
  using send_request_internal_skips [OF assms(1-6), of req] assms(7) by (auto simp: send_request_def)

theorem late_responses_are_skipped_witness:
  "\<exists>fc'. send_request sample_port sample_request_env (Command_Get (GetRequest_Trie []))
      (sample_client [[5, 0, 0, 0, 1, 0, 7, 2, 0], [], [5, 0, 0, 0, 1, 0, 7, 3, 0], [1]] 3) =
     (Inr \<lparr> rr_response = \<lparr> br_error_code = 0, br_type_tag = Some 7, br_payload = [5, 0, 0, 0, 1, 0, 7, 3, 0] \<rparr>,
           rr_request = [5, 0, 0, 0, 1, 0, 7, 3, 0] \<rparr>, fc') \<and>
     cn_inbound (fc_client fc') = [Received_Message [1]] \<and> fc_metrics fc' = [Mismatched_Id, Mismatched_Id]"
proof -
  let ?fc = "sample_client [[5, 0, 0, 0, 1, 0, 7, 2, 0], [], [5, 0, 0, 0, 1, 0, 7, 3, 0], [1]] 3"
  have "\<exists>fc'. send_request sample_port sample_request_env (Command_Get (GetRequest_Trie [])) ?fc =
     (Inr \<lparr> rr_response = \<lparr> br_error_code = 0, br_type_tag = Some 7, br_payload = [5, 0, 0, 0, 1, 0, 7, 3, 0] \<rparr>,
           rr_request = [5, 0, 0, 0, 1, 0, 7, 3, 0] \<rparr>, fc') \<and>
     cn_inbound (fc_client fc') = [Received_Message [1]] \<and>
     fc_metrics fc' = fc_metrics ?fc @ replicate (length [[5::u8, 0, 0, 0, 1, 0, 7, 2, 0], []]) Mismatched_Id"
    by (rule late_responses_are_skipped [of _ "[]" _ "[5, 0, 0, 0, 1, 0, 7, 3, 0]"])
      (simp_all add: sample_port_defs stale_message_def)
  moreover have "fc_metrics ?fc = []" by (simp add: sample_client_def)
  ultimately show ?thesis by simp
qed

text \<open>Ids are reused as late as the width of an id allows.  In whatever order requests, keep-alive
  requests and reconnections follow each other after the client was created, two requests it sent with
  fewer than 65536 requests from one to the other have different ids.\<close>

theorem request_ids_not_reused:
  assumes "FramedNodeClient_new bp env backoff_config tcp_socket tcp node_status chainspec_name network_name = Inr fc0"
    and "(client_step bp)\<^sup>*\<^sup>* fc0 fc"
    and "i < j" "j < length (fc_requests fc)" "j - i < 65536"
  shows "fst (fc_requests fc ! i) \<noteq> fst (fc_requests fc ! j)"
proof -
  have ids: "map fst (fc_requests fc) = map of_nat [0..<length (fc_requests fc)]"
    using client_steps_numbered [OF assms(2) new_client_numbered [OF assms(1)]] by (simp add: numbered_def)
  have "fst (fc_requests fc ! k) = of_nat k" if "k < length (fc_requests fc)" for k
    using arg_cong [OF ids, of "\<lambda>ws. ws ! k"] that by simp
  then show ?thesis using assms(3-5) u16_of_nat_eq [of i j] by fastforce
qed

definition sample_backoff :: exponential_backoff where
  "sample_backoff = \<lparr> eb_initial_delay_ms = 1000, eb_max_delay_ms = 5000, eb_coefficient = 2, eb_max_attempts = 5 \<rparr>"

lemma sample_new:
  "FramedNodeClient_new sample_port sample_request_env sample_backoff ''node:7779''
     (\<lambda>_. Inr \<lparr> cn_sends = [], cn_inbound = [] \<rparr>) (sample_tag 7) (\<lambda>_. ''casper'') None =
   Inr \<lparr> fc_client = \<lparr> cn_sends = [], cn_inbound = [] \<rparr>, fc_reconnect = False,
         fc_current_request_id = 0, fc_requests = [], fc_metrics = [] \<rparr>"
  by (simp add: FramedNodeClient_new_def connect_with_retries_def connect_attempts.simps INITIAL_REQUEST_ID_def)

theorem request_ids_not_reused_witness:
  "\<exists>fc0 fc. FramedNodeClient_new sample_port sample_request_env sample_backoff ''node:7779''
      (\<lambda>_. Inr \<lparr> cn_sends = [], cn_inbound = [] \<rparr>) (sample_tag 7) (\<lambda>_. ''casper'') None = Inr fc0 \<and>
     (client_step sample_port)\<^sup>*\<^sup>* fc0 fc \<and> length (fc_requests fc) = 2 \<and>
     fst (fc_requests fc ! 0) \<noteq> fst (fc_requests fc ! 1)"
proof -
  define fc0 where "fc0 = \<lparr> fc_client = \<lparr> cn_sends = [], cn_inbound = [] \<rparr>, fc_reconnect = False,
    fc_current_request_id = 0, fc_requests = [], fc_metrics = [] \<rparr>"
  define fc1 where "fc1 = keepalive_round sample_port 0 sample_request_env fc0"
  define fc2 where "fc2 = keepalive_round sample_port 0 sample_request_env fc1"
  have new: "FramedNodeClient_new sample_port sample_request_env sample_backoff ''node:7779''
      (\<lambda>_. Inr \<lparr> cn_sends = [], cn_inbound = [] \<rparr>) (sample_tag 7) (\<lambda>_. ''casper'') None = Inr fc0"
    by (simp add: sample_new fc0_def)
  have steps: "(client_step sample_port)\<^sup>*\<^sup>* fc0 fc2"
    unfolding fc2_def fc1_def by (meson Step_keepalive converse_rtranclp_into_rtranclp rtranclp.rtrancl_refl)
  have "length (fc_requests fc2) = 2"
    by (simp add: fc2_def fc1_def fc0_def keepalive_round_def send_request_def send_request_internal_def
        generate_payload_def next_id_def conn_send_def register_metric_def Let_def sample_request_env_def)
  with new steps show ?thesis using request_ids_not_reused [OF new steps, of 0 1] by auto
qed

text \<open>Connecting retries with exponentially growing delays.  If the delays do not overflow, the client
  waits the initial delay times a power of the coefficient, at most the maximal delay (the first delay
  excepted), between two attempts, and stops at the first attempt that succeeds, or after the configured
  number of attempts, of which there is at least one.\<close>

theorem connecting_backs_off:
  assumes "unat (eb_initial_delay_ms config) * unat (eb_coefficient config) < 2 ^ 64"
    and "unat (eb_max_delay_ms config) * unat (eb_coefficient config) < 2 ^ 64"
    and "(result, waits) = connect_with_retries config socket tcp"
  shows "\<exists>n. 1 \<le> n \<and> n \<le> max 1 (unat (eb_max_attempts config)) \<and>
    (\<forall>k. 1 \<le> k \<and> k < n \<longrightarrow> (\<exists>e. tcp k = Inl e)) \<and>
    (case result of
       Inr stream \<Rightarrow> tcp n = Inr stream
     | Inl _ \<Rightarrow> n = max 1 (unat (eb_max_attempts config)) \<and> (\<exists>e. tcp n = Inl e)) \<and>
    map unat waits = map (\<lambda>k.
      if k = 0 then unat (eb_initial_delay_ms config)
      else min (unat (eb_initial_delay_ms config) * unat (eb_coefficient config) ^ k)
               (unat (eb_max_delay_ms config))) [0..<n - 1]"
proof -
  define N where "N = attempts_allowed config"
  have N: "N = max 1 (unat (eb_max_attempts config))" "1 \<le> N" by (simp_all add: N_def attempts_allowed_def)
  note delays = map_unat_delays [OF assms(1,2)]
  show ?thesis
  proof (cases "\<exists>n. 1 \<le> n \<and> n \<le> N \<and> connected (tcp n)")
    case True
    define n where "n = (LEAST n. 1 \<le> n \<and> n \<le> N \<and> connected (tcp n))"
    have n: "1 \<le> n" "n \<le> N" "connected (tcp n)" using LeastI_ex [OF True] by (simp_all add: n_def)
    have before: "\<not> connected (tcp k)" if "1 \<le> k" "k < n" for k
      using not_less_Least [of k "\<lambda>n. 1 \<le> n \<and> n \<le> N \<and> connected (tcp n)"] that n(2) by (auto simp: n_def)
    obtain stream where stream: "tcp n = Inr stream"
      using n(3) by (cases "tcp n") (auto simp: connected_def)
    have "connect_with_retries config socket tcp = (Inr stream, delays config (eb_initial_delay_ms config) (n - 1))"
      unfolding connect_with_retries_def
      by (rule connect_attempts_succeeds) (use stream before n in \<open>simp_all add: N_def\<close>)
    then show ?thesis
      using assms(3) stream n before delays [of "n - 1"] not_connected N(1) by (intro exI [of _ n]) auto
  next
    case False
    then have none: "\<exists>e. tcp k = Inl e" if "1 \<le> k" "k \<le> N" for k
      using that not_connected by blast
    from False have "\<exists>err. connect_with_retries config socket tcp = (Inl err, delays config (eb_initial_delay_ms config) (N - 1))"
      unfolding connect_with_retries_def N_def
      by (intro connect_attempts_fails) (use N in \<open>auto simp: N_def\<close>)
    then show ?thesis
      using assms(3) none delays [of "N - 1"] N by (intro exI [of _ N]) (auto simp: N(1) [symmetric])
  qed
qed

theorem connecting_backs_off_witness:
  "connect_with_retries sample_backoff ''node:7779'' (\<lambda>k. if k < 4 then Inl ''refused'' else Inr ()) =
     (Inr (), [1000, 2000, 4000]) \<and>
   (\<exists>n. map unat [1000 :: u64, 2000, 4000] = map (\<lambda>k.
      if k = 0 then unat (eb_initial_delay_ms sample_backoff)
      else min (unat (eb_initial_delay_ms sample_backoff) * unat (eb_coefficient sample_backoff) ^ k)
               (unat (eb_max_delay_ms sample_backoff))) [0..<n - 1])"
proof -
  have run: "connect_with_retries sample_backoff ''node:7779'' (\<lambda>k. if k < 4 then Inl ''refused'' else Inr ()) =
     (Inr (), [1000, 2000, 4000])"
    by (simp add: connect_with_retries_def connect_attempts.simps sample_backoff_def)
  have "unat (eb_initial_delay_ms sample_backoff) * unat (eb_coefficient sample_backoff) < 2 ^ 64"
    "unat (eb_max_delay_ms sample_backoff) * unat (eb_coefficient sample_backoff) < 2 ^ 64"
    by (simp_all add: sample_backoff_def)
  from connecting_backs_off [OF this run [symmetric]] run show ?thesis by blast
qed

end
