(* ===== verification/Caching_Client.thy ===== *)
theory Caching_Client
  imports Framed_Client
begin

text \<open>
  \<open>CachingNodeClient\<close> of \<open>rpc_sidecar/src/caching_node_client.rs\<close>: a client that keeps the
  latest block it knows of, and the loop that renews that block whenever the sidecar
  reports a new one.  The inner client is any client of the node.
\<close>

subsection \<open>The client\<close>

record ('s, 'b) caching_node_client =
  cc_inner_client :: 's
  cc_block_with_signatures_cache :: "'b option"

definition CachingNodeClient_new :: "'s \<Rightarrow> ('s, 'b) caching_node_client" where
  "CachingNodeClient_new inner_client =
     \<lparr> cc_inner_client = inner_client, cc_block_with_signatures_cache = None \<rparr>"

definition get_block_from_cache :: "bool \<Rightarrow> ('s, 'b) caching_node_client \<Rightarrow> 'b option" where
  "get_block_from_cache lock_in_time cc =
     (if lock_in_time then cc_block_with_signatures_cache cc else None)"

text \<open>An operation of the inner client, on the state of the caching one.\<close>

definition on_inner :: "('s, 'a) client_op \<Rightarrow> (('s, 'b) caching_node_client, 'a) client_op" where
  "on_inner op cc =
     (let (result, inner) = op (cc_inner_client cc) in (result, cc\<lparr> cc_inner_client := inner \<rparr>))"

definition caching_send_request :: "'s sender \<Rightarrow> ('s, 'b) caching_node_client sender" where
  "caching_send_request send req = on_inner (send req)"

definition caching_read_block ::
  "binary_port \<Rightarrow> 's sender \<Rightarrow> 'b payload_entity \<Rightarrow> bool \<Rightarrow> block_identifier option \<Rightarrow>
   (('s, 'b) caching_node_client, 'b option) client_op" where
  "caching_read_block bp send entity lock_in_time block_identifier cc =
     (case (if block_identifier = None then get_block_from_cache lock_in_time cc else None) of
        Some block \<Rightarrow> (Inr (Some block), cc)
      | None \<Rightarrow> read_block_with_signatures bp (caching_send_request send) entity block_identifier cc)"

subsection \<open>The loop that updates the cache\<close>

datatype sidecar_recv = Recv_BlockAdded u64 | Recv_Lagged u64 | Recv_Closed

definition known_at_least :: "('b \<Rightarrow> u64) \<Rightarrow> ('s, 'b) caching_node_client \<Rightarrow> u64 \<Rightarrow> bool" where
  "known_at_least height cc h =
     (case cc_block_with_signatures_cache cc of None \<Rightarrow> False | Some block \<Rightarrow> h \<le> height block)"

definition cache_update ::
  "binary_port \<Rightarrow> 's sender \<Rightarrow> 'b payload_entity \<Rightarrow> ('b \<Rightarrow> u64) \<Rightarrow> sidecar_recv \<Rightarrow>
   ('s, 'b) caching_node_client \<Rightarrow> anyhow option \<times> ('s, 'b) caching_node_client" where
  "cache_update bp send entity height recv cc =
     (case recv of
        Recv_BlockAdded h \<Rightarrow>
          (if known_at_least height cc h then (None, cc)
           else
             (let (res, cc1) = on_inner (read_block_with_signatures bp send entity
                                  (Some (BlockIdentifier_Height h))) cc
              in case res of
                Inr (Some block) \<Rightarrow>
                  (if known_at_least height cc1 (height block) then (None, cc1)
                   else (None, cc1\<lparr> cc_block_with_signatures_cache := Some block \<rparr>))
              | Inr None \<Rightarrow> (None, cc1\<lparr> cc_block_with_signatures_cache := None \<rparr>)
              | Inl _ \<Rightarrow> (None, cc1\<lparr> cc_block_with_signatures_cache := None \<rparr>)))
      | Recv_Closed \<Rightarrow>
          (Some [''In cache_update_loop: internal broadcast mechanism of sidecar events failed.''],
           cc\<lparr> cc_block_with_signatures_cache := None \<rparr>)
      | Recv_Lagged _ \<Rightarrow> (None, cc\<lparr> cc_block_with_signatures_cache := None \<rparr>))"

text \<open>What happens to a client: the loop receives something, or a block is read, or another request is
  sent.  The loop ends with the first error, after which only requests are left.\<close>

datatype client_activity =
    Update sidecar_recv
  | Read_Block bool "block_identifier option"
  | Other_Request command

record ('s, 'b) caching_run =
  cr_client :: "('s, 'b) caching_node_client"
  cr_loop_error :: "anyhow option"

definition caching_step ::
  "binary_port \<Rightarrow> 's sender \<Rightarrow> 'b payload_entity \<Rightarrow> ('b \<Rightarrow> u64) \<Rightarrow> client_activity \<Rightarrow>
   ('s, 'b) caching_run \<Rightarrow> ('s, 'b) caching_run" where
  "caching_step bp send entity height activity run =
     (case activity of
        Update recv \<Rightarrow>
          (if cr_loop_error run \<noteq> None then run
           else let (err, cc) = cache_update bp send entity height recv (cr_client run)
                in \<lparr> cr_client = cc, cr_loop_error = err \<rparr>)
      | Read_Block lock_in_time block_identifier \<Rightarrow>
          run\<lparr> cr_client := snd (caching_read_block bp send entity lock_in_time block_identifier (cr_client run)) \<rparr>
      | Other_Request req \<Rightarrow>
          run\<lparr> cr_client := snd (caching_send_request send req (cr_client run)) \<rparr>)"

definition caching_steps ::
  "binary_port \<Rightarrow> 's sender \<Rightarrow> 'b payload_entity \<Rightarrow> ('b \<Rightarrow> u64) \<Rightarrow> client_activity list \<Rightarrow>
   ('s, 'b) caching_run \<Rightarrow> ('s, 'b) caching_run" where
  "caching_steps bp send entity height activities run =
     fold (caching_step bp send entity height) activities run"

abbreviation cached :: "('s, 'b) caching_run \<Rightarrow> 'b option" where
  "cached run \<equiv> cc_block_with_signatures_cache (cr_client run)"

subsection \<open>Lemmas\<close>

lemma on_inner_simps [simp]:
  "cc_block_with_signatures_cache (snd (on_inner op cc)) = cc_block_with_signatures_cache cc"
  "fst (on_inner op cc) = fst (op (cc_inner_client cc))"
  "cc_inner_client (snd (on_inner op cc)) = snd (op (cc_inner_client cc))"
  by (simp_all add: on_inner_def Let_def case_prod_unfold)

text \<open>The caching client keeps the contract of the client inside it.\<close>

context node_client
begin

lemma caching:
  "node_client (caching_send_request send) (\<lambda>cc. inv (cc_inner_client cc))
     (\<lambda>c resp cc. answers c resp (cc_inner_client cc))"
proof unfold_locales
  show "inv (cc_inner_client s) \<Longrightarrow> inv (cc_inner_client (snd (caching_send_request send c s)))" for c s
    by (simp add: caching_send_request_def send_keeps)
  show "answers c resp (cc_inner_client s')" if "caching_send_request send c s = (Inr resp, s')" for c s resp s'
  proof -
    have "send c (cc_inner_client s) = (Inr resp, cc_inner_client s')"
      using that on_inner_simps(2,3) [of "send c" s] by (simp add: caching_send_request_def prod_eq_iff)
    then show ?thesis by (rule send_answers)
  qed
qed

end

interpretation caching_framed: node_client "caching_send_request (send_request bp env)"
    "\<lambda>cc. numbered (cc_inner_client cc)" "\<lambda>c resp cc. answered bp c resp (cc_inner_client cc)" for bp env
  by (rule framed.caching)

lemma caching_reads_keep_cache [simp]:
  "cc_block_with_signatures_cache (snd (caching_send_request send req cc)) = cc_block_with_signatures_cache cc"
  "cc_block_with_signatures_cache (snd (caching_read_block bp send entity in_time bi cc)) =
     cc_block_with_signatures_cache cc"
  by (simp_all add: caching_send_request_def caching_read_block_def read_block_with_signatures_def
      read_info_def split: option.split)

text \<open>The law the node is relied on for: a block asked for by its height has this height.\<close>

definition serves_heights ::
  "binary_port \<Rightarrow> 's sender \<Rightarrow> 'b payload_entity \<Rightarrow> ('b \<Rightarrow> u64) \<Rightarrow> bool" where
  "serves_heights bp send entity height \<longleftrightarrow>
     (\<forall>h s b s'. read_block_with_signatures bp send entity (Some (BlockIdentifier_Height h)) s = (Inr (Some b), s') \<longrightarrow>
        height b = h)"

lemma cache_update_fresh:
  assumes "serves_heights bp send entity height"
    and "cc_block_with_signatures_cache (snd (cache_update bp send entity height (Recv_BlockAdded h) cc)) = Some b"
  shows "h \<le> height b"
proof (cases "known_at_least height cc h")
  case True
  then show ?thesis using assms(2) by (simp add: cache_update_def known_at_least_def split: option.splits)
next
  case False
  obtain res cc1 where r: "on_inner (read_block_with_signatures bp send entity (Some (BlockIdentifier_Height h))) cc = (res, cc1)"
    by (cases "on_inner (read_block_with_signatures bp send entity (Some (BlockIdentifier_Height h))) cc")
  have "height block = h" if "res = Inr (Some block)" for block
  proof -
    have "fst (read_block_with_signatures bp send entity (Some (BlockIdentifier_Height h)) (cc_inner_client cc)) = Inr (Some block)"
      using r that on_inner_simps(2) by (metis fst_conv)
    then show ?thesis using assms(1) unfolding serves_heights_def by (metis prod.collapse)
  qed
  then show ?thesis
    using assms(2) False r
    by (auto simp: cache_update_def known_at_least_def Let_def split: sum.splits option.splits if_splits)
qed

lemma cache_update_monotone:
  assumes "cc_block_with_signatures_cache cc = Some b"
    and "cc_block_with_signatures_cache (snd (cache_update bp send entity height recv cc)) = Some b'"
  shows "height b \<le> height b'"
proof (cases recv)
  case (Recv_BlockAdded h)
  obtain res cc1 where r: "on_inner (read_block_with_signatures bp send entity (Some (BlockIdentifier_Height h))) cc = (res, cc1)"
    by (cases "on_inner (read_block_with_signatures bp send entity (Some (BlockIdentifier_Height h))) cc")
  then have "cc_block_with_signatures_cache cc1 = Some b"
    using on_inner_simps(1) assms(1) by (metis snd_conv)
  then show ?thesis
    using assms r Recv_BlockAdded
    by (auto simp: cache_update_def known_at_least_def Let_def split: sum.splits option.splits if_splits)
qed (use assms in \<open>simp_all add: cache_update_def\<close>)

lemma caching_step_monotone:
  assumes "cached run = Some b" "cached (caching_step bp send entity height activity run) = Some b'"
  shows "height b \<le> height b'"
proof (cases activity)
  case (Update recv)
  then show ?thesis
    using assms cache_update_monotone [of "cr_client run" b bp send entity height recv b']
    by (auto simp: caching_step_def Let_def case_prod_unfold split: if_splits)
qed (use assms in \<open>simp_all add: caching_step_def\<close>)

lemma caching_steps_monotone:
  assumes "cached run = Some b" "cached (caching_steps bp send entity height activities run) = Some b'"
    and "\<And>before after. activities = before @ after \<Longrightarrow> cached (caching_steps bp send entity height before run) \<noteq> None"
  shows "height b \<le> height b'"
  using assms
proof (induction activities arbitrary: run b)
  case (Cons a activities)
  let ?run = "caching_step bp send entity height a run"
  obtain b1 where b1: "cached ?run = Some b1"
    using Cons.prems(3) [of "[a]" activities] by (auto simp: caching_steps_def)
  have "height b1 \<le> height b'"
  proof (rule Cons.IH [OF b1])
    show "cached (caching_steps bp send entity height activities ?run) = Some b'"
      using Cons.prems(2) by (simp add: caching_steps_def)
    show "cached (caching_steps bp send entity height before ?run) \<noteq> None" if "activities = before @ after" for before after
      using Cons.prems(3) [of "a # before" after] that by (simp add: caching_steps_def)
  qed
  with caching_step_monotone [OF Cons.prems(1) b1] show ?case by simp
qed (simp add: caching_steps_def)

lemma cache_update_error:
  assumes "fst (cache_update bp send entity height recv cc) = Some e"
  shows "cc_block_with_signatures_cache (snd (cache_update bp send entity height recv cc)) = None"
proof (cases recv)
  case (Recv_BlockAdded h)
  obtain res cc1 where "on_inner (read_block_with_signatures bp send entity (Some (BlockIdentifier_Height h))) cc = (res, cc1)"
    by (cases "on_inner (read_block_with_signatures bp send entity (Some (BlockIdentifier_Height h))) cc")
  with assms Recv_BlockAdded show ?thesis
    by (simp add: cache_update_def split: sum.splits option.splits if_splits)
qed (simp_all add: cache_update_def)

lemma caching_step_error:
  assumes "cr_loop_error run \<noteq> None \<longrightarrow> cached run = None"
    and "cr_loop_error (caching_step bp send entity height activity run) = Some e"
  shows "cached (caching_step bp send entity height activity run) = None"
proof (cases activity)
  case (Update recv)
  then show ?thesis
    using assms cache_update_error [of bp send entity height recv "cr_client run" e]
    by (cases "cache_update bp send entity height recv (cr_client run)")
      (simp add: caching_step_def split: if_splits)
qed (use assms in \<open>simp_all add: caching_step_def\<close>)

lemma loop_error_empties:
  assumes "cr_loop_error run \<noteq> None \<longrightarrow> cached run = None"
  shows "cr_loop_error (caching_steps bp send entity height activities run) \<noteq> None \<longrightarrow>
    cached (caching_steps bp send entity height activities run) = None"
  using assms
proof (induction activities arbitrary: run)
  case (Cons a activities)
  have "cr_loop_error (caching_step bp send entity height a run) \<noteq> None \<longrightarrow>
    cached (caching_step bp send entity height a run) = None"
    using caching_step_error [OF Cons.prems] by blast
  from Cons.IH [OF this] show ?case by (simp add: caching_steps_def)
qed (simp add: caching_steps_def)

definition new_run :: "'s \<Rightarrow> ('s, 'b) caching_run" where
  "new_run inner = \<lparr> cr_client = CachingNodeClient_new inner, cr_loop_error = None \<rparr>"

lemma caching_steps_append:
  "caching_steps bp send entity height (xs @ ys) run =
   caching_steps bp send entity height ys (caching_steps bp send entity height xs run)"
  by (simp add: caching_steps_def)


text \<open>A node that has the block of height 5 only.\<close>

definition sample_node_port :: binary_port where
  "sample_node_port = sample_port\<lparr> bp_information := (\<lambda>info.
     if info = Info_BlockWithSignatures (Some (BlockIdentifier_Height 5))
     then GetRequest_Record 1 [] else GetRequest_Trie []) \<rparr>"

definition sample_node :: "unit sender" where
  "sample_node c s =
     (Inr \<lparr> rr_response = \<lparr> br_error_code = (if c = Command_Get (GetRequest_Record 1 []) then 0 else 1),
            br_type_tag = Some 7, br_payload = [] \<rparr>, rr_request = [] \<rparr>, s)"

definition sample_block :: "u64 payload_entity" where
  "sample_block = \<lparr> pe_response_type = 7, pe_from_bytes = (\<lambda>_. Inr 5) \<rparr>"

lemma sample_node_read:
  "read_block_with_signatures sample_node_port sample_node sample_block (Some (BlockIdentifier_Height h)) s =
   (Inr (if h = 5 then Some 5 else None), s)"
  by (simp add: read_block_with_signatures_def read_info_def then_ok_def sample_node_def parse_into_def
      parse_response_def sample_node_port_def sample_port_def sample_block_def)


end
