(* ===== verification/Auction_State.thy ===== *)
theory Auction_State
  imports Casper_Types
begin

text \<open>
  The auction state as the RPC methods report it, from
  \<open>rpc_sidecar/src/rpcs/state/auction_state.rs\<close> and
  \<open>rpc_sidecar/src/rpcs/state_get_auction_info_v2.rs\<close>: how the bids found in the global
  state are combined into one bid for each validator.  Constructors and conversions of bids
  that belong to \<open>casper_types\<close> are a parameter.  A \<open>BTreeMap\<close> that is only looked up and
  updated is a map; one that is iterated over is the list of its entries.
\<close>

subsection \<open>Bids\<close>

datatype delegator_kind = DelegatorKind_PublicKey public_key | DelegatorKind_Purse digest

record unified_bid =
  ub_validator_public_key :: public_key
  ub_bonding_purse :: opaque
  ub_staked_amount :: u512
  ub_delegation_rate :: u8
  ub_delegators :: "(public_key \<times> opaque) list"

record validator_bid =
  vb_validator_public_key :: public_key
  vb_content :: opaque

record delegator_bid =
  db_validator_public_key :: public_key
  db_delegator_kind :: delegator_kind
  db_content :: opaque

datatype bid_kind =
    BidKind_Unified unified_bid
  | BidKind_Validator validator_bid
  | BidKind_Delegator delegator_bid
  | BidKind_Other opaque

type_synonym delegator_bids = "delegator_kind \<rightharpoonup> delegator_bid"
type_synonym staking = "public_key \<rightharpoonup> validator_bid \<times> delegator_bids"
type_synonym era_validators = "(era_id \<times> (public_key \<times> u512) list) list"

text \<open>\<open>ValidatorBid::unlocked\<close>, the conversion of a delegator, \<open>Bid::from_non_unified\<close> and
  \<open>BidKind::validator_public_key\<close>.\<close>

record 'bid auction_lib =
  al_unlocked :: "public_key \<Rightarrow> opaque \<Rightarrow> u512 \<Rightarrow> u8 \<Rightarrow> u64 \<Rightarrow> u64 \<Rightarrow> u32 \<Rightarrow> validator_bid"
  al_delegator_bid_from :: "opaque \<Rightarrow> delegator_bid"
  al_from_non_unified :: "validator_bid \<Rightarrow> delegator_bids \<Rightarrow> 'bid"
  al_validator_public_key :: "bid_kind \<Rightarrow> public_key"

subsection \<open>The state that is reported\<close>

record json_validator_weight =
  jw_public_key :: public_key
  jw_weight :: u512

record json_era_validators =
  je_era_id :: era_id
  je_validator_weights :: "json_validator_weight list"

record 'bid auction_state =
  as_state_root_hash :: digest
  as_block_height :: u64
  as_era_validators :: "json_era_validators list"
  as_bids :: "public_key \<rightharpoonup> 'bid"

definition json_era_validators_of :: "era_validators \<Rightarrow> json_era_validators list" where
  "json_era_validators_of era_validators =
     map (\<lambda>(era_id, validator_weights).
       \<lparr> je_era_id = era_id,
         je_validator_weights =
           map (\<lambda>(public_key, weight). \<lparr> jw_public_key = public_key, jw_weight = weight \<rparr>) validator_weights \<rparr>)
       era_validators"

text \<open>The three loops over the bids, in their order.\<close>

fun stake_unified :: "'bid auction_lib \<Rightarrow> bid_kind \<Rightarrow> staking \<Rightarrow> staking" where
  "stake_unified lib (BidKind_Unified bid) staking =
     (let validator_bid = al_unlocked lib (ub_validator_public_key bid) (ub_bonding_purse bid)
            (ub_staked_amount bid) (ub_delegation_rate bid) 0 (- 1) 0;
          delegators = fold (\<lambda>(delegator_public_key, delegator) delegators.
            delegators(DelegatorKind_PublicKey delegator_public_key \<mapsto> al_delegator_bid_from lib delegator))
            (ub_delegators bid) Map.empty
      in staking(ub_validator_public_key bid \<mapsto> (validator_bid, delegators)))"
| "stake_unified lib _ staking = staking"

fun stake_validator :: "bid_kind \<Rightarrow> staking \<Rightarrow> staking" where
  "stake_validator (BidKind_Validator validator_bid) staking =
     staking(vb_validator_public_key validator_bid \<mapsto> (validator_bid, Map.empty))"
| "stake_validator _ staking = staking"

fun stake_delegator :: "bid_kind \<Rightarrow> staking \<Rightarrow> staking" where
  "stake_delegator (BidKind_Delegator delegator_bid) staking =
     (case staking (db_validator_public_key delegator_bid) of
        Some (validator_bid, delegators) \<Rightarrow>
          staking(db_validator_public_key delegator_bid \<mapsto>
            (validator_bid, delegators(db_delegator_kind delegator_bid \<mapsto> delegator_bid)))
      | None \<Rightarrow> staking)"
| "stake_delegator _ staking = staking"

definition staking_of :: "'bid auction_lib \<Rightarrow> bid_kind list \<Rightarrow> staking" where
  "staking_of lib bids =
     fold stake_delegator bids (fold stake_validator bids (fold (stake_unified lib) bids Map.empty))"

definition AuctionState_new ::
  "'bid auction_lib \<Rightarrow> digest \<Rightarrow> u64 \<Rightarrow> era_validators \<Rightarrow> bid_kind list \<Rightarrow> 'bid auction_state" where
  "AuctionState_new lib state_root_hash height era_validators bids =
     \<lparr> as_state_root_hash = state_root_hash, as_block_height = height,
       as_era_validators = json_era_validators_of era_validators,
       as_bids = (\<lambda>public_key. map_option
         (\<lambda>(validator_bid, delegators). al_from_non_unified lib validator_bid delegators)
         (staking_of lib bids public_key)) \<rparr>"

text \<open>The second version reports the bids as they are, with the keys of their validators.\<close>

record bid_kind_wrapper =
  bw_public_key :: public_key
  bw_bid :: bid_kind

record auction_state_v2 =
  a2_state_root_hash :: digest
  a2_block_height :: u64
  a2_era_validators :: "json_era_validators list"
  a2_bids :: "bid_kind_wrapper list"

definition AuctionStateV2_new ::
  "'bid auction_lib \<Rightarrow> digest \<Rightarrow> u64 \<Rightarrow> era_validators \<Rightarrow> bid_kind list \<Rightarrow> auction_state_v2" where
  "AuctionStateV2_new lib state_root_hash height era_validators bids =
     \<lparr> a2_state_root_hash = state_root_hash, a2_block_height = height,
       a2_era_validators = json_era_validators_of era_validators,
       a2_bids = map (\<lambda>bid_kind. \<lparr> bw_public_key = al_validator_public_key lib bid_kind, bw_bid = bid_kind \<rparr>) bids \<rparr>"

subsection \<open>Specification of the combined bids\<close>

fun last_option :: "'a list \<Rightarrow> 'a option" where
  "last_option xs = (if xs = [] then None else Some (last xs))"

fun unified_bid_for :: "public_key \<Rightarrow> bid_kind \<Rightarrow> unified_bid option" where
  "unified_bid_for pk (BidKind_Unified bid) = (if ub_validator_public_key bid = pk then Some bid else None)"
| "unified_bid_for pk _ = None"

fun validator_bid_for :: "public_key \<Rightarrow> bid_kind \<Rightarrow> validator_bid option" where
  "validator_bid_for pk (BidKind_Validator bid) = (if vb_validator_public_key bid = pk then Some bid else None)"
| "validator_bid_for pk _ = None"

fun delegator_bid_for :: "public_key \<Rightarrow> bid_kind \<Rightarrow> delegator_bid option" where
  "delegator_bid_for pk (BidKind_Delegator bid) = (if db_validator_public_key bid = pk then Some bid else None)"
| "delegator_bid_for pk _ = None"

definition bids_for :: "(bid_kind \<Rightarrow> 'b option) \<Rightarrow> bid_kind list \<Rightarrow> 'b list" where
  "bids_for select bids = somes (map select bids)"

definition unified_stake :: "'bid auction_lib \<Rightarrow> unified_bid \<Rightarrow> validator_bid \<times> delegator_bids" where
  "unified_stake lib bid =
     (al_unlocked lib (ub_validator_public_key bid) (ub_bonding_purse bid)
        (ub_staked_amount bid) (ub_delegation_rate bid) 0 (- 1) 0,
      map_of (rev (map (\<lambda>(pk, d). (DelegatorKind_PublicKey pk, al_delegator_bid_from lib d)) (ub_delegators bid))))"

text \<open>The bid a validator is reported with, before its delegators: the last validator bid, or else the
  last unified bid.\<close>

definition own_stake :: "'bid auction_lib \<Rightarrow> bid_kind list \<Rightarrow> public_key \<Rightarrow> (validator_bid \<times> delegator_bids) option" where
  "own_stake lib bids pk =
     (case last_option (bids_for (validator_bid_for pk) bids) of
        Some bid \<Rightarrow> Some (bid, Map.empty)
      | None \<Rightarrow> map_option (unified_stake lib) (last_option (bids_for (unified_bid_for pk) bids)))"

definition delegators_to :: "bid_kind list \<Rightarrow> public_key \<Rightarrow> delegator_bids" where
  "delegators_to bids pk =
     map_of (rev (map (\<lambda>bid. (db_delegator_kind bid, bid)) (bids_for (delegator_bid_for pk) bids)))"

subsection \<open>Lemmas\<close>

lemma last_option_snoc [simp]: "last_option (xs @ [x]) = Some x"
  by simp

declare last_option.simps [simp del]

lemma last_option_Nil [simp]: "last_option [] = None"
  by (simp add: last_option.simps)

lemma bids_for_Nil [simp]: "bids_for select [] = []"
  by (simp add: bids_for_def)

lemma bids_for_snoc [simp]:
  "bids_for select (bids @ [bid]) = bids_for select bids @ (case select bid of None \<Rightarrow> [] | Some b \<Rightarrow> [b])"
  by (simp add: bids_for_def somes_Cons split: option.split)

lemma fold_delegators:
  "fold (\<lambda>(pk, d) m. m(key pk \<mapsto> f d)) ds m = m ++ map_of (rev (map (\<lambda>(pk, d). (key pk, f d)) ds))"
  by (induction ds arbitrary: m) (auto simp: case_prod_unfold map_add_upd_left)

lemma stake_unified_fold:
  "fold (stake_unified lib) bids Map.empty pk =
     map_option (unified_stake lib) (last_option (bids_for (unified_bid_for pk) bids))"
proof (induction bids rule: rev_induct)
  case (snoc bid bids)
  then show ?case
    by (cases bid) (auto simp: Let_def unified_stake_def fold_delegators)
qed simp

lemma stake_validator_fold:
  "fold stake_validator bids staking pk =
     (case last_option (bids_for (validator_bid_for pk) bids) of
        Some bid \<Rightarrow> Some (bid, Map.empty) | None \<Rightarrow> staking pk)"
proof (induction bids rule: rev_induct)
  case (snoc bid bids)
  then show ?case by (cases bid) auto
qed simp

lemma stake_delegator_fold:
  "fold stake_delegator bids staking pk =
     map_option (\<lambda>(bid, ds). (bid, ds ++ delegators_to bids pk)) (staking pk)"
proof (induction bids rule: rev_induct)
  case (snoc bid bids)
  then show ?case
    by (cases bid) (auto simp: delegators_to_def option.map_comp split: option.splits)
qed (simp add: delegators_to_def option.map_ident case_prod_unfold)

lemma staking_of_spec:
  "staking_of lib bids pk =
     map_option (\<lambda>(bid, ds). (bid, ds ++ delegators_to bids pk)) (own_stake lib bids pk)"
  by (simp add: staking_of_def stake_delegator_fold stake_validator_fold stake_unified_fold own_stake_def
      split: option.split)

subsection \<open>Properties\<close>

text \<open>C29: how the bids of the global state are combined.  Exactly the validators with a bid of their own,
  unified or not, are reported; each is reported with its last validator bid, or its last unified bid if
  there is none, and with the delegators of that unified bid overridden by the separate bids of its
  delegators, the later ones winning; delegators of other validators are left out.\<close>

theorem auction_bids_combined:
  "as_bids (AuctionState_new lib root height eras bids) pk =
     map_option (\<lambda>(bid, delegators). al_from_non_unified lib bid (delegators ++ delegators_to bids pk))
       (own_stake lib bids pk)"
  by (simp add: AuctionState_new_def staking_of_spec option.map_comp comp_def case_prod_unfold)

end
