(* ===== verification/Rpc_Library.thy ===== *)
theory Rpc_Library
  imports Rpc_Errors Caching_Client Auction_State "HOL-Library.Product_Lexorder"
begin

text \<open>
  The ground of the JSON-RPC methods: the framework of \<open>rpc_sidecar/src/rpcs.rs\<close> (the three
  kinds of methods, the version of the interface, the limit on requests) and the helpers of
  \<open>rpc_sidecar/src/rpcs/common.rs\<close>.  What the methods use of \<open>casper_types\<close>,
  \<open>casper_binary_port\<close>, \<open>base16\<close> and \<open>serde_json\<close> is a parameter.
\<close>

subsection \<open>Values of the node\<close>

text \<open>The trait object: how a command is sent, and how a block is read, which the caching client overrides.\<close>

type_synonym block_with_signatures = "opaque \<times> opaque"
type_synonym merkle_proof = "opaque list"
type_synonym 'a with_proof = "'a \<times> merkle_proof"

record 's node =
  nd_port :: binary_port
  nd_send :: "'s sender"
  nd_read_block :: "block_identifier option \<Rightarrow> ('s, block_with_signatures option) client_op"

text \<open>The environment decides anew for each request; requests are told apart by what the client has
  recorded of the earlier ones.\<close>

definition framed_send :: "binary_port \<Rightarrow> (nat \<Rightarrow> request_env) \<Rightarrow> framed_node_client sender" where
  "framed_send bp envs req fc = send_request bp (envs (length (fc_requests fc) + length (fc_metrics fc))) req fc"

definition framed_node ::
  "binary_port \<Rightarrow> (nat \<Rightarrow> request_env) \<Rightarrow> block_with_signatures payload_entity \<Rightarrow> framed_node_client node" where
  "framed_node bp envs entity =
     \<lparr> nd_port = bp, nd_send = framed_send bp envs,
       nd_read_block = read_block_with_signatures bp (framed_send bp envs) entity \<rparr>"

definition caching_node ::
  "binary_port \<Rightarrow> (nat \<Rightarrow> request_env) \<Rightarrow> block_with_signatures payload_entity \<Rightarrow> bool \<Rightarrow>
   (framed_node_client, block_with_signatures) caching_node_client node" where
  "caching_node bp envs entity lock_in_time =
     \<lparr> nd_port = bp, nd_send = caching_send_request (framed_send bp envs),
       nd_read_block = caching_read_block bp (framed_send bp envs) entity lock_in_time \<rparr>"

record block_header =
  hd_block_hash :: block_hash
  hd_state_root_hash :: digest
  hd_is_switch_block :: bool
  hd_era_id :: era_id
  hd_height :: u64
  hd_protocol_version :: protocol_version

text \<open>A stored value, with the variants that the methods look at; for a named key, the outcomes of
  reading its key and its name.\<close>

datatype stored_value =
    StoredValue_CLValue opaque
  | StoredValue_Account opaque
  | StoredValue_NamedKey "string + casper_key" "string + string"
  | StoredValue_EntryPoint opaque
  | StoredValue_Bid unified_bid
  | StoredValue_BidKind bid_kind
  | StoredValue_Other opaque

record balance_response =
  bl_total_balance :: u512
  bl_available_balance :: u512
  bl_total_balance_proof :: opaque
  bl_balance_holds :: "(timestamp \<times> (opaque \<times> u512 \<times> opaque) list) list"

record reward_response =
  rw_amount :: u512
  rw_era_id :: era_id
  rw_delegation_rate :: u8
  rw_switch_block_hash :: block_hash

record node_status =
  ns_protocol_version :: protocol_version
  ns_peers :: opaque
  ns_build_version :: string
  ns_chainspec_name :: string
  ns_starting_state_root_hash :: digest
  ns_last_added_block_info :: "opaque option"
  ns_our_public_signing_key :: "public_key option"
  ns_round_length :: "time_diff option"
  ns_next_upgrade :: "opaque option"
  ns_uptime :: time_diff
  ns_reactor_state :: string
  ns_last_progress :: timestamp
  ns_available_block_range :: available_block_range
  ns_block_sync :: opaque
  ns_latest_switch_block_hash :: "block_hash option"

text \<open>An entity with its bytecode, and a contract with its code, as the node returns them.\<close>

type_synonym entity_with_bytecode = "opaque \<times> opaque with_proof \<times> opaque with_proof option"

record rpc_decoders =
  rd_block_header :: "block_header payload_entity"
  rd_transfers :: "(opaque list) payload_entity"
  rd_transfer_record :: u8
  rd_query_result :: "stored_value with_proof payload_entity"
  rd_stored_values :: "(stored_value list) payload_entity"
  rd_balance :: "balance_response payload_entity"
  rd_trie :: "(u8 list option) payload_entity"
  rd_dictionary_result :: "(state_key \<times> stored_value with_proof) payload_entity"
  rd_transaction :: "(transaction \<times> opaque option) payload_entity"
  rd_peers :: "opaque payload_entity"
  rd_range :: "available_block_range payload_entity"
  rd_chainspec :: "opaque payload_entity"
  rd_validator_changes :: "((public_key \<times> (era_id \<times> u8) list) list) payload_entity"
  rd_status :: "node_status payload_entity"
  rd_reward :: "reward_response payload_entity"
  rd_package :: "opaque with_proof payload_entity"
  rd_contract_package :: "opaque with_proof payload_entity"
  rd_entity :: "entity_with_bytecode payload_entity"
  rd_account :: "opaque with_proof payload_entity"
  rd_contract :: "entity_with_bytecode payload_entity"
  rd_speculative :: "opaque payload_entity"

text \<open>Functions of the libraries on these values.\<close>

record rpc_lib = rpc_texts +
  rl_decoders :: rpc_decoders
  rl_proof_to_bytes :: "merkle_proof \<Rightarrow> string + u8 list"
  rl_encode_lower :: "u8 list \<Rightarrow> string"
  rl_type_name :: "stored_value \<Rightarrow> string"
  rl_uref_from_str :: "string \<Rightarrow> string + opaque"
  rl_account_hash_from_str :: "string \<Rightarrow> string + account_hash"
  rl_entity_addr_from_str :: "string \<Rightarrow> string + opaque"
  rl_key_from_str :: "string \<Rightarrow> string + casper_key"
  rl_key_into_hash_addr :: "casper_key \<Rightarrow> digest option"
  rl_key_as_dictionary :: "casper_key \<Rightarrow> digest option"
  rl_key_to_str :: "state_key \<Rightarrow> string"
  rl_state_identifier_from :: "block_identifier \<Rightarrow> state_identifier"
  rl_to_account_hash :: "public_key \<Rightarrow> account_hash"
  rl_json_block :: "opaque \<Rightarrow> opaque option \<Rightarrow> opaque"
  rl_registry_of :: "opaque \<Rightarrow> string + (string \<times> digest) list"
  rl_auction_name :: string
  rl_snapshot_key :: string
  rl_snapshot_v1_of :: "opaque \<Rightarrow> string + (era_id \<times> (public_key \<times> opaque) list) list"
  rl_snapshot_v2_of :: "opaque \<Rightarrow> string + (era_id \<times> (public_key \<times> opaque) list) list"
  rl_total_stake_v1 :: "opaque \<Rightarrow> u512 option"
  rl_total_stake_v2 :: "opaque \<Rightarrow> u512 option"
  rl_auction :: "opaque auction_lib"

subsection \<open>Results of methods\<close>

text \<open>A computation with the client that can fail with a cause, as the helpers return it.\<close>

type_synonym ('s, 'a) rpc_op = "'s \<Rightarrow> (rpc_failure + 'a) \<times> 's"

definition rpc_return :: "rpc_failure + 'a \<Rightarrow> ('s, 'a) rpc_op" where
  "rpc_return result s = (result, s)"

definition rpc_bind :: "('s, 'a) rpc_op \<Rightarrow> ('a \<Rightarrow> ('s, 'b) rpc_op) \<Rightarrow> ('s, 'b) rpc_op" where
  "rpc_bind op f s =
     (let (result, s') = op s in
      case result of Inl err \<Rightarrow> (Inl err, s') | Inr a \<Rightarrow> f a s')"

text \<open>A request to the node, with what it was for.\<close>

definition node_request :: "string \<Rightarrow> ('s, 'a) client_op \<Rightarrow> ('s, 'a) rpc_op" where
  "node_request what op s = (let (result, s') = op s in (map_err (RE_NodeRequest what) result, s'))"

definition rpc_result_of :: "rpc_lib \<Rightarrow> ('s, 'a) rpc_op \<Rightarrow> 's \<Rightarrow> (rpc_error + 'a) \<times> 's" where
  "rpc_result_of lib op s = (let (result, s') = op s in (map_err (RpcError_from lib) result, s'))"

datatype api_version = ApiVersion u32 u32 u32

definition CURRENT_API_VERSION :: api_version where "CURRENT_API_VERSION = ApiVersion 2 0 0"

fun api_version_serialize :: "api_version \<Rightarrow> string" where
  "api_version_serialize (ApiVersion major minor patch) =
     nat_to_string (unat major) @ ''.'' @ nat_to_string (unat minor) @ ''.'' @ nat_to_string (unat patch)"

subsection \<open>The three kinds of methods\<close>

definition ALLOW_UNKNOWN_FIELDS_IN_JSON_RPC_REQUEST :: bool where
  "ALLOW_UNKNOWN_FIELDS_IN_JSON_RPC_REQUEST = True"

definition failed_to_parse :: "string \<Rightarrow> rpc_error" where
  "failed_to_parse error = reserved_error InvalidParams (''Failed to parse '' @ quoted ''params'' @ '' field: '' @ error)"

definition try_parse_params :: "(json \<Rightarrow> string + 'p) \<Rightarrow> params option \<Rightarrow> rpc_error + 'p" where
  "try_parse_params from_value maybe_params =
     (case maybe_params of
        Some params \<Rightarrow> map_err failed_to_parse (from_value (Value_from params))
      | None \<Rightarrow> Inl (reserved_error InvalidParams (''Missing '' @ quoted ''params'' @ '' field'')))"

definition check_no_params :: "params option \<Rightarrow> rpc_error + unit" where
  "check_no_params maybe_params =
     (if \<not> params_is_empty (unwrap_or maybe_params Params_default) then
        Inl (reserved_error InvalidParams (quoted ''params'' @ '' field should be an empty Array '' @ quoted ''[]'' @
          '', an empty Object '' @ quoted ''{}'' @ '' or absent''))
      else Inr ())"

text \<open>An optional value is read as absent from null, and as present from anything else.\<close>

definition optional_from_value :: "(json \<Rightarrow> string + 'p) \<Rightarrow> json \<Rightarrow> string + 'p option" where
  "optional_from_value from_value v =
     (if v = JNull then Inr None else and_then (from_value v) (\<lambda>p. Inr (Some p)))"

definition try_parse_optional_params ::
  "(json \<Rightarrow> string + 'p) \<Rightarrow> params option \<Rightarrow> rpc_error + 'p option" where
  "try_parse_optional_params from_value maybe_params =
     map_err failed_to_parse (optional_from_value from_value
       (case maybe_params of
          Some params \<Rightarrow> (if params_is_empty params then JNull else Value_from params)
        | None \<Rightarrow> JNull))"

text \<open>The handlers that are registered for the three kinds.\<close>

type_synonym ('s, 'r) rpc_handler = "params option \<Rightarrow> 's \<Rightarrow> (rpc_error + 'r) \<times> 's"

definition handler_with_params ::
  "(json \<Rightarrow> string + 'p) \<Rightarrow> ('p \<Rightarrow> 's \<Rightarrow> (rpc_error + 'r) \<times> 's) \<Rightarrow> ('s, 'r) rpc_handler" where
  "handler_with_params from_value do_handle_request maybe_params s =
     (case try_parse_params from_value maybe_params of
        Inl err \<Rightarrow> (Inl err, s)
      | Inr params \<Rightarrow> do_handle_request params s)"

definition handler_without_params ::
  "('s \<Rightarrow> (rpc_error + 'r) \<times> 's) \<Rightarrow> ('s, 'r) rpc_handler" where
  "handler_without_params do_handle_request maybe_params s =
     (case check_no_params maybe_params of
        Inl err \<Rightarrow> (Inl err, s)
      | Inr _ \<Rightarrow> do_handle_request s)"

definition handler_with_optional_params ::
  "(json \<Rightarrow> string + 'p) \<Rightarrow> ('p option \<Rightarrow> 's \<Rightarrow> (rpc_error + 'r) \<times> 's) \<Rightarrow> ('s, 'r) rpc_handler" where
  "handler_with_optional_params from_value do_handle_request maybe_params s =
     (case try_parse_optional_params from_value maybe_params of
        Inl err \<Rightarrow> (Inl err, s)
      | Inr params \<Rightarrow> do_handle_request params s)"

subsection \<open>Helpers\<close>

text \<open>The answer when a block was not found: with the range of blocks that the node has.\<close>

definition no_block_found :: "rpc_lib \<Rightarrow> 's node \<Rightarrow> block_identifier option \<Rightarrow> ('s, 'a) rpc_op" where
  "no_block_found lib node identifier =
     rpc_bind (node_request ''available block range''
         (read_available_block_range (nd_port node) (nd_send node) (rd_range (rl_decoders lib))))
       (\<lambda>available_range. rpc_return (Inl (RE_NoBlockFound identifier available_range)))"

definition get_block_with_signatures ::
  "rpc_lib \<Rightarrow> 's node \<Rightarrow> block_identifier option \<Rightarrow> ('s, block_with_signatures) rpc_op" where
  "get_block_with_signatures lib node maybe_identifier =
     rpc_bind (node_request ''block with signatures'' (nd_read_block node maybe_identifier))
       (\<lambda>found. case found of
          Some block \<Rightarrow> rpc_return (Inr block)
        | None \<Rightarrow> no_block_found lib node maybe_identifier)"

definition get_block_header ::
  "rpc_lib \<Rightarrow> 's node \<Rightarrow> block_identifier option \<Rightarrow> ('s, block_header) rpc_op" where
  "get_block_header lib node identifier =
     rpc_bind (node_request ''block header''
         (read_block_header (nd_port node) (nd_send node) (rd_block_header (rl_decoders lib)) identifier))
       (\<lambda>found. case found of
          Some header \<Rightarrow> rpc_return (Inr header)
        | None \<Rightarrow> no_block_found lib node identifier)"

definition get_latest_switch_block_header :: "rpc_lib \<Rightarrow> 's node \<Rightarrow> ('s, block_header) rpc_op" where
  "get_latest_switch_block_header lib node =
     rpc_bind (node_request ''latest switch block header''
         (read_latest_switch_block_header (nd_port node) (nd_send node) (rd_block_header (rl_decoders lib))))
       (\<lambda>found. case found of
          Some header \<Rightarrow> rpc_return (Inr header)
        | None \<Rightarrow> no_block_found lib node None)"

text \<open>Collecting results stops at the first error.\<close>

fun collect :: "('e + 'a) list \<Rightarrow> 'e + 'a list" where
  "collect [] = Inr []"
| "collect (Inl e # rs) = Inl e"
| "collect (Inr a # rs) = and_then (collect rs) (\<lambda>xs. Inr (a # xs))"

definition unexpected_stored_value :: "rpc_lib \<Rightarrow> stored_value \<Rightarrow> rpc_failure" where
  "unexpected_stored_value lib v = RE_InvalidNamedKeys (''unexpected stored value: '' @ rl_type_name lib v)"

definition named_key_entry :: "rpc_lib \<Rightarrow> stored_value \<Rightarrow> rpc_failure + string \<times> casper_key" where
  "named_key_entry lib v =
     (case v of
        StoredValue_NamedKey key_result name_result \<Rightarrow>
          and_then (map_err RE_InvalidNamedKeys key_result) (\<lambda>key.
          and_then (map_err RE_InvalidNamedKeys name_result) (\<lambda>name. Inr (name, key)))
      | _ \<Rightarrow> Inl (unexpected_stored_value lib v))"

text \<open>Named keys are a map: the last entry for a name wins.\<close>

type_synonym named_keys = "string \<rightharpoonup> casper_key"

definition get_entity_named_keys ::
  "rpc_lib \<Rightarrow> 's node \<Rightarrow> opaque \<Rightarrow> state_identifier option \<Rightarrow> ('s, named_keys) rpc_op" where
  "get_entity_named_keys lib node entity_addr state_identifier =
     rpc_bind (node_request ''entity named keys''
         (query_global_state_by_prefix (nd_port node) (nd_send node) (rd_stored_values (rl_decoders lib))
            state_identifier (Prefix_NamedKeysByEntity entity_addr)))
       (\<lambda>stored_values. rpc_return
          (and_then (collect (map (named_key_entry lib) stored_values)) (\<lambda>entries. Inr (map_of (rev entries)))))"

definition entry_point_of :: "rpc_lib \<Rightarrow> stored_value \<Rightarrow> rpc_failure + opaque" where
  "entry_point_of lib v =
     (case v of
        StoredValue_EntryPoint entry_point \<Rightarrow> Inr entry_point
      | _ \<Rightarrow> Inl (unexpected_stored_value lib v))"

definition get_entity_entry_points ::
  "rpc_lib \<Rightarrow> 's node \<Rightarrow> opaque \<Rightarrow> state_identifier option \<Rightarrow> ('s, opaque list) rpc_op" where
  "get_entity_entry_points lib node entity_addr state_identifier =
     rpc_bind (node_request ''entity named keys''
         (query_global_state_by_prefix (nd_port node) (nd_send node) (rd_stored_values (rl_decoders lib))
            state_identifier (Prefix_EntryPointsV1ByEntity entity_addr)))
       (\<lambda>stored_values_v1.
     rpc_bind (node_request ''entity named keys''
         (query_global_state_by_prefix (nd_port node) (nd_send node) (rd_stored_values (rl_decoders lib))
            state_identifier (Prefix_EntryPointsV2ByEntity entity_addr)))
       (\<lambda>stored_values_v2.
          rpc_return (collect (map (entry_point_of lib) (stored_values_v1 @ stored_values_v2)))))"

definition encode_proof :: "rpc_lib \<Rightarrow> merkle_proof \<Rightarrow> rpc_failure + string" where
  "encode_proof lib proof =
     and_then (map_err RE_BytesreprFailure (rl_proof_to_bytes lib proof)) (\<lambda>bytes. Inr (rl_encode_lower lib bytes))"

subsection \<open>The limit on all requests\<close>

text \<open>The answer to a request over the limit: the waiting time in whole seconds plus one.\<close>

definition too_many_requests :: "u64 \<Rightarrow> nat \<times> json \<times> string" where
  "too_many_requests wait_secs =
     (429, JObject [(''message'', JString ''Too many requests'')], nat_to_string (unat (wait_secs + 1)))"

text \<open>Routes with or without CORS headers.\<close>

datatype cors_origin = Cors_Any | Cors_Specified string

definition cors_of :: "string \<Rightarrow> cors_origin option" where
  "cors_of origin = (if origin = [] then None else if origin = ''*'' then Some Cors_Any else Some (Cors_Specified origin))"

end
