(* ===== verification/Rpc_Methods.thy ===== *)
theory Rpc_Methods
  imports Rpc_Library
begin

text \<open>
  The JSON-RPC methods of \<open>rpc_sidecar/src/rpcs/\<close>: \<open>account.rs\<close>, \<open>chain.rs\<close>, \<open>info.rs\<close>,
  \<open>speculative_exec.rs\<close>, \<open>state.rs\<close> and \<open>state_get_auction_info_v2.rs\<close>.  Each
  \<open>do_handle_request\<close> is an operation on the state of the client of the node.
\<close>

subsection \<open>Accounts\<close>

record put_deploy_result =
  pdr_api_version :: api_version
  pdr_deploy_hash :: deploy_hash

fun submission_failure ::
  "(invalid_transaction_or_deploy \<Rightarrow> rpc_failure) \<Rightarrow> string \<Rightarrow> client_error \<Rightarrow> rpc_failure" where
  "submission_failure invalid what (CE_InvalidTransaction err) = invalid err"
| "submission_failure invalid what err = RE_NodeRequest what err"

definition submit ::
  "'s node \<Rightarrow> (invalid_transaction_or_deploy \<Rightarrow> rpc_failure) \<Rightarrow> string \<Rightarrow> transaction \<Rightarrow> ('s, unit) rpc_op" where
  "submit node invalid what transaction s =
     (let (result, s') = try_accept_transaction (nd_port node) (nd_send node) transaction s
      in (map_err (submission_failure invalid what) result, s'))"

definition PutDeploy :: "rpc_lib \<Rightarrow> 's node \<Rightarrow> deploy \<Rightarrow> 's \<Rightarrow> (rpc_error + put_deploy_result) \<times> 's" where
  "PutDeploy lib node deploy = rpc_result_of lib
     (rpc_bind (submit node RE_InvalidDeploy ''submitting a deploy'' (Transaction_Deploy deploy))
       (\<lambda>_. rpc_return (Inr \<lparr> pdr_api_version = CURRENT_API_VERSION, pdr_deploy_hash = dp_hash deploy \<rparr>)))"

record put_transaction_result =
  ptr_api_version :: api_version
  ptr_transaction_hash :: transaction_hash

definition PutTransaction ::
  "rpc_lib \<Rightarrow> 's node \<Rightarrow> transaction \<Rightarrow> 's \<Rightarrow> (rpc_error + put_transaction_result) \<times> 's" where
  "PutTransaction lib node transaction = rpc_result_of lib
     (rpc_bind (submit node RE_InvalidTransaction ''submitting a transaction'' transaction)
       (\<lambda>_. rpc_return (Inr \<lparr> ptr_api_version = CURRENT_API_VERSION,
                              ptr_transaction_hash = transaction_hash_of transaction \<rparr>)))"

subsection \<open>The chain\<close>

record get_block_result =
  gbr_api_version :: api_version
  gbr_block_with_signatures :: "opaque option"

definition GetBlock ::
  "rpc_lib \<Rightarrow> 's node \<Rightarrow> block_identifier option \<Rightarrow> 's \<Rightarrow> (rpc_error + get_block_result) \<times> 's" where
  "GetBlock lib node identifier = rpc_result_of lib
     (rpc_bind (get_block_with_signatures lib node identifier)
       (\<lambda>(block, signatures). rpc_return (Inr
          \<lparr> gbr_api_version = CURRENT_API_VERSION,
            gbr_block_with_signatures = Some (rl_json_block lib block (Some signatures)) \<rparr>)))"

record get_block_transfers_result =
  gtr_api_version :: api_version
  gtr_block_hash :: "block_hash option"
  gtr_transfers :: "opaque list option"

definition GetBlockTransfers ::
  "rpc_lib \<Rightarrow> 's node \<Rightarrow> block_identifier option \<Rightarrow> 's \<Rightarrow> (rpc_error + get_block_transfers_result) \<times> 's" where
  "GetBlockTransfers lib node identifier = rpc_result_of lib
     (rpc_bind (get_block_header lib node identifier) (\<lambda>header.
      rpc_bind (node_request ''block transfers''
          (read_block_transfers (nd_port node) (nd_send node) (rd_transfers (rl_decoders lib))
             (rd_transfer_record (rl_decoders lib)) (hd_block_hash header))) (\<lambda>transfers.
      rpc_return (Inr
        \<lparr> gtr_api_version = CURRENT_API_VERSION, gtr_block_hash = Some (hd_block_hash header),
          gtr_transfers = transfers \<rparr>))))"

record get_state_root_hash_result =
  gsr_api_version :: api_version
  gsr_state_root_hash :: "digest option"

definition GetStateRootHash ::
  "rpc_lib \<Rightarrow> 's node \<Rightarrow> block_identifier option \<Rightarrow> 's \<Rightarrow> (rpc_error + get_state_root_hash_result) \<times> 's" where
  "GetStateRootHash lib node identifier = rpc_result_of lib
     (rpc_bind (get_block_header lib node identifier) (\<lambda>block_header.
      rpc_return (Inr
        \<lparr> gsr_api_version = CURRENT_API_VERSION,
          gsr_state_root_hash = Some (hd_state_root_hash block_header) \<rparr>)))"

record era_summary =
  es_block_hash :: block_hash
  es_era_id :: era_id
  es_stored_value :: stored_value
  es_state_root_hash :: digest
  es_merkle_proof :: string

text \<open>A query of the global state at an identifier.\<close>

definition query_state_at ::
  "rpc_lib \<Rightarrow> 's node \<Rightarrow> string \<Rightarrow> state_identifier option \<Rightarrow> state_key \<Rightarrow> string list \<Rightarrow>
   ('s, stored_value with_proof option) rpc_op" where
  "query_state_at lib node what state_identifier key path =
     node_request what (query_global_state (nd_port node) (nd_send node) (rd_query_result (rl_decoders lib))
       state_identifier key path)"

definition some_or :: "rpc_failure \<Rightarrow> ('s, 'a option) rpc_op \<Rightarrow> ('s, 'a) rpc_op" where
  "some_or failure op = rpc_bind op (\<lambda>found. rpc_return (ok_or failure found))"

definition create_era_summary ::
  "rpc_lib \<Rightarrow> block_header \<Rightarrow> stored_value with_proof \<Rightarrow> rpc_failure + era_summary" where
  "create_era_summary lib header result =
     (let (stored_value, merkle_proof) = result in
      and_then (encode_proof lib merkle_proof) (\<lambda>proof.
        Inr \<lparr> es_block_hash = hd_block_hash header, es_era_id = hd_era_id header,
              es_stored_value = stored_value, es_state_root_hash = hd_state_root_hash header,
              es_merkle_proof = proof \<rparr>))"

definition get_era_summary_by_block :: "rpc_lib \<Rightarrow> 's node \<Rightarrow> block_header \<Rightarrow> ('s, era_summary) rpc_op" where
  "get_era_summary_by_block lib node header =
     (let state_identifier = GlobalState_StateRootHash (hd_state_root_hash header) in
      rpc_bind (query_state_at lib node ''era summary'' (Some state_identifier) Key_EraSummary []) (\<lambda>found.
      case found of
        Some result \<Rightarrow> rpc_return (create_era_summary lib header result)
      | None \<Rightarrow>
          rpc_bind (some_or RE_GlobalStateEntryNotFound
              (query_state_at lib node ''era info'' (Some state_identifier) (Key_EraInfo (hd_era_id header)) []))
            (\<lambda>result. rpc_return (create_era_summary lib header result))))"

definition switch_block_header ::
  "rpc_lib \<Rightarrow> 's node \<Rightarrow> block_identifier option \<Rightarrow> ('s, block_header) rpc_op" where
  "switch_block_header lib node maybe_identifier =
     (case maybe_identifier of
        Some identifier \<Rightarrow> get_block_header lib node (Some identifier)
      | None \<Rightarrow> get_latest_switch_block_header lib node)"

record get_era_info_result =
  gei_api_version :: api_version
  gei_era_summary :: "era_summary option"

definition GetEraInfoBySwitchBlock ::
  "rpc_lib \<Rightarrow> 's node \<Rightarrow> block_identifier option \<Rightarrow> 's \<Rightarrow> (rpc_error + get_era_info_result) \<times> 's" where
  "GetEraInfoBySwitchBlock lib node maybe_identifier = rpc_result_of lib
     (rpc_bind (switch_block_header lib node maybe_identifier) (\<lambda>header.
      rpc_bind (if hd_is_switch_block header
                then rpc_bind (get_era_summary_by_block lib node header) (\<lambda>summary. rpc_return (Inr (Some summary)))
                else rpc_return (Inr None)) (\<lambda>era_summary.
      rpc_return (Inr \<lparr> gei_api_version = CURRENT_API_VERSION, gei_era_summary = era_summary \<rparr>))))"

record get_era_summary_result =
  ges_api_version :: api_version
  ges_era_summary :: era_summary

definition GetEraSummary ::
  "rpc_lib \<Rightarrow> 's node \<Rightarrow> block_identifier option \<Rightarrow> 's \<Rightarrow> (rpc_error + get_era_summary_result) \<times> 's" where
  "GetEraSummary lib node maybe_identifier = rpc_result_of lib
     (rpc_bind (switch_block_header lib node maybe_identifier) (\<lambda>header.
      rpc_bind (get_era_summary_by_block lib node header) (\<lambda>era_summary.
      rpc_return (Inr \<lparr> ges_api_version = CURRENT_API_VERSION, ges_era_summary = era_summary \<rparr>))))"

subsection \<open>Information\<close>

record get_deploy_params =
  gdp_deploy_hash :: deploy_hash
  gdp_finalized_approvals :: bool

record get_deploy_result =
  gdr_api_version :: api_version
  gdr_deploy :: deploy
  gdr_execution_info :: "opaque option"

definition read_transaction ::
  "rpc_lib \<Rightarrow> 's node \<Rightarrow> rpc_failure \<Rightarrow> transaction_hash \<Rightarrow> bool \<Rightarrow> ('s, transaction \<times> opaque option) rpc_op" where
  "read_transaction lib node not_found hash finalized_approvals =
     some_or not_found (node_request ''transaction''
       (read_transaction_with_execution_info (nd_port node) (nd_send node) (rd_transaction (rl_decoders lib))
          hash finalized_approvals))"

fun deploy_of :: "transaction \<Rightarrow> rpc_failure + deploy" where
  "deploy_of (Transaction_Deploy deploy) = Inr deploy"
| "deploy_of (Transaction_V1 _) = Inl RE_FoundTransactionInsteadOfDeploy"

definition GetDeploy ::
  "rpc_lib \<Rightarrow> 's node \<Rightarrow> get_deploy_params \<Rightarrow> 's \<Rightarrow> (rpc_error + get_deploy_result) \<times> 's" where
  "GetDeploy lib node params = rpc_result_of lib
     (rpc_bind (read_transaction lib node (RE_NoDeployWithHash (gdp_deploy_hash params))
          (TransactionHash_Deploy (gdp_deploy_hash params)) (gdp_finalized_approvals params))
       (\<lambda>(transaction, execution_info).
      rpc_bind (rpc_return (deploy_of transaction)) (\<lambda>deploy.
      rpc_return (Inr
        \<lparr> gdr_api_version = CURRENT_API_VERSION, gdr_deploy = deploy, gdr_execution_info = execution_info \<rparr>))))"

record get_transaction_params =
  gtp_transaction_hash :: transaction_hash
  gtp_finalized_approvals :: bool

record get_transaction_result =
  gxr_api_version :: api_version
  gxr_transaction :: transaction
  gxr_execution_info :: "opaque option"

definition GetTransaction ::
  "rpc_lib \<Rightarrow> 's node \<Rightarrow> get_transaction_params \<Rightarrow> 's \<Rightarrow> (rpc_error + get_transaction_result) \<times> 's" where
  "GetTransaction lib node params = rpc_result_of lib
     (rpc_bind (read_transaction lib node (RE_NoTransactionWithHash (gtp_transaction_hash params))
          (gtp_transaction_hash params) (gtp_finalized_approvals params))
       (\<lambda>(transaction, execution_info).
      rpc_return (Inr
        \<lparr> gxr_api_version = CURRENT_API_VERSION, gxr_transaction = transaction,
          gxr_execution_info = execution_info \<rparr>)))"

record get_peers_result =
  gpr_api_version :: api_version
  gpr_peers :: opaque

definition GetPeers :: "rpc_lib \<Rightarrow> 's node \<Rightarrow> 's \<Rightarrow> (rpc_error + get_peers_result) \<times> 's" where
  "GetPeers lib node = rpc_result_of lib
     (rpc_bind (node_request ''peers'' (read_peers (nd_port node) (nd_send node) (rd_peers (rl_decoders lib))))
       (\<lambda>peers. rpc_return (Inr \<lparr> gpr_api_version = CURRENT_API_VERSION, gpr_peers = peers \<rparr>)))"

text \<open>The changes of the validators, each sorted by era and then by kind of change.\<close>

record json_validator_status_change =
  jvs_era_id :: era_id
  jvs_validator_change :: u8

record json_validator_changes =
  jvc_public_key :: public_key
  jvc_status_changes :: "json_validator_status_change list"

record get_validator_changes_result =
  gvr_api_version :: api_version
  gvr_changes :: "json_validator_changes list"

definition GetValidatorChangesResult_new ::
  "(public_key \<times> (era_id \<times> u8) list) list \<Rightarrow> get_validator_changes_result" where
  "GetValidatorChangesResult_new changes =
     \<lparr> gvr_api_version = CURRENT_API_VERSION,
       gvr_changes = map (\<lambda>(public_key, validator_changes).
         \<lparr> jvc_public_key = public_key,
           jvc_status_changes = map (\<lambda>(era_id, validator_change).
             \<lparr> jvs_era_id = era_id, jvs_validator_change = validator_change \<rparr>) (sort validator_changes) \<rparr>) changes \<rparr>"

definition GetValidatorChanges ::
  "rpc_lib \<Rightarrow> 's node \<Rightarrow> 's \<Rightarrow> (rpc_error + get_validator_changes_result) \<times> 's" where
  "GetValidatorChanges lib node = rpc_result_of lib
     (rpc_bind (node_request ''validator changes''
          (read_validator_changes (nd_port node) (nd_send node) (rd_validator_changes (rl_decoders lib))))
       (\<lambda>changes. rpc_return (Inr (GetValidatorChangesResult_new changes))))"

record get_chainspec_result =
  gcr_api_version :: api_version
  gcr_chainspec_bytes :: opaque

definition GetChainspec :: "rpc_lib \<Rightarrow> 's node \<Rightarrow> 's \<Rightarrow> (rpc_error + get_chainspec_result) \<times> 's" where
  "GetChainspec lib node = rpc_result_of lib
     (rpc_bind (node_request ''chainspec bytes''
          (read_chainspec_bytes (nd_port node) (nd_send node) (rd_chainspec (rl_decoders lib))))
       (\<lambda>chainspec_bytes. rpc_return (Inr
          \<lparr> gcr_api_version = CURRENT_API_VERSION, gcr_chainspec_bytes = chainspec_bytes \<rparr>)))"

record get_status_result =
  gst_api_version :: api_version
  gst_protocol_version :: protocol_version
  gst_peers :: opaque
  gst_build_version :: string
  gst_chainspec_name :: string
  gst_starting_state_root_hash :: digest
  gst_last_added_block_info :: "opaque option"
  gst_our_public_signing_key :: "public_key option"
  gst_round_length :: "time_diff option"
  gst_next_upgrade :: "opaque option"
  gst_uptime :: time_diff
  gst_reactor_state :: string
  gst_last_progress :: timestamp
  gst_available_block_range :: available_block_range
  gst_block_sync :: opaque
  gst_latest_switch_block_hash :: "block_hash option"

definition GetStatus :: "rpc_lib \<Rightarrow> 's node \<Rightarrow> 's \<Rightarrow> (rpc_error + get_status_result) \<times> 's" where
  "GetStatus lib node = rpc_result_of lib
     (rpc_bind (node_request ''node status''
          (read_node_status (nd_port node) (nd_send node) (rd_status (rl_decoders lib))))
       (\<lambda>status. rpc_return (Inr
          \<lparr> gst_api_version = CURRENT_API_VERSION,
            gst_protocol_version = ns_protocol_version status,
            gst_peers = ns_peers status,
            gst_build_version = ns_build_version status,
            gst_chainspec_name = ns_chainspec_name status,
            gst_starting_state_root_hash = ns_starting_state_root_hash status,
            gst_last_added_block_info = ns_last_added_block_info status,
            gst_our_public_signing_key = ns_our_public_signing_key status,
            gst_round_length = ns_round_length status,
            gst_next_upgrade = ns_next_upgrade status,
            gst_uptime = ns_uptime status,
            gst_reactor_state = ns_reactor_state status,
            gst_last_progress = ns_last_progress status,
            gst_available_block_range = ns_available_block_range status,
            gst_block_sync = ns_block_sync status,
            gst_latest_switch_block_hash = ns_latest_switch_block_hash status \<rparr>)))"

datatype era_identifier = EraIdentifier_Era era_id | EraIdentifier_Block block_identifier

fun port_era_identifier_of :: "era_identifier \<Rightarrow> port_era_identifier" where
  "port_era_identifier_of (EraIdentifier_Era era_id) = PortEra_Era era_id"
| "port_era_identifier_of (EraIdentifier_Block block_id) = PortEra_Block block_id"

record get_reward_params =
  grp_era_identifier :: "era_identifier option"
  grp_validator :: public_key
  grp_delegator :: "public_key option"

record get_reward_result =
  grr_api_version :: api_version
  grr_reward_amount :: u512
  grr_era_id :: era_id
  grr_delegation_rate :: u8
  grr_switch_block_hash :: block_hash

definition GetReward ::
  "rpc_lib \<Rightarrow> 's node \<Rightarrow> get_reward_params \<Rightarrow> 's \<Rightarrow> (rpc_error + get_reward_result) \<times> 's" where
  "GetReward lib node params = rpc_result_of lib
     (rpc_bind (some_or RE_RewardNotFound (node_request ''rewards''
          (read_reward (nd_port node) (nd_send node) (rd_reward (rl_decoders lib))
             (map_option port_era_identifier_of (grp_era_identifier params)) (grp_validator params) (grp_delegator params))))
       (\<lambda>result. rpc_return (Inr
          \<lparr> grr_api_version = CURRENT_API_VERSION, grr_reward_amount = rw_amount result,
            grr_era_id = rw_era_id result, grr_delegation_rate = rw_delegation_rate result,
            grr_switch_block_hash = rw_switch_block_hash result \<rparr>)))"

subsection \<open>Speculative execution\<close>

record speculative_exec_result =
  ser_api_version :: api_version
  ser_execution_result :: opaque

definition speculative_handle_request ::
  "rpc_lib \<Rightarrow> 's node \<Rightarrow> transaction \<Rightarrow> 's \<Rightarrow> (rpc_error + speculative_exec_result) \<times> 's" where
  "speculative_handle_request lib node transaction = rpc_result_of lib
     (rpc_bind (node_request ''speculatively executing a transaction''
          (exec_speculatively (nd_port node) (nd_send node) (rd_speculative (rl_decoders lib)) transaction))
       (\<lambda>result. rpc_return (Inr
          \<lparr> ser_api_version = CURRENT_API_VERSION, ser_execution_result = result \<rparr>)))"

definition SpeculativeExecTxn ::
  "rpc_lib \<Rightarrow> 's node \<Rightarrow> transaction \<Rightarrow> 's \<Rightarrow> (rpc_error + speculative_exec_result) \<times> 's" where
  "SpeculativeExecTxn lib node transaction = speculative_handle_request lib node transaction"

definition SpeculativeExec ::
  "rpc_lib \<Rightarrow> 's node \<Rightarrow> deploy \<Rightarrow> 's \<Rightarrow> (rpc_error + speculative_exec_result) \<times> 's" where
  "SpeculativeExec lib node deploy = speculative_handle_request lib node (Transaction_Deploy deploy)"

end
