(* ===== verification/Rpc_State.thy ===== *)
theory Rpc_State
  imports Rpc_Methods
begin

text \<open>
  The JSON-RPC methods on the global state, from \<open>rpc_sidecar/src/rpcs/state.rs\<close> and
  \<open>rpc_sidecar/src/rpcs/state_get_auction_info_v2.rs\<close>.
\<close>

subsection \<open>Items, balances and accounts\<close>

record get_item_params =
  gip_state_root_hash :: digest
  gip_key :: state_key
  gip_path :: "string list"

record get_item_result =
  gir_api_version :: api_version
  gir_stored_value :: stored_value
  gir_merkle_proof :: string

definition GetItem ::
  "rpc_lib \<Rightarrow> 's node \<Rightarrow> get_item_params \<Rightarrow> 's \<Rightarrow> (rpc_error + get_item_result) \<times> 's" where
  "GetItem lib node params = rpc_result_of lib
     (rpc_bind (some_or RE_GlobalStateEntryNotFound (query_state_at lib node ''global state item''
          (Some (GlobalState_StateRootHash (gip_state_root_hash params))) (gip_key params) (gip_path params)))
       (\<lambda>(stored_value, merkle_proof).
      rpc_bind (rpc_return (encode_proof lib merkle_proof)) (\<lambda>proof.
      rpc_return (Inr \<lparr> gir_api_version = CURRENT_API_VERSION, gir_stored_value = stored_value,
                        gir_merkle_proof = proof \<rparr>))))"

definition read_balance_of ::
  "rpc_lib \<Rightarrow> 's node \<Rightarrow> state_identifier option \<Rightarrow> port_purse_identifier \<Rightarrow> ('s, balance_response) rpc_op" where
  "read_balance_of lib node state_identifier purse_id =
     node_request ''balance'' (read_balance (nd_port node) (nd_send node) (rd_balance (rl_decoders lib))
       state_identifier purse_id)"

record get_balance_params =
  gbp_state_root_hash :: digest
  gbp_purse_uref :: string

record get_balance_result =
  gbl_api_version :: api_version
  gbl_balance_value :: u512
  gbl_merkle_proof :: string

definition GetBalance ::
  "rpc_lib \<Rightarrow> 's node \<Rightarrow> get_balance_params \<Rightarrow> 's \<Rightarrow> (rpc_error + get_balance_result) \<times> 's" where
  "GetBalance lib node params = rpc_result_of lib
     (rpc_bind (rpc_return (map_err RE_InvalidPurseURef (rl_uref_from_str lib (gbp_purse_uref params)))) (\<lambda>purse_uref.
      rpc_bind (read_balance_of lib node (Some (GlobalState_StateRootHash (gbp_state_root_hash params)))
          (PortPurse_Purse purse_uref)) (\<lambda>balance.
      rpc_bind (rpc_return (encode_proof lib [bl_total_balance_proof balance])) (\<lambda>proof.
      rpc_return (Inr \<lparr> gbl_api_version = CURRENT_API_VERSION, gbl_balance_value = bl_available_balance balance,
                        gbl_merkle_proof = proof \<rparr>)))))"

datatype account_identifier = AccountIdentifier_PublicKey public_key | AccountIdentifier_AccountHash account_hash

record get_account_info_params =
  gap_account_identifier :: account_identifier
  gap_block_identifier :: "block_identifier option"

record get_account_info_result =
  gar_api_version :: api_version
  gar_account :: opaque
  gar_merkle_proof :: string

definition account_hash_of :: "rpc_lib \<Rightarrow> account_identifier \<Rightarrow> account_hash" where
  "account_hash_of lib identifier =
     (case identifier of
        AccountIdentifier_PublicKey public_key \<Rightarrow> rl_to_account_hash lib public_key
      | AccountIdentifier_AccountHash account_hash \<Rightarrow> account_hash)"

fun into_account :: "stored_value \<Rightarrow> opaque option" where
  "into_account (StoredValue_Account account) = Some account"
| "into_account _ = None"

definition GetAccountInfo ::
  "rpc_lib \<Rightarrow> 's node \<Rightarrow> get_account_info_params \<Rightarrow> 's \<Rightarrow> (rpc_error + get_account_info_result) \<times> 's" where
  "GetAccountInfo lib node params = rpc_result_of lib
     (rpc_bind (some_or RE_AccountNotFound (query_state_at lib node ''account info''
          (map_option (rl_state_identifier_from lib) (gap_block_identifier params))
          (Key_Account (account_hash_of lib (gap_account_identifier params))) []))
       (\<lambda>(account_value, merkle_proof).
      rpc_bind (rpc_return (ok_or RE_AccountMigratedToEntity (into_account account_value))) (\<lambda>account.
      rpc_bind (rpc_return (encode_proof lib merkle_proof)) (\<lambda>proof.
      rpc_return (Inr \<lparr> gar_api_version = CURRENT_API_VERSION, gar_account = account, gar_merkle_proof = proof \<rparr>)))))"

subsection \<open>Entities and packages\<close>

datatype entity_identifier =
    EntityIdentifier_ContractHash digest | EntityIdentifier_PublicKey public_key
  | EntityIdentifier_AccountHash account_hash | EntityIdentifier_EntityAddr opaque

fun into_port_entity_identifier :: "entity_identifier \<Rightarrow> port_entity_identifier" where
  "into_port_entity_identifier (EntityIdentifier_ContractHash h) = PortEntity_ContractHash h"
| "into_port_entity_identifier (EntityIdentifier_PublicKey k) = PortEntity_PublicKey k"
| "into_port_entity_identifier (EntityIdentifier_AccountHash h) = PortEntity_AccountHash h"
| "into_port_entity_identifier (EntityIdentifier_EntityAddr a) = PortEntity_EntityAddr a"

record code_with_proof =
  cw_code :: opaque
  cw_merkle_proof :: string

datatype entity_with_backward_compat =
    EntityCompat_AddressableEntity opaque named_keys "opaque list" "code_with_proof option"
  | EntityCompat_Account opaque
  | EntityCompat_Contract opaque "code_with_proof option"

record get_entity_params =
  gen_entity_identifier :: entity_identifier
  gen_block_identifier :: "block_identifier option"
  gen_include_bytecode :: "bool option"

record get_entity_result =
  ger_api_version :: api_version
  ger_entity :: entity_with_backward_compat
  ger_merkle_proof :: string

text \<open>The code of an entity or contract, with its proof encoded.\<close>

fun encode_code :: "rpc_lib \<Rightarrow> opaque with_proof option \<Rightarrow> rpc_failure + code_with_proof option" where
  "encode_code lib None = Inr None"
| "encode_code lib (Some (code, proof)) =
     and_then (encode_proof lib proof) (\<lambda>p. Inr (Some \<lparr> cw_code = code, cw_merkle_proof = p \<rparr>))"

definition entity_compat ::
  "rpc_lib \<Rightarrow> 's node \<Rightarrow> state_identifier option \<Rightarrow>
   (entity_with_bytecode, opaque with_proof, entity_with_bytecode) entity_response \<Rightarrow>
   ('s, entity_with_backward_compat \<times> merkle_proof) rpc_op" where
  "entity_compat lib node state_identifier response =
     (case response of
        EntityResponse_Entity (addr, (entity, proof), bytecode) \<Rightarrow>
          rpc_bind (get_entity_named_keys lib node addr state_identifier) (\<lambda>named_keys.
          rpc_bind (get_entity_entry_points lib node addr state_identifier) (\<lambda>entry_points.
          rpc_bind (rpc_return (encode_code lib bytecode)) (\<lambda>bytecode.
          rpc_return (Inr (EntityCompat_AddressableEntity entity named_keys entry_points bytecode, proof)))))
      | EntityResponse_Account (account, merkle_proof) \<Rightarrow>
          rpc_return (Inr (EntityCompat_Account account, merkle_proof))
      | EntityResponse_Contract (_, (contract, proof), wasm) \<Rightarrow>
          rpc_bind (rpc_return (encode_code lib wasm)) (\<lambda>wasm.
          rpc_return (Inr (EntityCompat_Contract contract wasm, proof))))"

definition GetAddressableEntity ::
  "rpc_lib \<Rightarrow> 's node \<Rightarrow> get_entity_params \<Rightarrow> 's \<Rightarrow> (rpc_error + get_entity_result) \<times> 's" where
  "GetAddressableEntity lib node params = rpc_result_of lib
     (let state_identifier = map_option (rl_state_identifier_from lib) (gen_block_identifier params);
          identifier = into_port_entity_identifier (gen_entity_identifier params);
          include_bytecode = unwrap_or (gen_include_bytecode params) False;
          decoders = rl_decoders lib in
      rpc_bind (some_or RE_AddressableEntityNotFound (node_request ''entity''
          (read_entity (nd_port node) (nd_send node) (rd_contract decoders) (rd_account decoders) (rd_entity decoders)
             state_identifier identifier include_bytecode))) (\<lambda>response.
      rpc_bind (entity_compat lib node state_identifier response) (\<lambda>(entity, merkle_proof).
      rpc_bind (rpc_return (encode_proof lib merkle_proof)) (\<lambda>proof.
      rpc_return (Inr \<lparr> ger_api_version = CURRENT_API_VERSION, ger_entity = entity, ger_merkle_proof = proof \<rparr>)))))"

datatype package_identifier =
    PackageIdentifier_PackageAddr digest | PackageIdentifier_ContractPackageHash digest

fun into_port_package_identifier :: "package_identifier \<Rightarrow> port_package_identifier" where
  "into_port_package_identifier (PackageIdentifier_PackageAddr a) = PortPackage_PackageAddr a"
| "into_port_package_identifier (PackageIdentifier_ContractPackageHash h) = PortPackage_ContractPackageHash h"

datatype package_with_backward_compat = PackageCompat_Package opaque | PackageCompat_ContractPackage opaque

fun package_compat ::
  "(opaque with_proof, opaque with_proof) package_response \<Rightarrow> package_with_backward_compat \<times> merkle_proof" where
  "package_compat (PackageResponse_Package (package, proof)) = (PackageCompat_Package package, proof)"
| "package_compat (PackageResponse_ContractPackage (package, proof)) = (PackageCompat_ContractPackage package, proof)"

record get_package_params =
  gpp_package_identifier :: package_identifier
  gpp_block_identifier :: "block_identifier option"

record get_package_result =
  gkr_api_version :: api_version
  gkr_package :: package_with_backward_compat
  gkr_merkle_proof :: string

definition GetPackage ::
  "rpc_lib \<Rightarrow> 's node \<Rightarrow> get_package_params \<Rightarrow> 's \<Rightarrow> (rpc_error + get_package_result) \<times> 's" where
  "GetPackage lib node params = rpc_result_of lib
     (rpc_bind (some_or RE_AddressableEntityNotFound (node_request ''package''
          (read_package (nd_port node) (nd_send node) (rd_contract_package (rl_decoders lib)) (rd_package (rl_decoders lib))
             (map_option (rl_state_identifier_from lib) (gpp_block_identifier params))
             (into_port_package_identifier (gpp_package_identifier params))))) (\<lambda>response.
      let (package, merkle_proof) = package_compat response in
      rpc_bind (rpc_return (encode_proof lib merkle_proof)) (\<lambda>proof.
      rpc_return (Inr \<lparr> gkr_api_version = CURRENT_API_VERSION, gkr_package = package, gkr_merkle_proof = proof \<rparr>))))"

subsection \<open>Dictionaries\<close>

datatype dictionary_identifier =
    Dictionary_AccountNamedKey string string string
  | Dictionary_ContractNamedKey string string string
  | Dictionary_EntityNamedKey string string string
  | Dictionary_URef string string
  | Dictionary_Dictionary string

fun dictionary_key_of :: "rpc_lib \<Rightarrow> dictionary_identifier \<Rightarrow> rpc_failure + dictionary_item_identifier" where
  "dictionary_key_of lib (Dictionary_AccountNamedKey key dictionary_name dictionary_item_key) =
     and_then (map_err RE_InvalidDictionaryKey (rl_account_hash_from_str lib key)) (\<lambda>hash.
       Inr (DictionaryItem_AccountNamedKey hash dictionary_name dictionary_item_key))"
| "dictionary_key_of lib (Dictionary_ContractNamedKey key dictionary_name dictionary_item_key) =
     and_then (map_err RE_InvalidDictionaryKey (rl_key_from_str lib key)) (\<lambda>k.
     and_then (ok_or (RE_InvalidDictionaryKey ''not a hash address'') (rl_key_into_hash_addr lib k)) (\<lambda>hash.
       Inr (DictionaryItem_ContractNamedKey hash dictionary_name dictionary_item_key)))"
| "dictionary_key_of lib (Dictionary_EntityNamedKey key dictionary_name dictionary_item_key) =
     and_then (map_err RE_InvalidDictionaryKey (rl_entity_addr_from_str lib key)) (\<lambda>addr.
       Inr (DictionaryItem_EntityNamedKey addr dictionary_name dictionary_item_key))"
| "dictionary_key_of lib (Dictionary_URef seed_uref dictionary_item_key) =
     and_then (map_err RE_InvalidDictionaryKey (rl_uref_from_str lib seed_uref)) (\<lambda>uref.
       Inr (DictionaryItem_URef uref dictionary_item_key))"
| "dictionary_key_of lib (Dictionary_Dictionary dictionary_item_key) =
     and_then (map_err RE_InvalidDictionaryKey (rl_key_from_str lib dictionary_item_key)) (\<lambda>k.
     and_then (ok_or (RE_InvalidDictionaryKey ''not a dictionary key'') (rl_key_as_dictionary lib k)) (\<lambda>dict_key.
       Inr (DictionaryItem_DictionaryItem dict_key)))"

record get_dictionary_item_params =
  gdi_state_root_hash :: digest
  gdi_dictionary_identifier :: dictionary_identifier

record get_dictionary_item_result =
  gdx_api_version :: api_version
  gdx_dictionary_key :: string
  gdx_stored_value :: stored_value
  gdx_merkle_proof :: string

definition GetDictionaryItem ::
  "rpc_lib \<Rightarrow> 's node \<Rightarrow> get_dictionary_item_params \<Rightarrow> 's \<Rightarrow> (rpc_error + get_dictionary_item_result) \<times> 's" where
  "GetDictionaryItem lib node params = rpc_result_of lib
     (rpc_bind (rpc_return (dictionary_key_of lib (gdi_dictionary_identifier params))) (\<lambda>dictionary_key.
      rpc_bind (some_or RE_GlobalStateEntryNotFound (node_request ''dictionary item''
          (query_dictionary_item (nd_port node) (nd_send node) (rd_dictionary_result (rl_decoders lib))
             (Some (GlobalState_StateRootHash (gdi_state_root_hash params))) dictionary_key)))
       (\<lambda>(key, stored_value, merkle_proof).
      rpc_bind (rpc_return (encode_proof lib merkle_proof)) (\<lambda>proof.
      rpc_return (Inr \<lparr> gdx_api_version = CURRENT_API_VERSION, gdx_dictionary_key = rl_key_to_str lib key,
                        gdx_stored_value = stored_value, gdx_merkle_proof = proof \<rparr>)))))"

subsection \<open>Queries\<close>

record query_global_state_params =
  qgp_state_identifier :: "state_identifier option"
  qgp_key :: state_key
  qgp_path :: "string list"

record query_global_state_result =
  qgr_api_version :: api_version
  qgr_block_header :: "block_header option"
  qgr_stored_value :: stored_value
  qgr_merkle_proof :: string

definition header_for :: "rpc_lib \<Rightarrow> 's node \<Rightarrow> state_identifier option \<Rightarrow> ('s, block_header option) rpc_op" where
  "header_for lib node state_identifier =
     (case state_identifier of
        Some (GlobalState_BlockHash block_hash) \<Rightarrow>
          rpc_bind (get_block_header lib node (Some (BlockIdentifier_Hash block_hash))) (\<lambda>header. rpc_return (Inr (Some header)))
      | Some (GlobalState_BlockHeight height) \<Rightarrow>
          rpc_bind (get_block_header lib node (Some (BlockIdentifier_Height height))) (\<lambda>header. rpc_return (Inr (Some header)))
      | _ \<Rightarrow> rpc_return (Inr None))"

definition QueryGlobalState ::
  "rpc_lib \<Rightarrow> 's node \<Rightarrow> query_global_state_params \<Rightarrow> 's \<Rightarrow> (rpc_error + query_global_state_result) \<times> 's" where
  "QueryGlobalState lib node params = rpc_result_of lib
     (rpc_bind (header_for lib node (qgp_state_identifier params)) (\<lambda>header.
      rpc_bind (some_or RE_GlobalStateEntryNotFound (query_state_at lib node ''global state item''
          (qgp_state_identifier params) (qgp_key params) (qgp_path params)))
       (\<lambda>(stored_value, merkle_proof).
      rpc_bind (rpc_return (encode_proof lib merkle_proof)) (\<lambda>proof.
      rpc_return (Inr \<lparr> qgr_api_version = CURRENT_API_VERSION, qgr_block_header = header,
                        qgr_stored_value = stored_value, qgr_merkle_proof = proof \<rparr>)))))"

datatype purse_identifier =
    PurseIdentifier_MainPurseUnderPublicKey public_key
  | PurseIdentifier_MainPurseUnderAccountHash account_hash
  | PurseIdentifier_MainPurseUnderEntityAddr opaque
  | PurseIdentifier_PurseUref opaque

fun into_port_purse_identifier :: "purse_identifier \<Rightarrow> port_purse_identifier" where
  "into_port_purse_identifier (PurseIdentifier_MainPurseUnderPublicKey k) = PortPurse_PublicKey k"
| "into_port_purse_identifier (PurseIdentifier_MainPurseUnderAccountHash h) = PortPurse_Account h"
| "into_port_purse_identifier (PurseIdentifier_MainPurseUnderEntityAddr a) = PortPurse_Entity a"
| "into_port_purse_identifier (PurseIdentifier_PurseUref u) = PortPurse_Purse u"

record query_balance_params =
  qbp_state_identifier :: "state_identifier option"
  qbp_purse_identifier :: purse_identifier

record query_balance_result =
  qbr_api_version :: api_version
  qbr_balance :: u512

definition QueryBalance ::
  "rpc_lib \<Rightarrow> 's node \<Rightarrow> query_balance_params \<Rightarrow> 's \<Rightarrow> (rpc_error + query_balance_result) \<times> 's" where
  "QueryBalance lib node params = rpc_result_of lib
     (rpc_bind (read_balance_of lib node (qbp_state_identifier params)
          (into_port_purse_identifier (qbp_purse_identifier params))) (\<lambda>balance.
      rpc_return (Inr \<lparr> qbr_api_version = CURRENT_API_VERSION, qbr_balance = bl_available_balance balance \<rparr>)))"

record balance_hold_with_proof =
  bh_time :: timestamp
  bh_amount :: u512
  bh_proof :: string

record query_balance_details_result =
  qdr_api_version :: api_version
  qdr_total_balance :: u512
  qdr_available_balance :: u512
  qdr_total_balance_proof :: string
  qdr_holds :: "balance_hold_with_proof list"

definition balance_holds_of :: "rpc_lib \<Rightarrow> balance_response \<Rightarrow> rpc_failure + balance_hold_with_proof list" where
  "balance_holds_of lib balance =
     collect (concat (map (\<lambda>(time, holds). map (\<lambda>(_, amount, proof).
       and_then (encode_proof lib [proof]) (\<lambda>p. Inr \<lparr> bh_time = time, bh_amount = amount, bh_proof = p \<rparr>)) holds)
       (bl_balance_holds balance)))"

definition QueryBalanceDetails ::
  "rpc_lib \<Rightarrow> 's node \<Rightarrow> query_balance_params \<Rightarrow> 's \<Rightarrow> (rpc_error + query_balance_details_result) \<times> 's" where
  "QueryBalanceDetails lib node params = rpc_result_of lib
     (rpc_bind (read_balance_of lib node (qbp_state_identifier params)
          (into_port_purse_identifier (qbp_purse_identifier params))) (\<lambda>balance.
      rpc_bind (rpc_return (balance_holds_of lib balance)) (\<lambda>holds.
      rpc_bind (rpc_return (encode_proof lib [bl_total_balance_proof balance])) (\<lambda>proof.
      rpc_return (Inr \<lparr> qdr_api_version = CURRENT_API_VERSION, qdr_total_balance = bl_total_balance balance,
                        qdr_available_balance = bl_available_balance balance,
                        qdr_total_balance_proof = proof, qdr_holds = holds \<rparr>)))))"

record get_trie_result =
  gtt_api_version :: api_version
  gtt_maybe_trie_bytes :: "u8 list option"

definition GetTrie :: "rpc_lib \<Rightarrow> 's node \<Rightarrow> digest \<Rightarrow> 's \<Rightarrow> (rpc_error + get_trie_result) \<times> 's" where
  "GetTrie lib node trie_key = rpc_result_of lib
     (rpc_bind (node_request ''trie'' (read_trie_bytes (nd_port node) (nd_send node) (rd_trie (rl_decoders lib)) trie_key))
       (\<lambda>maybe_trie. rpc_return (Inr \<lparr> gtt_api_version = CURRENT_API_VERSION, gtt_maybe_trie_bytes = maybe_trie \<rparr>)))"

subsection \<open>The auction\<close>

fun into_cl_value :: "stored_value \<Rightarrow> opaque option" where
  "into_cl_value (StoredValue_CLValue v) = Some v"
| "into_cl_value _ = None"

fun into_bid :: "stored_value \<Rightarrow> unified_bid option" where
  "into_bid (StoredValue_Bid bid) = Some bid"
| "into_bid _ = None"

fun into_bid_kind :: "stored_value \<Rightarrow> bid_kind option" where
  "into_bid_kind (StoredValue_BidKind bid) = Some bid"
| "into_bid_kind _ = None"

definition fetch_bid_kinds :: "rpc_lib \<Rightarrow> 's node \<Rightarrow> state_identifier \<Rightarrow> bool \<Rightarrow> ('s, bid_kind list) rpc_op" where
  "fetch_bid_kinds lib node state_identifier is_1x =
     rpc_bind (node_request ''auction bids''
         (query_global_state_by_tag (nd_port node) (nd_send node) (rd_stored_values (rl_decoders lib))
            (Some state_identifier) (if is_1x then KeyTag_Bid else KeyTag_BidAddr)))
       (\<lambda>stored_values. rpc_return
          (if is_1x
           then collect (map (\<lambda>v. and_then (ok_or RE_InvalidAuctionState (into_bid v)) (\<lambda>bid. Inr (BidKind_Unified bid))) stored_values)
           else collect (map (\<lambda>v. ok_or RE_InvalidAuctionState (into_bid_kind v)) stored_values)))"

text \<open>The weights of the validators of an era: the recipients that have a total stake.\<close>

definition era_validators_from_snapshot :: "rpc_lib \<Rightarrow> opaque \<Rightarrow> bool \<Rightarrow> rpc_failure + era_validators" where
  "era_validators_from_snapshot lib snapshot is_1x =
     (let (decode, total_stake) =
        (if is_1x then (rl_snapshot_v1_of lib, rl_total_stake_v1 lib) else (rl_snapshot_v2_of lib, rl_total_stake_v2 lib)) in
      and_then (map_err (\<lambda>_. RE_InvalidAuctionState) (decode snapshot)) (\<lambda>seigniorage.
        Inr (map (\<lambda>(era_id, recipients).
          (era_id, somes (map (\<lambda>(public_key, bid). map_option (Pair public_key) (total_stake bid)) recipients))) seigniorage)))"

text \<open>What both versions do before they build their result; they differ in the state in which the registry
  of system contracts is looked up.\<close>

definition auction_data ::
  "rpc_lib \<Rightarrow> 's node \<Rightarrow> (state_identifier \<Rightarrow> state_identifier option) \<Rightarrow> block_identifier option \<Rightarrow>
   ('s, block_header \<times> era_validators \<times> bid_kind list) rpc_op" where
  "auction_data lib node registry_state block_identifier =
     rpc_bind (get_block_header lib node block_identifier) (\<lambda>header.
     let state_identifier = (case block_identifier of
           Some identifier \<Rightarrow> rl_state_identifier_from lib identifier
         | None \<Rightarrow> GlobalState_BlockHeight (hd_height header));
         is_1x = (pv_major (hd_protocol_version header) = 1) in
     rpc_bind (fetch_bid_kinds lib node state_identifier is_1x) (\<lambda>bids.
     rpc_bind (some_or RE_GlobalStateEntryNotFound (query_state_at lib node ''system contract registry''
         (registry_state state_identifier) Key_SystemEntityRegistry [])) (\<lambda>(registry_value, _).
     rpc_bind (rpc_return (and_then (ok_or RE_InvalidAuctionState (into_cl_value registry_value)) (\<lambda>v.
         map_err (\<lambda>_. RE_InvalidAuctionState) (rl_registry_of lib v)))) (\<lambda>registry.
     rpc_bind (rpc_return (ok_or RE_InvalidAuctionState (map_of registry (rl_auction_name lib)))) (\<lambda>auction_hash.
     rpc_bind (query_state_at lib node ''auction snapshot'' (Some state_identifier) (Key_SystemEntity auction_hash)
         [rl_snapshot_key lib]) (\<lambda>found.
     rpc_bind (case found of
         Some result \<Rightarrow> rpc_return (Inr result)
       | None \<Rightarrow> some_or RE_GlobalStateEntryNotFound (query_state_at lib node ''auction snapshot''
           (Some state_identifier) (Key_Hash auction_hash) [rl_snapshot_key lib])) (\<lambda>(snapshot_value, _).
     rpc_bind (rpc_return (ok_or RE_InvalidAuctionState (into_cl_value snapshot_value))) (\<lambda>snapshot.
     rpc_bind (rpc_return (era_validators_from_snapshot lib snapshot is_1x)) (\<lambda>validators.
     rpc_return (Inr (header, validators, bids)))))))))))"

record get_auction_info_result =
  gai_api_version :: api_version
  gai_auction_state :: "opaque auction_state"

definition GetAuctionInfo ::
  "rpc_lib \<Rightarrow> 's node \<Rightarrow> block_identifier option \<Rightarrow> 's \<Rightarrow> (rpc_error + get_auction_info_result) \<times> 's" where
  "GetAuctionInfo lib node block_identifier = rpc_result_of lib
     (rpc_bind (auction_data lib node (\<lambda>_. None) block_identifier) (\<lambda>(header, validators, bids).
      rpc_return (Inr
        \<lparr> gai_api_version = CURRENT_API_VERSION,
          gai_auction_state = AuctionState_new (rl_auction lib) (hd_state_root_hash header) (hd_height header)
            validators bids \<rparr>)))"

record get_auction_info_v2_result =
  ga2_api_version :: api_version
  ga2_auction_state :: auction_state_v2

definition GetAuctionInfoV2 ::
  "rpc_lib \<Rightarrow> 's node \<Rightarrow> block_identifier option \<Rightarrow> 's \<Rightarrow> (rpc_error + get_auction_info_v2_result) \<times> 's" where
  "GetAuctionInfoV2 lib node block_identifier = rpc_result_of lib
     (rpc_bind (auction_data lib node Some block_identifier) (\<lambda>(header, validators, bids).
      rpc_return (Inr
        \<lparr> ga2_api_version = CURRENT_API_VERSION,
          ga2_auction_state = AuctionStateV2_new (rl_auction lib) (hd_state_root_hash header) (hd_height header)
            validators bids \<rparr>)))"

end
