(* ===== verification/Rpc_Servers.thy ===== *)
theory Rpc_Servers
  imports Rpc_State
begin

text \<open>
  The RPC servers of \<open>rpc_sidecar/src/http_server.rs\<close> and
  \<open>rpc_sidecar/src/speculative_exec_server.rs\<close>, which register the methods with their
  limits, and \<open>build_rpc_server\<close> of \<open>rpc_sidecar/src/lib.rs\<close>, which puts the client, the
  servers and the loops together, with the configuration of \<open>rpc_sidecar/src/config.rs\<close>.
  The (de)serialisation of parameters and results is a parameter.
\<close>

subsection \<open>Methods by name\<close>

record rpc_discover_result =
  rdr_api_version :: api_version
  rdr_name :: string
  rdr_schema :: opaque

text \<open>The documentation returned by \<open>rpc.discover\<close> is generated.\<close>

definition RpcDiscover :: "opaque \<Rightarrow> 's \<Rightarrow> (rpc_error + rpc_discover_result) \<times> 's" where
  "RpcDiscover schema s =
     (Inr \<lparr> rdr_api_version = CURRENT_API_VERSION, rdr_name = ''OpenRPC Schema'', rdr_schema = schema \<rparr>, s)"

definition SpeculativeRpcDiscover :: "opaque \<Rightarrow> 's \<Rightarrow> (rpc_error + rpc_discover_result) \<times> 's" where
  "SpeculativeRpcDiscover schema s =
     (Inr \<lparr> rdr_api_version = CURRENT_API_VERSION,
            rdr_name = ''OpenRPC Schema for speculative exectution server'', rdr_schema = schema \<rparr>, s)"

datatype rpc_result =
    Result_PutDeploy put_deploy_result
  | Result_PutTransaction put_transaction_result
  | Result_GetBlock get_block_result
  | Result_GetBlockTransfers get_block_transfers_result
  | Result_GetStateRootHash get_state_root_hash_result
  | Result_GetItem get_item_result
  | Result_QueryGlobalState query_global_state_result
  | Result_GetBalance get_balance_result
  | Result_GetAccountInfo get_account_info_result
  | Result_GetAddressableEntity get_entity_result
  | Result_GetPackage get_package_result
  | Result_GetDeploy get_deploy_result
  | Result_GetTransaction get_transaction_result
  | Result_GetPeers get_peers_result
  | Result_GetStatus get_status_result
  | Result_GetReward get_reward_result
  | Result_GetEraInfo get_era_info_result
  | Result_GetEraSummary get_era_summary_result
  | Result_GetAuctionInfo get_auction_info_result
  | Result_GetAuctionInfoV2 get_auction_info_v2_result
  | Result_GetTrie get_trie_result
  | Result_GetValidatorChanges get_validator_changes_result
  | Result_RpcDiscover rpc_discover_result
  | Result_GetDictionaryItem get_dictionary_item_result
  | Result_GetChainspec get_chainspec_result
  | Result_QueryBalance query_balance_result
  | Result_QueryBalanceDetails query_balance_details_result
  | Result_SpeculativeExec speculative_exec_result

record rpc_serde =
  sd_deploy :: "json \<Rightarrow> string + deploy"
  sd_transaction :: "json \<Rightarrow> string + transaction"
  sd_block_identifier :: "json \<Rightarrow> string + block_identifier"
  sd_get_item :: "json \<Rightarrow> string + get_item_params"
  sd_query_global_state :: "json \<Rightarrow> string + query_global_state_params"
  sd_get_balance :: "json \<Rightarrow> string + get_balance_params"
  sd_get_account_info :: "json \<Rightarrow> string + get_account_info_params"
  sd_get_entity :: "json \<Rightarrow> string + get_entity_params"
  sd_get_package :: "json \<Rightarrow> string + get_package_params"
  sd_get_deploy :: "json \<Rightarrow> string + get_deploy_params"
  sd_get_transaction :: "json \<Rightarrow> string + get_transaction_params"
  sd_get_reward :: "json \<Rightarrow> string + get_reward_params"
  sd_trie_key :: "json \<Rightarrow> string + digest"
  sd_get_dictionary_item :: "json \<Rightarrow> string + get_dictionary_item_params"
  sd_query_balance :: "json \<Rightarrow> string + query_balance_params"
  sd_to_value :: "rpc_result \<Rightarrow> string + json"
  sd_schema :: opaque
  sd_speculative_schema :: opaque

definition as_result :: "('r \<Rightarrow> rpc_result) \<Rightarrow> ('s, 'r) rpc_handler \<Rightarrow> ('s, rpc_result) rpc_handler" where
  "as_result result handler maybe_params s =
     (let (r, s') = handler maybe_params s in (and_then r (\<lambda>x. Inr (result x)), s'))"

text \<open>The methods of the main server and of the server for speculative execution, in the order of their
  registration.\<close>

definition rpc_methods ::
  "rpc_lib \<Rightarrow> rpc_serde \<Rightarrow> 's node \<Rightarrow> (string \<times> ('s, rpc_result) rpc_handler) list" where
  "rpc_methods lib sd node =
    [(''account_put_deploy'', as_result Result_PutDeploy (handler_with_params (sd_deploy sd) (PutDeploy lib node))),
     (''account_put_transaction'',
        as_result Result_PutTransaction (handler_with_params (sd_transaction sd) (PutTransaction lib node))),
     (''chain_get_block'',
        as_result Result_GetBlock (handler_with_optional_params (sd_block_identifier sd) (GetBlock lib node))),
     (''chain_get_block_transfers'',
        as_result Result_GetBlockTransfers
          (handler_with_optional_params (sd_block_identifier sd) (GetBlockTransfers lib node))),
     (''chain_get_state_root_hash'',
        as_result Result_GetStateRootHash
          (handler_with_optional_params (sd_block_identifier sd) (GetStateRootHash lib node))),
     (''state_get_item'', as_result Result_GetItem (handler_with_params (sd_get_item sd) (GetItem lib node))),
     (''query_global_state'',
        as_result Result_QueryGlobalState (handler_with_params (sd_query_global_state sd) (QueryGlobalState lib node))),
     (''state_get_balance'', as_result Result_GetBalance (handler_with_params (sd_get_balance sd) (GetBalance lib node))),
     (''state_get_account_info'',
        as_result Result_GetAccountInfo (handler_with_params (sd_get_account_info sd) (GetAccountInfo lib node))),
     (''state_get_entity'',
        as_result Result_GetAddressableEntity (handler_with_params (sd_get_entity sd) (GetAddressableEntity lib node))),
     (''state_get_package'', as_result Result_GetPackage (handler_with_params (sd_get_package sd) (GetPackage lib node))),
     (''info_get_deploy'', as_result Result_GetDeploy (handler_with_params (sd_get_deploy sd) (GetDeploy lib node))),
     (''info_get_transaction'',
        as_result Result_GetTransaction (handler_with_params (sd_get_transaction sd) (GetTransaction lib node))),
     (''info_get_peers'', as_result Result_GetPeers (handler_without_params (GetPeers lib node))),
     (''info_get_status'', as_result Result_GetStatus (handler_without_params (GetStatus lib node))),
     (''info_get_reward'', as_result Result_GetReward (handler_with_params (sd_get_reward sd) (GetReward lib node))),
     (''chain_get_era_info_by_switch_block'',
        as_result Result_GetEraInfo
          (handler_with_optional_params (sd_block_identifier sd) (GetEraInfoBySwitchBlock lib node))),
     (''chain_get_era_summary'',
        as_result Result_GetEraSummary (handler_with_optional_params (sd_block_identifier sd) (GetEraSummary lib node))),
     (''state_get_auction_info'',
        as_result Result_GetAuctionInfo (handler_with_optional_params (sd_block_identifier sd) (GetAuctionInfo lib node))),
     (''state_get_auction_info_v2'',
        as_result Result_GetAuctionInfoV2
          (handler_with_optional_params (sd_block_identifier sd) (GetAuctionInfoV2 lib node))),
     (''state_get_trie'', as_result Result_GetTrie (handler_with_params (sd_trie_key sd) (GetTrie lib node))),
     (''info_get_validator_changes'',
        as_result Result_GetValidatorChanges (handler_without_params (GetValidatorChanges lib node))),
     (''rpc.discover'', as_result Result_RpcDiscover (handler_without_params (RpcDiscover (sd_schema sd)))),
     (''state_get_dictionary_item'',
        as_result Result_GetDictionaryItem (handler_with_params (sd_get_dictionary_item sd) (GetDictionaryItem lib node))),
     (''info_get_chainspec'', as_result Result_GetChainspec (handler_without_params (GetChainspec lib node))),
     (''query_balance'', as_result Result_QueryBalance (handler_with_params (sd_query_balance sd) (QueryBalance lib node))),
     (''query_balance_details'',
        as_result Result_QueryBalanceDetails
          (handler_with_params (sd_query_balance sd) (QueryBalanceDetails lib node)))]"

definition speculative_methods ::
  "rpc_lib \<Rightarrow> rpc_serde \<Rightarrow> 's node \<Rightarrow> (string \<times> ('s, rpc_result) rpc_handler) list" where
  "speculative_methods lib sd node =
    [(''speculative_exec_txn'',
        as_result Result_SpeculativeExec (handler_with_params (sd_transaction sd) (SpeculativeExecTxn lib node))),
     (''speculative_exec'',
        as_result Result_SpeculativeExec (handler_with_params (sd_deploy sd) (SpeculativeExec lib node))),
     (''rpc.discover'',
        as_result Result_RpcDiscover (handler_without_params (SpeculativeRpcDiscover (sd_speculative_schema sd))))]"

subsection \<open>Registration\<close>

text \<open>The macro \<open>register\<close>: a method takes its limit out of the configured ones.  The handlers are those of
  a client in the given state.\<close>

type_synonym limits = "string \<rightharpoonup> config_limit"

definition register_method ::
  "'l limiter_ops \<Rightarrow> rpc_serde \<Rightarrow> config_limit \<Rightarrow> 's \<Rightarrow> string \<times> ('s, rpc_result) rpc_handler \<Rightarrow>
   'l request_handlers \<times> limits \<Rightarrow> 'l request_handlers \<times> limits" where
  "register_method ops sd default_limit s entry built =
     (let (method, handler) = entry; (handlers, limits) = built in
      (register_handler ops (sd_to_value sd) handlers method (\<lambda>maybe_params. fst (handler maybe_params s))
         (unwrap_or (limits method) default_limit),
       limits(method := None)))"

definition build_handlers ::
  "'l limiter_ops \<Rightarrow> rpc_serde \<Rightarrow> config_limit \<Rightarrow> limits \<Rightarrow> 's \<Rightarrow>
   (string \<times> ('s, rpc_result) rpc_handler) list \<Rightarrow> 'l request_handlers" where
  "build_handlers ops sd default_limit limits s methods =
     fst (fold (register_method ops sd default_limit s) methods (RequestHandlersBuilder_new, limits))"

definition RPC_API_PATH :: string where "RPC_API_PATH = ''rpc''"
definition RPC_API_SERVER_NAME :: string where "RPC_API_SERVER_NAME = ''JSON RPC''"
definition SPECULATIVE_EXEC_API_PATH :: string where "SPECULATIVE_EXEC_API_PATH = ''rpc''"
definition SPECULATIVE_EXEC_SERVER_NAME :: string where "SPECULATIVE_EXEC_SERVER_NAME = ''speculative execution''"

text \<open>What a server runs: its routes, where, and with which headers.\<close>

record 'l rpc_server =
  sv_handlers :: "'l request_handlers"
  sv_path :: string
  sv_name :: string
  sv_ip_address :: string
  sv_port :: u16
  sv_qps_limit :: u32
  sv_max_body_bytes :: u64
  sv_cors :: "cors_origin option"
  sv_allow_unknown_fields :: bool

text \<open>The configuration of a server; the main server has one field more.\<close>

record server_config =
  rc_enable_server :: bool
  rc_ip_address :: string
  rc_port :: u16
  rc_qps_limit :: u32
  rc_max_body_bytes :: u64
  rc_cors_origin :: string
  rc_default_limit_requests :: u32
  rc_default_limit_period :: u64
  rc_limits :: "limits option"

record rpc_config = server_config +
  rc_enable_block_prefetch :: bool

definition default_limit :: "'z server_config_scheme \<Rightarrow> config_limit" where
  "default_limit config = \<lparr> cl_requests = rc_default_limit_requests config, cl_period = rc_default_limit_period config \<rparr>"

definition run_server ::
  "'l limiter_ops \<Rightarrow> rpc_serde \<Rightarrow> string \<Rightarrow> string \<Rightarrow> 'z server_config_scheme \<Rightarrow> 's \<Rightarrow>
   (string \<times> ('s, rpc_result) rpc_handler) list \<Rightarrow> 'l rpc_server" where
  "run_server ops sd api_path server_name config s methods =
     \<lparr> sv_handlers = build_handlers ops sd (default_limit config) (unwrap_or (rc_limits config) Map.empty) s methods,
       sv_path = api_path, sv_name = server_name, sv_ip_address = rc_ip_address config, sv_port = rc_port config, sv_qps_limit = rc_qps_limit config,
       sv_max_body_bytes = rc_max_body_bytes config, sv_cors = cors_of (rc_cors_origin config),
       sv_allow_unknown_fields = ALLOW_UNKNOWN_FIELDS_IN_JSON_RPC_REQUEST \<rparr>"

definition run_rpc_server ::
  "'l limiter_ops \<Rightarrow> rpc_lib \<Rightarrow> rpc_serde \<Rightarrow> 's node \<Rightarrow> rpc_config \<Rightarrow> 's \<Rightarrow> 'l rpc_server" where
  "run_rpc_server ops lib sd node config s =
     run_server ops sd RPC_API_PATH RPC_API_SERVER_NAME config s (rpc_methods lib sd node)"

definition run_speculative_exec_server ::
  "'l limiter_ops \<Rightarrow> rpc_lib \<Rightarrow> rpc_serde \<Rightarrow> 's node \<Rightarrow> server_config \<Rightarrow> 's \<Rightarrow> 'l rpc_server" where
  "run_speculative_exec_server ops lib sd node config s =
     run_server ops sd SPECULATIVE_EXEC_API_PATH SPECULATIVE_EXEC_SERVER_NAME config s (speculative_methods lib sd node)"

text \<open>A request to a running server: the limit on all requests comes first, with the permission of its
  limiter, then the route.  The answer has a status, a body and possibly the header \<open>Retry-After\<close>.\<close>

definition service_request ::
  "(u8 list \<Rightarrow> string + json_map) \<Rightarrow> (json \<Rightarrow> string) \<Rightarrow> 'l limiter_ops \<Rightarrow> u64 + unit \<Rightarrow> 'l rpc_server \<Rightarrow> u8 list \<Rightarrow>
   nat \<times> (json + rpc_response) \<times> string option" where
  "service_request from_slice display ops permission server body =
     (case permission of
        Inl wait_secs \<Rightarrow> (let (status, reply, retry_after) = too_many_requests wait_secs in (status, Inl reply, Some retry_after))
      | Inr _ \<Rightarrow>
          (let (status, reply) =
             route_body from_slice display ops body (sv_handlers server) (sv_allow_unknown_fields server)
           in (status, reply, None)))"

subsection \<open>Building the RPC side of the sidecar\<close>

record rpc_server_config =
  rs_main_server :: rpc_config
  rs_speculative_exec_server :: "server_config option"
  rs_exponential_backoff :: exponential_backoff
  rs_node_address :: string

datatype rpc_part = Part_CacheLoop | Part_RpcServer | Part_SpeculativeServer | Part_ReconnectLoop | Part_KeepaliveLoop

definition CLIENT_SHUTDOWN_EXIT_CODE :: u8 where "CLIENT_SHUTDOWN_EXIT_CODE = 3"

definition rpc_parts :: "rpc_server_config \<Rightarrow> rpc_part list" where
  "rpc_parts config =
     (if rc_enable_block_prefetch (rs_main_server config) then [Part_CacheLoop] else []) @
     (if rc_enable_server (rs_main_server config) then [Part_RpcServer] else []) @
     (case rs_speculative_exec_server config of
        Some speculative \<Rightarrow> (if rc_enable_server speculative then [Part_SpeculativeServer] else [])
      | None \<Rightarrow> []) @
     [Part_ReconnectLoop, Part_KeepaliveLoop]"

fun part_exit_code :: "rpc_part \<Rightarrow> u8" where
  "part_exit_code Part_CacheLoop = CLIENT_SHUTDOWN_EXIT_CODE"
| "part_exit_code Part_RpcServer = 0"
| "part_exit_code Part_SpeculativeServer = 0"
| "part_exit_code Part_ReconnectLoop = CLIENT_SHUTDOWN_EXIT_CODE"
| "part_exit_code Part_KeepaliveLoop = CLIENT_SHUTDOWN_EXIT_CODE"

text \<open>The client is wrapped by the caching one if blocks are to be prefetched.\<close>

datatype rpc_client =
    Client_Framed framed_node_client
  | Client_Caching "(framed_node_client, block_with_signatures) caching_node_client"

definition build_rpc_server ::
  "binary_port \<Rightarrow> request_env \<Rightarrow> (nat \<Rightarrow> string + connection) \<Rightarrow> node_status payload_entity \<Rightarrow>
   rpc_server_config \<Rightarrow> string option \<Rightarrow> anyhow + (rpc_client \<times> rpc_part list)" where
  "build_rpc_server bp env tcp status_entity config maybe_network_name =
     and_then (FramedNodeClient_new bp env (rs_exponential_backoff config) (rs_node_address config) tcp
        status_entity ns_chainspec_name maybe_network_name) (\<lambda>client.
     Inr (if rc_enable_block_prefetch (rs_main_server config) then Client_Caching (CachingNodeClient_new client)
          else Client_Framed client,
          rpc_parts config))"

text \<open>The future of all parts ends with the first of them; the environment says which.\<close>

definition retype_future_vec :: "rpc_part list \<Rightarrow> nat \<Rightarrow> u8" where
  "retype_future_vec futures first_ready = part_exit_code (futures ! first_ready)"

subsection \<open>Lemmas\<close>

lemma register_methods:
  assumes "distinct (map fst methods)"
  shows "fst (fold (register_method ops sd dflt s) methods (handlers, limits)) method =
     (case map_of methods method of
        Some handler \<Rightarrow> Some (wrapped_handler (sd_to_value sd) (\<lambda>params. fst (handler params s)),
          limiter_direct ops (unwrap_or (limits method) dflt))
      | None \<Rightarrow> handlers method)"
  using assms
proof (induction methods arbitrary: handlers limits)
  case (Cons entry methods)
  obtain name handler where entry: "entry = (name, handler)" by (cases entry)
  have "map_of methods name = None" using Cons.prems entry by (simp add: map_of_eq_None_iff)
  then show ?case
    using Cons entry
    by (cases "method = name") (simp_all add: register_method_def register_handler_def split: option.split)
qed simp

lemma build_handlers_lookup:
  assumes "distinct (map fst methods)"
  shows "build_handlers ops sd dflt limits s methods method =
     map_option (\<lambda>handler. (wrapped_handler (sd_to_value sd) (\<lambda>params. fst (handler params s)),
          limiter_direct ops (unwrap_or (limits method) dflt)))
       (map_of methods method)"
  by (simp add: build_handlers_def register_methods [OF assms] RequestHandlersBuilder_new_def split: option.split)

definition rpc_method_names :: "string list" where
  "rpc_method_names =
    [''account_put_deploy'', ''account_put_transaction'', ''chain_get_block'',
     ''chain_get_block_transfers'', ''chain_get_state_root_hash'', ''state_get_item'',
     ''query_global_state'', ''state_get_balance'', ''state_get_account_info'', ''state_get_entity'',
     ''state_get_package'', ''info_get_deploy'', ''info_get_transaction'', ''info_get_peers'',
     ''info_get_status'', ''info_get_reward'', ''chain_get_era_info_by_switch_block'',
     ''chain_get_era_summary'', ''state_get_auction_info'', ''state_get_auction_info_v2'',
     ''state_get_trie'', ''info_get_validator_changes'', ''rpc.discover'', ''state_get_dictionary_item'',
     ''info_get_chainspec'', ''query_balance'', ''query_balance_details'']"

lemma rpc_method_names: "map fst (rpc_methods lib sd node) = rpc_method_names"
  by (simp add: rpc_methods_def rpc_method_names_def)

lemma rpc_methods_distinct: "distinct (map fst (rpc_methods lib sd node))"
  unfolding rpc_method_names by code_simp

lemma speculative_methods_distinct: "distinct (map fst (speculative_methods lib sd node))"
  by (simp add: speculative_methods_def)

text \<open>The limit of a method: the configured one, or the default.\<close>

definition limit_for :: "'z server_config_scheme \<Rightarrow> string \<Rightarrow> config_limit" where
  "limit_for config name = unwrap_or (unwrap_or (rc_limits config) Map.empty name) (default_limit config)"

text \<open>The response to a request for a method.\<close>

definition method_response :: "rpc_serde \<Rightarrow> json \<Rightarrow> rpc_error + rpc_result \<Rightarrow> rpc_response" where
  "method_response sd i result =
     (case result of
        Inl error \<Rightarrow> new_failure i error
      | Inr success \<Rightarrow>
          (case sd_to_value sd success of
             Inr value \<Rightarrow> new_success i value
           | Inl error \<Rightarrow> new_failure i (reserved_error InternalError
               (''failed to encode json-rpc response value: '' @ error))))"

text \<open>What a server with these methods answers to its first request: an unknown method is an error, the
  limit of a method is its own, and otherwise the answer is that of its handler.\<close>

definition dispatched ::
  "'l limiter_ops \<Rightarrow> rpc_serde \<Rightarrow> 'z server_config_scheme \<Rightarrow> 's \<Rightarrow> (string \<times> ('s, rpc_result) rpc_handler) list \<Rightarrow>
   json \<Rightarrow> string \<Rightarrow> params option \<Rightarrow> rpc_response" where
  "dispatched ops sd config s methods i name params =
     (case map_of methods name of
        None \<Rightarrow> new_failure i (reserved_error MethodNotFound
          (quoted name @ '' is not a supported json-rpc method on this server''))
      | Some handler \<Rightarrow>
          (case fst (limiter_check ops (limiter_direct ops (limit_for config name))) of
             Inl wait_time \<Rightarrow> new_failure i (Error_new False request_throttled_code
               (Inr (JString (''retry-after '' @ wait_time @ ''s''))))
           | Inr _ \<Rightarrow> method_response sd i (fst (handler params s))))"

lemma run_server_answers:
  assumes "distinct (map fst methods)"
    and "from_slice body = Inr obj" "Request_new display obj True = Inr \<lparr> rq_id = i, rq_method = name, rq_params = params \<rparr>"
  shows "service_request from_slice display ops (Inr ()) (run_server ops sd path server_name config s methods) body =
    (200, Inr (dispatched ops sd config s methods i name params), None)"
proof -
  let ?request = "\<lparr> rq_id = i, rq_method = name, rq_params = params \<rparr>"
  let ?handlers = "build_handlers ops sd (default_limit config) (unwrap_or (rc_limits config) Map.empty) s methods"
  have "service_request from_slice display ops (Inr ()) (run_server ops sd path server_name config s methods) body =
      (200, Inr (fst (handle_request ops ?handlers ?request (length body))), None)"
    using assms(2-3)
    by (simp add: service_request_def run_server_def route_body_def handle_body_def Let_def case_prod_unfold
        ALLOW_UNKNOWN_FIELDS_IN_JSON_RPC_REQUEST_def)
  moreover have "?handlers name = map_option (\<lambda>handler. (wrapped_handler (sd_to_value sd) (\<lambda>params. fst (handler params s)),
        limiter_direct ops (limit_for config name))) (map_of methods name)"
    by (simp add: build_handlers_lookup [OF assms(1)] limit_for_def)
  ultimately show ?thesis
    by (cases "map_of methods name")
      (simp_all add: dispatched_def handle_request_def wrapped_handler_def method_response_def Let_def case_prod_unfold split: sum.split)
qed

subsection \<open>Properties\<close>

text \<open>C25: requests reach their methods.  On both servers a well-formed request is answered with status 200: for
  a registered name with the result or error of that method's handler on the parameters of the request,
  unless the limit configured for the method (or else the default limit) refuses it, and for any other name with
  the error that the method was not found.\<close>

theorem requests_reach_their_methods:
  assumes "from_slice body = Inr obj"
    and "Request_new display obj True = Inr \<lparr> rq_id = i, rq_method = name, rq_params = params \<rparr>"
  shows "service_request from_slice display ops (Inr ()) (run_rpc_server ops lib sd node config s) body =
           (200, Inr (dispatched ops sd config s (rpc_methods lib sd node) i name params), None) \<and>
         service_request from_slice display ops (Inr ()) (run_speculative_exec_server ops lib sd node sconfig s) body =
           (200, Inr (dispatched ops sd sconfig s (speculative_methods lib sd node) i name params), None)"
  unfolding run_rpc_server_def run_speculative_exec_server_def
  by (rule conjI; rule run_server_answers; rule rpc_methods_distinct speculative_methods_distinct assms(1) assms(2))

definition sample_serde :: rpc_serde where
  "sample_serde = \<lparr> sd_deploy = (\<lambda>_. Inl ''deploy''), sd_transaction = (\<lambda>_. Inl ''transaction''),
     sd_block_identifier = (\<lambda>_. Inl ''block''), sd_get_item = (\<lambda>_. Inl ''item''),
     sd_query_global_state = (\<lambda>_. Inl ''query''), sd_get_balance = (\<lambda>_. Inl ''balance''),
     sd_get_account_info = (\<lambda>_. Inl ''account''), sd_get_entity = (\<lambda>_. Inl ''entity''),
     sd_get_package = (\<lambda>_. Inl ''package''), sd_get_deploy = (\<lambda>_. Inl ''deploy''),
     sd_get_transaction = (\<lambda>_. Inl ''transaction''), sd_get_reward = (\<lambda>_. Inl ''reward''),
     sd_trie_key = (\<lambda>_. Inl ''trie''), sd_get_dictionary_item = (\<lambda>_. Inl ''dictionary''),
     sd_query_balance = (\<lambda>_. Inl ''balance''), sd_to_value = (\<lambda>_. Inr (JString ''schema'')),
     sd_schema = [], sd_speculative_schema = [] \<rparr>"

definition discover_object :: json_map where
  "discover_object = [(''id'', JNumber (JInt 7)), (''jsonrpc'', JString ''2.0''), (''method'', JString ''rpc.discover'')]"

definition sample_server_config :: server_config where
  "sample_server_config = \<lparr> rc_enable_server = True, rc_ip_address = ''0.0.0.0'', rc_port = 7778, rc_qps_limit = 1,
     rc_max_body_bytes = 2621440, rc_cors_origin = [], rc_default_limit_requests = 10, rc_default_limit_period = 1000,
     rc_limits = None \<rparr>"

lemma discover_request:
  "Request_new (\<lambda>_. []) discover_object True = Inr \<lparr> rq_id = JNumber (JInt 7), rq_method = ''rpc.discover'', rq_params = None \<rparr>"
  by code_simp

theorem requests_reach_their_methods_witness:
  "\<forall>lib (node :: nat node). service_request (\<lambda>_. Inr discover_object) (\<lambda>_. []) counting_limiter (Inr ())
     (run_speculative_exec_server counting_limiter lib sample_serde node sample_server_config 0) [] =
   (200, Inr (new_success (JNumber (JInt 7)) (JString ''schema'')), None)"
proof (intro allI)
  fix lib and node :: "nat node"
  have "dispatched counting_limiter sample_serde sample_server_config 0 (speculative_methods lib sample_serde node)
      (JNumber (JInt 7)) ''rpc.discover'' None = new_success (JNumber (JInt 7)) (JString ''schema'')"
    by (simp add: dispatched_def speculative_methods_def as_result_def handler_without_params_def check_no_params_def
        Params_default_def SpeculativeRpcDiscover_def method_response_def sample_serde_def
        limit_for_def default_limit_def sample_server_config_def counting_limiter_def)
  then show "service_request (\<lambda>_. Inr discover_object) (\<lambda>_. []) counting_limiter (Inr ())
     (run_speculative_exec_server counting_limiter lib sample_serde node sample_server_config 0) [] =
     (200, Inr (new_success (JNumber (JInt 7)) (JString ''schema'')), None)"
    using requests_reach_their_methods [of "\<lambda>_. Inr discover_object" "[]" discover_object "\<lambda>_. []" "JNumber (JInt 7)"
        "''rpc.discover''" None counting_limiter lib sample_serde node undefined 0 sample_server_config] discover_request
    by simp
qed

end
