(* ===== verification/Rpc_Steps.thy ===== *)
theory Rpc_Steps
  imports Rpc_Servers
begin

text \<open>
  What the RPC methods do to the client of the node.  A method only acts on the client by
  sending commands, so every relation on the states of the client that is reflexive,
  transitive and holds for each command that is sent holds for the whole method.  The
  relation may be that an invariant is kept, or that only certain commands are sent.
\<close>

subsection \<open>Relations between the states before and after\<close>

locale rpc_steps =
  fixes node :: "'s node" and R :: "'s \<Rightarrow> 's \<Rightarrow> bool" and P :: "command \<Rightarrow> bool"
  assumes R_refl: "R s s"
    and R_trans: "R s t \<Longrightarrow> R t u \<Longrightarrow> R s u"
    and send_step: "P c \<Longrightarrow> R s (snd (nd_send node c s))"
begin

definition steps :: "('s \<Rightarrow> 'r \<times> 's) \<Rightarrow> bool" where
  "steps op \<longleftrightarrow> (\<forall>s. R s (snd (op s)))"

lemma steps_rpc_return: "steps (rpc_return r)"
  by (simp add: steps_def rpc_return_def R_refl)

lemma steps_rpc_bind: "steps op \<Longrightarrow> (\<And>a. steps (f a)) \<Longrightarrow> steps (rpc_bind op f)"
  by (auto simp: steps_def rpc_bind_def Let_def case_prod_unfold split: sum.split intro: R_trans)

lemma steps_node_request: "steps op \<Longrightarrow> steps (node_request what op)"
  by (simp add: steps_def node_request_def Let_def case_prod_unfold)

lemma steps_rpc_result_of: "steps op \<Longrightarrow> steps (rpc_result_of lib op)"
  by (simp add: steps_def rpc_result_of_def Let_def case_prod_unfold)

lemma steps_some_or: "steps op \<Longrightarrow> steps (some_or failure op)"
  unfolding some_or_def by (intro steps_rpc_bind steps_rpc_return)

lemma steps_option: "steps a \<Longrightarrow> (\<And>x. steps (f x)) \<Longrightarrow> steps (case v of None \<Rightarrow> a | Some x \<Rightarrow> f x)"
  by (cases v) simp_all

lemma steps_prod: "(\<And>x y. steps (f x y)) \<Longrightarrow> steps (case p of (x, y) \<Rightarrow> f x y)"
  by (cases p) simp

lemma steps_if: "steps a \<Longrightarrow> steps b \<Longrightarrow> steps (if c then a else b)"
  by simp

lemma steps_state_identifier:
  "(\<And>h. steps (f h)) \<Longrightarrow> (\<And>h. steps (g h)) \<Longrightarrow> (\<And>h. steps (k h)) \<Longrightarrow>
   steps (case v of GlobalState_BlockHash h \<Rightarrow> f h | GlobalState_BlockHeight h \<Rightarrow> g h
          | GlobalState_StateRootHash h \<Rightarrow> k h)"
  by (cases v) simp_all

lemma steps_entity_response:
  "(\<And>x. steps (f x)) \<Longrightarrow> (\<And>x. steps (g x)) \<Longrightarrow> (\<And>x. steps (k x)) \<Longrightarrow>
   steps (case v of EntityResponse_Entity x \<Rightarrow> f x | EntityResponse_Account x \<Rightarrow> g x
          | EntityResponse_Contract x \<Rightarrow> k x)"
  by (cases v) simp_all

lemma steps_send: "P c \<Longrightarrow> steps (nd_send node c)"
  by (simp add: steps_def send_step)

lemma steps_then_ok: "steps op \<Longrightarrow> steps (then_ok op f)"
  by (simp add: steps_def)

lemmas steps_rules = steps_rpc_return steps_rpc_bind steps_node_request steps_rpc_result_of steps_some_or
  steps_option steps_prod steps_if steps_then_ok steps_state_identifier steps_entity_response

text \<open>The queries that are used several times.\<close>

lemma steps_query_state_at:
  assumes "P (Command_Get (GetRequest_State \<lparr> gs_state_identifier = si, gs_qualifier = Qualifier_Item key path \<rparr>))"
  shows "steps (query_state_at lib node what si key path)"
  unfolding query_state_at_def query_global_state_def query_state_def
  using assms by (intro steps_rules steps_send)

lemma steps_no_block_found:
  assumes "P (Command_Get (bp_information (nd_port node) Info_AvailableBlockRange))"
  shows "steps (no_block_found lib node bi)"
  unfolding no_block_found_def read_available_block_range_def read_info_def
  using assms by (intro steps_rules steps_send)

lemma steps_get_block_header:
  assumes "P (Command_Get (bp_information (nd_port node) Info_AvailableBlockRange))"
    and "P (Command_Get (bp_information (nd_port node) (Info_BlockHeader bi)))"
  shows "steps (get_block_header lib node bi)"
  unfolding get_block_header_def read_block_header_def read_info_def
  using assms by (intro steps_rules steps_no_block_found steps_send)

lemma steps_fetch_bid_kinds:
  assumes "\<And>q. P (Command_Get (GetRequest_State \<lparr> gs_state_identifier = Some si, gs_qualifier = q \<rparr>))"
  shows "steps (fetch_bid_kinds lib node si is_1x)"
  unfolding fetch_bid_kinds_def query_global_state_by_tag_def query_state_def
  using assms by (intro steps_rules steps_send)

lemma steps_auction_data:
  assumes "P (Command_Get (bp_information (nd_port node) Info_AvailableBlockRange))"
    and "P (Command_Get (bp_information (nd_port node) (Info_BlockHeader bi)))"
    and "\<And>h q. P (Command_Get (GetRequest_State
           \<lparr> gs_state_identifier = Some (case bi of Some b \<Rightarrow> rl_state_identifier_from lib b
               | None \<Rightarrow> GlobalState_BlockHeight h), gs_qualifier = q \<rparr>))"
    and "\<And>h. P (Command_Get (GetRequest_State
           \<lparr> gs_state_identifier = registry_state (case bi of Some b \<Rightarrow> rl_state_identifier_from lib b
               | None \<Rightarrow> GlobalState_BlockHeight h), gs_qualifier = Qualifier_Item Key_SystemEntityRegistry [] \<rparr>))"
  shows "steps (auction_data lib node registry_state bi)"
  unfolding auction_data_def Let_def
  by (intro steps_rules steps_get_block_header steps_fetch_bid_kinds steps_query_state_at assms)

end

subsection \<open>All methods\<close>

text \<open>Where nothing is required of the commands, the relation holds for every method of both servers.\<close>

locale rpc_steps_all = rpc_steps node R "\<lambda>_. True" for node :: "'s node" and R +
  assumes read_block_step: "R s (snd (nd_read_block node bi s))"
begin

lemma steps_read_block: "steps (nd_read_block node bi)"
  by (simp add: steps_def read_block_step)

lemma steps_client_ops:
  "steps (nd_send node c)"
  "steps (query_state_at lib node what si key path)"
  "steps (no_block_found lib node bi)"
  "steps (get_block_header lib node bi)"
  by (simp_all add: steps_send steps_query_state_at steps_no_block_found steps_get_block_header)

lemma steps_helpers:
  "steps (get_block_with_signatures lib node bi)"
  "steps (get_latest_switch_block_header lib node)"
  "steps (get_entity_named_keys lib node addr si)"
  "steps (get_entity_entry_points lib node addr si)"
  "steps (switch_block_header lib node bi)"
  "steps (get_era_summary_by_block lib node header)"
  "steps (read_transaction lib node failure hash finalized)"
  "steps (header_for lib node si)"
  "steps (read_balance_of lib node si purse)"
  "steps (fetch_bid_kinds lib node sid is_1x)"
  "steps (auction_data lib node registry_state bi)"
  unfolding get_block_with_signatures_def get_latest_switch_block_header_def get_entity_named_keys_def
    get_entity_entry_points_def switch_block_header_def get_era_summary_by_block_def read_transaction_def
    header_for_def read_balance_of_def client_op_defs Let_def
  by (intro steps_rules steps_client_ops steps_read_block steps_fetch_bid_kinds steps_auction_data TrueI)+

lemma steps_submit: "steps (submit node invalid what transaction)"
  using send_step by (simp add: steps_def submit_def Let_def case_prod_unfold try_accept_transaction_def)

lemma steps_account_and_chain_methods:
  "steps (PutDeploy lib node d)" "steps (PutTransaction lib node t)"
  "steps (GetBlock lib node bi)" "steps (GetBlockTransfers lib node bi)" "steps (GetStateRootHash lib node bi)"
  "steps (GetEraInfoBySwitchBlock lib node bi)" "steps (GetEraSummary lib node bi)"
  unfolding PutDeploy_def PutTransaction_def GetBlock_def GetBlockTransfers_def GetStateRootHash_def
    GetEraInfoBySwitchBlock_def GetEraSummary_def client_op_defs Let_def
  by (intro steps_rules steps_submit steps_client_ops steps_helpers)+

lemma steps_info_methods:
  "steps (GetDeploy lib node gd)" "steps (GetTransaction lib node gt)" "steps (GetPeers lib node)"
  "steps (GetValidatorChanges lib node)" "steps (GetChainspec lib node)" "steps (GetStatus lib node)"
  "steps (GetReward lib node gr)" "steps (SpeculativeExecTxn lib node t)" "steps (SpeculativeExec lib node d)"
  unfolding GetDeploy_def GetTransaction_def GetPeers_def GetValidatorChanges_def GetChainspec_def GetStatus_def
    GetReward_def SpeculativeExecTxn_def SpeculativeExec_def speculative_handle_request_def client_op_defs Let_def
  by (intro steps_rules steps_client_ops steps_helpers)+

lemma steps_state_methods:
  "steps (GetItem lib node gi)" "steps (GetBalance lib node gb)" "steps (GetAccountInfo lib node ga)"
  "steps (GetAddressableEntity lib node ge)" "steps (GetPackage lib node gp)" "steps (GetDictionaryItem lib node gdi)"
  "steps (QueryGlobalState lib node qg)" "steps (QueryBalance lib node qb)" "steps (QueryBalanceDetails lib node qb)"
  "steps (GetTrie lib node key)" "steps (GetAuctionInfo lib node bi)" "steps (GetAuctionInfoV2 lib node bi)"
  unfolding GetItem_def GetBalance_def GetAccountInfo_def GetAddressableEntity_def entity_compat_def GetPackage_def
    GetDictionaryItem_def QueryGlobalState_def QueryBalance_def QueryBalanceDetails_def GetTrie_def GetAuctionInfo_def
    GetAuctionInfoV2_def client_op_defs Let_def
  by (intro steps_rules steps_client_ops steps_helpers)+

lemma steps_discover: "steps (RpcDiscover schema)" "steps (SpeculativeRpcDiscover schema)"
  by (simp_all add: steps_def RpcDiscover_def SpeculativeRpcDiscover_def R_refl)

lemma steps_handlers:
  "(\<And>p. steps (f p)) \<Longrightarrow> steps (handler_with_params from_value f params)"
  "steps g \<Longrightarrow> steps (handler_without_params g params)"
  "(\<And>p. steps (k p)) \<Longrightarrow> steps (handler_with_optional_params from_value k params)"
  by (auto simp: steps_def handler_with_params_def handler_without_params_def handler_with_optional_params_def R_refl
      split: sum.split)

lemma steps_as_result: "steps (h params) \<Longrightarrow> steps (as_result result h params)"
  by (simp add: steps_def as_result_def Let_def case_prod_unfold)

lemma steps_methods:
  assumes "(name, handler) \<in> set (rpc_methods lib sd node) \<union> set (speculative_methods lib sd node)"
  shows "steps (handler params)"
  using assms unfolding rpc_methods_def speculative_methods_def
  by (elim UnE; simp only: list.set insert_iff empty_iff prod.inject; elim disjE conjE FalseE; simp only:;
      intro steps_as_result steps_handlers steps_account_and_chain_methods steps_info_methods steps_state_methods
        steps_discover)

end

subsection \<open>The clients of the sidecar\<close>

text \<open>Every method is a sequence of steps of the client over one connection, also below the cache.\<close>

lemma framed_send_step: "(client_step bp)\<^sup>*\<^sup>* fc (snd (framed_send bp envs c fc))"
  unfolding framed_send_def by (rule r_into_rtranclp) (rule Step_request)

lemma read_block_send:
  "snd (read_block_with_signatures bp send entity bi s) =
   snd (send (Command_Get (bp_information bp (Info_BlockWithSignatures bi))) s)"
  by (simp add: read_block_with_signatures_def read_info_def)

interpretation framed_steps: rpc_steps_all "framed_node bp envs entity" "(client_step bp)\<^sup>*\<^sup>*" for bp envs entity
  by unfold_locales (simp_all add: framed_node_def framed_send_step read_block_send)

interpretation caching_steps: rpc_steps_all "caching_node bp envs entity lock_in_time"
  "\<lambda>s t. (client_step bp)\<^sup>*\<^sup>* (cc_inner_client s) (cc_inner_client t)" for bp envs entity lock_in_time
  by unfold_locales
    (auto simp: caching_node_def caching_send_request_def caching_read_block_def framed_send_step read_block_send
      split: option.split)

interpretation framed_sending: node_client "framed_send bp envs" numbered "answered bp" for bp envs
  by unfold_locales (auto simp: framed_send_def send_request_numbered send_request_answered)

text \<open>The commands that are sent.\<close>

definition sent_only :: "binary_port \<Rightarrow> (command \<Rightarrow> bool) \<Rightarrow> framed_node_client \<Rightarrow> framed_node_client \<Rightarrow> bool" where
  "sent_only bp P s t \<longleftrightarrow>
     (\<exists>sent. fc_requests t = fc_requests s @ sent \<and> (\<forall>(i, bytes) \<in> set sent. \<exists>c. P c \<and> bytes = encode_request bp c i))"

lemma sent_only_refl: "fc_requests t = fc_requests s \<Longrightarrow> sent_only bp P s t"
  by (simp add: sent_only_def)

lemma sent_only_trans: "sent_only bp P s t \<Longrightarrow> sent_only bp P t u \<Longrightarrow> sent_only bp P s u"
  unfolding sent_only_def by (elim exE conjE, rule_tac x = "sent @ senta" in exI) auto

lemma send_request_internal_sent_only:
  assumes "P req" "send_request_internal bp req fc = (result, fc')"
  shows "sent_only bp P fc fc'"
  using send_request_internal_cases [OF assms(2)] assms(1) by (auto simp: sent_only_def)

lemma send_request_sent_only:
  assumes "P req"
  shows "sent_only bp P fc (snd (send_request bp env req fc))"
proof (cases "send_request bp env req fc")
  case (Pair result fc')
  from this have "sent_only bp P fc fc'"
  proof (cases rule: send_request_cases)
    case none
    then show ?thesis by (simp add: sent_only_refl)
  next
    case (one r fc1)
    then show ?thesis
      using sent_only_trans [OF send_request_internal_sent_only [where P = P, OF assms one(1)] sent_only_refl] by simp
  next
    case (two err fc1 new_client)
    have "sent_only bp P fc (fc1\<lparr> fc_client := new_client \<rparr>)"
      using sent_only_trans [OF send_request_internal_sent_only [where P = P, OF assms two(1)] sent_only_refl] by simp
    then show ?thesis
      using sent_only_trans send_request_internal_sent_only [where P = P, OF assms two(2)] by blast
  qed
  with Pair show ?thesis by simp
qed

interpretation framed_sent: rpc_steps "framed_node bp envs entity" "sent_only bp P" P for bp envs entity P
  by unfold_locales
    (auto simp: sent_only_refl framed_node_def framed_send_def send_request_sent_only intro: sent_only_trans)

subsection \<open>Sessions\<close>

text \<open>What happens to the client of a running RPC sidecar: any of the methods of its servers is called,
  the loops that keep the connection alive and renew it run, and the cache is updated.\<close>

definition method_called ::
  "rpc_lib \<Rightarrow> rpc_serde \<Rightarrow> 's node \<Rightarrow> 's \<Rightarrow> 's \<Rightarrow> bool" where
  "method_called lib sd node s t \<longleftrightarrow>
     (\<exists>name handler params. (name, handler) \<in> set (rpc_methods lib sd node) \<union> set (speculative_methods lib sd node) \<and>
        t = snd (handler params s))"

inductive session_step ::
  "binary_port \<Rightarrow> block_with_signatures payload_entity \<Rightarrow> (block_with_signatures \<Rightarrow> u64) \<Rightarrow> rpc_lib \<Rightarrow> rpc_serde \<Rightarrow>
   rpc_client \<Rightarrow> rpc_client \<Rightarrow> bool"
  for bp entity height lib sd where
  Session_framed_call:
    "method_called lib sd (framed_node bp envs entity) fc fc' \<Longrightarrow>
     session_step bp entity height lib sd (Client_Framed fc) (Client_Framed fc')"
| Session_caching_call:
    "method_called lib sd (caching_node bp envs entity lock_in_time) cc cc' \<Longrightarrow>
     session_step bp entity height lib sd (Client_Caching cc) (Client_Caching cc')"
| Session_framed_loops:
    "client_step bp fc fc' \<Longrightarrow> session_step bp entity height lib sd (Client_Framed fc) (Client_Framed fc')"
| Session_caching_loops:
    "client_step bp (cc_inner_client cc) fc' \<Longrightarrow>
     session_step bp entity height lib sd (Client_Caching cc) (Client_Caching (cc\<lparr> cc_inner_client := fc' \<rparr>))"
| Session_cache_update:
    "session_step bp entity height lib sd (Client_Caching cc)
       (Client_Caching (snd (cache_update bp (framed_send bp envs) entity height recv cc)))"

fun connection_of :: "rpc_client \<Rightarrow> framed_node_client" where
  "connection_of (Client_Framed fc) = fc"
| "connection_of (Client_Caching cc) = cc_inner_client cc"

lemma method_called_framed:
  "method_called lib sd (framed_node bp envs entity) fc fc' \<Longrightarrow> (client_step bp)\<^sup>*\<^sup>* fc fc'"
  unfolding method_called_def using framed_steps.steps_methods framed_steps.steps_def by blast

lemma method_called_caching:
  "method_called lib sd (caching_node bp envs entity lock_in_time) cc cc' \<Longrightarrow>
   (client_step bp)\<^sup>*\<^sup>* (cc_inner_client cc) (cc_inner_client cc')"
  unfolding method_called_def using caching_steps.steps_methods caching_steps.steps_def by blast

lemma cache_update_steps:
  "(client_step bp)\<^sup>*\<^sup>* (cc_inner_client cc) (cc_inner_client (snd (cache_update bp (framed_send bp envs) entity height recv cc)))"
proof (cases recv)
  case (Recv_BlockAdded h)
  let ?read = "on_inner (read_block_with_signatures bp (framed_send bp envs) entity (Some (BlockIdentifier_Height h))) cc"
  have "(client_step bp)\<^sup>*\<^sup>* (cc_inner_client cc) (cc_inner_client (snd ?read))"
    by (simp add: read_block_send framed_send_step)
  then show ?thesis
    using Recv_BlockAdded
    by (cases "fst ?read")
      (auto simp: cache_update_def Let_def case_prod_unfold simp del: on_inner_simps split: option.split)
qed (simp_all add: cache_update_def)

lemma session_steps_client:
  assumes "(session_step bp entity height lib sd)\<^sup>*\<^sup>* c c'"
  shows "(client_step bp)\<^sup>*\<^sup>* (connection_of c) (connection_of c')"
  using assms
proof (induction rule: rtranclp_induct)
  case (step y z)
  from step(2) have "(client_step bp)\<^sup>*\<^sup>* (connection_of y) (connection_of z)"
    by cases (auto simp: method_called_framed method_called_caching cache_update_steps)
  with step(3) show ?case by (rule rtranclp_trans)
qed simp

lemma build_rpc_server_numbered:
  "build_rpc_server bp env tcp status_entity config network_name = Inr (c, parts) \<Longrightarrow> numbered (connection_of c)"
  by (auto simp: build_rpc_server_def result_iffs CachingNodeClient_new_def dest: new_client_numbered
      split: sum.splits if_splits)

lemma submit_Inr:
  assumes "submit (framed_node bp envs entity) invalid what transaction fc = (Inr u, fc')"
  shows "\<exists>resp. answered bp (Command_TryAcceptTransaction transaction) resp fc' \<and> bp_is_success bp (rr_response resp)"
proof -
  have "try_accept_transaction bp (framed_send bp envs) transaction fc = (Inr u, fc')"
    using assms by (auto simp: submit_def framed_node_def Let_def case_prod_unfold map_err_Inr_iff prod_eq_iff)
  then show ?thesis by (rule framed_sending.try_accept_transaction_answers)
qed

subsection \<open>Properties\<close>

text \<open>C26: the requests of a whole session are told apart by their ids.  From the start of the RPC sidecar on,
  whichever methods its servers are called with, in whatever order with the keep-alive and reconnecting loops and
  the updates of the cache, the ids of the requests to the node count up from 0 modulo 65536.\<close>

theorem session_requests_numbered:
  assumes "build_rpc_server bp env tcp status_entity config network_name = Inr (c, parts)"
    and "(session_step bp entity height lib sd)\<^sup>*\<^sup>* c c'"
    and "k < length (fc_requests (connection_of c'))"
  shows "fst (fc_requests (connection_of c') ! k) = of_nat k"
proof -
  have "numbered (connection_of c')"
    using client_steps_numbered session_steps_client [OF assms(2)] build_rpc_server_numbered [OF assms(1)] by blast
  then have ids: "map fst (fc_requests (connection_of c')) = map of_nat [0..<length (fc_requests (connection_of c'))]"
    by (simp add: numbered_def)
  show ?thesis using arg_cong [OF ids, of "\<lambda>ws. ws ! k"] assms(3) by simp
qed

text \<open>C28: the second version of the auction information is read from one state.  For a requested block, every
  request that the method sends asks for the header of that block, for the range of available blocks, or for
  something in the state of that block.\<close>

theorem auction_info_v2_reads_one_state:
  assumes "snd (GetAuctionInfoV2 lib (framed_node bp envs entity) (Some block) fc) = fc'"
    and "(i, bytes) \<in> set (drop (length (fc_requests fc)) (fc_requests fc'))"
  shows "\<exists>request. bytes = encode_request bp (Command_Get request) i \<and>
    (request = bp_information bp Info_AvailableBlockRange \<or>
     request = bp_information bp (Info_BlockHeader (Some block)) \<or>
     (\<exists>qualifier. request = GetRequest_State
        \<lparr> gs_state_identifier = Some (rl_state_identifier_from lib block), gs_qualifier = qualifier \<rparr>))"
proof -
  define P where "P c \<longleftrightarrow> (\<exists>request. c = Command_Get request \<and>
    (request = bp_information bp Info_AvailableBlockRange \<or>
     request = bp_information bp (Info_BlockHeader (Some block)) \<or>
     (\<exists>qualifier. request = GetRequest_State
        \<lparr> gs_state_identifier = Some (rl_state_identifier_from lib block), gs_qualifier = qualifier \<rparr>)))" for c
  have "framed_sent.steps bp P (auction_data lib (framed_node bp envs entity) Some (Some block))"
    by (rule framed_sent.steps_auction_data) (simp_all add: P_def framed_node_def)
  then have "framed_sent.steps bp P (GetAuctionInfoV2 lib (framed_node bp envs entity) (Some block))"
    unfolding GetAuctionInfoV2_def by (intro framed_sent.steps_rules)
  then obtain sent where "fc_requests fc' = fc_requests fc @ sent"
    and "\<forall>(i, bytes) \<in> set sent. \<exists>c. P c \<and> bytes = encode_request bp c i"
    using assms(1) unfolding framed_sent.steps_def sent_only_def by blast
  then show ?thesis using assms(2) by (auto simp: P_def)
qed


text \<open>A sidecar with the cache whose node does not answer.\<close>

definition sample_rpc_config :: rpc_server_config where
  "sample_rpc_config = \<lparr> rs_main_server = server_config.extend sample_server_config \<lparr> rc_enable_block_prefetch = True \<rparr>,
     rs_speculative_exec_server = None, rs_exponential_backoff = sample_backoff, rs_node_address = ''node:7779'' \<rparr>"

definition silent_connection :: connection where
  "silent_connection = \<lparr> cn_sends = [], cn_inbound = [] \<rparr>"

definition silent_client :: framed_node_client where
  "silent_client = \<lparr> fc_client = silent_connection, fc_reconnect = False, fc_current_request_id = 0, fc_requests = [],
     fc_metrics = [] \<rparr>"

lemma sample_build:
  "build_rpc_server sample_port sample_request_env (\<lambda>_. Inr silent_connection) status_entity sample_rpc_config None =
   Inr (Client_Caching (CachingNodeClient_new silent_client), rpc_parts sample_rpc_config)"
  by (simp add: build_rpc_server_def FramedNodeClient_new_def connect_with_retries_def connect_attempts.simps
      sample_rpc_config_def server_config.defs silent_client_def INITIAL_REQUEST_ID_def)

lemma silent_request:
  assumes "cn_sends (fc_client fc) = []"
  shows "fc_requests (snd (framed_send bp (\<lambda>_. sample_request_env) c fc)) =
    fc_requests fc @ [(fc_current_request_id fc, encode_request bp c (fc_current_request_id fc))]"
    and "fst (framed_send bp (\<lambda>_. sample_request_env) c fc) = Inl CE_ConnectionLost"
  using assms
  by (simp_all add: framed_send_def send_request_def send_request_internal_def generate_payload_def next_id_def conn_send_def
      register_metric_def Let_def sample_request_env_def)

theorem session_requests_numbered_witness:
  "\<forall>status_entity entity height lib sd. \<exists>c c'.
     build_rpc_server sample_port sample_request_env (\<lambda>_. Inr silent_connection) status_entity sample_rpc_config None =
       Inr (c, rpc_parts sample_rpc_config) \<and>
     (session_step sample_port entity height lib sd)\<^sup>*\<^sup>* c c' \<and> length (fc_requests (connection_of c')) = 1 \<and>
     fst (fc_requests (connection_of c') ! 0) = 0"
proof (intro allI)
  fix status_entity :: "node_status payload_entity" and entity :: "block_with_signatures payload_entity"
    and height :: "block_with_signatures \<Rightarrow> u64" and lib :: rpc_lib and sd :: rpc_serde
  define c where "c = Client_Caching (CachingNodeClient_new silent_client :: (_, block_with_signatures) caching_node_client)"
  define c' where "c' = Client_Caching (snd (cache_update sample_port (framed_send sample_port (\<lambda>_. sample_request_env)) entity
    height (Recv_BlockAdded 5) (CachingNodeClient_new silent_client)))"
  have built: "build_rpc_server sample_port sample_request_env (\<lambda>_. Inr silent_connection) status_entity sample_rpc_config None =
      Inr (c, rpc_parts sample_rpc_config)"
    by (simp add: sample_build c_def)
  have steps: "(session_step sample_port entity height lib sd)\<^sup>*\<^sup>* c c'"
    unfolding c_def c'_def by (rule r_into_rtranclp) (rule Session_cache_update)
  have len: "length (fc_requests (connection_of c')) = 1"
    by (simp add: c'_def cache_update_def known_at_least_def CachingNodeClient_new_def Let_def case_prod_unfold
        on_inner_def read_block_send silent_request silent_client_def silent_connection_def split: sum.split option.split)
  show "\<exists>c c'. build_rpc_server sample_port sample_request_env (\<lambda>_. Inr silent_connection) status_entity sample_rpc_config None =
       Inr (c, rpc_parts sample_rpc_config) \<and>
     (session_step sample_port entity height lib sd)\<^sup>*\<^sup>* c c' \<and> length (fc_requests (connection_of c')) = 1 \<and>
     fst (fc_requests (connection_of c') ! 0) = 0"
    using built steps len session_requests_numbered [OF built steps, of 0] by auto
qed

theorem auction_info_v2_reads_one_state_witness:
  "\<forall>lib entity block. \<exists>i bytes request.
     (i, bytes) \<in> set (fc_requests (snd (GetAuctionInfoV2 lib (framed_node sample_port (\<lambda>_. sample_request_env) entity)
        (Some block) silent_client))) \<and>
     bytes = encode_request sample_port (Command_Get request) i"
proof (intro allI)
  fix lib :: rpc_lib and entity :: "block_with_signatures payload_entity" and block :: block_identifier
  let ?node = "framed_node sample_port (\<lambda>_. sample_request_env) entity"
  let ?fc = "snd (GetAuctionInfoV2 lib ?node (Some block) silent_client)"
  let ?request = "Command_Get (bp_information sample_port (Info_BlockHeader (Some block)))"
  have "fc_requests ?fc = [(0, encode_request sample_port ?request 0)]"
    by (simp add: GetAuctionInfoV2_def rpc_result_of_def auction_data_def rpc_bind_def get_block_header_def node_request_def
        read_block_header_def read_info_def then_ok_def Let_def case_prod_unfold framed_node_def silent_request
        silent_client_def silent_connection_def)
  then have "\<exists>i bytes. (i, bytes) \<in> set (fc_requests ?fc)"
    by auto
  then show "\<exists>i bytes request. (i, bytes) \<in> set (fc_requests ?fc) \<and> bytes = encode_request sample_port (Command_Get request) i"
    using auction_info_v2_reads_one_state [of lib sample_port "\<lambda>_. sample_request_env" entity block silent_client ?fc]
    by (fastforce simp: silent_client_def)
qed

lemma sample_accepts:
  "\<exists>fc'. send_request_internal sample_port req (sample_client [[5, 0, 0, 0, 1, 0, 7, 3, 0]] 3) =
     (Inr \<lparr> rr_response = \<lparr> br_error_code = 0, br_type_tag = Some 7, br_payload = [5, 0, 0, 0, 1, 0, 7, 3, 0] \<rparr>,
           rr_request = [5, 0, 0, 0, 1, 0, 7, 3, 0] \<rparr>, fc')"
proof -
  have "\<exists>fc'. send_request_internal sample_port req (sample_client [[5, 0, 0, 0, 1, 0, 7, 3, 0]] 3) =
     (Inr \<lparr> rr_response = \<lparr> br_error_code = 0, br_type_tag = Some 7, br_payload = [5, 0, 0, 0, 1, 0, 7, 3, 0] \<rparr>,
           rr_request = [5, 0, 0, 0, 1, 0, 7, 3, 0] \<rparr>, fc') \<and> cn_inbound (fc_client fc') = [] \<and>
    fc_metrics fc' = fc_metrics (sample_client [[5, 0, 0, 0, 1, 0, 7, 3, 0]] 3) @ replicate (length ([] :: u8 list list)) Mismatched_Id"
    by (rule send_request_internal_skips [of _ "[]" _ "[5, 0, 0, 0, 1, 0, 7, 3, 0]"])
      (simp_all add: sample_port_defs)
  then show ?thesis by blast
qed


end
