(* ===== verification/Sql_Tables.thy ===== *)
theory Sql_Tables
  imports Sidecar_Prelude
begin

text \<open>
  The statements that the modules of \<open>event_sidecar/src/sql/tables\<close> build with the query builder
  \<open>sea_query\<close>, as data: the definitions of the tables with their keys, the insertions and the
  queries.  Identifiers of tables and columns are the variants of the \<open>Iden\<close> enums of the
  modules; equally named columns of several tables are one variant.
\<close>

subsection \<open>Statements\<close>

datatype table_name =
    T_EventType | T_TransactionType | T_EventLog | T_TransactionEvent | T_BlockAdded | T_TransactionAccepted
  | T_TransactionProcessed | T_TransactionExpired | T_Fault | T_FinalitySignature | T_Step | T_Shutdown | T_Migration

datatype col =
    EventLogId | EventTypeId | EventSourceAddress | EventId | EventKey | InsertedTimestamp | EmittedTimestamp
  | ApiVersionCol | NetworkName | EventTypeName | TransactionTypeIdCol | TransactionTypeName | TransactionHashCol
  | Raw | Height | BlockHash | Era | PublicKeyCol | ShutdownTimestamp | Version | IsSuccess

datatype sql_value = V_Int int | V_Text string | V_Bool bool | V_Time nat

datatype col_type =
    Integer | BigInteger | BigUnsigned | TinyUnsigned | StringType | TextType | TimestampType | DateTime | Boolean
  | DecimalLen nat nat

record column_def =
  cd_column :: col
  cd_type :: col_type
  cd_not_null :: bool
  cd_unique_key :: bool
  cd_primary_key :: bool
  cd_auto_increment :: bool
  cd_current_timestamp :: bool

definition ColumnDef_new :: "col \<Rightarrow> col_type \<Rightarrow> column_def" where
  "ColumnDef_new c t = \<lparr> cd_column = c, cd_type = t, cd_not_null = False, cd_unique_key = False, cd_primary_key = False,
     cd_auto_increment = False, cd_current_timestamp = False \<rparr>"

abbreviation not_null :: "col \<Rightarrow> col_type \<Rightarrow> column_def" where
  "not_null c t \<equiv> (ColumnDef_new c t)\<lparr> cd_not_null := True \<rparr>"

datatype index_kind = PrimaryIndex | UniqueIndex

record index_def =
  ix_name :: string
  ix_kind :: index_kind
  ix_cols :: "col list"

text \<open>All foreign keys restrict deletions and updates.\<close>

record foreign_key =
  fk_name :: string
  fk_from :: col
  fk_to_table :: table_name
  fk_to_col :: col

text \<open>\<open>CREATE TABLE IF NOT EXISTS\<close>\<close>

record table_create =
  tc_table :: table_name
  tc_cols :: "column_def list"
  tc_indexes :: "index_def list"
  tc_foreign_keys :: "foreign_key list"

record insert_statement =
  is_table :: table_name
  is_columns :: "col list"
  is_rows :: "sql_value list list"
  is_returning :: "col option"
  is_on_conflict_do_nothing :: "col option"

text \<open>\<open>InsertStatement::values\<close> refuses rows that do not have a value for each column.\<close>

datatype sea_query_error = ColValNumMismatch nat nat

definition insert_values :: "insert_statement \<Rightarrow> sql_value list \<Rightarrow> sea_query_error + insert_statement" where
  "insert_values stmt values =
     (if length (is_columns stmt) \<noteq> length values then Inl (ColValNumMismatch (length (is_columns stmt)) (length values))
      else Inr (stmt\<lparr> is_rows := is_rows stmt @ [values] \<rparr>))"

definition insert_into :: "table_name \<Rightarrow> col list \<Rightarrow> insert_statement" where
  "insert_into t columns = \<lparr> is_table = t, is_columns = columns, is_rows = [], is_returning = None,
     is_on_conflict_do_nothing = None \<rparr>"

text \<open>The queries: the raw event with the version and the network of its log entry, by equalities on columns or
  by the maximum of a column; and the two queries on other tables.\<close>

record select_statement =
  ss_table :: table_name
  ss_where :: "(col \<times> sql_value) list"
  ss_max :: "col option"

subsection \<open>Values\<close>

definition v_u64 :: "u64 \<Rightarrow> sql_value" where "v_u64 w = V_Int (uint w)"
definition v_u32 :: "u32 \<Rightarrow> sql_value" where "v_u32 w = V_Int (uint w)"
definition v_u8 :: "u8 \<Rightarrow> sql_value" where "v_u8 w = V_Int (uint w)"

lemma v_inject [simp]: "v_u64 a = v_u64 b \<longleftrightarrow> a = b" "v_u32 c = v_u32 d \<longleftrightarrow> c = d" "v_u8 e = v_u8 f \<longleftrightarrow> e = f"
  by (simp_all add: v_u64_def v_u32_def v_u8_def word_uint_eq_iff)

subsection \<open>Types of events and transactions\<close>

datatype event_type_id =
    Ev_BlockAdded | Ev_TransactionAccepted | Ev_TransactionExpired | Ev_TransactionProcessed | Ev_Fault
  | Ev_FinalitySignature | Ev_Step | Ev_Shutdown

fun event_type_number :: "event_type_id \<Rightarrow> u8" where
  "event_type_number Ev_BlockAdded = 1"
| "event_type_number Ev_TransactionAccepted = 2"
| "event_type_number Ev_TransactionExpired = 3"
| "event_type_number Ev_TransactionProcessed = 4"
| "event_type_number Ev_Fault = 5"
| "event_type_number Ev_FinalitySignature = 6"
| "event_type_number Ev_Step = 7"
| "event_type_number Ev_Shutdown = 8"

definition event_type_create_table :: table_create where
  "event_type_create_table = \<lparr> tc_table = T_EventType,
     tc_cols = [(not_null EventTypeId Integer)\<lparr> cd_primary_key := True \<rparr>,
                (not_null EventTypeName StringType)\<lparr> cd_unique_key := True \<rparr>],
     tc_indexes = [], tc_foreign_keys = [] \<rparr>"

definition event_type_initialise :: "sea_query_error + insert_statement" where
  "event_type_initialise =
     (let value = \<lambda>t name stmt. insert_values stmt [v_u8 (event_type_number t), V_Text name] in
      and_then (value Ev_BlockAdded ''BlockAdded'' (insert_into T_EventType [EventTypeId, EventTypeName])) (\<lambda>stmt.
      and_then (value Ev_TransactionAccepted ''TransactionAccepted'' stmt) (\<lambda>stmt.
      and_then (value Ev_TransactionExpired ''TransactionExpired'' stmt) (\<lambda>stmt.
      and_then (value Ev_TransactionProcessed ''TransactionProcessed'' stmt) (\<lambda>stmt.
      and_then (value Ev_Fault ''Fault'' stmt) (\<lambda>stmt.
      and_then (value Ev_FinalitySignature ''FinalitySignature'' stmt) (\<lambda>stmt.
      and_then (value Ev_Step ''Step'' stmt) (\<lambda>stmt.
      and_then (value Ev_Shutdown ''Shutdown'' stmt) (\<lambda>stmt.
      Inr (stmt\<lparr> is_on_conflict_do_nothing := Some EventTypeId \<rparr>))))))))))"

datatype transaction_type_id = TxType_Deploy | TxType_Version1

fun transaction_type_number :: "transaction_type_id \<Rightarrow> u8" where
  "transaction_type_number TxType_Deploy = 0"
| "transaction_type_number TxType_Version1 = 1"

definition transaction_type_create_table :: table_create where
  "transaction_type_create_table = \<lparr> tc_table = T_TransactionType,
     tc_cols = [(not_null TransactionTypeIdCol Integer)\<lparr> cd_primary_key := True \<rparr>,
                (not_null TransactionTypeName StringType)\<lparr> cd_unique_key := True \<rparr>],
     tc_indexes = [], tc_foreign_keys = [] \<rparr>"

definition transaction_type_initialise :: "sea_query_error + insert_statement" where
  "transaction_type_initialise =
     and_then (insert_values (insert_into T_TransactionType [TransactionTypeIdCol, TransactionTypeName])
         [v_u8 (transaction_type_number TxType_Deploy), V_Text ''Deploy'']) (\<lambda>stmt.
     and_then (insert_values stmt [v_u8 (transaction_type_number TxType_Version1), V_Text ''Version1'']) (\<lambda>stmt.
     Inr (stmt\<lparr> is_on_conflict_do_nothing := Some TransactionTypeIdCol \<rparr>)))"

subsection \<open>The log of events\<close>

definition event_log_create_table :: table_create where
  "event_log_create_table = \<lparr> tc_table = T_EventLog,
     tc_cols = [(not_null EventLogId BigInteger)\<lparr> cd_auto_increment := True, cd_primary_key := True \<rparr>,
                not_null EventTypeId TinyUnsigned,
                not_null EventSourceAddress StringType,
                not_null EventId BigInteger,
                not_null EventKey StringType,
                (not_null InsertedTimestamp TimestampType)\<lparr> cd_current_timestamp := True \<rparr>,
                (not_null EmittedTimestamp TimestampType)\<lparr> cd_current_timestamp := True \<rparr>,
                not_null ApiVersionCol StringType,
                not_null NetworkName StringType],
     tc_indexes = [\<lparr> ix_name = ''UDX_event_log'', ix_kind = UniqueIndex,
                     ix_cols = [EventSourceAddress, EventId, EventTypeId, EventKey] \<rparr>],
     tc_foreign_keys = [\<lparr> fk_name = ''FK_event_type_id'', fk_from = EventTypeId, fk_to_table = T_EventType,
                          fk_to_col = EventTypeId \<rparr>] \<rparr>"

definition event_log_insert ::
  "u8 \<Rightarrow> string \<Rightarrow> u32 \<Rightarrow> string \<Rightarrow> string \<Rightarrow> string \<Rightarrow> sea_query_error + insert_statement" where
  "event_log_insert event_type_id event_source_address event_id event_key api_version network_name =
     and_then (insert_values
       (insert_into T_EventLog [EventTypeId, EventSourceAddress, EventId, EventKey, ApiVersionCol, NetworkName])
       [v_u8 event_type_id, V_Text event_source_address, v_u32 event_id, V_Text event_key, V_Text api_version,
        V_Text network_name]) (\<lambda>stmt. Inr (stmt\<lparr> is_returning := Some EventLogId \<rparr>))"

text \<open>The foreign key to the log and the one to the types of transactions.\<close>

definition event_log_fk :: foreign_key where
  "event_log_fk = \<lparr> fk_name = ''FK_event_log_id'', fk_from = EventLogId, fk_to_table = T_EventLog, fk_to_col = EventLogId \<rparr>"

definition transaction_type_fk :: foreign_key where
  "transaction_type_fk = \<lparr> fk_name = ''FK_transaction_type_id'', fk_from = TransactionTypeIdCol,
     fk_to_table = T_TransactionType, fk_to_col = TransactionTypeIdCol \<rparr>"

abbreviation primary_index :: "string \<Rightarrow> col list \<Rightarrow> index_def" where
  "primary_index name columns \<equiv> \<lparr> ix_name = name, ix_kind = PrimaryIndex, ix_cols = columns \<rparr>"

definition transaction_event_create_table :: table_create where
  "transaction_event_create_table = \<lparr> tc_table = T_TransactionEvent,
     tc_cols = [not_null EventLogId BigUnsigned, not_null TransactionHashCol StringType,
                not_null TransactionTypeIdCol TinyUnsigned],
     tc_indexes = [primary_index ''PDX_TransactionEvent'' [TransactionHashCol, TransactionTypeIdCol, EventLogId]],
     tc_foreign_keys = [event_log_fk, transaction_type_fk] \<rparr>"

definition transaction_event_insert :: "u64 \<Rightarrow> u8 \<Rightarrow> string \<Rightarrow> sea_query_error + insert_statement" where
  "transaction_event_insert event_log_id transaction_type transaction_hash =
     insert_values (insert_into T_TransactionEvent [TransactionTypeIdCol, EventLogId, TransactionHashCol])
       [v_u8 transaction_type, v_u64 event_log_id, V_Text transaction_hash]"

subsection \<open>Blocks\<close>

definition block_added_create_table :: table_create where
  "block_added_create_table = \<lparr> tc_table = T_BlockAdded,
     tc_cols = [(not_null Height BigUnsigned)\<lparr> cd_unique_key := True \<rparr>,
                not_null BlockHash StringType, not_null Raw TextType, not_null EventLogId BigUnsigned],
     tc_indexes = [primary_index ''PDX_BlockAdded'' [BlockHash, Height]],
     tc_foreign_keys = [event_log_fk] \<rparr>"

definition block_added_insert :: "u64 \<Rightarrow> string \<Rightarrow> string \<Rightarrow> u64 \<Rightarrow> sea_query_error + insert_statement" where
  "block_added_insert height block_hash raw event_log_id =
     insert_values (insert_into T_BlockAdded [Height, BlockHash, Raw, EventLogId])
       [v_u64 height, V_Text block_hash, V_Text raw, v_u64 event_log_id]"

definition block_added_get_by_hash :: "string \<Rightarrow> select_statement" where
  "block_added_get_by_hash block_hash =
     \<lparr> ss_table = T_BlockAdded, ss_where = [(BlockHash, V_Text block_hash)], ss_max = None \<rparr>"

definition block_added_get_by_height :: "u64 \<Rightarrow> select_statement" where
  "block_added_get_by_height height =
     \<lparr> ss_table = T_BlockAdded, ss_where = [(Height, v_u64 height)], ss_max = None \<rparr>"

definition block_added_get_latest :: select_statement where
  "block_added_get_latest = \<lparr> ss_table = T_BlockAdded, ss_where = [], ss_max = Some Height \<rparr>"

subsection \<open>Transactions\<close>

definition transaction_accepted_create_table :: table_create where
  "transaction_accepted_create_table = \<lparr> tc_table = T_TransactionAccepted,
     tc_cols = [not_null TransactionHashCol StringType, not_null TransactionTypeIdCol TinyUnsigned,
                not_null Raw TextType, not_null EventLogId BigUnsigned],
     tc_indexes = [primary_index ''PDX_TransactionAccepted'' [TransactionTypeIdCol, TransactionHashCol]],
     tc_foreign_keys = [event_log_fk, transaction_type_fk] \<rparr>"

definition transaction_accepted_insert :: "u8 \<Rightarrow> string \<Rightarrow> string \<Rightarrow> u64 \<Rightarrow> sea_query_error + insert_statement" where
  "transaction_accepted_insert transaction_type transaction_hash raw event_log_id =
     insert_values (insert_into T_TransactionAccepted [TransactionTypeIdCol, TransactionHashCol, Raw, EventLogId])
       [v_u8 transaction_type, V_Text transaction_hash, V_Text raw, v_u64 event_log_id]"

definition transaction_accepted_get_by_hash :: "u8 \<Rightarrow> string \<Rightarrow> select_statement" where
  "transaction_accepted_get_by_hash transaction_type transaction_hash =
     \<lparr> ss_table = T_TransactionAccepted,
       ss_where = [(TransactionTypeIdCol, v_u8 transaction_type), (TransactionHashCol, V_Text transaction_hash)], ss_max = None \<rparr>"

definition transaction_processed_create_table :: table_create where
  "transaction_processed_create_table = \<lparr> tc_table = T_TransactionProcessed,
     tc_cols = [not_null TransactionHashCol StringType, not_null TransactionTypeIdCol TinyUnsigned,
                not_null Raw TextType, not_null EventLogId BigUnsigned],
     tc_indexes = [primary_index ''PDX_TransactionProcessed'' [TransactionHashCol, TransactionTypeIdCol]],
     tc_foreign_keys = [event_log_fk, transaction_type_fk] \<rparr>"

definition transaction_processed_insert :: "u8 \<Rightarrow> string \<Rightarrow> string \<Rightarrow> u64 \<Rightarrow> sea_query_error + insert_statement" where
  "transaction_processed_insert transaction_type transaction_hash raw event_log_id =
     insert_values (insert_into T_TransactionProcessed [TransactionTypeIdCol, TransactionHashCol, Raw, EventLogId])
       [v_u8 transaction_type, V_Text transaction_hash, V_Text raw, v_u64 event_log_id]"

definition transaction_processed_get_by_hash :: "u8 \<Rightarrow> string \<Rightarrow> select_statement" where
  "transaction_processed_get_by_hash transaction_type transaction_hash =
     \<lparr> ss_table = T_TransactionProcessed,
       ss_where = [(TransactionTypeIdCol, v_u8 transaction_type), (TransactionHashCol, V_Text transaction_hash)], ss_max = None \<rparr>"

definition transaction_expired_create_table :: table_create where
  "transaction_expired_create_table = \<lparr> tc_table = T_TransactionExpired,
     tc_cols = [not_null TransactionHashCol StringType, not_null TransactionTypeIdCol TinyUnsigned,
                not_null Raw TextType, not_null EventLogId BigUnsigned],
     tc_indexes = [primary_index ''PDX_TransactionExpired'' [TransactionHashCol]],
     tc_foreign_keys = [event_log_fk, transaction_type_fk] \<rparr>"

definition transaction_expired_insert :: "u8 \<Rightarrow> string \<Rightarrow> u64 \<Rightarrow> string \<Rightarrow> sea_query_error + insert_statement" where
  "transaction_expired_insert transaction_type transaction_hash event_log_id raw =
     insert_values (insert_into T_TransactionExpired [TransactionTypeIdCol, TransactionHashCol, EventLogId, Raw])
       [v_u8 transaction_type, V_Text transaction_hash, v_u64 event_log_id, V_Text raw]"

definition transaction_expired_get_by_hash :: "u8 \<Rightarrow> string \<Rightarrow> select_statement" where
  "transaction_expired_get_by_hash transaction_type transaction_hash =
     \<lparr> ss_table = T_TransactionExpired,
       ss_where = [(TransactionTypeIdCol, v_u8 transaction_type), (TransactionHashCol, V_Text transaction_hash)], ss_max = None \<rparr>"

subsection \<open>Faults, finality signatures, steps and shutdowns\<close>

text \<open>Where the database has no unsigned integers, an era is a decimal number of 20 digits.\<close>

definition era_type :: "bool \<Rightarrow> col_type" where
  "era_type db_supports_unsigned = (if db_supports_unsigned then BigUnsigned else DecimalLen 20 0)"

definition fault_create_table :: "bool \<Rightarrow> table_create" where
  "fault_create_table db_supports_unsigned = \<lparr> tc_table = T_Fault,
     tc_cols = [not_null Era (era_type db_supports_unsigned), not_null PublicKeyCol StringType, not_null Raw TextType,
                not_null EventLogId BigUnsigned],
     tc_indexes = [primary_index ''PDX_Fault'' [Era, PublicKeyCol]],
     tc_foreign_keys = [event_log_fk] \<rparr>"

definition fault_insert :: "u64 \<Rightarrow> string \<Rightarrow> string \<Rightarrow> u64 \<Rightarrow> sea_query_error + insert_statement" where
  "fault_insert era public_key raw event_log_id =
     insert_values (insert_into T_Fault [Era, PublicKeyCol, Raw, EventLogId])
       [v_u64 era, V_Text public_key, V_Text raw, v_u64 event_log_id]"

definition fault_get_by_public_key :: "string \<Rightarrow> select_statement" where
  "fault_get_by_public_key public_key =
     \<lparr> ss_table = T_Fault, ss_where = [(PublicKeyCol, V_Text public_key)], ss_max = None \<rparr>"

definition fault_get_by_era :: "u64 \<Rightarrow> select_statement" where
  "fault_get_by_era era = \<lparr> ss_table = T_Fault, ss_where = [(Era, v_u64 era)], ss_max = None \<rparr>"

definition finality_signature_create_table :: table_create where
  "finality_signature_create_table = \<lparr> tc_table = T_FinalitySignature,
     tc_cols = [not_null BlockHash StringType, not_null PublicKeyCol StringType, not_null Raw TextType,
                not_null EventLogId BigUnsigned],
     tc_indexes = [primary_index ''PDX_FinalitySignature'' [BlockHash, PublicKeyCol]],
     tc_foreign_keys = [event_log_fk] \<rparr>"

definition finality_signature_insert :: "string \<Rightarrow> string \<Rightarrow> string \<Rightarrow> u64 \<Rightarrow> sea_query_error + insert_statement" where
  "finality_signature_insert block_hash public_key raw event_log_id =
     insert_values (insert_into T_FinalitySignature [BlockHash, PublicKeyCol, Raw, EventLogId])
       [V_Text block_hash, V_Text public_key, V_Text raw, v_u64 event_log_id]"

definition finality_signature_get_by_block :: "string \<Rightarrow> select_statement" where
  "finality_signature_get_by_block block_hash =
     \<lparr> ss_table = T_FinalitySignature, ss_where = [(BlockHash, V_Text block_hash)], ss_max = None \<rparr>"

definition step_create_table :: "bool \<Rightarrow> table_create" where
  "step_create_table db_supports_unsigned = \<lparr> tc_table = T_Step,
     tc_cols = [not_null Era (era_type db_supports_unsigned), not_null Raw TextType, not_null EventLogId BigUnsigned],
     tc_indexes = [primary_index ''PDX_Step'' [Era]],
     tc_foreign_keys = [event_log_fk] \<rparr>"

definition step_insert :: "u64 \<Rightarrow> string \<Rightarrow> u64 \<Rightarrow> sea_query_error + insert_statement" where
  "step_insert era raw event_log_id =
     insert_values (insert_into T_Step [Era, Raw, EventLogId]) [v_u64 era, V_Text raw, v_u64 event_log_id]"

definition step_get_by_era :: "u64 \<Rightarrow> select_statement" where
  "step_get_by_era era = \<lparr> ss_table = T_Step, ss_where = [(Era, v_u64 era)], ss_max = None \<rparr>"

definition shutdown_create_table :: table_create where
  "shutdown_create_table = \<lparr> tc_table = T_Shutdown,
     tc_cols = [not_null EventSourceAddress TextType,
                (not_null ShutdownTimestamp DateTime)\<lparr> cd_current_timestamp := True \<rparr>,
                not_null EventLogId BigUnsigned],
     tc_indexes = [primary_index ''PDX_Shutdown'' [EventSourceAddress, ShutdownTimestamp]],
     tc_foreign_keys = [event_log_fk] \<rparr>"

definition shutdown_insert :: "string \<Rightarrow> u64 \<Rightarrow> sea_query_error + insert_statement" where
  "shutdown_insert event_source_address event_log_id =
     insert_values (insert_into T_Shutdown [EventSourceAddress, EventLogId]) [V_Text event_source_address, v_u64 event_log_id]"

subsection \<open>Migrations\<close>

definition migration_create_table :: table_create where
  "migration_create_table = \<lparr> tc_table = T_Migration,
     tc_cols = [not_null Version Integer, not_null IsSuccess Boolean],
     tc_indexes = [primary_index ''PDX_Migration'' [Version]], tc_foreign_keys = [] \<rparr>"

definition migration_insert :: "u32 \<Rightarrow> bool \<Rightarrow> sea_query_error + insert_statement" where
  "migration_insert version is_success =
     insert_values (insert_into T_Migration [Version, IsSuccess]) [v_u32 version, V_Bool is_success]"

subsection \<open>All insertions can be built\<close>

text \<open>Every insertion of the modules has a value for each of its columns.\<close>

lemma insert_values_ok [simp]:
  "length columns = length values \<Longrightarrow>
   insert_values (insert_into t columns) values = Inr ((insert_into t columns)\<lparr> is_rows := [values] \<rparr>)"
  by (simp add: insert_values_def insert_into_def)

lemmas insert_defs = event_log_insert_def transaction_event_insert_def block_added_insert_def
  transaction_accepted_insert_def transaction_processed_insert_def transaction_expired_insert_def fault_insert_def
  finality_signature_insert_def step_insert_def shutdown_insert_def migration_insert_def

lemmas create_defs = event_type_create_table_def transaction_type_create_table_def event_log_create_table_def
  transaction_event_create_table_def block_added_create_table_def transaction_accepted_create_table_def
  transaction_processed_create_table_def transaction_expired_create_table_def fault_create_table_def
  finality_signature_create_table_def step_create_table_def shutdown_create_table_def migration_create_table_def

end
