(* ===== verification/Sql_Engine.thy ===== *)
theory Sql_Engine
  imports Sql_Tables
begin

text \<open>
  The meaning of the statements in SQL, on a database that is a list of rows per table.  A row is
  inserted with the defaults of its columns, unless a column that must not be null has no value, a
  key of the table is taken or a foreign key has nothing to refer to.  Which error the driver makes
  of such a failure is a parameter of the components that use this theory.
\<close>

subsection \<open>Databases\<close>

type_synonym row = "col \<Rightarrow> sql_value option"

record sql_table =
  tb_create :: table_create
  tb_rows :: "row list"
  tb_last_id :: nat

type_synonym database = "table_name \<Rightarrow> sql_table option"

datatype sql_failure =
    Failure_Unique table_name index_kind "col list"
  | Failure_NotNull table_name
  | Failure_ForeignKey table_name
  | Failure_NoTable table_name

subsection \<open>Insertion\<close>

text \<open>The keys of a table: its indexes and its columns that are keys by themselves.\<close>

definition table_keys :: "table_create \<Rightarrow> (index_kind \<times> col list) list" where
  "table_keys create =
     map (\<lambda>ix. (ix_kind ix, ix_cols ix)) (tc_indexes create) @
     map (\<lambda>cd. (if cd_primary_key cd then PrimaryIndex else UniqueIndex, [cd_column cd]))
       (filter (\<lambda>cd. cd_primary_key cd \<or> cd_unique_key cd) (tc_cols create))"

text \<open>The value of a column of a new row: the given one, or the default.\<close>

definition new_value :: "nat \<Rightarrow> nat \<Rightarrow> (col \<times> sql_value) list \<Rightarrow> column_def \<Rightarrow> sql_value option" where
  "new_value now next_id given cd =
     (case map_of given (cd_column cd) of
        Some v \<Rightarrow> Some v
      | None \<Rightarrow>
          if cd_auto_increment cd then Some (V_Int (int next_id))
          else if cd_current_timestamp cd then Some (V_Time now) else None)"

definition new_row :: "nat \<Rightarrow> nat \<Rightarrow> (col \<times> sql_value) list \<Rightarrow> table_create \<Rightarrow> row" where
  "new_row now next_id given create =
     (\<lambda>c. Option.bind (map_of (map (\<lambda>cd. (cd_column cd, new_value now next_id given cd)) (tc_cols create)) c) (\<lambda>v. v))"

definition same_key :: "col list \<Rightarrow> row \<Rightarrow> row \<Rightarrow> bool" where
  "same_key key r s \<longleftrightarrow> map r key = map s key"

definition violated_key :: "row list \<Rightarrow> row \<Rightarrow> table_create \<Rightarrow> (index_kind \<times> col list) option" where
  "violated_key rows row create = find (\<lambda>(_, key). list_ex (same_key key row) rows) (table_keys create)"

definition null_violation :: "row \<Rightarrow> table_create \<Rightarrow> bool" where
  "null_violation row create \<longleftrightarrow> list_ex (\<lambda>cd. cd_not_null cd \<and> row (cd_column cd) = None) (tc_cols create)"

definition refers :: "database \<Rightarrow> row \<Rightarrow> foreign_key \<Rightarrow> bool" where
  "refers db row fk \<longleftrightarrow>
     (case db (fk_to_table fk) of
        None \<Rightarrow> False
      | Some tb \<Rightarrow> list_ex (\<lambda>r. r (fk_to_col fk) = row (fk_from fk)) (tb_rows tb))"

definition insert_row ::
  "nat \<Rightarrow> insert_statement \<Rightarrow> sql_value list \<Rightarrow> database \<Rightarrow> sql_failure + (row option \<times> database)" where
  "insert_row now stmt values db =
     (case db (is_table stmt) of
        None \<Rightarrow> Inl (Failure_NoTable (is_table stmt))
      | Some tb \<Rightarrow>
          (let next_id = Suc (tb_last_id tb); create = tb_create tb;
               row = new_row now next_id (zip (is_columns stmt) values) create in
           if null_violation row create then Inl (Failure_NotNull (is_table stmt))
           else if is_on_conflict_do_nothing stmt \<noteq> None \<and>
             list_ex (same_key [the (is_on_conflict_do_nothing stmt)] row) (tb_rows tb) then Inr (None, db)
           else (case violated_key (tb_rows tb) row create of
              Some (kind, key) \<Rightarrow> Inl (Failure_Unique (is_table stmt) kind key)
            | None \<Rightarrow>
                if \<not> list_all (refers db row) (tc_foreign_keys create) then Inl (Failure_ForeignKey (is_table stmt))
                else Inr (Some row, db(is_table stmt \<mapsto> tb\<lparr> tb_rows := tb_rows tb @ [row], tb_last_id := next_id \<rparr>)))))"

text \<open>A statement inserts its rows one after the other; its result is the inserted rows.\<close>

fun insert_rows :: "nat \<Rightarrow> insert_statement \<Rightarrow> sql_value list list \<Rightarrow> database \<Rightarrow> sql_failure + (row list \<times> database)" where
  "insert_rows now stmt [] db = Inr ([], db)"
| "insert_rows now stmt (values # rest) db =
     and_then (insert_row now stmt values db) (\<lambda>(inserted, db1).
     and_then (insert_rows now stmt rest db1) (\<lambda>(rows, db2).
     Inr (case inserted of None \<Rightarrow> rows | Some row \<Rightarrow> row # rows, db2)))"

datatype sql_statement = Create table_create | Insert insert_statement

definition execute :: "nat \<Rightarrow> sql_statement \<Rightarrow> database \<Rightarrow> sql_failure + (row list \<times> database)" where
  "execute now stmt db =
     (case stmt of
        Create create \<Rightarrow>
          Inr ([], case db (tc_table create) of
             Some _ \<Rightarrow> db
           | None \<Rightarrow> db(tc_table create \<mapsto> \<lparr> tb_create = create, tb_rows = [], tb_last_id = 0 \<rparr>))
      | Insert ins \<Rightarrow> insert_rows now ins (is_rows ins) db)"

text \<open>A batch of statements in a transaction: the number of inserted rows.\<close>

fun execute_all :: "nat \<Rightarrow> sql_statement list \<Rightarrow> database \<Rightarrow> sql_failure + (nat \<times> database)" where
  "execute_all now [] db = Inr (0, db)"
| "execute_all now (stmt # stmts) db =
     and_then (execute now stmt db) (\<lambda>(rows, db1).
     and_then (execute_all now stmts db1) (\<lambda>(n, db2). Inr (length rows + n, db2)))"

subsection \<open>Queries\<close>

definition rows_of :: "database \<Rightarrow> table_name \<Rightarrow> row list" where
  "rows_of db t = (case db t of None \<Rightarrow> [] | Some tb \<Rightarrow> tb_rows tb)"

fun int_value :: "sql_value option \<Rightarrow> int" where
  "int_value (Some (V_Int i)) = i"
| "int_value _ = 0"

definition selected :: "select_statement \<Rightarrow> row list \<Rightarrow> row \<Rightarrow> bool" where
  "selected s rows r \<longleftrightarrow>
     list_all (\<lambda>(c, v). r c = Some v) (ss_where s) \<and>
     (case ss_max s of None \<Rightarrow> True | Some c \<Rightarrow> list_all (\<lambda>r'. int_value (r' c) \<le> int_value (r c)) rows)"

text \<open>The left join with the log: the raw event of a row, and the columns of its log entry, if there is one.\<close>

definition join_log :: "row list \<Rightarrow> row \<Rightarrow> row list" where
  "join_log log r =
     (case filter (\<lambda>l. l EventLogId = r EventLogId) log of
        [] \<Rightarrow> [\<lambda>c. if c = Raw then r Raw else None]
      | ls \<Rightarrow> map (\<lambda>l c. if c = Raw then r Raw else l c) ls)"

definition select :: "database \<Rightarrow> select_statement \<Rightarrow> row list" where
  "select db s =
     (let rows = rows_of db (ss_table s) in
      concat (map (join_log (rows_of db T_EventLog)) (filter (selected s rows) rows)))"

text \<open>\<open>SELECT version, is_success FROM Migration ORDER BY version DESC LIMIT 1\<close> and \<open>SELECT COUNT(*) FROM event_log\<close>\<close>

definition select_newest_migration :: "database \<Rightarrow> row option" where
  "select_newest_migration db =
     (let rows = rows_of db T_Migration in
      find (\<lambda>r. list_all (\<lambda>r'. int_value (r' Version) \<le> int_value (r Version)) rows) rows)"

definition select_event_count :: "database \<Rightarrow> nat" where
  "select_event_count db = length (rows_of db T_EventLog)"

subsection \<open>Lemmas\<close>

lemma violated_key_None:
  "violated_key rows row create = None \<longleftrightarrow> (\<forall>(kind, key) \<in> set (table_keys create). \<forall>r \<in> set rows. \<not> same_key key row r)"
  by (auto simp: violated_key_def find_None_iff list_ex_iff)

lemma violated_key_Some:
  assumes "violated_key rows row create = Some (kind, key)"
  shows "(kind, key) \<in> set (table_keys create)" "\<exists>r \<in> set rows. same_key key row r"
  using assms by (auto simp: violated_key_def find_Some_iff list_ex_iff dest: nth_mem)

text \<open>A successful insertion of one row appends it, and only touches its table.\<close>

lemma insert_row_Inr:
  assumes "insert_row now stmt values db = Inr (inserted, db')"
  shows "inserted = None \<and> db' = db \<or>
    (\<exists>tb. db (is_table stmt) = Some tb \<and>
       inserted = Some (new_row now (Suc (tb_last_id tb)) (zip (is_columns stmt) values) (tb_create tb)) \<and>
       violated_key (tb_rows tb) (the inserted) (tb_create tb) = None \<and>
       db' = db(is_table stmt \<mapsto> tb\<lparr> tb_rows := tb_rows tb @ [the inserted], tb_last_id := Suc (tb_last_id tb) \<rparr>))"
  using assms by (auto simp: insert_row_def Let_def split: option.splits if_splits prod.splits)

text \<open>Databases only grow: tables keep their definitions and their rows.\<close>

definition extends :: "database \<Rightarrow> database \<Rightarrow> bool" where
  "extends db db' \<longleftrightarrow>
     (\<forall>t tb. db t = Some tb \<longrightarrow>
        (\<exists>tb' new. db' t = Some tb' \<and> tb_create tb' = tb_create tb \<and> tb_rows tb' = tb_rows tb @ new \<and>
           tb_last_id tb \<le> tb_last_id tb'))"

lemma extends_refl [simp]: "extends db db"
  by (auto simp: extends_def)

lemma extends_trans:
  assumes "extends db1 db2" "extends db2 db3"
  shows "extends db1 db3"
  unfolding extends_def
proof (intro allI impI)
  fix t tb
  assume "db1 t = Some tb"
  then obtain tb2 new2 where 2: "db2 t = Some tb2" "tb_create tb2 = tb_create tb" "tb_rows tb2 = tb_rows tb @ new2"
    "tb_last_id tb \<le> tb_last_id tb2"
    using assms(1) unfolding extends_def by blast
  then obtain tb3 new3 where "db3 t = Some tb3" "tb_create tb3 = tb_create tb2" "tb_rows tb3 = tb_rows tb2 @ new3"
    "tb_last_id tb2 \<le> tb_last_id tb3"
    using assms(2) unfolding extends_def by blast
  with 2 show "\<exists>tb' new. db3 t = Some tb' \<and> tb_create tb' = tb_create tb \<and> tb_rows tb' = tb_rows tb @ new \<and>
      tb_last_id tb \<le> tb_last_id tb'"
    by (intro exI [of _ tb3] exI [of _ "new2 @ new3"]) auto
qed

lemma insert_row_extends:
  assumes "insert_row now stmt values db = Inr (inserted, db')"
  shows "extends db db'"
  using insert_row_Inr [OF assms] by (auto simp: extends_def)

lemma insert_rows_extends: "insert_rows now stmt vss db = Inr (rows, db') \<Longrightarrow> extends db db'"
proof (induction vss arbitrary: db rows)
  case (Cons v vs)
  then obtain inserted db1 rows1 where "insert_row now stmt v db = Inr (inserted, db1)"
    and "insert_rows now stmt vs db1 = Inr (rows1, db')"
    by (auto simp: result_iffs)
  then show ?case using Cons.IH insert_row_extends extends_trans by blast
qed simp

lemma execute_extends: "execute now stmt db = Inr (rows, db') \<Longrightarrow> extends db db'"
proof (cases stmt)
  case (Insert ins)
  then show "execute now stmt db = Inr (rows, db') \<Longrightarrow> extends db db'"
    by (auto simp: execute_def dest: insert_rows_extends)
qed (auto simp: execute_def extends_def split: option.splits)

lemma execute_all_extends: "execute_all now stmts db = Inr (n, db') \<Longrightarrow> extends db db'"
proof (induction stmts arbitrary: db n)
  case (Cons stmt stmts)
  then obtain rows db1 m where "execute now stmt db = Inr (rows, db1)" "execute_all now stmts db1 = Inr (m, db')"
    by (auto simp: result_iffs)
  then show ?case using Cons.IH execute_extends extends_trans by blast
qed simp

lemma rows_of_extends: "extends db db' \<Longrightarrow> set (rows_of db t) \<subseteq> set (rows_of db' t)"
proof (cases "db t")
  case (Some tb)
  moreover assume "extends db db'"
  ultimately obtain tb' new where "db' t = Some tb'" "tb_rows tb' = tb_rows tb @ new"
    unfolding extends_def by blast
  with Some show ?thesis by (simp add: rows_of_def)
qed (simp add: rows_of_def)

text \<open>An insertion whose key is taken fails, whatever else is in the row.\<close>

lemma insert_taken:
  assumes "db (is_table stmt) = Some tb" "(kind, key) \<in> set (table_keys (tb_create tb))"
    and "r \<in> set (tb_rows tb)"
    and "same_key key (new_row now (Suc (tb_last_id tb)) (zip (is_columns stmt) values) (tb_create tb)) r"
    and "is_on_conflict_do_nothing stmt = None"
  shows "\<exists>failure. insert_row now stmt values db = Inl failure"
proof -
  let ?row = "new_row now (Suc (tb_last_id tb)) (zip (is_columns stmt) values) (tb_create tb)"
  have "violated_key (tb_rows tb) ?row (tb_create tb) \<noteq> None"
    using assms(2-4) by (auto simp: violated_key_None)
  then show ?thesis
    using assms(1,5) by (auto simp: insert_row_def Let_def split: option.split prod.split)
qed

end
