(* ===== verification/Event_Store.thy ===== *)
theory Event_Store
  imports Sql_Engine Sse_Data Rust_Std "HOL-Library.Option_ord"
begin

text \<open>
  The store of events: the stored types of \<open>event_sidecar/src/types/sse_events.rs\<close>, the errors and
  interfaces of \<open>types/database.rs\<close>, the writer and the reader that the macros of
  \<open>database/writer_generator.rs\<close> and \<open>database/reader_generator.rs\<close> generate for SQLite and
  PostgreSQL, and the migrations of \<open>database/migration_manager.rs\<close>.  Outcomes of the
  connection to the database, the errors that the driver makes of failed statements, and the JSON
  and hexadecimal encodings are parameters.
\<close>

subsection \<open>Stored events\<close>

record block_added =
  ba_block_hash :: block_hash
  ba_block :: block

record transaction_accepted =
  ta_transaction :: transaction

record transaction_processed =
  tp_transaction_hash :: transaction_hash
  tp_initiator_addr :: initiator_addr
  tp_timestamp :: timestamp
  tp_ttl :: time_diff
  tp_block_hash :: block_hash
  tp_execution_result :: execution_result
  tp_messages :: opaque

record transaction_expired =
  te_transaction_hash :: transaction_hash

record fault =
  fa_era_id :: era_id
  fa_public_key :: public_key
  fa_timestamp :: timestamp

record step =
  st_era_id :: era_id
  st_execution_effect :: opaque

fun finsig_block_hash :: "finality_signature \<Rightarrow> block_hash" where
  "finsig_block_hash (FinalitySignature_V1 s) = fs1_block_hash s"
| "finsig_block_hash (FinalitySignature_V2 s) = fs2_block_hash s"

fun finsig_public_key :: "finality_signature \<Rightarrow> public_key" where
  "finsig_public_key (FinalitySignature_V1 s) = fs1_public_key s"
| "finsig_public_key (FinalitySignature_V2 s) = fs2_public_key s"

text \<open>The encodings.\<close>

record store_lib =
  sl_hex_encode :: "u8 list \<Rightarrow> string"
  sl_public_key_to_hex :: "public_key \<Rightarrow> string"
  sl_block_to_json :: "block_added \<Rightarrow> string + string"
  sl_block_of_json :: "string \<Rightarrow> string + block_added"
  sl_accepted_to_json :: "transaction_accepted \<Rightarrow> string + string"
  sl_accepted_of_json :: "string \<Rightarrow> string + transaction_accepted"
  sl_processed_to_json :: "transaction_processed \<Rightarrow> string + string"
  sl_processed_of_json :: "string \<Rightarrow> string + transaction_processed"
  sl_expired_to_json :: "transaction_expired \<Rightarrow> string + string"
  sl_expired_of_json :: "string \<Rightarrow> string + transaction_expired"
  sl_fault_to_json :: "fault \<Rightarrow> string + string"
  sl_fault_of_json :: "string \<Rightarrow> string + fault"
  sl_finsig_to_json :: "finality_signature \<Rightarrow> string + string"
  sl_finsig_of_json :: "string \<Rightarrow> string + finality_signature"
  sl_step_to_json :: "step \<Rightarrow> string + string"
  sl_step_of_json :: "string \<Rightarrow> string + step"

definition block_hex_encoded_hash :: "store_lib \<Rightarrow> block_added \<Rightarrow> string" where
  "block_hex_encoded_hash lib b = sl_hex_encode lib (ba_block_hash b)"

definition get_height :: "block_added \<Rightarrow> u64" where
  "get_height b = block_height (ba_block b)"

fun transaction_hash_to_identifier :: "store_lib \<Rightarrow> transaction_hash \<Rightarrow> string" where
  "transaction_hash_to_identifier lib (TransactionHash_Deploy d) = sl_hex_encode lib d"
| "transaction_hash_to_identifier lib (TransactionHash_V1 t) = sl_hex_encode lib t"

fun transaction_hash_type_id :: "transaction_hash \<Rightarrow> transaction_type_id" where
  "transaction_hash_type_id (TransactionHash_Deploy _) = TxType_Deploy"
| "transaction_hash_type_id (TransactionHash_V1 _) = TxType_Version1"

fun transaction_type_id :: "transaction \<Rightarrow> transaction_type_id" where
  "transaction_type_id (Transaction_Deploy _) = TxType_Deploy"
| "transaction_type_id (Transaction_V1 _) = TxType_Version1"

definition accepted_identifier :: "store_lib \<Rightarrow> transaction_accepted \<Rightarrow> string" where
  "accepted_identifier lib a = transaction_hash_to_identifier lib (transaction_hash_of (ta_transaction a))"

definition processed_identifier :: "store_lib \<Rightarrow> transaction_processed \<Rightarrow> string" where
  "processed_identifier lib p = transaction_hash_to_identifier lib (tp_transaction_hash p)"

definition expired_identifier :: "store_lib \<Rightarrow> transaction_expired \<Rightarrow> string" where
  "expired_identifier lib e = transaction_hash_to_identifier lib (te_transaction_hash e)"

subsection \<open>Errors\<close>

record database_error =
  de_code :: "string option"
  de_table :: "string option"
  de_message :: string

datatype sqlx_error = Sqlx_Database database_error | Sqlx_Other string

text \<open>The last variant stands for the panic of an index out of range.\<close>

datatype database_write_error =
    DWE_Serialisation string
  | DWE_SqlConstruction sea_query_error
  | DWE_UniqueConstraint string sqlx_error
  | DWE_Database sqlx_error
  | DWE_Unhandled string
  | DWE_Panic

fun split_on :: "char \<Rightarrow> string \<Rightarrow> string list" where
  "split_on c [] = [[]]"
| "split_on c (x # xs) =
     (if x = c then [] # split_on c xs
      else case split_on c xs of [] \<Rightarrow> [[x]] | p # ps \<Rightarrow> (x # p) # ps)"

definition is_space :: "char \<Rightarrow> bool" where
  "is_space c \<longleftrightarrow> c \<in> {CHR '' '', CHR 0x09, CHR 0x0A, CHR 0x0B, CHR 0x0C, CHR 0x0D}"

definition trim :: "string \<Rightarrow> string" where
  "trim s = rev (dropWhile is_space (rev (dropWhile is_space s)))"

definition write_error_from :: "sqlx_error \<Rightarrow> database_write_error" where
  "write_error_from err =
     (case err of
        Sqlx_Database db_err \<Rightarrow>
          (case de_code db_err of
             None \<Rightarrow> DWE_Database err
           | Some code \<Rightarrow>
               if code = ''23505'' then DWE_UniqueConstraint (unwrap_or (de_table db_err) (de_message db_err)) err
               else if code = ''1555'' \<or> code = ''2067'' then
                 (case split_on (CHR '':'') (de_message db_err) of
                    _ # rest # _ \<Rightarrow> DWE_UniqueConstraint (trim (hd (split_on (CHR ''.'') rest))) err
                  | _ \<Rightarrow> DWE_Panic)
               else DWE_Database err)
      | Sqlx_Other _ \<Rightarrow> DWE_Database err)"

datatype database_read_error = DRE_NotFound | DRE_Serialisation string | DRE_Unhandled sqlx_error

datatype db_error = DbError_Sqlx sqlx_error | DbError_SerdeJson string

fun sqlx_text :: "sqlx_error \<Rightarrow> string" where
  "sqlx_text (Sqlx_Database e) = de_message e"
| "sqlx_text (Sqlx_Other text) = text"

fun wrap_query_error :: "db_error \<Rightarrow> database_read_error" where
  "wrap_query_error (DbError_Sqlx err) =
     (if sqlx_text err = ''Query returned no rows'' then DRE_NotFound else DRE_Unhandled err)"
| "wrap_query_error (DbError_SerdeJson serde_err) = DRE_Serialisation serde_err"

subsection \<open>Writing\<close>

text \<open>A database: how its driver reports failed statements, and whether it has unsigned integers.\<close>

record sql_backend =
  sb_error :: "sql_failure \<Rightarrow> sqlx_error"
  sb_supports_unsigned :: bool

text \<open>What the connection does during one transaction: failures of its operations, for a failed commit
  also whether it took effect, the time of the database, and the time of the sidecar.\<close>

record db_env =
  dv_begin :: "sqlx_error option"
  dv_log :: "sqlx_error option"
  dv_insert :: "sqlx_error option"
  dv_commit :: "(sqlx_error \<times> bool) option"
  dv_now :: nat
  dv_unix_timestamp :: nat

text \<open>A source of an event: its address, the id of the event there, and version and network of the node.\<close>

record event_origin =
  eo_event_id :: u32
  eo_source :: string
  eo_api_version :: string
  eo_network_name :: string

definition save_event_log ::
  "sql_backend \<Rightarrow> db_env \<Rightarrow> event_type_id \<Rightarrow> event_origin \<Rightarrow> string \<Rightarrow> database \<Rightarrow>
   database_write_error + (u64 \<times> database)" where
  "save_event_log backend env event_type origin event_key db =
     and_then (map_err DWE_SqlConstruction (event_log_insert (event_type_number event_type) (eo_source origin)
        (eo_event_id origin) event_key (eo_api_version origin) (eo_network_name origin))) (\<lambda>stmt.
      case dv_log env of
        Some err \<Rightarrow> Inl (write_error_from err)
      | None \<Rightarrow>
          and_then (map_err (\<lambda>failure. write_error_from (sb_error backend failure)) (execute (dv_now env) (Insert stmt) db))
            (\<lambda>(rows, db1).
             case rows of
               [] \<Rightarrow> Inl (DWE_Unhandled ''save_block_added: Error parsing event_log_id from row'')
             | row # _ \<Rightarrow> Inr (word_of_int (int_value (row EventLogId)), db1)))"

text \<open>What all operations have in common: in a transaction, the event is logged and then its insertions are
  executed, and only if that went well the transaction is committed.\<close>

definition transaction_body ::
  "sql_backend \<Rightarrow> db_env \<Rightarrow> (string + 'j) \<Rightarrow> event_type_id \<Rightarrow> event_origin \<Rightarrow> string \<Rightarrow>
   ('j \<Rightarrow> u64 \<Rightarrow> sea_query_error + insert_statement list) \<Rightarrow> database \<Rightarrow> database_write_error + (nat \<times> database)" where
  "transaction_body backend env json event_type origin event_key inserts db =
     and_then (map_err DWE_Serialisation json) (\<lambda>raw.
     and_then (save_event_log backend env event_type origin event_key db) (\<lambda>(event_log_id, db1).
     and_then (map_err DWE_SqlConstruction (inserts raw event_log_id)) (\<lambda>stmts.
     case dv_insert env of
       Some err \<Rightarrow> Inl (write_error_from err)
     | None \<Rightarrow> map_err (\<lambda>failure. write_error_from (sb_error backend failure))
         (execute_all (dv_now env) (map Insert stmts) db1))))"

definition in_transaction ::
  "sql_backend \<Rightarrow> db_env \<Rightarrow> (string + 'j) \<Rightarrow> event_type_id \<Rightarrow> event_origin \<Rightarrow> string \<Rightarrow>
   ('j \<Rightarrow> u64 \<Rightarrow> sea_query_error + insert_statement list) \<Rightarrow> database \<Rightarrow> (database_write_error + u64) \<times> database" where
  "in_transaction backend env json event_type origin event_key inserts db =
     (case dv_begin env of
        Some err \<Rightarrow> (Inl (write_error_from err), db)
      | None \<Rightarrow>
          (case transaction_body backend env json event_type origin event_key inserts db of
             Inl err \<Rightarrow> (Inl err, db)
           | Inr (rows_affected, db2) \<Rightarrow>
               (case dv_commit env of
                  None \<Rightarrow> (Inr (of_nat rows_affected), db2)
                | Some (err, took_effect) \<Rightarrow> (Inl (write_error_from err), if took_effect then db2 else db))))"

definition save_block_added ::
  "store_lib \<Rightarrow> sql_backend \<Rightarrow> db_env \<Rightarrow> block_added \<Rightarrow> event_origin \<Rightarrow> database \<Rightarrow>
   (database_write_error + u64) \<times> database" where
  "save_block_added lib backend env b origin =
     in_transaction backend env (sl_block_to_json lib b) Ev_BlockAdded origin (block_hex_encoded_hash lib b)
       (\<lambda>json event_log_id.
          and_then (block_added_insert (get_height b) (block_hex_encoded_hash lib b) json event_log_id) (\<lambda>stmt. Inr [stmt]))"

definition save_transaction_accepted ::
  "store_lib \<Rightarrow> sql_backend \<Rightarrow> db_env \<Rightarrow> transaction_accepted \<Rightarrow> event_origin \<Rightarrow> database \<Rightarrow>
   (database_write_error + u64) \<times> database" where
  "save_transaction_accepted lib backend env a origin =
     (let transaction_type = transaction_type_number (transaction_type_id (ta_transaction a));
          identifier = accepted_identifier lib a in
      in_transaction backend env (sl_accepted_to_json lib a) Ev_TransactionAccepted origin identifier
       (\<lambda>json event_log_id.
          and_then (transaction_accepted_insert transaction_type identifier json event_log_id) (\<lambda>stmt.
          and_then (transaction_event_insert event_log_id transaction_type identifier) (\<lambda>event_stmt. Inr [stmt, event_stmt]))))"

definition save_transaction_processed ::
  "store_lib \<Rightarrow> sql_backend \<Rightarrow> db_env \<Rightarrow> transaction_processed \<Rightarrow> event_origin \<Rightarrow> database \<Rightarrow>
   (database_write_error + u64) \<times> database" where
  "save_transaction_processed lib backend env p origin =
     (let transaction_type = transaction_type_number (transaction_hash_type_id (tp_transaction_hash p));
          identifier = processed_identifier lib p in
      in_transaction backend env (sl_processed_to_json lib p) Ev_TransactionProcessed origin identifier
       (\<lambda>json event_log_id.
          and_then (transaction_processed_insert transaction_type identifier json event_log_id) (\<lambda>stmt.
          and_then (transaction_event_insert event_log_id transaction_type identifier) (\<lambda>event_stmt. Inr [stmt, event_stmt]))))"

definition save_transaction_expired ::
  "store_lib \<Rightarrow> sql_backend \<Rightarrow> db_env \<Rightarrow> transaction_expired \<Rightarrow> event_origin \<Rightarrow> database \<Rightarrow>
   (database_write_error + u64) \<times> database" where
  "save_transaction_expired lib backend env e origin =
     (let transaction_type = transaction_type_number (transaction_hash_type_id (te_transaction_hash e));
          identifier = expired_identifier lib e in
      in_transaction backend env (sl_expired_to_json lib e) Ev_TransactionExpired origin identifier
       (\<lambda>json event_log_id.
          and_then (transaction_expired_insert transaction_type identifier event_log_id json) (\<lambda>stmt.
          and_then (transaction_event_insert event_log_id transaction_type identifier) (\<lambda>event_stmt. Inr [stmt, event_stmt]))))"

definition save_fault ::
  "store_lib \<Rightarrow> sql_backend \<Rightarrow> db_env \<Rightarrow> fault \<Rightarrow> event_origin \<Rightarrow> database \<Rightarrow>
   (database_write_error + u64) \<times> database" where
  "save_fault lib backend env f origin =
     (let public_key = sl_public_key_to_hex lib (fa_public_key f) in
      in_transaction backend env (sl_fault_to_json lib f) Ev_Fault origin
       (nat_to_string (unat (fa_era_id f)) @ '' '' @ public_key)
       (\<lambda>json event_log_id.
          and_then (fault_insert (fa_era_id f) public_key json event_log_id) (\<lambda>stmt. Inr [stmt])))"

definition save_finality_signature ::
  "store_lib \<Rightarrow> sql_backend \<Rightarrow> db_env \<Rightarrow> finality_signature \<Rightarrow> event_origin \<Rightarrow> database \<Rightarrow>
   (database_write_error + u64) \<times> database" where
  "save_finality_signature lib backend env s origin =
     (let block_hash = sl_hex_encode lib (finsig_block_hash s);
          public_key = sl_public_key_to_hex lib (finsig_public_key s) in
      in_transaction backend env (sl_finsig_to_json lib s) Ev_FinalitySignature origin (block_hash @ '' '' @ public_key)
       (\<lambda>json event_log_id.
          and_then (finality_signature_insert block_hash public_key json event_log_id) (\<lambda>stmt. Inr [stmt])))"

definition save_step ::
  "store_lib \<Rightarrow> sql_backend \<Rightarrow> db_env \<Rightarrow> step \<Rightarrow> event_origin \<Rightarrow> database \<Rightarrow>
   (database_write_error + u64) \<times> database" where
  "save_step lib backend env s origin =
     in_transaction backend env (sl_step_to_json lib s) Ev_Step origin (nat_to_string (unat (st_era_id s)))
       (\<lambda>json event_log_id. and_then (step_insert (st_era_id s) json event_log_id) (\<lambda>stmt. Inr [stmt]))"

definition save_shutdown ::
  "sql_backend \<Rightarrow> db_env \<Rightarrow> event_origin \<Rightarrow> database \<Rightarrow> (database_write_error + u64) \<times> database" where
  "save_shutdown backend env origin =
     in_transaction backend env (Inr ()) Ev_Shutdown origin
       (eo_source origin @ ''-'' @ nat_to_string (dv_unix_timestamp env))
       (\<lambda>_ event_log_id. and_then (shutdown_insert (eo_source origin) event_log_id) (\<lambda>stmt. Inr [stmt]))"

end
