(* ===== verification/Event_Reader.thy ===== *)
theory Event_Reader
  imports Event_Store
begin

text \<open>
  Reading from the store of events: the reader of \<open>database/reader_generator.rs\<close>, with the envelopes of
  \<open>database/types.rs\<close> in which events are returned.
\<close>

subsection \<open>Rows\<close>

record 'a sse_envelope =
  en_api_version :: string
  en_network_name :: string
  en_payload :: 'a

definition SseEnvelope_new :: "'a \<Rightarrow> string \<Rightarrow> string \<Rightarrow> 'a sse_envelope" where
  "SseEnvelope_new sse_event api_version network_name =
     \<lparr> en_api_version = api_version, en_network_name = network_name, en_payload = sse_event \<rparr>"

text \<open>What the connection does during a query, and the error of the driver for a value of another type.\<close>

record read_env =
  re_io :: "sqlx_error option"
  re_decode :: sqlx_error

definition fetch_all :: "read_env \<Rightarrow> database \<Rightarrow> select_statement \<Rightarrow> database_read_error + row list" where
  "fetch_all env db stmt = (case re_io env of Some err \<Rightarrow> Inl (DRE_Unhandled err) | None \<Rightarrow> Inr (select db stmt))"

definition fetch_optional_with_error_check ::
  "read_env \<Rightarrow> database \<Rightarrow> select_statement \<Rightarrow> database_read_error + row" where
  "fetch_optional_with_error_check env db stmt =
     and_then (fetch_all env db stmt) (\<lambda>rows. case rows of [] \<Rightarrow> Inl DRE_NotFound | row # _ \<Rightarrow> Inr row)"

definition try_get_string :: "read_env \<Rightarrow> row \<Rightarrow> col \<Rightarrow> database_read_error + string" where
  "try_get_string env row c =
     (case row c of Some (V_Text text) \<Rightarrow> Inr text | _ \<Rightarrow> Inl (wrap_query_error (DbError_Sqlx (re_decode env))))"

definition fetch_envelope_data_from_row :: "read_env \<Rightarrow> row \<Rightarrow> database_read_error + (string \<times> string \<times> string)" where
  "fetch_envelope_data_from_row env row =
     and_then (try_get_string env row Raw) (\<lambda>raw_data.
     and_then (try_get_string env row ApiVersionCol) (\<lambda>api_version.
     and_then (try_get_string env row NetworkName) (\<lambda>network_name.
     Inr (raw_data, api_version, network_name))))"

definition parse_envelope :: "read_env \<Rightarrow> (string \<Rightarrow> string + 'a) \<Rightarrow> row \<Rightarrow> database_read_error + 'a sse_envelope" where
  "parse_envelope env deserialize_data row =
     and_then (fetch_envelope_data_from_row env row) (\<lambda>(raw, api_version, network_name).
     and_then (map_err (\<lambda>err. wrap_query_error (DbError_SerdeJson err)) (deserialize_data raw)) (\<lambda>sse_event.
     Inr (SseEnvelope_new sse_event api_version network_name)))"

fun parse_rows :: "(row \<Rightarrow> database_read_error + 'b) \<Rightarrow> row list \<Rightarrow> database_read_error + 'b list" where
  "parse_rows parse [] = Inr []"
| "parse_rows parse (row # rows) = and_then (parse row) (\<lambda>x. and_then (parse_rows parse rows) (\<lambda>xs. Inr (x # xs)))"

definition parse_nonempty_rows :: "(row \<Rightarrow> database_read_error + 'b) \<Rightarrow> row list \<Rightarrow> database_read_error + 'b list" where
  "parse_nonempty_rows parse rows =
     and_then (parse_rows parse rows) (\<lambda>xs. if xs = [] then Inl DRE_NotFound else Inr xs)"

definition read_one ::
  "read_env \<Rightarrow> (string \<Rightarrow> string + 'a) \<Rightarrow> select_statement \<Rightarrow> database \<Rightarrow> database_read_error + 'a sse_envelope" where
  "read_one env deserialize_data stmt db =
     and_then (fetch_optional_with_error_check env db stmt) (parse_envelope env deserialize_data)"

definition read_many ::
  "read_env \<Rightarrow> (string \<Rightarrow> string + 'a) \<Rightarrow> select_statement \<Rightarrow> database \<Rightarrow> database_read_error + 'a sse_envelope list" where
  "read_many env deserialize_data stmt db =
     and_then (fetch_all env db stmt) (parse_nonempty_rows (parse_envelope env deserialize_data))"

subsection \<open>The interface\<close>

definition get_latest_block :: "store_lib \<Rightarrow> read_env \<Rightarrow> database \<Rightarrow> database_read_error + block_added sse_envelope" where
  "get_latest_block lib env = read_one env (sl_block_of_json lib) block_added_get_latest"

definition get_block_by_height ::
  "store_lib \<Rightarrow> read_env \<Rightarrow> u64 \<Rightarrow> database \<Rightarrow> database_read_error + block_added sse_envelope" where
  "get_block_by_height lib env height = read_one env (sl_block_of_json lib) (block_added_get_by_height height)"

definition get_block_by_hash ::
  "store_lib \<Rightarrow> read_env \<Rightarrow> string \<Rightarrow> database \<Rightarrow> database_read_error + block_added sse_envelope" where
  "get_block_by_hash lib env hash = read_one env (sl_block_of_json lib) (block_added_get_by_hash hash)"

definition get_transaction_accepted_by_hash ::
  "store_lib \<Rightarrow> read_env \<Rightarrow> transaction_type_id \<Rightarrow> string \<Rightarrow> database \<Rightarrow>
   database_read_error + transaction_accepted sse_envelope" where
  "get_transaction_accepted_by_hash lib env t hash =
     read_one env (sl_accepted_of_json lib) (transaction_accepted_get_by_hash (transaction_type_number t) hash)"

definition get_transaction_processed_by_hash ::
  "store_lib \<Rightarrow> read_env \<Rightarrow> transaction_type_id \<Rightarrow> string \<Rightarrow> database \<Rightarrow>
   database_read_error + transaction_processed sse_envelope" where
  "get_transaction_processed_by_hash lib env t hash =
     read_one env (sl_processed_of_json lib) (transaction_processed_get_by_hash (transaction_type_number t) hash)"

definition get_transaction_expired_by_hash ::
  "store_lib \<Rightarrow> read_env \<Rightarrow> transaction_type_id \<Rightarrow> string \<Rightarrow> database \<Rightarrow>
   database_read_error + transaction_expired sse_envelope" where
  "get_transaction_expired_by_hash lib env t hash =
     read_one env (sl_expired_of_json lib) (transaction_expired_get_by_hash (transaction_type_number t) hash)"

definition get_faults_by_public_key ::
  "store_lib \<Rightarrow> read_env \<Rightarrow> string \<Rightarrow> database \<Rightarrow> database_read_error + fault sse_envelope list" where
  "get_faults_by_public_key lib env public_key = read_many env (sl_fault_of_json lib) (fault_get_by_public_key public_key)"

definition get_faults_by_era ::
  "store_lib \<Rightarrow> read_env \<Rightarrow> u64 \<Rightarrow> database \<Rightarrow> database_read_error + fault sse_envelope list" where
  "get_faults_by_era lib env era = read_many env (sl_fault_of_json lib) (fault_get_by_era era)"

definition get_finality_signatures_by_block ::
  "store_lib \<Rightarrow> read_env \<Rightarrow> string \<Rightarrow> database \<Rightarrow> database_read_error + finality_signature sse_envelope list" where
  "get_finality_signatures_by_block lib env block_hash =
     read_many env (sl_finsig_of_json lib) (finality_signature_get_by_block block_hash)"

definition get_step_by_era :: "store_lib \<Rightarrow> read_env \<Rightarrow> u64 \<Rightarrow> database \<Rightarrow> database_read_error + step sse_envelope" where
  "get_step_by_era lib env era = read_one env (sl_step_of_json lib) (step_get_by_era era)"

definition get_number_of_events :: "read_env \<Rightarrow> database \<Rightarrow> database_read_error + u64" where
  "get_number_of_events env db =
     (case re_io env of Some err \<Rightarrow> Inl (DRE_Unhandled err) | None \<Rightarrow> Inr (of_nat (select_event_count db)))"

subsection \<open>Transactions\<close>

record transaction_aggregate =
  tg_transaction_hash :: string
  tg_transaction_accepted :: "transaction_accepted sse_envelope option"
  tg_transaction_processed :: "transaction_processed sse_envelope option"
  tg_transaction_expired :: bool

text \<open>\<open>matches!(DatabaseReadError::NotFound, _err)\<close>: the second argument is a pattern, a fresh variable, so this
  does not look at the error.\<close>

definition matches_not_found :: "database_read_error \<Rightarrow> bool" where
  "matches_not_found err = (case DRE_NotFound of _ \<Rightarrow> True)"

definition get_transaction_aggregate_by_identifier ::
  "store_lib \<Rightarrow> (nat \<Rightarrow> read_env) \<Rightarrow> transaction_type_id \<Rightarrow> string \<Rightarrow> database \<Rightarrow>
   database_read_error + transaction_aggregate" where
  "get_transaction_aggregate_by_identifier lib envs t hash db =
     and_then (get_transaction_accepted_by_hash lib (envs 0) t hash db) (\<lambda>accepted.
     let aggregate = \<lambda>processed expired. \<lparr> tg_transaction_hash = hash, tg_transaction_accepted = Some accepted,
           tg_transaction_processed = processed, tg_transaction_expired = expired \<rparr> in
     case get_transaction_processed_by_hash lib (envs 1) t hash db of
       Inr processed \<Rightarrow> Inr (aggregate (Some processed) False)
     | Inl err \<Rightarrow>
         if \<not> matches_not_found err then Inl err
         else (case get_transaction_expired_by_hash lib (envs 2) t hash db of
           Inr _ \<Rightarrow> Inr (aggregate None True)
         | Inl err \<Rightarrow> if \<not> matches_not_found err then Inl err else Inr (aggregate None False)))"

end
