(* ===== verification/Store_Laws.thy ===== *)
theory Store_Laws
  imports Event_Reader
begin

text \<open>
  What the store of events promises: the invariant of its tables, that every operation of the writer keeps
  it and leaves the database as it was when it fails, when an event is accepted, and that an
  accepted event can be read back.
\<close>

subsection \<open>The invariant\<close>

definition store_schema :: "bool \<Rightarrow> table_create list" where
  "store_schema uns =
     [event_type_create_table, transaction_type_create_table, event_log_create_table, transaction_event_create_table,
      block_added_create_table, transaction_accepted_create_table, transaction_processed_create_table,
      transaction_expired_create_table, fault_create_table uns, finality_signature_create_table,
      step_create_table uns, shutdown_create_table]"

definition tables_exist :: "bool \<Rightarrow> database \<Rightarrow> bool" where
  "tables_exist uns db \<longleftrightarrow>
     (\<forall>create \<in> set (store_schema uns). \<exists>tb. db (tc_table create) = Some tb \<and> tb_create tb = create)"

definition types_exist :: "database \<Rightarrow> bool" where
  "types_exist db \<longleftrightarrow>
     (\<forall>t. \<exists>r \<in> set (rows_of db T_EventType). r EventTypeId = Some (v_u8 (event_type_number t))) \<and>
     (\<forall>t. \<exists>r \<in> set (rows_of db T_TransactionType). r TransactionTypeIdCol = Some (v_u8 (transaction_type_number t)))"

definition keys_unique :: "database \<Rightarrow> bool" where
  "keys_unique db \<longleftrightarrow>
     (\<forall>t tb kind key. db t = Some tb \<longrightarrow> (kind, key) \<in> set (table_keys (tb_create tb)) \<longrightarrow>
        distinct (map (\<lambda>r. map r key) (tb_rows tb)))"

definition last_log_id :: "database \<Rightarrow> nat" where
  "last_log_id db = (case db T_EventLog of None \<Rightarrow> 0 | Some tb \<Rightarrow> tb_last_id tb)"

definition log_entry :: "nat \<Rightarrow> row \<Rightarrow> bool" where
  "log_entry n r \<longleftrightarrow>
     (\<exists>i api_version network_name. r EventLogId = Some (V_Int (int i)) \<and> 0 < i \<and> i \<le> n \<and>
        r ApiVersionCol = Some (V_Text api_version) \<and> r NetworkName = Some (V_Text network_name))"

text \<open>The tables that refer to the log, and those of them that hold raw events.\<close>

definition raw_tables :: "table_name set" where
  "raw_tables = {T_BlockAdded, T_TransactionAccepted, T_TransactionProcessed, T_TransactionExpired, T_Fault,
     T_FinalitySignature, T_Step}"

definition logged_tables :: "table_name set" where
  "logged_tables = raw_tables \<union> {T_TransactionEvent, T_Shutdown}"

definition rows_logged :: "database \<Rightarrow> bool" where
  "rows_logged db \<longleftrightarrow>
     (\<forall>t \<in> logged_tables. \<forall>r \<in> set (rows_of db t).
        (\<exists>l \<in> set (rows_of db T_EventLog). l EventLogId = r EventLogId) \<and>
        (t \<in> raw_tables \<longrightarrow> (\<exists>raw. r Raw = Some (V_Text raw))))"

definition event_store :: "bool \<Rightarrow> database \<Rightarrow> bool" where
  "event_store uns db \<longleftrightarrow>
     tables_exist uns db \<and> types_exist db \<and> keys_unique db \<and>
     (\<forall>r \<in> set (rows_of db T_EventLog). log_entry (last_log_id db) r) \<and> rows_logged db"

subsection \<open>Single insertions\<close>

definition single :: "insert_statement \<Rightarrow> bool" where
  "single stmt \<longleftrightarrow> length (is_rows stmt) = 1 \<and> is_on_conflict_do_nothing stmt = None"

definition inserted_row :: "nat \<Rightarrow> insert_statement \<Rightarrow> sql_table \<Rightarrow> row" where
  "inserted_row now stmt tb = new_row now (Suc (tb_last_id tb)) (zip (is_columns stmt) (hd (is_rows stmt))) (tb_create tb)"

definition with_row :: "database \<Rightarrow> table_name \<Rightarrow> sql_table \<Rightarrow> row \<Rightarrow> database" where
  "with_row db t tb row = db(t \<mapsto> tb\<lparr> tb_rows := tb_rows tb @ [row], tb_last_id := Suc (tb_last_id tb) \<rparr>)"

lemma execute_single:
  assumes "single stmt" "db (is_table stmt) = Some tb"
    and "\<not> null_violation (inserted_row now stmt tb) (tb_create tb)"
    and "list_all (refers db (inserted_row now stmt tb)) (tc_foreign_keys (tb_create tb))"
  shows "execute now (Insert stmt) db =
     (case violated_key (tb_rows tb) (inserted_row now stmt tb) (tb_create tb) of
        Some (kind, key) \<Rightarrow> Inl (Failure_Unique (is_table stmt) kind key)
      | None \<Rightarrow> Inr ([inserted_row now stmt tb], with_row db (is_table stmt) tb (inserted_row now stmt tb)))"
proof -
  obtain vs where vs: "is_rows stmt = [vs]" using assms(1) by (auto simp: single_def length_Suc_conv)
  have row: "inserted_row now stmt tb = new_row now (Suc (tb_last_id tb)) (zip (is_columns stmt) vs) (tb_create tb)"
    by (simp add: inserted_row_def vs)
  show ?thesis
    using assms by (simp add: execute_def vs insert_row_def single_def with_row_def row [symmetric] Let_def
        split: option.split prod.split)
qed

lemma rows_of_with_row [simp]:
  "rows_of (with_row db t tb row) t' = (if t' = t then tb_rows tb @ [row] else rows_of db t')"
  by (simp add: rows_of_def with_row_def)

lemma last_log_id_with_row [simp]: "t \<noteq> T_EventLog \<Longrightarrow> last_log_id (with_row db t tb row) = last_log_id db"
  by (simp add: last_log_id_def with_row_def)

lemma tables_exist_with_row:
  "db t = Some tb \<Longrightarrow> tables_exist uns (with_row db t tb row) \<longleftrightarrow> tables_exist uns db"
  by (auto simp: tables_exist_def with_row_def split: if_splits)

lemma types_exist_with_row:
  "db t = Some tb \<Longrightarrow> types_exist db \<Longrightarrow> types_exist (with_row db t tb row)"
  by (fastforce simp: types_exist_def rows_of_def with_row_def)

lemma keys_unique_with_row:
  assumes "keys_unique db" "db t = Some tb" "violated_key (tb_rows tb) row (tb_create tb) = None"
  shows "keys_unique (with_row db t tb row)"
  unfolding keys_unique_def
proof (intro allI impI)
  fix t' tb' kind key
  assume *: "with_row db t tb row t' = Some tb'" "(kind, key) \<in> set (table_keys (tb_create tb'))"
  show "distinct (map (\<lambda>r. map r key) (tb_rows tb'))"
  proof (cases "t' = t")
    case True
    then have tb': "tb_rows tb' = tb_rows tb @ [row]" "tb_create tb' = tb_create tb"
      using *(1) by (auto simp: with_row_def)
    then have "\<forall>r \<in> set (tb_rows tb). \<not> same_key key row r"
      using assms(3) *(2) by (auto simp: violated_key_None)
    then show ?thesis
      using assms(1,2) *(2) tb' unfolding keys_unique_def by (auto simp: same_key_def)
  next
    case False
    then show ?thesis using * assms(1) unfolding keys_unique_def by (auto simp: with_row_def)
  qed
qed

text \<open>An insertion for an event: its row is complete, refers to the log entry of the event, and to an existing type
  of transactions.\<close>

definition entity_row :: "table_create \<Rightarrow> sql_value \<Rightarrow> row \<Rightarrow> bool" where
  "entity_row create log_id row \<longleftrightarrow>
     \<not> null_violation row create \<and> row EventLogId = Some log_id \<and>
     set (tc_foreign_keys create) \<subseteq> {event_log_fk, transaction_type_fk} \<and>
     (transaction_type_fk \<in> set (tc_foreign_keys create) \<longrightarrow>
        (\<exists>t. row TransactionTypeIdCol = Some (v_u8 (transaction_type_number t)))) \<and>
     (tc_table create \<in> raw_tables \<longrightarrow> (\<exists>raw. row Raw = Some (V_Text raw)))"

definition entity_insert :: "bool \<Rightarrow> u64 \<Rightarrow> insert_statement \<Rightarrow> bool" where
  "entity_insert uns log_id stmt \<longleftrightarrow> single stmt \<and> is_table stmt \<in> logged_tables \<and>
     (\<forall>create \<in> set (store_schema uns). tc_table create = is_table stmt \<longrightarrow>
        (\<forall>now tb. tb_create tb = create \<longrightarrow> entity_row create (v_u64 log_id) (inserted_row now stmt tb)))"

lemma event_storeD:
  assumes "event_store uns db"
  shows "tables_exist uns db" "types_exist db" "keys_unique db" "rows_logged db"
    and "\<And>r. r \<in> set (rows_of db T_EventLog) \<Longrightarrow> log_entry (last_log_id db) r"
  using assms by (auto simp: event_store_def)

lemma table_of:
  assumes "tables_exist uns db" "create \<in> set (store_schema uns)"
  obtains tb where "db (tc_table create) = Some tb" "tb_create tb = create"
  using assms by (auto simp: tables_exist_def)

lemma rows_of_Some: "db t = Some tb \<Longrightarrow> rows_of db t = tb_rows tb"
  by (simp add: rows_of_def)

subsection \<open>The log\<close>

definition log_row :: "nat \<Rightarrow> nat \<Rightarrow> event_type_id \<Rightarrow> event_origin \<Rightarrow> string \<Rightarrow> row" where
  "log_row now i event_type origin event_key = map_of
     [(EventLogId, V_Int (int i)), (EventTypeId, v_u8 (event_type_number event_type)),
      (EventSourceAddress, V_Text (eo_source origin)), (EventId, v_u32 (eo_event_id origin)), (EventKey, V_Text event_key),
      (InsertedTimestamp, V_Time now), (EmittedTimestamp, V_Time now),
      (ApiVersionCol, V_Text (eo_api_version origin)), (NetworkName, V_Text (eo_network_name origin))]"

definition log_columns :: "col list" where
  "log_columns = [EventSourceAddress, EventId, EventTypeId, EventKey]"

definition logged :: "database \<Rightarrow> event_type_id \<Rightarrow> event_origin \<Rightarrow> string \<Rightarrow> bool" where
  "logged db event_type origin event_key \<longleftrightarrow>
     (\<exists>r \<in> set (rows_of db T_EventLog). map r log_columns =
        [Some (V_Text (eo_source origin)), Some (v_u32 (eo_event_id origin)),
         Some (v_u8 (event_type_number event_type)), Some (V_Text event_key)])"

definition log_statement :: "event_type_id \<Rightarrow> event_origin \<Rightarrow> string \<Rightarrow> insert_statement" where
  "log_statement event_type origin event_key =
     \<lparr> is_table = T_EventLog, is_columns = [EventTypeId, EventSourceAddress, EventId, EventKey, ApiVersionCol, NetworkName],
       is_rows = [[v_u8 (event_type_number event_type), V_Text (eo_source origin), v_u32 (eo_event_id origin),
                   V_Text event_key, V_Text (eo_api_version origin), V_Text (eo_network_name origin)]],
       is_returning = Some EventLogId, is_on_conflict_do_nothing = None \<rparr>"

lemma log_statement_sel [simp]:
  "single (log_statement event_type origin event_key)" "is_table (log_statement event_type origin event_key) = T_EventLog"
  by (simp_all add: single_def log_statement_def)

lemma event_log_insert_eq:
  "event_log_insert (event_type_number event_type) (eo_source origin) (eo_event_id origin) event_key
     (eo_api_version origin) (eo_network_name origin) = Inr (log_statement event_type origin event_key)"
  by (simp add: event_log_insert_def log_statement_def insert_into_def insert_values_def)

lemma log_table_keys:
  "table_keys event_log_create_table = [(UniqueIndex, log_columns), (PrimaryIndex, [EventLogId])]"
  by (simp add: table_keys_def event_log_create_table_def ColumnDef_new_def log_columns_def)

lemma log_inserted_row:
  assumes "tb_create tb = event_log_create_table"
  shows "inserted_row now (log_statement event_type origin event_key) tb =
    log_row now (Suc (tb_last_id tb)) event_type origin event_key"
proof
  fix c
  show "inserted_row now (log_statement event_type origin event_key) tb c =
      log_row now (Suc (tb_last_id tb)) event_type origin event_key c"
    by (cases c) (simp_all add: assms inserted_row_def log_statement_def log_row_def new_row_def new_value_def
        event_log_create_table_def ColumnDef_new_def)
qed

lemma log_row_sel [simp]:
  "log_row now i event_type origin event_key EventLogId = Some (V_Int (int i))"
  "log_row now i event_type origin event_key EventTypeId = Some (v_u8 (event_type_number event_type))"
  "log_row now i event_type origin event_key ApiVersionCol = Some (V_Text (eo_api_version origin))"
  "log_row now i event_type origin event_key NetworkName = Some (V_Text (eo_network_name origin))"
  "map (log_row now i event_type origin event_key) log_columns =
     [Some (V_Text (eo_source origin)), Some (v_u32 (eo_event_id origin)),
      Some (v_u8 (event_type_number event_type)), Some (V_Text event_key)]"
  by (simp_all add: log_row_def log_columns_def)

lemma same_log_key:
  "same_key log_columns (log_row now i event_type origin event_key) r \<longleftrightarrow>
   map r log_columns = [Some (V_Text (eo_source origin)), Some (v_u32 (eo_event_id origin)),
      Some (v_u8 (event_type_number event_type)), Some (V_Text event_key)]"
  unfolding same_key_def log_row_sel(5) by (rule eq_commute)

lemma refers_iff: "refers db row fk \<longleftrightarrow> (\<exists>r \<in> set (rows_of db (fk_to_table fk)). r (fk_to_col fk) = row (fk_from fk))"
  by (auto simp: refers_def rows_of_def list_ex_iff split: option.split)

text \<open>An event is logged under the next id, unless the log has it already.\<close>

definition with_log :: "database \<Rightarrow> nat \<Rightarrow> event_type_id \<Rightarrow> event_origin \<Rightarrow> string \<Rightarrow> database" where
  "with_log db now event_type origin event_key =
     with_row db T_EventLog (the (db T_EventLog)) (log_row now (Suc (last_log_id db)) event_type origin event_key)"

lemma execute_log:
  assumes "event_store uns db"
  shows "execute now (Insert (log_statement event_type origin event_key)) db =
     (if logged db event_type origin event_key then Inl (Failure_Unique T_EventLog UniqueIndex log_columns)
      else Inr ([log_row now (Suc (last_log_id db)) event_type origin event_key],
                with_log db now event_type origin event_key))"
proof -
  let ?stmt = "log_statement event_type origin event_key"
  obtain tb where tb: "db T_EventLog = Some tb" "tb_create tb = event_log_create_table"
    using table_of [OF event_storeD(1) [OF assms], of event_log_create_table]
    by (auto simp: store_schema_def event_log_create_table_def)
  let ?row = "log_row now (Suc (tb_last_id tb)) event_type origin event_key"
  have last: "last_log_id db = tb_last_id tb" and rows: "rows_of db T_EventLog = tb_rows tb"
    using tb by (simp_all add: last_log_id_def rows_of_def)
  have row: "inserted_row now ?stmt tb = ?row" by (rule log_inserted_row [OF tb(2)])
  have null: "\<not> null_violation ?row (tb_create tb)"
    by (simp add: tb(2) null_violation_def event_log_create_table_def ColumnDef_new_def log_row_def)
  obtain r where "r \<in> set (rows_of db T_EventType)" "r EventTypeId = Some (v_u8 (event_type_number event_type))"
    using event_storeD(2) [OF assms] unfolding types_exist_def by blast
  then have refers: "list_all (refers db ?row) (tc_foreign_keys (tb_create tb))"
    by (auto simp: tb(2) event_log_create_table_def refers_iff)
  have fresh: "\<not> same_key [EventLogId] ?row r" if "r \<in> set (tb_rows tb)" for r
    using event_storeD(5) [OF assms, of r] that rows last by (auto simp: log_entry_def same_key_def)
  have "violated_key (tb_rows tb) ?row (tb_create tb) =
      (if logged db event_type origin event_key then Some (UniqueIndex, log_columns) else None)"
    using fresh
    by (auto simp: violated_key_def tb(2) log_table_keys logged_def rows same_log_key list_ex_iff)
  then show ?thesis
    using execute_single [of ?stmt db tb now] tb null refers
    by (simp add: row with_log_def last)
qed

lemma with_log_store:
  assumes "event_store uns db" "\<not> logged db event_type origin event_key"
  shows "event_store uns (with_log db now event_type origin event_key)"
    and "last_log_id (with_log db now event_type origin event_key) = Suc (last_log_id db)"
proof -
  let ?db = "with_log db now event_type origin event_key"
  obtain tb where tb: "db T_EventLog = Some tb" "tb_create tb = event_log_create_table"
    using table_of [OF event_storeD(1) [OF assms(1)], of event_log_create_table]
    by (auto simp: store_schema_def event_log_create_table_def)
  let ?row = "log_row now (Suc (tb_last_id tb)) event_type origin event_key"
  have last: "last_log_id db = tb_last_id tb" and rows: "rows_of db T_EventLog = tb_rows tb"
    using tb by (simp_all add: last_log_id_def rows_of_def)
  have db: "?db = with_row db T_EventLog tb ?row"
    by (simp add: with_log_def tb last)
  show last': "last_log_id ?db = Suc (last_log_id db)"
    by (simp add: db last_log_id_def with_row_def tb)
  have "\<not> same_key [EventLogId] ?row r" if "r \<in> set (tb_rows tb)" for r
    using event_storeD(5) [OF assms(1), of r] that rows last by (auto simp: log_entry_def same_key_def)
  then have "violated_key (tb_rows tb) ?row (tb_create tb) = None"
    using assms(2) by (auto simp: violated_key_None tb(2) log_table_keys logged_def rows same_log_key)
  then have "keys_unique ?db"
    unfolding db using keys_unique_with_row event_storeD(3) [OF assms(1)] tb(1) by blast
  moreover have "log_entry (last_log_id ?db) r" if "r \<in> set (rows_of ?db T_EventLog)" for r
  proof -
    consider "r \<in> set (rows_of db T_EventLog)" | "r = ?row" using \<open>r \<in> set (rows_of ?db T_EventLog)\<close> by (auto simp: db rows)
    then show ?thesis
    proof cases
      case 1
      then show ?thesis using event_storeD(5) [OF assms(1)] unfolding last' log_entry_def by fastforce
    next
      case 2
      then show ?thesis unfolding last' log_entry_def last by (intro exI [of _ "Suc (tb_last_id tb)"]) simp
    qed
  qed
  moreover have "rows_logged ?db"
    using event_storeD(4) [OF assms(1)] by (fastforce simp: rows_logged_def db logged_tables_def raw_tables_def rows)
  ultimately show "event_store uns ?db"
    using event_storeD(1,2) [OF assms(1)] tb(1)
    by (simp add: event_store_def db tables_exist_with_row types_exist_with_row)
qed

subsection \<open>Insertions for an event\<close>

lemma schema_tables:
  "map tc_table (store_schema uns) =
     [T_EventType, T_TransactionType, T_EventLog, T_TransactionEvent, T_BlockAdded, T_TransactionAccepted,
      T_TransactionProcessed, T_TransactionExpired, T_Fault, T_FinalitySignature, T_Step, T_Shutdown]"
  by (simp add: store_schema_def create_defs)

lemma logged_tables_schema: "t \<in> logged_tables \<Longrightarrow> t \<in> tc_table ` set (store_schema uns)"
  unfolding set_map [symmetric] schema_tables by (auto simp: logged_tables_def raw_tables_def)

lemma execute_entity:
  assumes "event_store uns db" "entity_insert uns log_id stmt"
    and "\<exists>l \<in> set (rows_of db T_EventLog). l EventLogId = Some (v_u64 log_id)"
  obtains tb where "db (is_table stmt) = Some tb" "tb_create tb \<in> set (store_schema uns)" "tc_table (tb_create tb) = is_table stmt"
    "entity_row (tb_create tb) (v_u64 log_id) (inserted_row now stmt tb)"
    "execute now (Insert stmt) db =
       (case violated_key (tb_rows tb) (inserted_row now stmt tb) (tb_create tb) of
          Some (kind, key) \<Rightarrow> Inl (Failure_Unique (is_table stmt) kind key)
        | None \<Rightarrow> Inr ([inserted_row now stmt tb], with_row db (is_table stmt) tb (inserted_row now stmt tb)))"
proof -
  have "is_table stmt \<in> logged_tables" using assms(2) by (simp add: entity_insert_def)
  then obtain create where create: "create \<in> set (store_schema uns)" "tc_table create = is_table stmt"
    using logged_tables_schema by fastforce
  then obtain tb where tb: "db (is_table stmt) = Some tb" "tb_create tb \<in> set (store_schema uns)"
      "tc_table (tb_create tb) = is_table stmt"
    using table_of [OF event_storeD(1) [OF assms(1)] create(1)] by auto
  then have row: "entity_row (tb_create tb) (v_u64 log_id) (inserted_row now stmt tb)"
    using assms(2) by (auto simp: entity_insert_def)
  have "refers db (inserted_row now stmt tb) fk" if fk: "fk \<in> set (tc_foreign_keys (tb_create tb))" for fk
  proof -
    consider "fk = event_log_fk" | "fk = transaction_type_fk" using row fk by (auto simp: entity_row_def)
    then show ?thesis
    proof cases
      case 1
      then show ?thesis using assms(3) row by (auto simp: refers_iff event_log_fk_def entity_row_def)
    next
      case 2
      then obtain t where "inserted_row now stmt tb TransactionTypeIdCol = Some (v_u8 (transaction_type_number t))"
        using row fk by (auto simp: entity_row_def)
      then show ?thesis
        using 2 event_storeD(2) [OF assms(1)] by (simp add: refers_iff transaction_type_fk_def types_exist_def)
    qed
  qed
  then have "list_all (refers db (inserted_row now stmt tb)) (tc_foreign_keys (tb_create tb))"
    by (simp add: list_all_iff)
  then have "execute now (Insert stmt) db =
       (case violated_key (tb_rows tb) (inserted_row now stmt tb) (tb_create tb) of
          Some (kind, key) \<Rightarrow> Inl (Failure_Unique (is_table stmt) kind key)
        | None \<Rightarrow> Inr ([inserted_row now stmt tb], with_row db (is_table stmt) tb (inserted_row now stmt tb)))"
    using execute_single [of stmt db tb now] assms(2) tb(1) row by (simp add: entity_insert_def entity_row_def)
  with tb row that show thesis by blast
qed

lemma with_entity_store:
  assumes "event_store uns db" "db t = Some tb" "t \<in> logged_tables" "tc_table (tb_create tb) = t"
    and "entity_row (tb_create tb) log_id row" "violated_key (tb_rows tb) row (tb_create tb) = None"
    and "\<exists>l \<in> set (rows_of db T_EventLog). l EventLogId = Some log_id"
  shows "event_store uns (with_row db t tb row)"
proof -
  let ?db = "with_row db t tb row"
  have t: "t \<noteq> T_EventLog" using assms(3) by (auto simp: logged_tables_def raw_tables_def)
  then have log: "rows_of ?db T_EventLog = rows_of db T_EventLog" "last_log_id ?db = last_log_id db"
    by simp_all
  have "rows_logged ?db"
    unfolding rows_logged_def
  proof (intro ballI)
    fix t' r
    assume *: "t' \<in> logged_tables" "r \<in> set (rows_of ?db t')"
    consider "r \<in> set (rows_of db t')" | "t' = t" "r = row"
      using *(2) assms(2) by (auto simp: rows_of_def with_row_def split: if_splits)
    then show "(\<exists>l \<in> set (rows_of ?db T_EventLog). l EventLogId = r EventLogId) \<and>
        (t' \<in> raw_tables \<longrightarrow> (\<exists>raw. r Raw = Some (V_Text raw)))"
    proof cases
      case 1
      then show ?thesis using event_storeD(4) [OF assms(1)] * unfolding log rows_logged_def by blast
    next
      case 2
      then show ?thesis using assms(4,5,7) unfolding log by (auto simp: entity_row_def)
    qed
  qed
  then show ?thesis
    using event_storeD [OF assms(1)] assms(2,6) keys_unique_with_row [of db t tb row] t
    by (simp add: event_store_def tables_exist_with_row types_exist_with_row)
qed

lemma execute_all_entities:
  assumes "event_store uns db" "list_all (entity_insert uns log_id) stmts"
    and "\<exists>l \<in> set (rows_of db T_EventLog). l EventLogId = Some (v_u64 log_id)"
    and "execute_all now (map Insert stmts) db = Inr (n, db')"
  shows "event_store uns db' \<and> rows_of db' T_EventLog = rows_of db T_EventLog \<and> last_log_id db' = last_log_id db"
  using assms
proof (induction stmts arbitrary: db n)
  case (Cons stmt stmts)
  obtain tb where tb: "db (is_table stmt) = Some tb" "tc_table (tb_create tb) = is_table stmt"
    and row: "entity_row (tb_create tb) (v_u64 log_id) (inserted_row now stmt tb)"
    and exec: "execute now (Insert stmt) db =
       (case violated_key (tb_rows tb) (inserted_row now stmt tb) (tb_create tb) of
          Some (kind, key) \<Rightarrow> Inl (Failure_Unique (is_table stmt) kind key)
        | None \<Rightarrow> Inr ([inserted_row now stmt tb], with_row db (is_table stmt) tb (inserted_row now stmt tb)))"
    using execute_entity [of uns db log_id stmt now] Cons.prems by auto
  let ?db1 = "with_row db (is_table stmt) tb (inserted_row now stmt tb)"
  obtain m where ok: "violated_key (tb_rows tb) (inserted_row now stmt tb) (tb_create tb) = None"
    and rest: "execute_all now (map Insert stmts) ?db1 = Inr (m, db')"
    using Cons.prems(4) exec by (auto simp: result_iffs split: option.splits prod.splits)
  have t: "is_table stmt \<in> logged_tables" using Cons.prems(2) by (simp add: entity_insert_def)
  then have "is_table stmt \<noteq> T_EventLog" by (auto simp: logged_tables_def raw_tables_def)
  then have log: "rows_of ?db1 T_EventLog = rows_of db T_EventLog" "last_log_id ?db1 = last_log_id db"
    by simp_all
  have "event_store uns ?db1"
    using with_entity_store [OF Cons.prems(1) tb(1) t tb(2) row ok Cons.prems(3)] .
  then show ?case using Cons.IH [OF _ _ _ rest] Cons.prems(2,3) unfolding log by simp
qed simp

subsection \<open>Transactions\<close>

text \<open>Insertions that are right for every id of a log entry.\<close>

definition entity_inserts :: "bool \<Rightarrow> ('j \<Rightarrow> u64 \<Rightarrow> sea_query_error + insert_statement list) \<Rightarrow> bool" where
  "entity_inserts uns inserts \<longleftrightarrow>
     (\<forall>raw log_id. \<exists>stmts. inserts raw log_id = Inr stmts \<and> list_all (entity_insert uns log_id) stmts)"

definition log_room :: "database \<Rightarrow> bool" where
  "log_room db \<longleftrightarrow> Suc (last_log_id db) < 2 ^ 64"

lemma next_log_id:
  assumes "log_room db"
  shows "v_u64 (word_of_int (1 + int (last_log_id db))) = V_Int (int (Suc (last_log_id db)))"
proof -
  define i where "i = int (Suc (last_log_id db))"
  have "0 \<le> i" "i < 2 ^ 64" using assms by (simp_all add: log_room_def i_def)
  then have "uint (word_of_int i :: u64) = i" by (simp add: uint_word_of_int)
  then show ?thesis by (simp add: v_u64_def i_def)
qed

lemma transaction_body_Inr:
  assumes "event_store uns db"
    and "transaction_body backend env json event_type origin event_key inserts db = Inr (n, db')"
  obtains raw stmts where "json = Inr raw" "\<not> logged db event_type origin event_key"
    "inserts raw (word_of_int (1 + int (last_log_id db))) = Inr stmts"
    "execute_all (dv_now env) (map Insert stmts) (with_log db (dv_now env) event_type origin event_key) = Inr (n, db')"
proof -
  obtain raw log_id db1 stmts where json: "json = Inr raw"
    and log: "save_event_log backend env event_type origin event_key db = Inr (log_id, db1)"
    and stmts: "inserts raw log_id = Inr stmts"
    and rest: "execute_all (dv_now env) (map Insert stmts) db1 = Inr (n, db')"
    using assms(2) by (auto simp: transaction_body_def result_iffs split: option.splits)
  have "\<not> logged db event_type origin event_key" "log_id = word_of_int (1 + int (last_log_id db))"
    "db1 = with_log db (dv_now env) event_type origin event_key"
    using log by (auto simp: save_event_log_def event_log_insert_eq execute_log [OF assms(1)]
        split: option.splits if_splits)
  with json stmts rest that show thesis by blast
qed

lemma transaction_body_store:
  assumes "event_store uns db" "log_room db" "entity_inserts uns inserts"
    and "transaction_body backend env json event_type origin event_key inserts db = Inr (n, db')"
  shows "event_store uns db'" "extends db db'"
    "rows_of db' T_EventLog = rows_of db T_EventLog @ [log_row (dv_now env) (Suc (last_log_id db)) event_type origin event_key]"
    "last_log_id db' = Suc (last_log_id db)"
proof -
  let ?log_id = "word_of_int (1 + int (last_log_id db)) :: u64"
  let ?db1 = "with_log db (dv_now env) event_type origin event_key"
  let ?row = "log_row (dv_now env) (Suc (last_log_id db)) event_type origin event_key"
  obtain raw stmts where new: "\<not> logged db event_type origin event_key" and stmts: "inserts raw ?log_id = Inr stmts"
    and exec: "execute_all (dv_now env) (map Insert stmts) ?db1 = Inr (n, db')"
    using transaction_body_Inr [OF assms(1,4)] by metis
  have entities: "list_all (entity_insert uns ?log_id) stmts"
    using assms(3) stmts unfolding entity_inserts_def by (metis sum.inject(2))
  obtain tb where tb: "db T_EventLog = Some tb"
    using table_of [OF event_storeD(1) [OF assms(1)], of event_log_create_table]
    by (auto simp: store_schema_def event_log_create_table_def)
  then have rows: "rows_of ?db1 T_EventLog = rows_of db T_EventLog @ [?row]"
    by (simp add: with_log_def rows_of_Some)
  have "\<exists>l \<in> set (rows_of ?db1 T_EventLog). l EventLogId = Some (v_u64 ?log_id)"
    unfolding rows next_log_id [OF assms(2)] by simp
  from execute_all_entities [OF with_log_store(1) [OF assms(1) new] entities this exec]
  show "event_store uns db'" "rows_of db' T_EventLog = rows_of db T_EventLog @ [?row]"
    "last_log_id db' = Suc (last_log_id db)"
    using rows with_log_store(2) [OF assms(1) new] by simp_all
  have "extends db ?db1"
    using tb by (simp add: with_log_def with_row_def extends_def)
  then show "extends db db'" using execute_all_extends [OF exec] extends_trans by blast
qed

text \<open>The outcome of an operation: it fails and leaves the database as it was, it succeeds, or the commit took
  effect although it was reported to have failed.\<close>

lemma in_transaction_cases:
  assumes "in_transaction backend env json event_type origin event_key inserts db = (result, db')"
  obtains (kept) err where "result = Inl err" "db' = db"
  | (saved) n where "result = Inr (of_nat n)"
      "transaction_body backend env json event_type origin event_key inserts db = Inr (n, db')"
  | (unclear) n err where "result = Inl (write_error_from err)" "dv_commit env = Some (err, True)"
      "transaction_body backend env json event_type origin event_key inserts db = Inr (n, db')"
  using assms by (auto simp: in_transaction_def split: option.splits sum.splits prod.splits if_splits)

lemma in_transaction_store:
  assumes "event_store uns db" "log_room db" "entity_inserts uns inserts"
  shows "event_store uns (snd (in_transaction backend env json event_type origin event_key inserts db))"
proof (cases "in_transaction backend env json event_type origin event_key inserts db")
  case (Pair result db')
  from this have "event_store uns db'"
    by (cases rule: in_transaction_cases) (use assms transaction_body_store(1) [OF assms] in auto)
  with Pair show ?thesis by simp
qed

end
