(* ===== verification/Store_Events.thy ===== *)
theory Store_Events
  imports Store_Laws
begin

text \<open>
  When the store accepts an event: exactly if neither the log has it nor another event of its kind with the same key
  was accepted before.
\<close>

subsection \<open>Keys\<close>

text \<open>What the primary keys of the tables make of an event.\<close>

datatype entity_key =
    Key_Block u64
  | Key_Accepted u8 string
  | Key_Processed u8 string
  | Key_Expired string
  | Key_Fault u64 string
  | Key_FinalitySignature string string
  | Key_Step u64

fun key_table :: "entity_key \<Rightarrow> table_name" where
  "key_table (Key_Block _) = T_BlockAdded"
| "key_table (Key_Accepted _ _) = T_TransactionAccepted"
| "key_table (Key_Processed _ _) = T_TransactionProcessed"
| "key_table (Key_Expired _) = T_TransactionExpired"
| "key_table (Key_Fault _ _) = T_Fault"
| "key_table (Key_FinalitySignature _ _) = T_FinalitySignature"
| "key_table (Key_Step _) = T_Step"

fun has_key :: "entity_key \<Rightarrow> row \<Rightarrow> bool" where
  "has_key (Key_Block height) r = (r Height = Some (v_u64 height))"
| "has_key (Key_Accepted t i) r = (r TransactionTypeIdCol = Some (v_u8 t) \<and> r TransactionHashCol = Some (V_Text i))"
| "has_key (Key_Processed t i) r = (r TransactionTypeIdCol = Some (v_u8 t) \<and> r TransactionHashCol = Some (V_Text i))"
| "has_key (Key_Expired i) r = (r TransactionHashCol = Some (V_Text i))"
| "has_key (Key_Fault era k) r = (r Era = Some (v_u64 era) \<and> r PublicKeyCol = Some (V_Text k))"
| "has_key (Key_FinalitySignature h k) r = (r BlockHash = Some (V_Text h) \<and> r PublicKeyCol = Some (V_Text k))"
| "has_key (Key_Step era) r = (r Era = Some (v_u64 era))"

definition taken :: "database \<Rightarrow> entity_key \<Rightarrow> bool" where
  "taken db k \<longleftrightarrow> (\<exists>r \<in> set (rows_of db (key_table k)). has_key k r)"

lemma key_table_raw: "key_table k \<in> raw_tables" "key_table k \<in> logged_tables" "key_table k \<noteq> T_EventLog"
  "key_table k \<noteq> T_TransactionEvent"
  by (cases k; simp add: raw_tables_def logged_tables_def)+

text \<open>The main insertion of an event with a key.\<close>

definition main_insert :: "bool \<Rightarrow> u64 \<Rightarrow> entity_key \<Rightarrow> insert_statement \<Rightarrow> bool" where
  "main_insert uns log_id k stmt \<longleftrightarrow> entity_insert uns log_id stmt \<and> is_table stmt = key_table k \<and>
     (\<forall>now tb. tb_create tb \<in> set (store_schema uns) \<longrightarrow> tc_table (tb_create tb) = key_table k \<longrightarrow>
        (violated_key (tb_rows tb) (inserted_row now stmt tb) (tb_create tb) = None \<longleftrightarrow>
           (\<forall>r \<in> set (tb_rows tb). \<not> has_key k r)) \<and>
        (\<forall>k'. key_table k' = key_table k \<longrightarrow> (has_key k' (inserted_row now stmt tb) \<longleftrightarrow> k' = k)))"

lemma schema_unique:
  assumes "create \<in> set (store_schema uns)" "create' \<in> set (store_schema uns)" "tc_table create = tc_table create'"
  shows "create = create'"
proof -
  have "distinct (map tc_table (store_schema uns))" unfolding schema_tables by simp
  then show ?thesis using assms by (simp add: distinct_map inj_on_def)
qed

lemma entity_insertI:
  assumes "create \<in> set (store_schema uns)" "tc_table create = is_table stmt" "single stmt" "is_table stmt \<in> logged_tables"
    and "\<And>now tb. tb_create tb = create \<Longrightarrow> entity_row create (v_u64 log_id) (inserted_row now stmt tb)"
  shows "entity_insert uns log_id stmt"
  unfolding entity_insert_def using assms schema_unique [of _ uns create] by metis

lemma has_key_unique: "has_key k r \<Longrightarrow> key_table k' = key_table k \<Longrightarrow> has_key k' r \<longleftrightarrow> k' = k"
  by (cases k; cases k'; auto)

text \<open>A row that has a value for each column of its table is what was given.\<close>

lemma inserted_row_given:
  assumes "is_rows stmt = [vs]" "length (is_columns stmt) = length vs"
    and "set (map cd_column (tc_cols (tb_create tb))) = set (is_columns stmt)"
  shows "inserted_row now stmt tb = map_of (zip (is_columns stmt) vs)"
proof
  fix c
  let ?given = "zip (is_columns stmt) vs"
  show "inserted_row now stmt tb c = map_of ?given c"
  proof (cases "c \<in> set (is_columns stmt)")
    case True
    then obtain v where v: "map_of ?given c = Some v"
      using assms(2) by (metis map_of_zip_is_Some)
    have "map_of (map (\<lambda>cd. (cd_column cd, new_value now (Suc (tb_last_id tb)) ?given cd)) cds) c = Some (Some v)"
      if "c \<in> set (map cd_column cds)" for cds
      using that by (induction cds) (use v in \<open>auto simp: new_value_def\<close>)
    then show ?thesis using True v assms(1,3) by (simp add: inserted_row_def new_row_def)
  next
    case False
    then have "map_of ?given c = None" using assms(2) by (simp add: map_of_zip_is_None)
    moreover have "map_of (map (\<lambda>cd. (cd_column cd, new_value now (Suc (tb_last_id tb)) ?given cd)) (tc_cols (tb_create tb))) c = None"
      using False assms(3) by (auto simp: map_of_eq_None_iff)
    ultimately show ?thesis using assms(1) by (simp add: inserted_row_def new_row_def)
  qed
qed

abbreviation given_insert :: "table_name \<Rightarrow> col list \<Rightarrow> sql_value list \<Rightarrow> insert_statement" where
  "given_insert t columns vs \<equiv> (insert_into t columns)\<lparr> is_rows := [vs] \<rparr>"

lemma given_insert_sel [simp]:
  "single (given_insert t columns vs)" "is_table (given_insert t columns vs) = t"
  by (simp_all add: single_def insert_into_def)

lemma given_inserted_row:
  assumes "length columns = length vs" "set (map cd_column (tc_cols (tb_create tb))) = set columns"
  shows "inserted_row now (given_insert t columns vs) tb = map_of (zip columns vs)"
  using inserted_row_given [of "given_insert t columns vs" vs tb now] assms by (simp add: insert_into_def)

lemma main_insert_given:
  assumes "create \<in> set (store_schema uns)" "tc_table create = t" "key_table k = t" "length columns = length vs"
    and "set (map cd_column (tc_cols create)) = set columns"
    and "entity_row create (v_u64 log_id) (map_of (zip columns vs))" "has_key k (map_of (zip columns vs))"
    and "\<And>r. (\<forall>(kind, key) \<in> set (table_keys create). \<not> same_key key (map_of (zip columns vs)) r) \<longleftrightarrow> \<not> has_key k r"
  shows "main_insert uns log_id k (given_insert t columns vs)"
proof -
  let ?row = "map_of (zip columns vs)" and ?stmt = "given_insert t columns vs"
  have row: "inserted_row now ?stmt tb = ?row" if "tb_create tb = create" for now tb
    using given_inserted_row assms(4,5) that by simp
  have "entity_insert uns log_id ?stmt"
    by (rule entity_insertI [OF assms(1)]) (use assms(2,3,6) row key_table_raw [of k] in simp_all)
  moreover have "(violated_key (tb_rows tb) (inserted_row now ?stmt tb) (tb_create tb) = None \<longleftrightarrow>
        (\<forall>r \<in> set (tb_rows tb). \<not> has_key k r)) \<and>
      (\<forall>k'. key_table k' = key_table k \<longrightarrow> (has_key k' (inserted_row now ?stmt tb) \<longleftrightarrow> k' = k))"
    if "tb_create tb \<in> set (store_schema uns)" "tc_table (tb_create tb) = key_table k" for now tb
  proof -
    have tb: "tb_create tb = create" using schema_unique [OF that(1) assms(1)] that(2) assms(2,3) by simp
    have "violated_key (tb_rows tb) ?row create = None \<longleftrightarrow> (\<forall>r \<in> set (tb_rows tb). \<not> has_key k r)"
      unfolding violated_key_None assms(8) [symmetric] by blast
    then show ?thesis using row [OF tb] has_key_unique [OF assms(7)] by (simp add: tb)
  qed
  ultimately show ?thesis using assms(3) unfolding main_insert_def by simp
qed

lemmas given_simps = store_schema_def single_def entity_row_def null_violation_def ColumnDef_new_def event_log_fk_def
  transaction_type_fk_def table_keys_def same_key_def raw_tables_def

lemma block_insert:
  "main_insert uns log_id (Key_Block height)
     (given_insert T_BlockAdded [Height, BlockHash, Raw, EventLogId] [v_u64 height, V_Text hash, V_Text raw, v_u64 log_id])"
  by (rule main_insert_given [where create = block_added_create_table])
    (auto simp: given_simps block_added_create_table_def)

lemma accepted_insert:
  "main_insert uns log_id (Key_Accepted (transaction_type_number t) hash)
     (given_insert T_TransactionAccepted [TransactionTypeIdCol, TransactionHashCol, Raw, EventLogId]
        [v_u8 (transaction_type_number t), V_Text hash, V_Text raw, v_u64 log_id])"
  by (rule main_insert_given [where create = transaction_accepted_create_table])
    (auto simp: given_simps transaction_accepted_create_table_def)

lemma processed_insert:
  "main_insert uns log_id (Key_Processed (transaction_type_number t) hash)
     (given_insert T_TransactionProcessed [TransactionTypeIdCol, TransactionHashCol, Raw, EventLogId]
        [v_u8 (transaction_type_number t), V_Text hash, V_Text raw, v_u64 log_id])"
  by (rule main_insert_given [where create = transaction_processed_create_table])
    (auto simp: given_simps transaction_processed_create_table_def)

lemma expired_insert:
  "main_insert uns log_id (Key_Expired hash)
     (given_insert T_TransactionExpired [TransactionTypeIdCol, TransactionHashCol, EventLogId, Raw]
        [v_u8 (transaction_type_number t), V_Text hash, v_u64 log_id, V_Text raw])"
  by (rule main_insert_given [where create = transaction_expired_create_table])
    (auto simp: given_simps transaction_expired_create_table_def)

lemma fault_insert_main:
  "main_insert uns log_id (Key_Fault era key)
     (given_insert T_Fault [Era, PublicKeyCol, Raw, EventLogId] [v_u64 era, V_Text key, V_Text raw, v_u64 log_id])"
  by (rule main_insert_given [where create = "fault_create_table uns"])
    (auto simp: given_simps fault_create_table_def)

lemma finsig_insert:
  "main_insert uns log_id (Key_FinalitySignature hash key)
     (given_insert T_FinalitySignature [BlockHash, PublicKeyCol, Raw, EventLogId]
        [V_Text hash, V_Text key, V_Text raw, v_u64 log_id])"
  by (rule main_insert_given [where create = finality_signature_create_table])
    (auto simp: given_simps finality_signature_create_table_def)

lemma step_insert_main:
  "main_insert uns log_id (Key_Step era)
     (given_insert T_Step [Era, Raw, EventLogId] [v_u64 era, V_Text raw, v_u64 log_id])"
  by (rule main_insert_given [where create = "step_create_table uns"])
    (auto simp: given_simps step_create_table_def)

subsection \<open>Accepting an event\<close>

text \<open>The entry that ties a transaction to its log entry, and the entry for a shutdown.\<close>

abbreviation event_statement :: "u8 \<Rightarrow> u64 \<Rightarrow> string \<Rightarrow> insert_statement" where
  "event_statement t log_id hash \<equiv>
     given_insert T_TransactionEvent [TransactionTypeIdCol, EventLogId, TransactionHashCol] [v_u8 t, v_u64 log_id, V_Text hash]"

lemma event_statement_entity: "entity_insert uns log_id (event_statement (transaction_type_number t) log_id hash)"
proof (rule entity_insertI [where create = transaction_event_create_table])
  fix now and tb :: sql_table
  assume "tb_create tb = transaction_event_create_table"
  then have "inserted_row now (event_statement (transaction_type_number t) log_id hash) tb =
      map_of (zip [TransactionTypeIdCol, EventLogId, TransactionHashCol]
        [v_u8 (transaction_type_number t), v_u64 log_id, V_Text hash])"
    by (intro given_inserted_row) (auto simp: transaction_event_create_table_def ColumnDef_new_def)
  then show "entity_row transaction_event_create_table (v_u64 log_id)
      (inserted_row now (event_statement (transaction_type_number t) log_id hash) tb)"
    by (auto simp: given_simps transaction_event_create_table_def)
qed (auto simp: store_schema_def transaction_event_create_table_def logged_tables_def)

lemma shutdown_statement_entity:
  "entity_insert uns log_id (given_insert T_Shutdown [EventSourceAddress, EventLogId] [V_Text source, v_u64 log_id])"
proof (rule entity_insertI [where create = shutdown_create_table])
  fix now and tb :: sql_table
  assume "tb_create tb = shutdown_create_table"
  then show "entity_row shutdown_create_table (v_u64 log_id)
      (inserted_row now (given_insert T_Shutdown [EventSourceAddress, EventLogId] [V_Text source, v_u64 log_id]) tb)"
    by (auto simp: given_simps shutdown_create_table_def inserted_row_def new_row_def new_value_def insert_into_def)
qed (auto simp: store_schema_def shutdown_create_table_def logged_tables_def)

lemma execute_main:
  assumes "event_store uns db" "main_insert uns log_id k stmt"
    and "\<exists>l \<in> set (rows_of db T_EventLog). l EventLogId = Some (v_u64 log_id)"
  shows "if taken db k then \<exists>kind key. execute now (Insert stmt) db = Inl (Failure_Unique (key_table k) kind key)
    else \<exists>row db'. execute now (Insert stmt) db = Inr ([row], db') \<and> event_store uns db' \<and>
      (\<forall>k'. taken db' k' \<longleftrightarrow> taken db k' \<or> k' = k) \<and> (\<forall>t. t \<noteq> key_table k \<longrightarrow> rows_of db' t = rows_of db t)"
proof -
  have entity: "entity_insert uns log_id stmt" and table: "is_table stmt = key_table k"
    using assms(2) by (simp_all add: main_insert_def)
  obtain tb where tb: "db (key_table k) = Some tb" "tb_create tb \<in> set (store_schema uns)" "tc_table (tb_create tb) = key_table k"
    and row: "entity_row (tb_create tb) (v_u64 log_id) (inserted_row now stmt tb)"
    and exec: "execute now (Insert stmt) db =
       (case violated_key (tb_rows tb) (inserted_row now stmt tb) (tb_create tb) of
          Some (kind, key) \<Rightarrow> Inl (Failure_Unique (key_table k) kind key)
        | None \<Rightarrow> Inr ([inserted_row now stmt tb], with_row db (key_table k) tb (inserted_row now stmt tb)))"
    by (rule execute_entity [OF assms(1) entity assms(3), where now = now, unfolded table])
  let ?row = "inserted_row now stmt tb"
  have rows: "rows_of db (key_table k) = tb_rows tb" by (rule rows_of_Some [where tb = tb]) (rule tb(1))
  have none: "violated_key (tb_rows tb) ?row (tb_create tb) = None \<longleftrightarrow> \<not> taken db k"
    and keys: "\<And>k'. key_table k' = key_table k \<Longrightarrow> has_key k' ?row \<longleftrightarrow> k' = k"
    using assms(2) tb(2,3) by (auto simp: main_insert_def taken_def rows)
  show ?thesis
  proof (cases "taken db k")
    case True
    then obtain kind key where "violated_key (tb_rows tb) ?row (tb_create tb) = Some (kind, key)"
      using none by auto
    then show ?thesis using True exec by auto
  next
    case False
    let ?db' = "with_row db (key_table k) tb ?row"
    have "execute now (Insert stmt) db = Inr ([?row], ?db')" using False none exec by simp
    moreover have "event_store uns ?db'"
      by (rule with_entity_store [OF assms(1) tb(1) key_table_raw(2) tb(3) row _ assms(3)]) (use False none in simp)
    moreover have "taken ?db' k' \<longleftrightarrow> taken db k' \<or> k' = k" for k'
      using keys [of k'] rows by (cases "key_table k' = key_table k") (auto simp: taken_def)
    moreover have "rows_of ?db' t = rows_of db t" if "t \<noteq> key_table k" for t using that by simp
    ultimately show ?thesis using False by auto
  qed
qed

lemma execute_event_statement:
  assumes "event_store uns db"
    and "\<exists>l \<in> set (rows_of db T_EventLog). l EventLogId = Some (v_u64 log_id)"
    and fresh: "\<forall>r \<in> set (rows_of db T_TransactionEvent). r EventLogId \<noteq> Some (v_u64 log_id)"
  shows "\<exists>row db'. execute now (Insert (event_statement (transaction_type_number t) log_id hash)) db = Inr ([row], db') \<and>
    event_store uns db' \<and> (\<forall>t'. t' \<noteq> T_TransactionEvent \<longrightarrow> rows_of db' t' = rows_of db t')"
proof -
  let ?stmt = "event_statement (transaction_type_number t) log_id hash"
  obtain tb where tb: "db T_TransactionEvent = Some tb" "tb_create tb \<in> set (store_schema uns)"
      "tc_table (tb_create tb) = T_TransactionEvent"
    and row: "entity_row (tb_create tb) (v_u64 log_id) (inserted_row now ?stmt tb)"
    and exec: "execute now (Insert ?stmt) db =
       (case violated_key (tb_rows tb) (inserted_row now ?stmt tb) (tb_create tb) of
          Some (kind, key) \<Rightarrow> Inl (Failure_Unique T_TransactionEvent kind key)
        | None \<Rightarrow> Inr ([inserted_row now ?stmt tb], with_row db T_TransactionEvent tb (inserted_row now ?stmt tb)))"
    by (rule execute_entity [OF assms(1) event_statement_entity assms(2), where now = now, unfolded given_insert_sel])
  have create: "tb_create tb = transaction_event_create_table"
    using schema_unique [OF tb(2), of transaction_event_create_table] tb(3)
    by (simp add: store_schema_def transaction_event_create_table_def)
  have "rows_of db T_TransactionEvent = tb_rows tb" using tb(1) by (simp add: rows_of_Some)
  then have "violated_key (tb_rows tb) (inserted_row now ?stmt tb) (tb_create tb) = None"
    using fresh row
    by (auto simp: violated_key_None create transaction_event_create_table_def table_keys_def ColumnDef_new_def same_key_def
        entity_row_def)
  moreover have "T_TransactionEvent \<in> logged_tables" by (simp add: logged_tables_def)
  ultimately show ?thesis
    using exec with_entity_store [OF assms(1) tb(1) _ tb(3) row _ assms(2)] by auto
qed

end
