(* ===== verification/Store_Saves.thy ===== *)
theory Store_Saves
  imports Store_Events
begin

text \<open>
  The outcome of the operations of the writer as long as the connection works: an event is accepted exactly if neither
  the log has it nor its key is taken; otherwise the database reports a violated key and stays as it was.
\<close>

definition quiet :: "db_env \<Rightarrow> bool" where
  "quiet env \<longleftrightarrow> dv_begin env = None \<and> dv_log env = None \<and> dv_insert env = None \<and> dv_commit env = None"

abbreviation new_log_id :: "database \<Rightarrow> u64" where
  "new_log_id db \<equiv> word_of_int (1 + int (last_log_id db))"

lemma quiet_transaction:
  assumes "event_store uns db" "quiet env"
  shows "in_transaction backend env (Inr raw) event_type origin event_key inserts db =
    (if logged db event_type origin event_key
     then (Inl (write_error_from (sb_error backend (Failure_Unique T_EventLog UniqueIndex log_columns))), db)
     else case inserts raw (new_log_id db) of
         Inl err \<Rightarrow> (Inl (DWE_SqlConstruction err), db)
       | Inr stmts \<Rightarrow>
           (case execute_all (dv_now env) (map Insert stmts) (with_log db (dv_now env) event_type origin event_key) of
              Inl failure \<Rightarrow> (Inl (write_error_from (sb_error backend failure)), db)
            | Inr (n, db') \<Rightarrow> (Inr (of_nat n), db')))"
proof -
  have "save_event_log backend env event_type origin event_key db =
      (if logged db event_type origin event_key
       then Inl (write_error_from (sb_error backend (Failure_Unique T_EventLog UniqueIndex log_columns)))
       else Inr (new_log_id db, with_log db (dv_now env) event_type origin event_key))"
    using assms(2) by (simp add: save_event_log_def event_log_insert_eq execute_log [OF assms(1)] quiet_def)
  then show ?thesis
    using assms(2) by (simp add: in_transaction_def transaction_body_def quiet_def split: sum.split prod.split)
qed

text \<open>The insertions of an event with a key.\<close>

definition raw_insert :: "bool \<Rightarrow> string \<Rightarrow> insert_statement \<Rightarrow> bool" where
  "raw_insert uns raw stmt \<longleftrightarrow>
     (\<forall>now tb. tb_create tb \<in> set (store_schema uns) \<longrightarrow> tc_table (tb_create tb) = is_table stmt \<longrightarrow>
        inserted_row now stmt tb Raw = Some (V_Text raw))"

definition key_inserts :: "bool \<Rightarrow> entity_key \<Rightarrow> (string \<Rightarrow> u64 \<Rightarrow> sea_query_error + insert_statement list) \<Rightarrow> bool" where
  "key_inserts uns k inserts \<longleftrightarrow>
     (\<forall>raw log_id. \<exists>main rest. inserts raw log_id = Inr (main # rest) \<and> main_insert uns log_id k main \<and> raw_insert uns raw main \<and>
        (rest = [] \<or> (\<exists>t hash. rest = [event_statement (transaction_type_number t) log_id hash])))"

lemma key_insertsE:
  assumes "key_inserts uns k inserts"
  obtains main rest where "inserts raw log_id = Inr (main # rest)" "main_insert uns log_id k main" "raw_insert uns raw main"
    "rest = [] \<or> (\<exists>t hash. rest = [event_statement (transaction_type_number t) log_id hash])"
  using assms [unfolded key_inserts_def, rule_format, of raw log_id] by blast

lemma raw_insert_given:
  assumes "t \<in> raw_tables" "map_of (zip columns vs) Raw = Some (V_Text raw)"
  shows "raw_insert uns raw (given_insert t columns vs)"
  unfolding raw_insert_def
proof (intro allI impI)
  fix now and tb :: sql_table
  assume tb: "tb_create tb \<in> set (store_schema uns)" "tc_table (tb_create tb) = is_table (given_insert t columns vs)"
  have "Raw \<in> set (map cd_column (tc_cols (tb_create tb)))"
    using tb assms(1) by (auto simp: store_schema_def create_defs raw_tables_def ColumnDef_new_def)
  moreover have "map_of (map (\<lambda>cd. (cd_column cd, new_value now (Suc (tb_last_id tb)) (zip columns vs) cd)) cds) Raw =
      Some (Some (V_Text raw))" if "Raw \<in> set (map cd_column cds)" for cds
    using that by (induction cds) (use assms(2) in \<open>auto simp: new_value_def\<close>)
  ultimately show "inserted_row now (given_insert t columns vs) tb Raw = Some (V_Text raw)"
    by (simp add: inserted_row_def new_row_def insert_into_def)
qed

lemma key_inserts_entity:
  assumes "key_inserts uns k inserts"
  shows "entity_inserts uns inserts"
  unfolding entity_inserts_def
proof (intro allI)
  fix raw log_id
  show "\<exists>stmts. inserts raw log_id = Inr stmts \<and> list_all (entity_insert uns log_id) stmts"
    by (rule key_insertsE [OF assms, of raw log_id]) (auto simp: main_insert_def event_statement_entity)
qed

text \<open>The ids in the log only grow, so nothing refers to the next one.\<close>

lemma fresh_log_id:
  assumes "event_store uns db" "log_room db" "t \<in> logged_tables" "r \<in> set (rows_of db t)"
  shows "r EventLogId \<noteq> Some (v_u64 (new_log_id db))"
proof -
  obtain l where l: "l \<in> set (rows_of db T_EventLog)" "l EventLogId = r EventLogId"
    using event_storeD(4) [OF assms(1)] assms(3,4) unfolding rows_logged_def by blast
  then show ?thesis
    using event_storeD(5) [OF assms(1) l(1)] unfolding next_log_id [OF assms(2)] log_entry_def by auto
qed

lemma taken_cong: "rows_of db' (key_table k) = rows_of db (key_table k) \<Longrightarrow> taken db' k = taken db k"
  by (simp add: taken_def)

lemma with_log_other:
  assumes "event_store uns db"
  shows "t \<noteq> T_EventLog \<Longrightarrow> rows_of (with_log db now event_type origin event_key) t = rows_of db t"
    and "rows_of (with_log db now event_type origin event_key) T_EventLog =
      rows_of db T_EventLog @ [log_row now (Suc (last_log_id db)) event_type origin event_key]"
proof -
  obtain tb where tb: "db T_EventLog = Some tb"
    using table_of [OF event_storeD(1) [OF assms], of event_log_create_table]
    by (auto simp: store_schema_def event_log_create_table_def)
  then show "rows_of (with_log db now event_type origin event_key) T_EventLog =
      rows_of db T_EventLog @ [log_row now (Suc (last_log_id db)) event_type origin event_key]"
    by (simp add: with_log_def rows_of_Some)
  show "t \<noteq> T_EventLog \<Longrightarrow> rows_of (with_log db now event_type origin event_key) t = rows_of db t"
    by (simp add: with_log_def)
qed

lemma execute_key_inserts:
  assumes "event_store uns db" "log_room db" "\<not> logged db event_type origin event_key" "key_inserts uns k inserts"
    and "inserts raw (new_log_id db) = Inr stmts"
  shows "if taken db k
    then \<exists>t kind key. execute_all now (map Insert stmts) (with_log db now event_type origin event_key) = Inl (Failure_Unique t kind key)
    else \<exists>n db'. execute_all now (map Insert stmts) (with_log db now event_type origin event_key) = Inr (n, db') \<and>
      (\<forall>k'. taken db' k' \<longleftrightarrow> taken db k' \<or> k' = k)"
proof -
  let ?db1 = "with_log db now event_type origin event_key"
  have store: "event_store uns ?db1" by (rule with_log_store(1) [OF assms(1,3)])
  have log: "\<exists>l \<in> set (rows_of ?db1 T_EventLog). l EventLogId = Some (v_u64 (new_log_id db))"
    unfolding with_log_other(2) [OF assms(1)] next_log_id [OF assms(2)] by simp
  have same: "taken ?db1 k' = taken db k'" for k'
    by (rule taken_cong) (rule with_log_other(1) [OF assms(1) key_table_raw(3)])
  obtain main rest where eq: "inserts raw (new_log_id db) = Inr (main # rest)" and main: "main_insert uns (new_log_id db) k main"
    and rest: "rest = [] \<or> (\<exists>t hash. rest = [event_statement (transaction_type_number t) (new_log_id db) hash])"
    by (rule key_insertsE [OF assms(4)])
  have stmts: "stmts = main # rest" using eq assms(5) by simp
  note outcome = execute_main [OF store main log, of now, unfolded same]
  show ?thesis
  proof (cases "taken db k")
    case True
    then obtain kind key where "execute now (Insert main) ?db1 = Inl (Failure_Unique (key_table k) kind key)"
      using outcome by auto
    then show ?thesis using True by (simp add: stmts)
  next
    case False
    then obtain row db2 where exec: "execute now (Insert main) ?db1 = Inr ([row], db2)" and store2: "event_store uns db2"
      and keys: "\<And>k'. taken db2 k' \<longleftrightarrow> taken db k' \<or> k' = k"
      and others: "\<And>t. t \<noteq> key_table k \<Longrightarrow> rows_of db2 t = rows_of ?db1 t"
      using outcome by auto
    have "\<exists>n db'. execute_all now (map Insert rest) db2 = Inr (n, db') \<and> (\<forall>k'. taken db' k' = taken db2 k')"
    proof (cases "rest = []")
      case False
      then obtain t hash where r: "rest = [event_statement (transaction_type_number t) (new_log_id db) hash]" using rest by blast
      have log2: "\<exists>l \<in> set (rows_of db2 T_EventLog). l EventLogId = Some (v_u64 (new_log_id db))"
        unfolding others [OF key_table_raw(3) [symmetric]] by (rule log)
      have "rows_of db2 T_TransactionEvent = rows_of db T_TransactionEvent"
        unfolding others [OF key_table_raw(4) [symmetric]] by (rule with_log_other(1) [OF assms(1)]) simp
      then have fresh: "\<forall>r \<in> set (rows_of db2 T_TransactionEvent). r EventLogId \<noteq> Some (v_u64 (new_log_id db))"
        using fresh_log_id [OF assms(1,2), of T_TransactionEvent] by (auto simp: logged_tables_def)
      obtain row' db3 where exec3: "execute now (Insert (event_statement (transaction_type_number t) (new_log_id db) hash)) db2 = Inr ([row'], db3)"
        and rows3: "\<forall>t'. t' \<noteq> T_TransactionEvent \<longrightarrow> rows_of db3 t' = rows_of db2 t'"
        using execute_event_statement [OF store2 log2 fresh, of now t hash] by blast
      have "taken db3 k' = taken db2 k'" for k'
        by (rule taken_cong) (use rows3 key_table_raw(4) in simp)
      then show ?thesis using exec3 by (simp add: r)
    qed simp
    then obtain n db' where "execute_all now (map Insert rest) db2 = Inr (n, db')" "\<forall>k'. taken db' k' = taken db2 k'"
      by blast
    then show ?thesis using exec keys False by (simp add: stmts)
  qed
qed

text \<open>What the driver reports of a violated key: the codes that the conversion of its errors looks for.\<close>

definition reports_unique :: "sql_backend \<Rightarrow> bool" where
  "reports_unique backend \<longleftrightarrow>
     (\<forall>t kind key. \<exists>e. sb_error backend (Failure_Unique t kind key) = Sqlx_Database e \<and>
        (de_code e = Some ''23505'' \<or>
         (de_code e = Some ''1555'' \<or> de_code e = Some ''2067'') \<and> CHR '':'' \<in> set (de_message e)))"

fun is_unique_error :: "database_write_error \<Rightarrow> bool" where
  "is_unique_error (DWE_UniqueConstraint _ _) = True"
| "is_unique_error _ = False"

lemma split_on_Nil [simp]: "split_on c s \<noteq> []"
  by (induction s) (auto split: list.splits)

lemma split_on_two: "c \<in> set s \<Longrightarrow> \<exists>x y zs. split_on c s = x # y # zs"
proof (induction s)
  case (Cons a s)
  then show ?case
  proof (cases "a = c")
    case True
    then show ?thesis by (cases "split_on c s") (use split_on_Nil [of c s] in simp_all)
  next
    case False
    then have "c \<in> set s" using Cons.prems by simp
    with Cons.IH show ?thesis using False by auto
  qed
qed simp

lemma unique_reported:
  assumes "reports_unique backend"
  shows "is_unique_error (write_error_from (sb_error backend (Failure_Unique t kind key)))"
proof -
  obtain e where e: "sb_error backend (Failure_Unique t kind key) = Sqlx_Database e"
    and codes: "de_code e = Some ''23505'' \<or>
         (de_code e = Some ''1555'' \<or> de_code e = Some ''2067'') \<and> CHR '':'' \<in> set (de_message e)"
    using assms unfolding reports_unique_def by blast
  show ?thesis
  proof (cases "de_code e = Some ''23505''")
    case False
    then have "de_code e = Some ''1555'' \<or> de_code e = Some ''2067''" "CHR '':'' \<in> set (de_message e)"
      using codes by auto
    moreover then obtain x y zs where "split_on (CHR '':'') (de_message e) = x # y # zs" using split_on_two by metis
    ultimately show ?thesis by (auto simp: e write_error_from_def)
  qed (simp add: e write_error_from_def)
qed

subsection \<open>Saving an event\<close>

text \<open>The operations of the writer as one, and what identifies an event: the key of its table and its entry in the log.\<close>

datatype stored_event =
    SE_BlockAdded block_added
  | SE_TransactionAccepted transaction_accepted
  | SE_TransactionProcessed transaction_processed
  | SE_TransactionExpired transaction_expired
  | SE_Fault fault
  | SE_FinalitySignature finality_signature
  | SE_Step step

fun save ::
  "store_lib \<Rightarrow> sql_backend \<Rightarrow> db_env \<Rightarrow> stored_event \<Rightarrow> event_origin \<Rightarrow> database \<Rightarrow>
   (database_write_error + u64) \<times> database" where
  "save lib backend env (SE_BlockAdded b) = save_block_added lib backend env b"
| "save lib backend env (SE_TransactionAccepted a) = save_transaction_accepted lib backend env a"
| "save lib backend env (SE_TransactionProcessed p) = save_transaction_processed lib backend env p"
| "save lib backend env (SE_TransactionExpired e) = save_transaction_expired lib backend env e"
| "save lib backend env (SE_Fault f) = save_fault lib backend env f"
| "save lib backend env (SE_FinalitySignature s) = save_finality_signature lib backend env s"
| "save lib backend env (SE_Step s) = save_step lib backend env s"

fun stored_key :: "store_lib \<Rightarrow> stored_event \<Rightarrow> entity_key" where
  "stored_key lib (SE_BlockAdded b) = Key_Block (get_height b)"
| "stored_key lib (SE_TransactionAccepted a) =
     Key_Accepted (transaction_type_number (transaction_type_id (ta_transaction a))) (accepted_identifier lib a)"
| "stored_key lib (SE_TransactionProcessed p) =
     Key_Processed (transaction_type_number (transaction_hash_type_id (tp_transaction_hash p))) (processed_identifier lib p)"
| "stored_key lib (SE_TransactionExpired e) = Key_Expired (expired_identifier lib e)"
| "stored_key lib (SE_Fault f) = Key_Fault (fa_era_id f) (sl_public_key_to_hex lib (fa_public_key f))"
| "stored_key lib (SE_FinalitySignature s) =
     Key_FinalitySignature (sl_hex_encode lib (finsig_block_hash s)) (sl_public_key_to_hex lib (finsig_public_key s))"
| "stored_key lib (SE_Step s) = Key_Step (st_era_id s)"

fun stored_type :: "stored_event \<Rightarrow> event_type_id" where
  "stored_type (SE_BlockAdded _) = Ev_BlockAdded"
| "stored_type (SE_TransactionAccepted _) = Ev_TransactionAccepted"
| "stored_type (SE_TransactionProcessed _) = Ev_TransactionProcessed"
| "stored_type (SE_TransactionExpired _) = Ev_TransactionExpired"
| "stored_type (SE_Fault _) = Ev_Fault"
| "stored_type (SE_FinalitySignature _) = Ev_FinalitySignature"
| "stored_type (SE_Step _) = Ev_Step"

fun stored_event_key :: "store_lib \<Rightarrow> stored_event \<Rightarrow> string" where
  "stored_event_key lib (SE_BlockAdded b) = block_hex_encoded_hash lib b"
| "stored_event_key lib (SE_TransactionAccepted a) = accepted_identifier lib a"
| "stored_event_key lib (SE_TransactionProcessed p) = processed_identifier lib p"
| "stored_event_key lib (SE_TransactionExpired e) = expired_identifier lib e"
| "stored_event_key lib (SE_Fault f) =
     nat_to_string (unat (fa_era_id f)) @ '' '' @ sl_public_key_to_hex lib (fa_public_key f)"
| "stored_event_key lib (SE_FinalitySignature s) =
     sl_hex_encode lib (finsig_block_hash s) @ '' '' @ sl_public_key_to_hex lib (finsig_public_key s)"
| "stored_event_key lib (SE_Step s) = nat_to_string (unat (st_era_id s))"

fun stored_json :: "store_lib \<Rightarrow> stored_event \<Rightarrow> string + string" where
  "stored_json lib (SE_BlockAdded b) = sl_block_to_json lib b"
| "stored_json lib (SE_TransactionAccepted a) = sl_accepted_to_json lib a"
| "stored_json lib (SE_TransactionProcessed p) = sl_processed_to_json lib p"
| "stored_json lib (SE_TransactionExpired e) = sl_expired_to_json lib e"
| "stored_json lib (SE_Fault f) = sl_fault_to_json lib f"
| "stored_json lib (SE_FinalitySignature s) = sl_finsig_to_json lib s"
| "stored_json lib (SE_Step s) = sl_step_to_json lib s"

lemmas key_insert_rules = block_insert accepted_insert processed_insert expired_insert fault_insert_main finsig_insert
  step_insert_main raw_insert_given raw_tables_def

lemma save_shape:
  "\<exists>inserts. key_inserts uns (stored_key lib ev) inserts \<and>
    save lib backend env ev origin =
      in_transaction backend env (stored_json lib ev) (stored_type ev) origin (stored_event_key lib ev) inserts"
proof (cases ev)
  case (SE_BlockAdded b)
  have "key_inserts uns (stored_key lib ev) (\<lambda>json event_log_id.
      and_then (block_added_insert (get_height b) (block_hex_encoded_hash lib b) json event_log_id) (\<lambda>stmt. Inr [stmt]))"
    by (simp add: SE_BlockAdded key_inserts_def insert_defs key_insert_rules)
  then show ?thesis by (auto simp: SE_BlockAdded save_block_added_def)
next
  case (SE_TransactionAccepted a)
  let ?t = "transaction_type_number (transaction_type_id (ta_transaction a))" and ?i = "accepted_identifier lib a"
  have "key_inserts uns (stored_key lib ev) (\<lambda>json event_log_id.
      and_then (transaction_accepted_insert ?t ?i json event_log_id) (\<lambda>stmt.
      and_then (transaction_event_insert event_log_id ?t ?i) (\<lambda>event_stmt. Inr [stmt, event_stmt])))"
    by (auto simp: SE_TransactionAccepted key_inserts_def insert_defs key_insert_rules)
  then show ?thesis by (auto simp: SE_TransactionAccepted save_transaction_accepted_def Let_def)
next
  case (SE_TransactionProcessed p)
  let ?t = "transaction_type_number (transaction_hash_type_id (tp_transaction_hash p))" and ?i = "processed_identifier lib p"
  have "key_inserts uns (stored_key lib ev) (\<lambda>json event_log_id.
      and_then (transaction_processed_insert ?t ?i json event_log_id) (\<lambda>stmt.
      and_then (transaction_event_insert event_log_id ?t ?i) (\<lambda>event_stmt. Inr [stmt, event_stmt])))"
    by (auto simp: SE_TransactionProcessed key_inserts_def insert_defs key_insert_rules)
  then show ?thesis by (auto simp: SE_TransactionProcessed save_transaction_processed_def Let_def)
next
  case (SE_TransactionExpired e)
  let ?t = "transaction_type_number (transaction_hash_type_id (te_transaction_hash e))" and ?i = "expired_identifier lib e"
  have "key_inserts uns (stored_key lib ev) (\<lambda>json event_log_id.
      and_then (transaction_expired_insert ?t ?i event_log_id json) (\<lambda>stmt.
      and_then (transaction_event_insert event_log_id ?t ?i) (\<lambda>event_stmt. Inr [stmt, event_stmt])))"
    by (auto simp: SE_TransactionExpired key_inserts_def insert_defs key_insert_rules)
  then show ?thesis by (auto simp: SE_TransactionExpired save_transaction_expired_def Let_def)
next
  case (SE_Fault f)
  have "key_inserts uns (stored_key lib ev) (\<lambda>json event_log_id.
      and_then (fault_insert (fa_era_id f) (sl_public_key_to_hex lib (fa_public_key f)) json event_log_id) (\<lambda>stmt. Inr [stmt]))"
    by (simp add: SE_Fault key_inserts_def insert_defs key_insert_rules)
  then show ?thesis by (auto simp: SE_Fault save_fault_def Let_def)
next
  case (SE_FinalitySignature s)
  have "key_inserts uns (stored_key lib ev) (\<lambda>json event_log_id.
      and_then (finality_signature_insert (sl_hex_encode lib (finsig_block_hash s))
        (sl_public_key_to_hex lib (finsig_public_key s)) json event_log_id) (\<lambda>stmt. Inr [stmt]))"
    by (simp add: SE_FinalitySignature key_inserts_def insert_defs key_insert_rules)
  then show ?thesis by (auto simp: SE_FinalitySignature save_finality_signature_def Let_def)
next
  case (SE_Step s)
  have "key_inserts uns (stored_key lib ev) (\<lambda>json event_log_id.
      and_then (step_insert (st_era_id s) json event_log_id) (\<lambda>stmt. Inr [stmt]))"
    by (simp add: SE_Step key_inserts_def insert_defs key_insert_rules)
  then show ?thesis by (auto simp: SE_Step save_step_def)
qed

text \<open>Whatever happens to the connection, the store stays a store.\<close>

lemma save_store:
  assumes "event_store uns db" "log_room db"
  shows "event_store uns (snd (save lib backend env ev origin db))"
  using save_shape [of uns lib ev backend env origin] in_transaction_store [OF assms] key_inserts_entity by metis

lemma save_quiet:
  assumes "event_store uns db" "log_room db" "quiet env" "stored_json lib ev = Inr raw" "reports_unique backend"
  shows "if logged db (stored_type ev) origin (stored_event_key lib ev) \<or> taken db (stored_key lib ev)
    then \<exists>err. save lib backend env ev origin db = (Inl err, db) \<and> is_unique_error err
    else \<exists>n db'. save lib backend env ev origin db = (Inr n, db') \<and> event_store uns db' \<and>
      (\<forall>k. taken db' k \<longleftrightarrow> taken db k \<or> k = stored_key lib ev) \<and>
      rows_of db' T_EventLog = rows_of db T_EventLog @
        [log_row (dv_now env) (Suc (last_log_id db)) (stored_type ev) origin (stored_event_key lib ev)] \<and>
      last_log_id db' = Suc (last_log_id db)"
proof -
  let ?ty = "stored_type ev" and ?key = "stored_event_key lib ev" and ?k = "stored_key lib ev"
  obtain inserts where inserts: "key_inserts uns ?k inserts"
    and save: "save lib backend env ev origin = in_transaction backend env (Inr raw) ?ty origin ?key inserts"
    using save_shape [of uns lib ev backend env origin] assms(4) by auto
  obtain stmts where stmts: "inserts raw (new_log_id db) = Inr stmts"
    by (rule key_insertsE [OF inserts])
  note outcome = quiet_transaction [OF assms(1,3), of backend raw ?ty origin ?key inserts, unfolded stmts]
  show ?thesis
  proof (cases "logged db ?ty origin ?key")
    case True
    then show ?thesis using outcome unique_reported [OF assms(5)] by (simp add: save)
  next
    case new: False
    note exec = execute_key_inserts [OF assms(1,2) new inserts stmts, of "dv_now env"]
    show ?thesis
    proof (cases "taken db ?k")
      case True
      then show ?thesis using outcome new exec unique_reported [OF assms(5)] by (auto simp: save)
    next
      case False
      then obtain n db' where ok: "save lib backend env ev origin db = (Inr (of_nat n), db')"
        and keys: "\<forall>k. taken db' k \<longleftrightarrow> taken db k \<or> k = ?k"
        using outcome new exec by (auto simp: save)
      from ok have "\<exists>m. transaction_body backend env (Inr raw) ?ty origin ?key inserts db = Inr (m, db')"
        unfolding save by (cases rule: in_transaction_cases) auto
      then obtain m where "transaction_body backend env (Inr raw) ?ty origin ?key inserts db = Inr (m, db')" ..
      from transaction_body_store [OF assms(1,2) key_inserts_entity [OF inserts] this]
      show ?thesis using ok keys new False by auto
    qed
  qed
qed

text \<open>A shutdown has no key: it is logged, or was logged before.\<close>

lemma save_shutdown_shape:
  "\<exists>inserts key. (\<forall>log_id. inserts () log_id =
      Inr [given_insert T_Shutdown [EventSourceAddress, EventLogId] [V_Text (eo_source origin), v_u64 log_id]]) \<and>
    entity_inserts uns inserts \<and>
    save_shutdown backend env origin = in_transaction backend env (Inr ()) Ev_Shutdown origin key inserts"
proof -
  have "entity_inserts uns (\<lambda>(_ :: unit) event_log_id.
      and_then (shutdown_insert (eo_source origin) event_log_id) (\<lambda>stmt. Inr [stmt]))"
    by (simp add: entity_inserts_def insert_defs shutdown_statement_entity)
  then show ?thesis by (auto simp: save_shutdown_def insert_defs)
qed

lemma save_shutdown_store:
  assumes "event_store uns db" "log_room db"
  shows "event_store uns (snd (save_shutdown backend env origin db))"
  using save_shutdown_shape [of origin uns backend env] in_transaction_store [OF assms] by metis

lemma save_shutdown_quiet:
  assumes "event_store uns db" "log_room db" "quiet env" "reports_unique backend"
  obtains (known) err where "save_shutdown backend env origin db = (Inl err, db)" "is_unique_error err"
  | (new) n db' key where "save_shutdown backend env origin db = (Inr n, db')" "event_store uns db'"
      "\<And>k. taken db' k = taken db k" "last_log_id db' = Suc (last_log_id db)"
      "rows_of db' T_EventLog = rows_of db T_EventLog @ [log_row (dv_now env) (Suc (last_log_id db)) Ev_Shutdown origin key]"
proof -
  let ?stmt = "given_insert T_Shutdown [EventSourceAddress, EventLogId] [V_Text (eo_source origin), v_u64 (new_log_id db)]"
  obtain inserts key where stmts: "inserts () (new_log_id db) = Inr [?stmt]" and entities: "entity_inserts uns inserts"
    and save: "save_shutdown backend env origin = in_transaction backend env (Inr ()) Ev_Shutdown origin key inserts"
    using save_shutdown_shape [of origin uns backend env] by blast
  let ?db1 = "with_log db (dv_now env) Ev_Shutdown origin key"
  note outcome = quiet_transaction [OF assms(1,3), of backend "()" Ev_Shutdown origin key inserts, unfolded stmts]
  show thesis
  proof (cases "logged db Ev_Shutdown origin key")
    case True
    then show thesis using outcome unique_reported [OF assms(4)] known by (simp add: save)
  next
    case False
    have store: "event_store uns ?db1" by (rule with_log_store(1) [OF assms(1) False])
    have log: "\<exists>l \<in> set (rows_of ?db1 T_EventLog). l EventLogId = Some (v_u64 (new_log_id db))"
      unfolding with_log_other(2) [OF assms(1)] next_log_id [OF assms(2)] by simp
    obtain tb where exec: "execute (dv_now env) (Insert ?stmt) ?db1 =
       (case violated_key (tb_rows tb) (inserted_row (dv_now env) ?stmt tb) (tb_create tb) of
          Some (kind, k) \<Rightarrow> Inl (Failure_Unique T_Shutdown kind k)
        | None \<Rightarrow> Inr ([inserted_row (dv_now env) ?stmt tb],
                   with_row ?db1 T_Shutdown tb (inserted_row (dv_now env) ?stmt tb)))"
      by (rule execute_entity [OF store shutdown_statement_entity log, where now = "dv_now env", unfolded given_insert_sel])
    show thesis
    proof (cases "violated_key (tb_rows tb) (inserted_row (dv_now env) ?stmt tb) (tb_create tb)")
      case None
      let ?db2 = "with_row ?db1 T_Shutdown tb (inserted_row (dv_now env) ?stmt tb)"
      have ok: "in_transaction backend env (Inr ()) Ev_Shutdown origin key inserts db = (Inr 1, ?db2)"
        using None exec False outcome by simp
      then obtain m where body: "transaction_body backend env (Inr ()) Ev_Shutdown origin key inserts db = Inr (m, ?db2)"
        by (cases rule: in_transaction_cases) auto
      have "taken ?db2 k = taken db k" for k
      proof (rule taken_cong)
        have "key_table k \<noteq> T_Shutdown" by (cases k) simp_all
        then show "rows_of ?db2 (key_table k) = rows_of db (key_table k)"
          using with_log_other(1) [OF assms(1) key_table_raw(3)] by simp
      qed
      from new [OF _ _ this] transaction_body_store [OF assms(1,2) entities body] ok show thesis
        unfolding save by blast
    next
      case (Some p)
      then show thesis using exec False outcome unique_reported [OF assms(4)] known
        by (cases p) (simp add: save)
    qed
  qed
qed

end
