(* ===== verification/Event_Handling.thy ===== *)
theory Event_Handling
  imports Store_Saves Connection_Manager
begin

text \<open>
  What the sidecar does with the events that its listeners receive: the services of
  \<open>event_sidecar/src/event_handling_service\<close> with and without a database, the manager of the newest API
  version (\<open>api_version_manager.rs\<close>), and the consumers of \<open>event_sidecar/src/lib.rs\<close> that dispatch
  the events.  The messages that are only logged are left out.
\<close>

subsection \<open>Channels\<close>

datatype sidecar_event = SidecarEvent_BlockAdded block_hash u64

datatype observation = Contract_Messages string nat | Error_Counted string string

text \<open>What a service writes to: the outbound channel, unless its receiver is gone, the bus of sidecar events, the
  metrics; and whether its task panicked.\<close>

record channels =
  ch_outbound :: "(sse_data \<times> sse_filter option) list"
  ch_closed :: bool
  ch_sidecar_events :: "sidecar_event list"
  ch_metrics :: "observation list"
  ch_panicked :: bool

definition outbound_send :: "sse_data \<Rightarrow> sse_filter option \<Rightarrow> channels \<Rightarrow> channels" where
  "outbound_send d f ch = (if ch_closed ch then ch else ch\<lparr> ch_outbound := ch_outbound ch @ [(d, f)] \<rparr>)"

definition sidecar_send :: "bool \<Rightarrow> sidecar_event \<Rightarrow> channels \<Rightarrow> channels" where
  "sidecar_send has_sender ev ch =
     (if has_sender then ch\<lparr> ch_sidecar_events := ch_sidecar_events ch @ [ev] \<rparr> else ch)"

definition observe :: "observation \<Rightarrow> channels \<Rightarrow> channels" where
  "observe ob ch = ch\<lparr> ch_metrics := ch_metrics ch @ [ob] \<rparr>"

definition observe_contract_messages :: "string \<Rightarrow> nat \<Rightarrow> channels \<Rightarrow> channels" where
  "observe_contract_messages label n = observe (Contract_Messages label n)"

definition count_error :: "string \<Rightarrow> channels \<Rightarrow> channels" where
  "count_error reason = observe (Error_Counted ''event_handling'' reason)"

definition handle_database_save_result ::
  "string \<Rightarrow> (database_write_error + 'a) \<Rightarrow> sse_filter \<Rightarrow> sse_data \<Rightarrow> channels \<Rightarrow> channels" where
  "handle_database_save_result entity_name res inbound_filter d ch =
     (case res of
        Inr _ \<Rightarrow> outbound_send d (Some inbound_filter) ch
      | Inl (DWE_UniqueConstraint _ _) \<Rightarrow> ch
      | Inl DWE_Panic \<Rightarrow> ch\<lparr> ch_panicked := True \<rparr>
      | Inl _ \<Rightarrow> count_error (''db_save_error_'' @ entity_name) ch)"

subsection \<open>Services\<close>

text \<open>\<open>EventHandlingService\<close>, over the state of a service.\<close>

record 's event_service =
  handle_api_version :: "protocol_version \<Rightarrow> sse_filter \<Rightarrow> 's \<Rightarrow> 's"
  handle_block_added :: "block_hash \<Rightarrow> block \<Rightarrow> sse_event \<Rightarrow> 's \<Rightarrow> 's"
  handle_transaction_accepted :: "transaction_accepted \<Rightarrow> sse_event \<Rightarrow> 's \<Rightarrow> 's"
  handle_transaction_expired :: "transaction_hash \<Rightarrow> sse_event \<Rightarrow> 's \<Rightarrow> 's"
  handle_transaction_processed :: "transaction_processed \<Rightarrow> sse_event \<Rightarrow> 's \<Rightarrow> 's"
  handle_fault :: "era_id \<Rightarrow> timestamp \<Rightarrow> public_key \<Rightarrow> sse_event \<Rightarrow> 's \<Rightarrow> 's"
  handle_step :: "step \<Rightarrow> sse_event \<Rightarrow> 's \<Rightarrow> 's"
  handle_finality_signature :: "finality_signature \<Rightarrow> sse_event \<Rightarrow> 's \<Rightarrow> 's"
  handle_shutdown :: "sse_event \<Rightarrow> 's \<Rightarrow> 's"

text \<open>The service without a database.\<close>

record no_db_config =
  nd_has_sidecar_event_sender :: bool
  nd_messages_len :: "opaque \<Rightarrow> nat"

definition no_db_api_version :: "protocol_version \<Rightarrow> sse_filter \<Rightarrow> channels \<Rightarrow> channels" where
  "no_db_api_version version f = outbound_send (ApiVersion version) (Some f)"

definition no_db_block_added :: "no_db_config \<Rightarrow> block_hash \<Rightarrow> block \<Rightarrow> sse_event \<Rightarrow> channels \<Rightarrow> channels" where
  "no_db_block_added cfg hash b ev ch =
     handle_database_save_result ''BlockAdded'' (Inr ()) (se_inbound_filter ev) (se_data ev)
       (sidecar_send (nd_has_sidecar_event_sender cfg) (SidecarEvent_BlockAdded hash (block_height b)) ch)"

definition no_db_transaction_accepted :: "transaction_accepted \<Rightarrow> sse_event \<Rightarrow> channels \<Rightarrow> channels" where
  "no_db_transaction_accepted _ ev =
     handle_database_save_result ''TransactionAccepted'' (Inr ()) (se_inbound_filter ev) (se_data ev)"

definition no_db_transaction_expired :: "transaction_hash \<Rightarrow> sse_event \<Rightarrow> channels \<Rightarrow> channels" where
  "no_db_transaction_expired _ ev =
     handle_database_save_result ''TransactionExpired'' (Inr ()) (se_inbound_filter ev) (se_data ev)"

definition no_db_transaction_processed ::
  "no_db_config \<Rightarrow> transaction_processed \<Rightarrow> sse_event \<Rightarrow> channels \<Rightarrow> channels" where
  "no_db_transaction_processed cfg p ev ch =
     (let messages_len = nd_messages_len cfg (tp_messages p);
          ch1 = (if messages_len > 0 then observe_contract_messages ''all'' messages_len ch else ch) in
      handle_database_save_result ''TransactionProcessed'' (Inr ()) (se_inbound_filter ev) (se_data ev) ch1)"

definition no_db_fault :: "era_id \<Rightarrow> timestamp \<Rightarrow> public_key \<Rightarrow> sse_event \<Rightarrow> channels \<Rightarrow> channels" where
  "no_db_fault _ _ _ ev = handle_database_save_result ''Fault'' (Inr ()) (se_inbound_filter ev) (se_data ev)"

definition no_db_step :: "step \<Rightarrow> sse_event \<Rightarrow> channels \<Rightarrow> channels" where
  "no_db_step _ ev = handle_database_save_result ''Step'' (Inr ()) (se_inbound_filter ev) (se_data ev)"

definition no_db_finality_signature :: "finality_signature \<Rightarrow> sse_event \<Rightarrow> channels \<Rightarrow> channels" where
  "no_db_finality_signature _ ev =
     handle_database_save_result ''FinalitySignature'' (Inr ()) (se_inbound_filter ev) (se_data ev)"

definition no_db_shutdown :: "sse_event \<Rightarrow> channels \<Rightarrow> channels" where
  "no_db_shutdown ev = outbound_send Shutdown (Some (se_inbound_filter ev))"

definition NoDbEventHandlingService :: "no_db_config \<Rightarrow> channels event_service" where
  "NoDbEventHandlingService cfg =
     \<lparr> handle_api_version = no_db_api_version, handle_block_added = no_db_block_added cfg,
       handle_transaction_accepted = no_db_transaction_accepted, handle_transaction_expired = no_db_transaction_expired,
       handle_transaction_processed = no_db_transaction_processed cfg, handle_fault = no_db_fault,
       handle_step = no_db_step, handle_finality_signature = no_db_finality_signature,
       handle_shutdown = no_db_shutdown \<rparr>"

text \<open>The service with a database.  What happens on the connection to the database during a call is an argument.\<close>

record db_config =
  dc_lib :: store_lib
  dc_backend :: sql_backend
  dc_has_sidecar_event_sender :: bool
  dc_messages_len :: "opaque \<Rightarrow> nat"
  dc_url_to_string :: "url \<Rightarrow> string"

record db_service =
  ds_database :: database
  ds_channels :: channels

definition origin_of :: "db_config \<Rightarrow> sse_event \<Rightarrow> event_origin" where
  "origin_of cfg ev =
     \<lparr> eo_event_id = se_id ev, eo_source = dc_url_to_string cfg (se_source ev), eo_api_version = se_api_version ev,
       eo_network_name = se_network_name ev \<rparr>"

definition on_channels :: "(channels \<Rightarrow> channels) \<Rightarrow> db_service \<Rightarrow> db_service" where
  "on_channels f s = s\<lparr> ds_channels := f (ds_channels s) \<rparr>"

definition db_api_version :: "protocol_version \<Rightarrow> sse_filter \<Rightarrow> db_service \<Rightarrow> db_service" where
  "db_api_version version f = on_channels (outbound_send (ApiVersion version) (Some f))"

definition db_block_added ::
  "db_config \<Rightarrow> db_env \<Rightarrow> block_hash \<Rightarrow> block \<Rightarrow> sse_event \<Rightarrow> db_service \<Rightarrow> db_service" where
  "db_block_added cfg env hash b ev s =
     (let (res, db) = save_block_added (dc_lib cfg) (dc_backend cfg) env \<lparr> ba_block_hash = hash, ba_block = b \<rparr>
            (origin_of cfg ev) (ds_database s);
          s1 = s\<lparr> ds_database := db \<rparr>;
          s2 = (case res of
                  Inr _ \<Rightarrow> on_channels (sidecar_send (dc_has_sidecar_event_sender cfg)
                             (SidecarEvent_BlockAdded hash (block_height b))) s1
                | Inl _ \<Rightarrow> s1) in
      on_channels (handle_database_save_result ''BlockAdded'' res (se_inbound_filter ev) (se_data ev)) s2)"

definition db_transaction_accepted ::
  "db_config \<Rightarrow> db_env \<Rightarrow> transaction_accepted \<Rightarrow> sse_event \<Rightarrow> db_service \<Rightarrow> db_service" where
  "db_transaction_accepted cfg env a ev s =
     (let (res, db) = save_transaction_accepted (dc_lib cfg) (dc_backend cfg) env a (origin_of cfg ev) (ds_database s) in
      on_channels (handle_database_save_result ''TransactionAccepted'' res (se_inbound_filter ev) (se_data ev))
        (s\<lparr> ds_database := db \<rparr>))"

definition db_transaction_expired ::
  "db_config \<Rightarrow> db_env \<Rightarrow> transaction_hash \<Rightarrow> sse_event \<Rightarrow> db_service \<Rightarrow> db_service" where
  "db_transaction_expired cfg env hash ev s =
     (let (res, db) = save_transaction_expired (dc_lib cfg) (dc_backend cfg) env \<lparr> te_transaction_hash = hash \<rparr>
            (origin_of cfg ev) (ds_database s) in
      on_channels (handle_database_save_result ''TransactionExpired'' res (se_inbound_filter ev) (se_data ev))
        (s\<lparr> ds_database := db \<rparr>))"

definition db_transaction_processed ::
  "db_config \<Rightarrow> db_env \<Rightarrow> transaction_processed \<Rightarrow> sse_event \<Rightarrow> db_service \<Rightarrow> db_service" where
  "db_transaction_processed cfg env p ev s =
     (let messages_len = dc_messages_len cfg (tp_messages p);
          s1 = (if messages_len > 0 then on_channels (observe_contract_messages ''all'' messages_len) s else s);
          (res, db) = save_transaction_processed (dc_lib cfg) (dc_backend cfg) env p (origin_of cfg ev) (ds_database s1);
          s2 = s1\<lparr> ds_database := db \<rparr>;
          s3 = (case res of
                  Inr _ \<Rightarrow> if messages_len > 0 then on_channels (observe_contract_messages ''unique'' messages_len) s2 else s2
                | Inl _ \<Rightarrow> s2) in
      on_channels (handle_database_save_result ''TransactionProcessed'' res (se_inbound_filter ev) (se_data ev)) s3)"

definition db_fault ::
  "db_config \<Rightarrow> db_env \<Rightarrow> era_id \<Rightarrow> timestamp \<Rightarrow> public_key \<Rightarrow> sse_event \<Rightarrow> db_service \<Rightarrow> db_service" where
  "db_fault cfg env era t k ev s =
     (let (res, db) = save_fault (dc_lib cfg) (dc_backend cfg) env \<lparr> fa_era_id = era, fa_public_key = k, fa_timestamp = t \<rparr>
            (origin_of cfg ev) (ds_database s) in
      on_channels (handle_database_save_result ''Fault'' res (se_inbound_filter ev) (se_data ev))
        (s\<lparr> ds_database := db \<rparr>))"

definition db_step :: "db_config \<Rightarrow> db_env \<Rightarrow> step \<Rightarrow> sse_event \<Rightarrow> db_service \<Rightarrow> db_service" where
  "db_step cfg env st ev s =
     (let (res, db) = save_step (dc_lib cfg) (dc_backend cfg) env st (origin_of cfg ev) (ds_database s) in
      on_channels (handle_database_save_result ''Step'' res (se_inbound_filter ev) (se_data ev))
        (s\<lparr> ds_database := db \<rparr>))"

definition db_finality_signature ::
  "db_config \<Rightarrow> db_env \<Rightarrow> finality_signature \<Rightarrow> sse_event \<Rightarrow> db_service \<Rightarrow> db_service" where
  "db_finality_signature cfg env fs ev s =
     (let (res, db) = save_finality_signature (dc_lib cfg) (dc_backend cfg) env fs (origin_of cfg ev) (ds_database s) in
      on_channels (handle_database_save_result ''FinalitySignature'' res (se_inbound_filter ev) (se_data ev))
        (s\<lparr> ds_database := db \<rparr>))"

definition db_shutdown :: "db_config \<Rightarrow> db_env \<Rightarrow> sse_event \<Rightarrow> db_service \<Rightarrow> db_service" where
  "db_shutdown cfg env ev s =
     (let (res, db) = save_shutdown (dc_backend cfg) env (origin_of cfg ev) (ds_database s);
          s1 = s\<lparr> ds_database := db \<rparr> in
      case res of
        Inr _ \<Rightarrow> on_channels (outbound_send Shutdown (Some (se_inbound_filter ev))) s1
      | Inl (DWE_UniqueConstraint _ _) \<Rightarrow> on_channels (outbound_send Shutdown (Some (se_inbound_filter ev))) s1
      | Inl DWE_Panic \<Rightarrow> on_channels (\<lambda>ch. ch\<lparr> ch_panicked := True \<rparr>) s1
      | Inl _ \<Rightarrow> on_channels (count_error ''db_save_error_shutdown'') s1)"

definition DbSavingEventHandlingService :: "db_config \<Rightarrow> db_env \<Rightarrow> db_service event_service" where
  "DbSavingEventHandlingService cfg env =
     \<lparr> handle_api_version = db_api_version, handle_block_added = db_block_added cfg env,
       handle_transaction_accepted = db_transaction_accepted cfg env,
       handle_transaction_expired = db_transaction_expired cfg env,
       handle_transaction_processed = db_transaction_processed cfg env, handle_fault = db_fault cfg env,
       handle_step = db_step cfg env, handle_finality_signature = db_finality_signature cfg env,
       handle_shutdown = db_shutdown cfg env \<rparr>"

subsection \<open>Dispatching\<close>

text \<open>\<open>ApiVersionManager\<close>: the newest version, and whether a version is newer.\<close>

type_synonym api_version_manager = "protocol_version option"

definition ApiVersionManager_new :: api_version_manager where
  "ApiVersionManager_new = None"

definition store_version :: "protocol_version \<Rightarrow> api_version_manager \<Rightarrow> bool \<times> api_version_manager" where
  "store_version version newest =
     (case newest of
        Some current \<Rightarrow> if version > current then (True, Some version) else (False, newest)
      | None \<Rightarrow> (True, Some version))"

definition dispatch_api_version ::
  "'s event_service \<Rightarrow> protocol_version \<Rightarrow> sse_filter \<Rightarrow> 's \<times> api_version_manager \<Rightarrow> 's \<times> api_version_manager" where
  "dispatch_api_version svc version inbound_filter st =
     (let (changed_newest_version, newest) = store_version version (snd st) in
      (if changed_newest_version then handle_api_version svc version inbound_filter (fst st) else fst st, newest))"

definition handle_single_event ::
  "'s event_service \<Rightarrow> sse_event \<Rightarrow> 's \<times> api_version_manager \<Rightarrow> 's \<times> api_version_manager" where
  "handle_single_event svc ev st =
     (case se_data ev of
        ApiVersion version \<Rightarrow> dispatch_api_version svc version (se_inbound_filter ev) st
      | BlockAdded hash b \<Rightarrow> (handle_block_added svc hash b ev (fst st), snd st)
      | TransactionAccepted t \<Rightarrow> (handle_transaction_accepted svc \<lparr> ta_transaction = t \<rparr> ev (fst st), snd st)
      | TransactionExpired h \<Rightarrow> (handle_transaction_expired svc h ev (fst st), snd st)
      | TransactionProcessed h a t ttl bh r m \<Rightarrow>
          (handle_transaction_processed svc
             \<lparr> tp_transaction_hash = h, tp_initiator_addr = a, tp_timestamp = t, tp_ttl = ttl, tp_block_hash = bh,
               tp_execution_result = r, tp_messages = m \<rparr> ev (fst st), snd st)
      | Fault era k t \<Rightarrow> (handle_fault svc era t k ev (fst st), snd st)
      | FinalitySignature fs \<Rightarrow> (handle_finality_signature svc fs ev (fst st), snd st)
      | Step era effects \<Rightarrow>
          (handle_step svc \<lparr> st_era_id = era, st_execution_effect = effects \<rparr> ev (fst st), snd st)
      | Shutdown \<Rightarrow> (handle_shutdown svc ev (fst st), snd st))"

end
