(* ===== verification/Event_Consumers.thy ===== *)
theory Event_Consumers
  imports Event_Handling "HOL-Library.Sublist"
begin

text \<open>
  The consumers of \<open>event_sidecar/src/lib.rs\<close> that feed received events to a service, and what they forward
  to the event stream server: never anything but what was received, and with a working database the first event with
  each key.
\<close>

subsection \<open>Consumers\<close>

text \<open>\<open>start_single_threaded_events_consumer\<close>: each event with what happens to the database while it is handled.
  A panic ends the task.\<close>

fun single_threaded_consumer ::
  "('e \<Rightarrow> 's event_service) \<Rightarrow> ('s \<Rightarrow> channels) \<Rightarrow> ('e \<times> sse_event) list \<Rightarrow>
   's \<times> api_version_manager \<Rightarrow> 's \<times> api_version_manager" where
  "single_threaded_consumer svc chan [] st = st"
| "single_threaded_consumer svc chan ((e, ev) # evs) st =
     (if ch_panicked (chan (fst st)) then st
      else single_threaded_consumer svc chan evs (handle_single_event (svc e) ev st))"

definition DEFAULT_CHANNEL_SIZE :: nat where
  "DEFAULT_CHANNEL_SIZE = 1000"

text \<open>\<open>build_queues\<close>: a queue for each filter.\<close>

definition build_queues :: "sse_filter \<Rightarrow> sse_event list option" where
  "build_queues = [Events \<mapsto> []]"

text \<open>\<open>start_multi_threaded_events_consumer\<close> and the task of \<open>handle_events_in_thread\<close> for each
  queue: what was not received yet, the queues, the service, and whether the receiving loop ended.\<close>

record 's consumer =
  cs_inbound :: "sse_event list"
  cs_queues :: "sse_filter \<Rightarrow> sse_event list option"
  cs_service :: "'s \<times> api_version_manager"
  cs_ended :: bool

definition start_multi_threaded_events_consumer ::
  "sse_event list \<Rightarrow> 's \<times> api_version_manager \<Rightarrow> 's consumer" where
  "start_multi_threaded_events_consumer evs st =
     \<lparr> cs_inbound = evs, cs_queues = build_queues, cs_service = st, cs_ended = False \<rparr>"

inductive consumer_step ::
  "('e \<Rightarrow> 's event_service) \<Rightarrow> ('s \<Rightarrow> channels) \<Rightarrow> 's consumer \<Rightarrow> 's consumer \<Rightarrow> bool"
  for svc :: "'e \<Rightarrow> 's event_service" and chan :: "'s \<Rightarrow> channels"
where
  enqueue: "\<not> cs_ended c \<Longrightarrow> cs_inbound c = ev # evs \<Longrightarrow> cs_queues c (se_inbound_filter ev) = Some q \<Longrightarrow>
    length q < DEFAULT_CHANNEL_SIZE \<Longrightarrow> \<not> ch_panicked (chan (fst (cs_service c))) \<Longrightarrow>
    consumer_step svc chan c (c\<lparr> cs_inbound := evs, cs_queues := (cs_queues c)(se_inbound_filter ev \<mapsto> q @ [ev]) \<rparr>)"
| no_queue: "\<not> cs_ended c \<Longrightarrow> cs_inbound c = ev # evs \<Longrightarrow> cs_queues c (se_inbound_filter ev) = None \<Longrightarrow>
    consumer_step svc chan c (c\<lparr> cs_inbound := evs, cs_ended := True \<rparr>)"
| send_fails: "\<not> cs_ended c \<Longrightarrow> cs_inbound c = ev # evs \<Longrightarrow> ch_panicked (chan (fst (cs_service c))) \<Longrightarrow>
    consumer_step svc chan c (c\<lparr> cs_inbound := evs, cs_ended := True \<rparr>)"
| inbound_closed: "\<not> cs_ended c \<Longrightarrow> cs_inbound c = [] \<Longrightarrow> consumer_step svc chan c (c\<lparr> cs_ended := True \<rparr>)"
| handle: "cs_queues c f = Some (ev # q) \<Longrightarrow> \<not> ch_panicked (chan (fst (cs_service c))) \<Longrightarrow>
    consumer_step svc chan c
      (c\<lparr> cs_queues := (cs_queues c)(f \<mapsto> q), cs_service := handle_single_event (svc e) ev (cs_service c) \<rparr>)"

inductive_cases consumer_stepE: "consumer_step svc chan c c'"

lemma single_threaded_append:
  "single_threaded_consumer svc chan (evs @ evs') st =
     single_threaded_consumer svc chan evs' (single_threaded_consumer svc chan evs st)"
proof (induction svc chan evs st rule: single_threaded_consumer.induct)
  case (2 svc chan e ev evs st)
  have "ch_panicked (chan (fst st)) \<Longrightarrow> single_threaded_consumer svc chan evs' st = st" by (cases evs') auto
  then show ?case using 2 by auto
qed simp

text \<open>The queue in between changes nothing: what the handling task did is what the single-threaded consumer does
  with the events taken so far.\<close>

definition consumed :: "('e \<Rightarrow> 's event_service) \<Rightarrow> ('s \<Rightarrow> channels) \<Rightarrow> sse_event list \<Rightarrow> 's \<times> api_version_manager \<Rightarrow>
    's consumer \<Rightarrow> bool" where
  "consumed svc chan evs st c \<longleftrightarrow>
     (\<exists>taken_evs q lost. cs_queues c = [Events \<mapsto> q] \<and> evs = map snd taken_evs @ q @ lost @ cs_inbound c \<and>
        (lost \<noteq> [] \<longrightarrow> ch_panicked (chan (fst (cs_service c)))) \<and>
        cs_service c = single_threaded_consumer svc chan taken_evs st)"

lemma sse_filter_Events: "f = Events"
  by (cases f) simp

lemma consumer_step_consumed:
  assumes "consumer_step svc chan c c'" "consumed svc chan evs st c"
  shows "consumed svc chan evs st c'"
proof -
  obtain taken_evs q lost where q: "cs_queues c = [Events \<mapsto> q]" and evs: "evs = map snd taken_evs @ q @ lost @ cs_inbound c"
    and lost: "lost \<noteq> [] \<longrightarrow> ch_panicked (chan (fst (cs_service c)))"
    and st: "cs_service c = single_threaded_consumer svc chan taken_evs st"
    using assms(2) unfolding consumed_def by blast
  from assms(1) show ?thesis
  proof cases
    case (enqueue ev rest q')
    then have "lost = []" "q' = q" "se_inbound_filter ev = Events" using lost q by (auto simp: sse_filter_Events)
    then show ?thesis unfolding consumed_def enqueue(1) using q evs st enqueue
      by (intro exI [of _ taken_evs] exI [of _ "q @ [ev]"] exI [of _ "[]"]) simp
  next
    case (no_queue ev rest)
    then show ?thesis using q by (cases "se_inbound_filter ev") simp
  next
    case (send_fails ev rest)
    then show ?thesis unfolding consumed_def send_fails(1) using q evs st
      by (intro exI [of _ taken_evs] exI [of _ q] exI [of _ "lost @ [ev]"]) simp
  next
    case inbound_closed
    then show ?thesis unfolding consumed_def inbound_closed(1) using q evs st lost
      by (intro exI [of _ taken_evs] exI [of _ q] exI [of _ lost]) simp
  next
    case (handle f ev rest e)
    then have "f = Events" "q = ev # rest" "lost = []" using lost q by (cases f; auto)+
    moreover have "single_threaded_consumer svc chan (taken_evs @ [(e, ev)]) st = handle_single_event (svc e) ev (cs_service c)"
      using handle(3) unfolding single_threaded_append st [symmetric] by simp
    ultimately show ?thesis unfolding consumed_def handle(1) using q evs
      by (intro exI [of _ "taken_evs @ [(e, ev)]"] exI [of _ rest] exI [of _ "[]"]) simp
  qed
qed

lemma consumer_steps_consumed:
  assumes "(consumer_step svc chan)\<^sup>*\<^sup>* (start_multi_threaded_events_consumer evs st) c"
  shows "consumed svc chan evs st c"
  using assms
proof (induction rule: rtranclp_induct)
  case base
  show ?case unfolding consumed_def
    by (intro exI [of _ "[]"]) (simp add: start_multi_threaded_events_consumer_def build_queues_def)
qed (rule consumer_step_consumed)

text \<open>The consumer is never stuck before all events are handled.\<close>

lemma consumer_progress:
  assumes "consumed svc chan evs st c" "\<not> ch_panicked (chan (fst (cs_service c)))"
    and "cs_inbound c \<noteq> [] \<and> \<not> cs_ended c \<or> cs_queues c \<noteq> [Events \<mapsto> []]"
  shows "\<exists>c'. consumer_step svc chan c c'"
proof -
  obtain q where q: "cs_queues c = [Events \<mapsto> q]" using assms(1) unfolding consumed_def by blast
  show ?thesis
  proof (cases q)
    case (Cons ev rest)
    then show ?thesis using consumer_step.handle [of c Events ev rest chan] q assms(2) by (metis fun_upd_same)
  next
    case Nil
    then obtain ev rest where "cs_inbound c = ev # rest" "\<not> cs_ended c"
      using assms(3) q by (cases "cs_inbound c") auto
    then show ?thesis using consumer_step.enqueue [of c ev rest "[]" chan svc] q Nil assms(2)
      by (cases "se_inbound_filter ev") (auto simp: DEFAULT_CHANNEL_SIZE_def)
  qed
qed

subsection \<open>What a service promises\<close>

text \<open>Handling an event forwards it with its filter, or nothing.\<close>

definition forwards_only :: "sse_data \<Rightarrow> sse_filter \<Rightarrow> channels \<Rightarrow> channels \<Rightarrow> bool" where
  "forwards_only d f ch ch' \<longleftrightarrow> ch_outbound ch' = ch_outbound ch \<or> ch_outbound ch' = ch_outbound ch @ [(d, Some f)]"

locale handling_service =
  fixes svc :: "'e \<Rightarrow> 's event_service" and chan :: "'s \<Rightarrow> channels"
  assumes api_version:
      "forwards_only (ApiVersion v) f (chan s) (chan (handle_api_version (svc e) v f s))"
    and block_added:
      "forwards_only (se_data ev) (se_inbound_filter ev) (chan s) (chan (handle_block_added (svc e) h b ev s))"
    and transaction_accepted:
      "forwards_only (se_data ev) (se_inbound_filter ev) (chan s) (chan (handle_transaction_accepted (svc e) a ev s))"
    and transaction_expired:
      "forwards_only (se_data ev) (se_inbound_filter ev) (chan s) (chan (handle_transaction_expired (svc e) th ev s))"
    and transaction_processed:
      "forwards_only (se_data ev) (se_inbound_filter ev) (chan s) (chan (handle_transaction_processed (svc e) p ev s))"
    and fault:
      "forwards_only (se_data ev) (se_inbound_filter ev) (chan s) (chan (handle_fault (svc e) era t k ev s))"
    and step:
      "forwards_only (se_data ev) (se_inbound_filter ev) (chan s) (chan (handle_step (svc e) stp ev s))"
    and finality_signature:
      "forwards_only (se_data ev) (se_inbound_filter ev) (chan s) (chan (handle_finality_signature (svc e) fs ev s))"
    and shutdown:
      "forwards_only Shutdown (se_inbound_filter ev) (chan s) (chan (handle_shutdown (svc e) ev s))"
begin

lemma single_event_forwards:
  "forwards_only (se_data ev) (se_inbound_filter ev) (chan (fst st)) (chan (fst (handle_single_event (svc e) ev st)))"
proof (cases "se_data ev")
  case (ApiVersion v)
  then show ?thesis using api_version [of v "se_inbound_filter ev" "fst st" e]
    by (auto simp: handle_single_event_def dispatch_api_version_def forwards_only_def split: prod.splits)
qed (use block_added [of ev "fst st" e] transaction_accepted [of ev "fst st" e] transaction_expired [of ev "fst st" e]
       transaction_processed [of ev "fst st" e] fault [of ev "fst st" e] step [of ev "fst st" e]
       finality_signature [of ev "fst st" e] shutdown [of ev "fst st" e] in \<open>simp_all add: handle_single_event_def\<close>)

lemma single_event_version:
  assumes "ch_outbound (chan (fst (handle_single_event (svc e) ev st))) =
      ch_outbound (chan (fst st)) @ [(ApiVersion v, Some (se_inbound_filter ev))]" "se_data ev = ApiVersion v"
  shows "snd (handle_single_event (svc e) ev st) = Some v \<and> (\<forall>u. snd st = Some u \<longrightarrow> u < v)"
  using assms
  by (auto simp: handle_single_event_def dispatch_api_version_def store_version_def split: option.splits if_splits)

end

text \<open>The versions among forwarded events.\<close>

fun versions_of :: "(sse_data \<times> sse_filter option) list \<Rightarrow> protocol_version list" where
  "versions_of [] = []"
| "versions_of ((ApiVersion v, _) # xs) = v # versions_of xs"
| "versions_of (_ # xs) = versions_of xs"

lemma versions_of_other: "\<not> is_api_version d \<Longrightarrow> versions_of ((d, f) # xs) = versions_of xs"
  by (cases d) simp_all

definition received :: "('e \<times> sse_event) list \<Rightarrow> (sse_data \<times> sse_filter option) list" where
  "received evs = map (\<lambda>(_, ev). (se_data ev, Some (se_inbound_filter ev))) evs"

definition newer :: "api_version_manager \<Rightarrow> protocol_version list \<Rightarrow> bool" where
  "newer newest vs \<longleftrightarrow> sorted_wrt (<) vs \<and> (\<forall>u v. newest = Some u \<longrightarrow> v \<in> set vs \<longrightarrow> u < v)"

lemma single_event_newest:
  "snd (handle_single_event svc ev st) =
     (case se_data ev of
        ApiVersion v \<Rightarrow> (case snd st of None \<Rightarrow> Some v | Some u \<Rightarrow> if u < v then Some v else Some u)
      | _ \<Rightarrow> snd st)"
  by (cases "se_data ev"; cases "snd st") (simp_all add: handle_single_event_def dispatch_api_version_def store_version_def)

lemma newest_grows: "snd st = Some u \<Longrightarrow> \<exists>w. snd (handle_single_event svc ev st) = Some w \<and> u \<le> w"
  unfolding single_event_newest by (cases "se_data ev") (simp_all add: less_imp_le)

lemma newer_mono:
  assumes "newer (snd (handle_single_event svc ev st)) vs"
  shows "newer (snd st) vs"
  unfolding newer_def
proof (intro conjI allI impI)
  show "sorted_wrt (<) vs" using assms by (simp add: newer_def)
  fix u v
  assume "snd st = Some u" "v \<in> set vs"
  then obtain w where w: "snd (handle_single_event svc ev st) = Some w" "u \<le> w" using newest_grows by blast
  have "w < v" using assms w(1) \<open>v \<in> set vs\<close> unfolding newer_def by simp
  with w(2) show "u < v" by (rule order.strict_trans1)
qed

context handling_service
begin

lemma forwarded_subsequence:
  "\<exists>xs. subseq xs (received evs) \<and> newer (snd st) (versions_of xs) \<and>
     ch_outbound (chan (fst (single_threaded_consumer svc chan evs st))) = ch_outbound (chan (fst st)) @ xs"
proof (induction evs arbitrary: st)
  case Nil
  show ?case by (auto simp: received_def newer_def)
next
  case (Cons x evs)
  obtain e ev where x: "x = (e, ev)" by (cases x)
  show ?case
  proof (cases "ch_panicked (chan (fst st))")
    case True
    then show ?thesis by (intro exI [of _ "[]"]) (simp add: x newer_def)
  next
    case False
    let ?st = "handle_single_event (svc e) ev st" and ?out = "(se_data ev, Some (se_inbound_filter ev))"
    obtain xs where xs: "subseq xs (received evs)" "newer (snd ?st) (versions_of xs)"
      and rest: "ch_outbound (chan (fst (single_threaded_consumer svc chan evs ?st))) = ch_outbound (chan (fst ?st)) @ xs"
      using Cons.IH by blast
    have cons: "received (x # evs) = ?out # received evs" by (simp add: received_def x)
    have sub: "subseq xs (received (x # evs))" "subseq (?out # xs) (received (x # evs))"
      unfolding cons using xs(1) by (auto intro: list_emb_Cons)
    consider "ch_outbound (chan (fst ?st)) = ch_outbound (chan (fst st))"
      | "ch_outbound (chan (fst ?st)) = ch_outbound (chan (fst st)) @ [?out]"
      using single_event_forwards [of ev st e] unfolding forwards_only_def by blast
    then show ?thesis
    proof cases
      case 1
      then show ?thesis using sub(1) rest newer_mono [OF xs(2)] False by (intro exI [of _ xs]) (simp add: x)
    next
      case 2
      have "newer (snd st) (versions_of (?out # xs))"
      proof (cases "is_api_version (se_data ev)")
        case True
        then obtain v where v: "se_data ev = ApiVersion v" by (auto simp: is_api_version_iff)
        then show ?thesis using single_event_version [of e ev st v] 2 xs(2) by (auto simp: newer_def)
      next
        case False
        then show ?thesis using newer_mono [OF xs(2)] by (simp add: versions_of_other)
      qed
      then show ?thesis using sub(2) rest 2 False by (intro exI [of _ "?out # xs"]) (simp add: x)
    qed
  qed
qed

end

subsection \<open>Both services keep it\<close>

lemma outbound_simps [simp]:
  "ch_outbound (sidecar_send has_sender ev ch) = ch_outbound ch"
  "ch_outbound (observe_contract_messages label n ch) = ch_outbound ch"
  "ch_outbound (count_error reason ch) = ch_outbound ch"
  "ch_panicked (sidecar_send has_sender ev ch) = ch_panicked ch"
  "ch_panicked (observe_contract_messages label n ch) = ch_panicked ch"
  "ch_panicked (outbound_send d f ch) = ch_panicked ch"
  "ch_closed (sidecar_send has_sender ev ch) = ch_closed ch"
  "ch_closed (observe_contract_messages label n ch) = ch_closed ch"
  "ch_closed (outbound_send d f ch) = ch_closed ch"
  by (simp_all add: sidecar_send_def observe_contract_messages_def count_error_def observe_def outbound_send_def)

lemma on_channels_sel [simp]:
  "ds_channels (on_channels f s) = f (ds_channels s)" "ds_database (on_channels f s) = ds_database s"
  by (simp_all add: on_channels_def)

lemma outbound_send_forwards: "forwards_only d f ch (outbound_send d (Some f) ch)"
  by (simp add: forwards_only_def outbound_send_def)

lemma save_result_forwards: "forwards_only d f ch (handle_database_save_result name res f d ch)"
  by (auto simp: forwards_only_def handle_database_save_result_def outbound_send_def
      split: sum.split database_write_error.split)

lemma forwards_only_same: "forwards_only d f ch1 ch' \<Longrightarrow> ch_outbound ch1 = ch_outbound ch \<Longrightarrow> forwards_only d f ch ch'"
  by (simp add: forwards_only_def)

lemmas no_db_defs = NoDbEventHandlingService_def no_db_api_version_def no_db_block_added_def no_db_transaction_accepted_def
  no_db_transaction_expired_def no_db_transaction_processed_def no_db_fault_def no_db_step_def no_db_finality_signature_def
  no_db_shutdown_def

lemmas db_defs = DbSavingEventHandlingService_def db_api_version_def db_block_added_def db_transaction_accepted_def
  db_transaction_expired_def db_transaction_processed_def db_fault_def db_step_def db_finality_signature_def db_shutdown_def

interpretation no_db: handling_service "\<lambda>_ :: unit. NoDbEventHandlingService cfg" "\<lambda>ch. ch" for cfg
  by unfold_locales
    (auto simp: no_db_defs outbound_send_forwards save_result_forwards Let_def intro: forwards_only_same [OF save_result_forwards])

lemma shutdown_forwards: "forwards_only Shutdown (se_inbound_filter ev) (ds_channels s) (ds_channels (db_shutdown cfg env ev s))"
  by (auto simp: db_shutdown_def Let_def forwards_only_def outbound_send_def
      split: prod.split sum.split database_write_error.split)

interpretation db: handling_service "DbSavingEventHandlingService cfg" ds_channels for cfg
  by unfold_locales
    (auto simp: db_defs(1-9) outbound_send_forwards save_result_forwards shutdown_forwards Let_def
      intro: forwards_only_same [OF save_result_forwards] split: prod.split sum.split)

end
