(* ===== verification/Event_Forwarding.thy ===== *)
theory Event_Forwarding
  imports Event_Consumers
begin

text \<open>
  What reaches the event stream server.  With a working database the sidecar forwards the first event with each key, every
  shutdown, and each API version that is newer than those before; \<open>first_of_each\<close> says so without a database, and
  the service with its tables, transactions and error codes implements it.
\<close>

subsection \<open>The specification\<close>

fun to_stored :: "sse_data \<Rightarrow> stored_event option" where
  "to_stored (ApiVersion _) = None"
| "to_stored (BlockAdded h b) = Some (SE_BlockAdded \<lparr> ba_block_hash = h, ba_block = b \<rparr>)"
| "to_stored (TransactionAccepted t) = Some (SE_TransactionAccepted \<lparr> ta_transaction = t \<rparr>)"
| "to_stored (TransactionProcessed h a t ttl bh r m) = Some (SE_TransactionProcessed
     \<lparr> tp_transaction_hash = h, tp_initiator_addr = a, tp_timestamp = t, tp_ttl = ttl, tp_block_hash = bh,
       tp_execution_result = r, tp_messages = m \<rparr>)"
| "to_stored (TransactionExpired h) = Some (SE_TransactionExpired \<lparr> te_transaction_hash = h \<rparr>)"
| "to_stored (Fault era k t) = Some (SE_Fault \<lparr> fa_era_id = era, fa_public_key = k, fa_timestamp = t \<rparr>)"
| "to_stored (FinalitySignature s) = Some (SE_FinalitySignature s)"
| "to_stored (Step era effects) = Some (SE_Step \<lparr> st_era_id = era, st_execution_effect = effects \<rparr>)"
| "to_stored Shutdown = None"

fun first_of_each ::
  "store_lib \<Rightarrow> entity_key list \<Rightarrow> api_version_manager \<Rightarrow> sse_event list \<Rightarrow> (sse_data \<times> sse_filter option) list" where
  "first_of_each lib seen newest [] = []"
| "first_of_each lib seen newest (ev # evs) =
     (let out = (se_data ev, Some (se_inbound_filter ev)) in
      case to_stored (se_data ev) of
        Some e \<Rightarrow>
          if stored_key lib e \<in> set seen then first_of_each lib seen newest evs
          else out # first_of_each lib (stored_key lib e # seen) newest evs
      | None \<Rightarrow>
          (case se_data ev of
             ApiVersion v \<Rightarrow>
               (case newest of
                  Some u \<Rightarrow> if u < v then out # first_of_each lib seen (Some v) evs else first_of_each lib seen newest evs
                | None \<Rightarrow> out # first_of_each lib seen (Some v) evs)
           | _ \<Rightarrow> out # first_of_each lib seen newest evs))"

fun keys_of :: "store_lib \<Rightarrow> (sse_data \<times> sse_filter option) list \<Rightarrow> entity_key list" where
  "keys_of lib [] = []"
| "keys_of lib ((d, f) # xs) =
     (case to_stored d of Some e \<Rightarrow> stored_key lib e # keys_of lib xs | None \<Rightarrow> keys_of lib xs)"

lemma first_of_each_keys:
  "distinct (keys_of lib (first_of_each lib seen newest evs)) \<and>
   set (keys_of lib (first_of_each lib seen newest evs)) =
     set (keys_of lib (map (\<lambda>ev. (se_data ev, Some (se_inbound_filter ev))) evs)) - set seen"
proof (induction evs arbitrary: seen newest)
  case (Cons ev evs)
  show ?case
  proof (cases "to_stored (se_data ev)")
    case None
    then show ?thesis
      by (cases "se_data ev"; cases newest) (simp_all add: Let_def Cons.IH)
  next
    case (Some e)
    then show ?thesis using Cons.IH [of seen newest] Cons.IH [of "stored_key lib e # seen" newest]
      by (auto simp: Let_def)
  qed
qed simp

subsection \<open>One event\<close>

lemma event_type_number_inject: "event_type_number a = event_type_number b \<longleftrightarrow> a = b"
  by (cases a; cases b) simp_all

text \<open>The messages go nowhere once the receiver is gone, and nothing is handled after a panic.\<close>

definition serving :: "db_service \<Rightarrow> bool" where
  "serving s \<longleftrightarrow> \<not> ch_closed (ds_channels s) \<and> \<not> ch_panicked (ds_channels s)"

lemma save_result_cases:
  "ch_outbound (handle_database_save_result name (Inr n) f d ch) = (if ch_closed ch then ch_outbound ch else ch_outbound ch @ [(d, Some f)])"
  "ch_closed (handle_database_save_result name (Inr n) f d ch) = ch_closed ch"
  "ch_panicked (handle_database_save_result name (Inr n) f d ch) = ch_panicked ch"
  "is_unique_error err \<Longrightarrow> handle_database_save_result name (Inl err) f d ch = ch"
  by (simp_all add: handle_database_save_result_def outbound_send_def)
    (cases err; simp)

text \<open>What a service with a database writes to the metrics and the bus before it looks at the outcome.\<close>

fun before_result :: "db_config \<Rightarrow> (database_write_error + u64) \<Rightarrow> sse_data \<Rightarrow> channels \<Rightarrow> channels" where
  "before_result cfg (Inr _) (BlockAdded h b) ch =
     sidecar_send (dc_has_sidecar_event_sender cfg) (SidecarEvent_BlockAdded h (block_height b)) ch"
| "before_result cfg res (TransactionProcessed h a t ttl bh r m) ch =
     (if dc_messages_len cfg m > 0
      then (case res of Inr _ \<Rightarrow> observe_contract_messages ''unique'' (dc_messages_len cfg m) | Inl _ \<Rightarrow> (\<lambda>ch. ch))
             (observe_contract_messages ''all'' (dc_messages_len cfg m) ch)
      else ch)"
| "before_result cfg res d ch = ch"

lemma before_result_sel [simp]:
  "ch_outbound (before_result cfg res d ch) = ch_outbound ch"
  "ch_closed (before_result cfg res d ch) = ch_closed ch"
  "ch_panicked (before_result cfg res d ch) = ch_panicked ch"
  by (cases res; cases d; simp)+

lemma handle_stored:
  assumes "to_stored (se_data ev) = Some e"
    and "save (dc_lib cfg) (dc_backend cfg) env e (origin_of cfg ev) (ds_database s) = (res, db)"
  shows "handle_single_event (DbSavingEventHandlingService cfg env) ev (s, newest) =
    (\<lparr> ds_database = db, ds_channels = handle_database_save_result (type_label (se_data ev)) res (se_inbound_filter ev)
         (se_data ev) (before_result cfg res (se_data ev) (ds_channels s)) \<rparr>, newest)"
  using assms
  by (cases s; cases res; cases "se_data ev") (auto simp: handle_single_event_def db_defs Let_def on_channels_def)

lemma handle_stored_outcome:
  assumes "to_stored (se_data ev) = Some e"
    and "save (dc_lib cfg) (dc_backend cfg) env e (origin_of cfg ev) (ds_database s) = (res, db)"
    and "serving s" "\<And>err. res = Inl err \<Longrightarrow> is_unique_error err"
  obtains s' where "handle_single_event (DbSavingEventHandlingService cfg env) ev (s, newest) = (s', newest)"
    "ds_database s' = db" "serving s'"
    "ch_outbound (ds_channels s') = ch_outbound (ds_channels s) @
       (case res of Inr _ \<Rightarrow> [(se_data ev, Some (se_inbound_filter ev))] | Inl _ \<Rightarrow> [])"
  using assms(3,4) handle_stored [OF assms(1,2)]
  by (cases res) (simp_all add: save_result_cases serving_def)

lemma handle_shutdown_quiet:
  assumes "se_data ev = Shutdown" "serving s" "quiet env" "reports_unique (dc_backend cfg)"
    and "event_store uns (ds_database s)" "log_room (ds_database s)"
  obtains s' where "handle_single_event (DbSavingEventHandlingService cfg env) ev (s, newest) = (s', newest)" "serving s'"
    "ch_outbound (ds_channels s') = ch_outbound (ds_channels s) @ [(Shutdown, Some (se_inbound_filter ev))]"
    "ds_database s' = snd (save_shutdown (dc_backend cfg) env (origin_of cfg ev) (ds_database s))"
proof (rule save_shutdown_quiet [OF assms(5,6,3,4), of "origin_of cfg ev"])
  fix err
  assume "save_shutdown (dc_backend cfg) env (origin_of cfg ev) (ds_database s) = (Inl err, ds_database s)" "is_unique_error err"
  then show thesis using assms(1,2) that
    by (cases err) (simp_all add: handle_single_event_def db_defs Let_def serving_def outbound_send_def on_channels_def)
next
  fix n db' key
  assume "save_shutdown (dc_backend cfg) env (origin_of cfg ev) (ds_database s) = (Inr n, db')"
  then show thesis using assms(1,2) that
    by (simp add: handle_single_event_def db_defs Let_def serving_def outbound_send_def on_channels_def)
qed

subsection \<open>Any number of events\<close>

text \<open>The log only has events whose keys are taken.\<close>

definition covers :: "store_lib \<Rightarrow> stored_event set \<Rightarrow> database \<Rightarrow> bool" where
  "covers lib U db \<longleftrightarrow>
     (\<forall>r \<in> set (rows_of db T_EventLog). \<forall>e \<in> U.
        r EventTypeId = Some (v_u8 (event_type_number (stored_type e))) \<longrightarrow>
        r EventKey = Some (V_Text (stored_event_key lib e)) \<longrightarrow> taken db (stored_key lib e))"

text \<open>Events of a type with the same key in the log have the same key in their table; a block is identified by its hash,
  for example.\<close>

definition identified :: "store_lib \<Rightarrow> stored_event set \<Rightarrow> bool" where
  "identified lib U \<longleftrightarrow>
     (\<forall>a \<in> U. \<forall>b \<in> U. stored_type a = stored_type b \<longrightarrow> stored_event_key lib a = stored_event_key lib b \<longrightarrow>
        stored_key lib a = stored_key lib b)"

definition serialisable :: "store_lib \<Rightarrow> stored_event set \<Rightarrow> bool" where
  "serialisable lib U \<longleftrightarrow> (\<forall>e \<in> U. \<exists>raw. stored_json lib e = Inr raw)"

definition stored_in :: "sse_event list \<Rightarrow> stored_event set" where
  "stored_in evs = {e. \<exists>ev \<in> set evs. to_stored (se_data ev) = Some e}"

definition service_inv :: "db_config \<Rightarrow> bool \<Rightarrow> stored_event set \<Rightarrow> entity_key list \<Rightarrow> nat \<Rightarrow> db_service \<Rightarrow> bool" where
  "service_inv cfg uns U seen n s \<longleftrightarrow>
     event_store uns (ds_database s) \<and> last_log_id (ds_database s) + n < 2 ^ 64 \<and> covers (dc_lib cfg) U (ds_database s) \<and>
     (\<forall>k. taken (ds_database s) k \<longleftrightarrow> k \<in> set seen) \<and> serving s"

lemma service_invD:
  assumes "service_inv cfg uns U seen n s"
  shows "event_store uns (ds_database s)" "0 < n \<Longrightarrow> log_room (ds_database s)" "covers (dc_lib cfg) U (ds_database s)"
    "\<And>k. taken (ds_database s) k \<longleftrightarrow> k \<in> set seen" "serving s" "last_log_id (ds_database s) + n < 2 ^ 64"
  using assms by (auto simp: service_inv_def log_room_def)

lemma covers_logged:
  assumes "covers lib U db" "e \<in> U" "logged db (stored_type e) origin (stored_event_key lib e)"
  shows "taken db (stored_key lib e)"
  using assms unfolding covers_def logged_def log_columns_def by auto

lemma log_row_EventKey [simp]: "log_row now i event_type origin event_key EventKey = Some (V_Text event_key)"
  by (simp add: log_row_def)

lemma covers_appended:
  assumes "covers lib U db" "\<And>k. taken db k \<Longrightarrow> taken db' k"
    and "rows_of db' T_EventLog = rows_of db T_EventLog @ [log_row now i event_type origin event_key]"
    and "\<And>e. e \<in> U \<Longrightarrow> stored_type e = event_type \<Longrightarrow> stored_event_key lib e = event_key \<Longrightarrow> taken db' (stored_key lib e)"
  shows "covers lib U db'"
  unfolding covers_def
proof (intro ballI impI)
  fix r e
  assume r: "r \<in> set (rows_of db' T_EventLog)" and e: "e \<in> U"
    and ty: "r EventTypeId = Some (v_u8 (event_type_number (stored_type e)))"
    and key: "r EventKey = Some (V_Text (stored_event_key lib e))"
  show "taken db' (stored_key lib e)"
  proof (cases "r \<in> set (rows_of db T_EventLog)")
    case True
    then show ?thesis using assms(1,2) e ty key unfolding covers_def by blast
  next
    case False
    then have "r = log_row now i event_type origin event_key" using r assms(3) by simp
    then show ?thesis using ty key by (intro assms(4) [OF e]) (simp_all add: event_type_number_inject)
  qed
qed

lemma stored_type_Shutdown [simp]: "stored_type e \<noteq> Ev_Shutdown"
  by (cases e) simp_all

text \<open>One event keeps the invariant and forwards what the specification says.\<close>

definition steps_as_specified ::
  "db_config \<Rightarrow> bool \<Rightarrow> stored_event set \<Rightarrow> entity_key list \<Rightarrow> nat \<Rightarrow> sse_event \<Rightarrow> db_service \<times> api_version_manager \<Rightarrow>
   db_service \<times> api_version_manager \<Rightarrow> bool" where
  "steps_as_specified cfg uns U seen n ev st st' \<longleftrightarrow>
     (\<exists>seen' xs. service_inv cfg uns U seen' n (fst st') \<and>
        ch_outbound (ds_channels (fst st')) = ch_outbound (ds_channels (fst st)) @ xs \<and>
        (\<forall>evs. first_of_each (dc_lib cfg) seen (snd st) (ev # evs) = xs @ first_of_each (dc_lib cfg) seen' (snd st') evs))"

lemma known_event_step:
  assumes "service_inv cfg uns U seen (Suc n) s" "to_stored (se_data ev) = Some e" "stored_key (dc_lib cfg) e \<in> set seen"
    and "save (dc_lib cfg) (dc_backend cfg) env e (origin_of cfg ev) (ds_database s) = (Inl err, ds_database s)"
    and "is_unique_error err"
  shows "steps_as_specified cfg uns U seen n ev (s, newest)
    (handle_single_event (DbSavingEventHandlingService cfg env) ev (s, newest))"
proof -
  obtain s' where s': "handle_single_event (DbSavingEventHandlingService cfg env) ev (s, newest) = (s', newest)"
    "ds_database s' = ds_database s" "serving s'" "ch_outbound (ds_channels s') = ch_outbound (ds_channels s) @ []"
    by (rule handle_stored_outcome [OF assms(2,4) service_invD(5) [OF assms(1)], where newest = newest])
      (use assms(5) in simp_all)
  then have "service_inv cfg uns U seen n s'" using assms(1) by (simp add: service_inv_def)
  then show ?thesis unfolding steps_as_specified_def s'(1)
    using s'(4) assms(2,3) by (intro exI [of _ seen] exI [of _ "[]"]) simp
qed

lemma new_event_step:
  assumes "service_inv cfg uns U seen (Suc n) s" "to_stored (se_data ev) = Some e" "stored_key (dc_lib cfg) e \<notin> set seen"
    and "save (dc_lib cfg) (dc_backend cfg) env e (origin_of cfg ev) (ds_database s) = (Inr m, db')"
    and "event_store uns db'" "\<And>k. taken db' k \<longleftrightarrow> taken (ds_database s) k \<or> k = stored_key (dc_lib cfg) e"
    and "covers (dc_lib cfg) U db'" "last_log_id db' = Suc (last_log_id (ds_database s))"
  shows "steps_as_specified cfg uns U seen n ev (s, newest)
    (handle_single_event (DbSavingEventHandlingService cfg env) ev (s, newest))"
proof -
  let ?out = "(se_data ev, Some (se_inbound_filter ev))"
  note inv = service_invD [OF assms(1)]
  obtain s' where s': "handle_single_event (DbSavingEventHandlingService cfg env) ev (s, newest) = (s', newest)"
    "ds_database s' = db'" "serving s'" "ch_outbound (ds_channels s') = ch_outbound (ds_channels s) @ [?out]"
    by (rule handle_stored_outcome [OF assms(2,4) inv(5), where newest = newest]) simp_all
  have "service_inv cfg uns U (stored_key (dc_lib cfg) e # seen) n s'"
    unfolding service_inv_def s'(2) using s'(3) assms(5-8) inv(4,6) by auto
  then show ?thesis unfolding steps_as_specified_def s'(1)
    using s'(4) assms(2,3) by (intro exI [of _ "stored_key (dc_lib cfg) e # seen"] exI [of _ "[?out]"]) simp
qed

lemma stored_event_step:
  assumes "service_inv cfg uns U seen (Suc n) s" "quiet env" "reports_unique (dc_backend cfg)"
    and "serialisable (dc_lib cfg) U" "identified (dc_lib cfg) U" "to_stored (se_data ev) = Some e" "e \<in> U"
  shows "steps_as_specified cfg uns U seen n ev (s, newest)
    (handle_single_event (DbSavingEventHandlingService cfg env) ev (s, newest))"
proof -
  let ?lib = "dc_lib cfg" and ?db = "ds_database s"
  note inv = service_invD [OF assms(1)]
  obtain raw where raw: "stored_json ?lib e = Inr raw" using assms(4,7) unfolding serialisable_def by blast
  have room: "log_room ?db" by (rule inv(2)) simp
  have dup: "(logged ?db (stored_type e) (origin_of cfg ev) (stored_event_key ?lib e) \<or> taken ?db (stored_key ?lib e)) =
      (stored_key ?lib e \<in> set seen)"
    using covers_logged [OF inv(3) assms(7)] inv(4) by blast
  note outcome = save_quiet [OF inv(1) room assms(2) raw assms(3), of "origin_of cfg ev", unfolded dup]
  show ?thesis
  proof (cases "stored_key ?lib e \<in> set seen")
    case True
    then obtain err where "save ?lib (dc_backend cfg) env e (origin_of cfg ev) ?db = (Inl err, ?db)" "is_unique_error err"
      using outcome [unfolded if_P [OF True]] by blast
    then show ?thesis by (rule known_event_step [OF assms(1,6) True])
  next
    case False
    obtain m db' where ok: "save ?lib (dc_backend cfg) env e (origin_of cfg ev) ?db = (Inr m, db')" "event_store uns db'"
      and keys: "\<forall>k. taken db' k \<longleftrightarrow> taken ?db k \<or> k = stored_key ?lib e"
      and log: "rows_of db' T_EventLog = rows_of ?db T_EventLog @
        [log_row (dv_now env) (Suc (last_log_id ?db)) (stored_type e) (origin_of cfg ev) (stored_event_key ?lib e)]"
      and last: "last_log_id db' = Suc (last_log_id ?db)"
      using outcome [unfolded if_not_P [OF False]] by blast
    have "covers ?lib U db'"
    proof (rule covers_appended [OF inv(3) _ log])
      show "taken db' (stored_key ?lib e')" if "e' \<in> U" "stored_type e' = stored_type e"
        "stored_event_key ?lib e' = stored_event_key ?lib e" for e'
        using that assms(5,7) keys unfolding identified_def by blast
    qed (simp add: keys)
    then show ?thesis using new_event_step [OF assms(1,6) False ok] keys last by blast
  qed
qed

lemma shutdown_step:
  assumes "service_inv cfg uns U seen (Suc n) s" "quiet env" "reports_unique (dc_backend cfg)" "se_data ev = Shutdown"
  shows "steps_as_specified cfg uns U seen n ev (s, newest)
    (handle_single_event (DbSavingEventHandlingService cfg env) ev (s, newest))"
proof -
  note inv = service_invD [OF assms(1)]
  have room: "log_room (ds_database s)" by (rule inv(2)) simp
  obtain s' where s': "handle_single_event (DbSavingEventHandlingService cfg env) ev (s, newest) = (s', newest)" "serving s'"
    "ch_outbound (ds_channels s') = ch_outbound (ds_channels s) @ [(Shutdown, Some (se_inbound_filter ev))]"
    "ds_database s' = snd (save_shutdown (dc_backend cfg) env (origin_of cfg ev) (ds_database s))"
    by (rule handle_shutdown_quiet [OF assms(4) inv(5) assms(2,3) inv(1) room])
  have "service_inv cfg uns U seen n s'"
  proof (rule save_shutdown_quiet [OF inv(1) room assms(2,3), of "origin_of cfg ev"])
    fix err
    assume "save_shutdown (dc_backend cfg) env (origin_of cfg ev) (ds_database s) = (Inl err, ds_database s)"
    then show ?thesis using assms(1) s' by (simp add: service_inv_def)
  next
    fix m db' key
    assume *: "save_shutdown (dc_backend cfg) env (origin_of cfg ev) (ds_database s) = (Inr m, db')" "event_store uns db'"
      "\<And>k. taken db' k = taken (ds_database s) k" "last_log_id db' = Suc (last_log_id (ds_database s))"
      "rows_of db' T_EventLog = rows_of (ds_database s) T_EventLog @
        [log_row (dv_now env) (Suc (last_log_id (ds_database s))) Ev_Shutdown (origin_of cfg ev) key]"
    have "covers (dc_lib cfg) U db'"
      by (rule covers_appended [OF inv(3) _ *(5)]) (simp_all add: *(3))
    then show ?thesis using * s' inv(4,6) by (simp add: service_inv_def)
  qed
  then show ?thesis unfolding steps_as_specified_def s'(1)
    using s'(3) by (intro exI [of _ seen] exI [of _ "[(Shutdown, Some (se_inbound_filter ev))]"]) (simp add: assms(4))
qed

lemma version_step:
  assumes "service_inv cfg uns U seen (Suc n) s" "se_data ev = ApiVersion v"
  shows "steps_as_specified cfg uns U seen n ev (s, newest)
    (handle_single_event (DbSavingEventHandlingService cfg env) ev (s, newest))"
proof -
  let ?new = "case newest of None \<Rightarrow> True | Some u \<Rightarrow> u < v"
  let ?s' = "if ?new then db_api_version v (se_inbound_filter ev) s else s" and ?n' = "if ?new then Some v else newest"
  let ?xs = "if ?new then [(ApiVersion v, Some (se_inbound_filter ev))] else []"
  have step: "handle_single_event (DbSavingEventHandlingService cfg env) ev (s, newest) = (?s', ?n')"
    by (simp add: handle_single_event_def assms(2) dispatch_api_version_def store_version_def DbSavingEventHandlingService_def
        split: option.split)
  have "service_inv cfg uns U seen n ?s'"
    using assms(1) by (simp add: service_inv_def db_api_version_def serving_def)
  moreover have "ch_outbound (ds_channels ?s') = ch_outbound (ds_channels s) @ ?xs"
    using service_invD(5) [OF assms(1)] by (simp add: db_api_version_def serving_def outbound_send_def)
  moreover have "first_of_each (dc_lib cfg) seen newest (ev # evs) = ?xs @ first_of_each (dc_lib cfg) seen ?n' evs" for evs
    by (cases newest) (simp_all add: assms(2))
  ultimately show ?thesis unfolding steps_as_specified_def step fst_conv snd_conv by blast
qed

lemma event_step:
  assumes "service_inv cfg uns U seen (Suc n) s" "quiet env" "reports_unique (dc_backend cfg)"
    and "serialisable (dc_lib cfg) U" "identified (dc_lib cfg) U" "\<And>e. to_stored (se_data ev) = Some e \<Longrightarrow> e \<in> U"
  shows "steps_as_specified cfg uns U seen n ev (s, newest)
    (handle_single_event (DbSavingEventHandlingService cfg env) ev (s, newest))"
proof (cases "to_stored (se_data ev)")
  case (Some e)
  then show ?thesis using stored_event_step assms by blast
next
  case None
  then consider "se_data ev = Shutdown" | v where "se_data ev = ApiVersion v" by (cases "se_data ev") simp_all
  then show ?thesis using shutdown_step version_step assms by cases blast+
qed

lemma consumer_forwards:
  assumes "service_inv cfg uns U seen (length evs) s" "reports_unique (dc_backend cfg)"
    and "serialisable (dc_lib cfg) U" "identified (dc_lib cfg) U" "list_all (\<lambda>(env, _). quiet env) evs"
    and "stored_in (map snd evs) \<subseteq> U"
  shows "ch_outbound (ds_channels (fst (single_threaded_consumer (DbSavingEventHandlingService cfg) ds_channels evs (s, newest)))) =
    ch_outbound (ds_channels s) @ first_of_each (dc_lib cfg) seen newest (map snd evs)"
  using assms
proof (induction evs arbitrary: s seen newest)
  case (Cons x evs)
  obtain env ev where x: "x = (env, ev)" by (cases x)
  have inv: "service_inv cfg uns U seen (Suc (length evs)) s" and quiet: "quiet env" using Cons.prems(1,5) by (simp_all add: x)
  have live: "\<not> ch_panicked (ds_channels s)" using service_invD(5) [OF inv] by (simp add: serving_def)
  have e: "\<And>e. to_stored (se_data ev) = Some e \<Longrightarrow> e \<in> U" using Cons.prems(6) by (auto simp: x stored_in_def)
  let ?st = "handle_single_event (DbSavingEventHandlingService cfg env) ev (s, newest)"
  have "steps_as_specified cfg uns U seen (length evs) ev (s, newest) ?st"
    by (rule event_step [OF inv quiet Cons.prems(2-4) e])
  then obtain seen' xs where step: "service_inv cfg uns U seen' (length evs) (fst ?st)"
    and out: "ch_outbound (ds_channels (fst ?st)) = ch_outbound (ds_channels s) @ xs"
    and spec: "first_of_each (dc_lib cfg) seen newest (ev # map snd evs) =
      xs @ first_of_each (dc_lib cfg) seen' (snd ?st) (map snd evs)"
    unfolding steps_as_specified_def by auto
  have "ch_outbound (ds_channels (fst (single_threaded_consumer (DbSavingEventHandlingService cfg) ds_channels evs
      (fst ?st, snd ?st)))) = ch_outbound (ds_channels (fst ?st)) @ first_of_each (dc_lib cfg) seen' (snd ?st) (map snd evs)"
    by (rule Cons.IH [OF step Cons.prems(2-4)]) (use Cons.prems(5,6) in \<open>auto simp: x stored_in_def\<close>)
  then show ?case using live spec out by (simp add: x del: first_of_each.simps)
qed simp

end
