(* ===== verification/Migrations.thy ===== *)
theory Migrations
  imports Store_Laws
begin

text \<open>
  How the store comes to its tables: the migrations of \<open>event_sidecar/src/types/database.rs\<close>, their execution by
  the writer (\<open>database/writer_generator.rs\<close>, \<open>sqlite_database.rs\<close>, \<open>postgresql_database.rs\<close>)
  and the manager of \<open>database/migration_manager.rs\<close>.
\<close>

subsection \<open>Migrations\<close>

datatype statement_wrapper = TableCreateStatement table_create | InsertStatement insert_statement

text \<open>A migration: its version, the producer of its statements, which knows whether the database has unsigned integers,
  and code that continues the transaction.\<close>

record migration =
  mg_version :: "u32 option"
  mg_statement_producers :: "bool \<Rightarrow> string + statement_wrapper list"
  mg_script_executor :: "(nat \<Rightarrow> database \<Rightarrow> database_write_error + database) option"

definition Migration_initial :: migration where
  "Migration_initial =
     \<lparr> mg_version = None, mg_statement_producers = (\<lambda>_. Inr [TableCreateStatement migration_create_table]),
       mg_script_executor = None \<rparr>"

definition migration_1_ddl_statements :: "bool \<Rightarrow> insert_statement \<Rightarrow> insert_statement \<Rightarrow> statement_wrapper list" where
  "migration_1_ddl_statements db_supports_unsigned insert_event_types_stmt insert_transaction_types_stmt =
     [TableCreateStatement event_type_create_table,
      TableCreateStatement transaction_type_create_table,
      TableCreateStatement event_log_create_table,
      TableCreateStatement transaction_event_create_table,
      TableCreateStatement block_added_create_table,
      TableCreateStatement transaction_accepted_create_table,
      TableCreateStatement transaction_processed_create_table,
      TableCreateStatement transaction_expired_create_table,
      TableCreateStatement (fault_create_table db_supports_unsigned),
      TableCreateStatement finality_signature_create_table,
      TableCreateStatement (step_create_table db_supports_unsigned),
      TableCreateStatement shutdown_create_table,
      InsertStatement insert_event_types_stmt,
      InsertStatement insert_transaction_types_stmt]"

definition migration_1 :: migration where
  "migration_1 =
     \<lparr> mg_version = Some 1,
       mg_statement_producers = (\<lambda>db_supports_unsigned.
         and_then (map_err (\<lambda>_. ''Error building event types insert statement'') event_type_initialise)
           (\<lambda>insert_event_types_stmt.
         and_then (map_err (\<lambda>_. ''Error building transaction types insert statement'') transaction_type_initialise)
           (\<lambda>insert_transaction_types_stmt.
         Inr (migration_1_ddl_statements db_supports_unsigned insert_event_types_stmt insert_transaction_types_stmt)))),
       mg_script_executor = None \<rparr>"

definition get_all_migrations :: "migration list" where
  "get_all_migrations = [migration_1]"

subsection \<open>Executing a migration\<close>

text \<open>What the connection does while a migration is executed: failures of its operations, for the commit also whether it
  took effect, and the time of the database.\<close>

record migration_env =
  mv_begin :: "sqlx_error option"
  mv_execute :: "sqlx_error option"
  mv_commit :: "(sqlx_error \<times> bool) option"
  mv_rollback :: "sqlx_error option"
  mv_store :: "sqlx_error option"
  mv_now :: nat

fun materialize_statement :: "statement_wrapper \<Rightarrow> sql_statement" where
  "materialize_statement (TableCreateStatement statement) = Create statement"
| "materialize_statement (InsertStatement statement) = Insert statement"

definition materialize_statements :: "statement_wrapper list \<Rightarrow> sql_statement list" where
  "materialize_statements wrappers = map materialize_statement wrappers"

definition store_migration_version ::
  "sql_backend \<Rightarrow> migration_env \<Rightarrow> u32 \<Rightarrow> bool \<Rightarrow> database \<Rightarrow> database_write_error + database" where
  "store_migration_version backend env version is_success db =
     and_then (map_err DWE_SqlConstruction (migration_insert version is_success)) (\<lambda>stmt.
     case mv_store env of
       Some err \<Rightarrow> Inl (write_error_from err)
     | None \<Rightarrow> and_then (map_err (\<lambda>failure. write_error_from (sb_error backend failure)) (execute (mv_now env) (Insert stmt) db))
         (\<lambda>(_, db1). Inr db1))"

definition store_version_based_on_result ::
  "sql_backend \<Rightarrow> migration_env \<Rightarrow> u32 option \<Rightarrow> (database_write_error + unit) \<Rightarrow> database \<Rightarrow>
   (database_write_error + unit) \<times> database" where
  "store_version_based_on_result backend env maybe_version res db =
     (case maybe_version of
        None \<Rightarrow> (res, db)
      | Some version \<Rightarrow>
          (case store_migration_version backend env version (case res of Inr _ \<Rightarrow> True | Inl _ \<Rightarrow> False) db of
             Inl err \<Rightarrow> (Inl err, db)
           | Inr db1 \<Rightarrow> (res, db1)))"

definition migration_body ::
  "sql_backend \<Rightarrow> migration_env \<Rightarrow> migration \<Rightarrow> statement_wrapper list \<Rightarrow> database \<Rightarrow> database_write_error + database" where
  "migration_body backend env m wrappers db =
     (case mv_execute env of
        Some err \<Rightarrow> Inl (write_error_from err)
      | None \<Rightarrow>
          and_then (map_err (\<lambda>failure. write_error_from (sb_error backend failure))
             (execute_all (mv_now env) (materialize_statements wrappers) db)) (\<lambda>(_, db1).
          case mg_script_executor m of
            Some script \<Rightarrow> script (mv_now env) db1
          | None \<Rightarrow> Inr db1))"

definition execute_migration ::
  "sql_backend \<Rightarrow> migration_env \<Rightarrow> migration \<Rightarrow> database \<Rightarrow> (database_write_error + unit) \<times> database" where
  "execute_migration backend env m db =
     (case mv_begin env of
        Some err \<Rightarrow> (Inl (write_error_from err), db)
      | None \<Rightarrow>
          (case mg_statement_producers m (sb_supports_unsigned backend) of
             Inl err \<Rightarrow> (Inl (DWE_Unhandled err), db)
           | Inr wrappers \<Rightarrow>
               (case migration_body backend env m wrappers db of
                  Inr db1 \<Rightarrow>
                    (case mv_commit env of
                       Some (err, took_effect) \<Rightarrow> (Inl (write_error_from err), if took_effect then db1 else db)
                     | None \<Rightarrow> store_version_based_on_result backend env (mg_version m) (Inr ()) db1)
                | Inl err \<Rightarrow>
                    (case mv_rollback env of
                       Some rollback_err \<Rightarrow> (Inl (write_error_from rollback_err), db)
                     | None \<Rightarrow> store_version_based_on_result backend env (mg_version m) (Inl err) db))))"

subsection \<open>The manager\<close>

datatype migration_error =
    InitialMigrationFailed database_write_error
  | MigrationWithoutVersion
  | DuplicateVersion u32
  | VersionFetchFailed database_read_error
  | LastMigrationFailed u32
  | ExecuteMigrationFailed u32 database_write_error

definition parse_migration_row :: "read_env \<Rightarrow> row option \<Rightarrow> database_read_error + (u32 \<times> bool) option" where
  "parse_migration_row env maybe_row =
     (case maybe_row of
        None \<Rightarrow> Inr None
      | Some row \<Rightarrow>
          (case row Version of
             Some (V_Int version) \<Rightarrow>
               (case row IsSuccess of
                  Some (V_Bool is_success) \<Rightarrow> Inr (Some (word_of_int version, is_success))
                | _ \<Rightarrow> Inl (wrap_query_error (DbError_Sqlx (re_decode env))))
           | _ \<Rightarrow> Inl (wrap_query_error (DbError_Sqlx (re_decode env)))))"

definition get_newest_migration_version :: "read_env \<Rightarrow> database \<Rightarrow> database_read_error + (u32 \<times> bool) option" where
  "get_newest_migration_version env db =
     (case re_io env of
        Some err \<Rightarrow> Inl (DRE_Unhandled err)
      | None \<Rightarrow> parse_migration_row env (select_newest_migration db))"

fun first_duplicate_version :: "u32 list \<Rightarrow> migration list \<Rightarrow> u32 option" where
  "first_duplicate_version seen [] = None"
| "first_duplicate_version seen (m # ms) =
     (case mg_version m of
        Some version \<Rightarrow>
          if version \<in> set seen then Some version else first_duplicate_version (version # seen) ms
      | None \<Rightarrow> first_duplicate_version seen ms)"

definition validate_uniqueness_of_migration_versions :: "migration list \<Rightarrow> migration_error + unit" where
  "validate_uniqueness_of_migration_versions migrations =
     (case first_duplicate_version [] migrations of Some version \<Rightarrow> Inl (DuplicateVersion version) | None \<Rightarrow> Inr ())"

text \<open>The loop of \<open>do_migrate\<close>; the \<open>n\<close>-th migration meets the \<open>n\<close>-th environment.\<close>

fun execute_migrations ::
  "sql_backend \<Rightarrow> (nat \<Rightarrow> migration_env) \<Rightarrow> nat \<Rightarrow> migration list \<Rightarrow> database \<Rightarrow> (migration_error + unit) \<times> database" where
  "execute_migrations backend envs n [] db = (Inr (), db)"
| "execute_migrations backend envs n (m # ms) db =
     (case execute_migration backend (envs n) m db of
        (Inl err, db1) \<Rightarrow> (Inl (ExecuteMigrationFailed (the (mg_version m)) err), db1)
      | (Inr _, db1) \<Rightarrow> execute_migrations backend envs (Suc n) ms db1)"

definition do_migrate ::
  "sql_backend \<Rightarrow> (nat \<Rightarrow> migration_env) \<Rightarrow> migration list \<Rightarrow> (u32 \<times> bool) option \<Rightarrow> database \<Rightarrow>
   (migration_error + unit) \<times> database" where
  "do_migrate backend envs migrations maybe_newest_version db =
     (if migrations = [] then (Inr (), db)
      else case maybe_newest_version of
        Some (v, success) \<Rightarrow>
          if \<not> success then (Inl (LastMigrationFailed v), db)
          else execute_migrations backend envs 0
            (sort_key mg_version (filter (\<lambda>m. mg_version m \<noteq> None \<and> the (mg_version m) > v) migrations)) db
      | None \<Rightarrow> execute_migrations backend envs 0 (sort_key mg_version migrations) db)"

definition migrate ::
  "sql_backend \<Rightarrow> migration_env \<Rightarrow> read_env \<Rightarrow> (nat \<Rightarrow> migration_env) \<Rightarrow> migration list \<Rightarrow> database \<Rightarrow>
   (migration_error + unit) \<times> database" where
  "migrate backend env renv envs migrations db =
     (case execute_migration backend env Migration_initial db of
        (Inl err, db1) \<Rightarrow> (Inl (InitialMigrationFailed err), db1)
      | (Inr _, db1) \<Rightarrow>
          if list_ex (\<lambda>m. mg_version m = None) migrations then (Inl MigrationWithoutVersion, db1)
          else case validate_uniqueness_of_migration_versions migrations of
            Inl err \<Rightarrow> (Inl err, db1)
          | Inr _ \<Rightarrow>
              (case get_newest_migration_version renv db1 of
                 Inl err \<Rightarrow> (Inl (VersionFetchFailed err), db1)
               | Inr maybe_newest_version \<Rightarrow> do_migrate backend envs migrations maybe_newest_version db1))"

definition apply_all_migrations ::
  "sql_backend \<Rightarrow> migration_env \<Rightarrow> read_env \<Rightarrow> (nat \<Rightarrow> migration_env) \<Rightarrow> database \<Rightarrow> (migration_error + unit) \<times> database" where
  "apply_all_migrations backend env renv envs = migrate backend env renv envs get_all_migrations"

subsection \<open>A new database\<close>

definition quiet_migration :: "migration_env \<Rightarrow> bool" where
  "quiet_migration env \<longleftrightarrow> mv_begin env = None \<and> mv_execute env = None \<and> mv_commit env = None \<and> mv_rollback env = None \<and>
     mv_store env = None"

text \<open>Creating the tables.\<close>

definition empty_table :: "table_create \<Rightarrow> sql_table" where
  "empty_table create = \<lparr> tb_create = create, tb_rows = [], tb_last_id = 0 \<rparr>"

definition with_tables :: "table_create list \<Rightarrow> database \<Rightarrow> database" where
  "with_tables creates db = foldl (\<lambda>db create. db(tc_table create \<mapsto> empty_table create)) db creates"

lemma execute_all_append:
  assumes "execute_all now xs db = Inr (n, db1)"
  shows "execute_all now (xs @ ys) db = and_then (execute_all now ys db1) (\<lambda>(m, db2). Inr (n + m, db2))"
  using assms
proof (induction xs arbitrary: db n)
  case Nil
  then show ?case by (cases "execute_all now ys db") auto
next
  case (Cons x xs)
  then obtain rows db' m where x: "execute now x db = Inr (rows, db')" and xs: "execute_all now xs db' = Inr (m, db1)"
    and n: "n = length rows + m"
    by (auto simp: result_iffs)
  show ?case using Cons.IH [OF xs] x n by (cases "execute_all now ys db1") auto
qed

lemma execute_creates:
  assumes "distinct (map tc_table creates)" "\<forall>create \<in> set creates. db (tc_table create) = None"
  shows "execute_all now (map Create creates) db = Inr (0, with_tables creates db)"
  using assms
proof (induction creates arbitrary: db)
  case (Cons create creates)
  have "execute now (Create create) db = Inr ([], db(tc_table create \<mapsto> empty_table create))"
    using Cons.prems by (simp add: execute_def empty_table_def)
  moreover have "execute_all now (map Create creates) (db(tc_table create \<mapsto> empty_table create)) =
      Inr (0, with_tables creates (db(tc_table create \<mapsto> empty_table create)))"
  proof (rule Cons.IH)
    show "\<forall>c \<in> set creates. (db(tc_table create \<mapsto> empty_table create)) (tc_table c) = None"
    proof
      fix c assume c: "c \<in> set creates"
      then have "tc_table c \<in> tc_table ` set creates" by (rule imageI)
      then have "tc_table c \<noteq> tc_table create" using Cons.prems(1) by auto
      then show "(db(tc_table create \<mapsto> empty_table create)) (tc_table c) = None" using Cons.prems(2) c by simp
    qed
  qed (use Cons.prems(1) in simp)
  ultimately show ?case by (simp add: with_tables_def)
qed (simp add: with_tables_def)

lemma with_tables_other: "t \<notin> tc_table ` set creates \<Longrightarrow> with_tables creates db t = db t"
  by (induction creates arbitrary: db) (auto simp: with_tables_def)

lemma with_tables_in:
  assumes "distinct (map tc_table creates)" "create \<in> set creates"
  shows "with_tables creates db (tc_table create) = Some (empty_table create)"
  using assms
proof (induction creates arbitrary: db)
  case (Cons c creates)
  show ?case
  proof (cases "c = create")
    case True
    then have "with_tables creates (db(tc_table c \<mapsto> empty_table c)) (tc_table create) = Some (empty_table create)"
      using Cons.prems with_tables_other [of "tc_table create" creates] by auto
    then show ?thesis by (simp add: with_tables_def)
  next
    case False
    then show ?thesis using Cons by (simp add: with_tables_def)
  qed
qed simp

text \<open>Filling a table of types.\<close>

definition type_table :: "table_name \<Rightarrow> col \<Rightarrow> col \<Rightarrow> table_create" where
  "type_table t c1 c2 = \<lparr> tc_table = t,
     tc_cols = [(not_null c1 Integer)\<lparr> cd_primary_key := True \<rparr>, (not_null c2 StringType)\<lparr> cd_unique_key := True \<rparr>],
     tc_indexes = [], tc_foreign_keys = [] \<rparr>"

definition type_statement :: "table_name \<Rightarrow> col \<Rightarrow> col \<Rightarrow> (sql_value \<times> sql_value) list \<Rightarrow> insert_statement" where
  "type_statement t c1 c2 vs = \<lparr> is_table = t, is_columns = [c1, c2], is_rows = map (\<lambda>(a, b). [a, b]) vs,
     is_returning = None, is_on_conflict_do_nothing = Some c1 \<rparr>"

definition type_row :: "col \<Rightarrow> col \<Rightarrow> sql_value \<times> sql_value \<Rightarrow> row" where
  "type_row c1 c2 v = [c1 \<mapsto> fst v, c2 \<mapsto> snd v]"

lemma insert_row_type:
  assumes "c1 \<noteq> c2" "db t = Some tb" "tb_create tb = type_table t c1 c2"
    and "\<forall>r \<in> set (tb_rows tb). r c1 \<noteq> Some (fst v) \<and> r c2 \<noteq> Some (snd v)"
  shows "insert_row now (type_statement t c1 c2 vs) [fst v, snd v] db =
    Inr (Some (type_row c1 c2 v), with_row db t tb (type_row c1 c2 v))"
proof -
  have row: "new_row now (Suc (tb_last_id tb)) (zip [c1, c2] [fst v, snd v]) (type_table t c1 c2) = type_row c1 c2 v"
    using assms(1) by (auto simp: new_row_def new_value_def type_row_def type_table_def ColumnDef_new_def)
  have keys: "table_keys (type_table t c1 c2) = [(PrimaryIndex, [c1]), (UniqueIndex, [c2])]"
    by (simp add: table_keys_def type_table_def ColumnDef_new_def)
  have fresh: "\<not> same_key [c] (type_row c1 c2 v) r" if "r \<in> set (tb_rows tb)" "c = c1 \<or> c = c2" for r c
    using assms(1,4) that by (auto simp: same_key_def type_row_def)
  then have "violated_key (tb_rows tb) (type_row c1 c2 v) (type_table t c1 c2) = None"
    by (auto simp: violated_key_None keys)
  moreover have "\<not> list_ex (same_key [c1] (type_row c1 c2 v)) (tb_rows tb)"
    using fresh by (auto simp: list_ex_iff)
  moreover have "\<not> null_violation (type_row c1 c2 v) (type_table t c1 c2)" "tc_foreign_keys (type_table t c1 c2) = []"
    by (simp_all add: null_violation_def type_row_def type_table_def ColumnDef_new_def)
  ultimately show ?thesis
    using assms(2,3) row by (simp add: insert_row_def type_statement_def with_row_def Let_def)
qed

lemma insert_rows_type:
  assumes "c1 \<noteq> c2" "db t = Some tb" "tb_create tb = type_table t c1 c2" "distinct (map fst vs)" "distinct (map snd vs)"
    and "\<forall>r \<in> set (tb_rows tb). \<forall>v \<in> set vs. r c1 \<noteq> Some (fst v) \<and> r c2 \<noteq> Some (snd v)"
  shows "insert_rows now (type_statement t c1 c2 ws) (map (\<lambda>(a, b). [a, b]) vs) db =
    Inr (map (type_row c1 c2) vs,
      db(t \<mapsto> tb\<lparr> tb_rows := tb_rows tb @ map (type_row c1 c2) vs, tb_last_id := tb_last_id tb + length vs \<rparr>))"
  using assms
proof (induction vs arbitrary: db tb)
  case Nil
  then show ?case by (auto simp: fun_upd_idem)
next
  case (Cons v vs)
  let ?row = "type_row c1 c2 v"
  let ?tb = "tb\<lparr> tb_rows := tb_rows tb @ [?row], tb_last_id := Suc (tb_last_id tb) \<rparr>"
  have first: "insert_row now (type_statement t c1 c2 ws) [fst v, snd v] db = Inr (Some ?row, db(t \<mapsto> ?tb))"
    using insert_row_type [of c1 c2 db t tb v now ws] Cons.prems by (simp add: with_row_def)
  have "insert_rows now (type_statement t c1 c2 ws) (map (\<lambda>(a, b). [a, b]) vs) (db(t \<mapsto> ?tb)) =
      Inr (map (type_row c1 c2) vs, (db(t \<mapsto> ?tb))(t \<mapsto> ?tb\<lparr> tb_rows := tb_rows ?tb @ map (type_row c1 c2) vs,
        tb_last_id := tb_last_id ?tb + length vs \<rparr>))"
  proof (rule Cons.IH [OF Cons.prems(1)])
    have new: "fst v \<notin> fst ` set vs" "snd v \<notin> snd ` set vs" using Cons.prems(4,5) by simp_all
    have "?row c1 \<noteq> Some (fst w) \<and> ?row c2 \<noteq> Some (snd w)" if "w \<in> set vs" for w
    proof -
      have "fst v \<noteq> fst w" "snd v \<noteq> snd w" using new that by (metis imageI)+
      then show ?thesis using Cons.prems(1) by (simp add: type_row_def)
    qed
    then show "\<forall>r \<in> set (tb_rows ?tb). \<forall>w \<in> set vs. r c1 \<noteq> Some (fst w) \<and> r c2 \<noteq> Some (snd w)"
      using Cons.prems(6) by auto
  qed (use Cons.prems in simp_all)
  then show ?case using first by (cases v; simp; simp add: fun_upd_def)
qed

definition event_types :: "(sql_value \<times> sql_value) list" where
  "event_types =
     [(v_u8 (event_type_number Ev_BlockAdded), V_Text ''BlockAdded''),
      (v_u8 (event_type_number Ev_TransactionAccepted), V_Text ''TransactionAccepted''),
      (v_u8 (event_type_number Ev_TransactionExpired), V_Text ''TransactionExpired''),
      (v_u8 (event_type_number Ev_TransactionProcessed), V_Text ''TransactionProcessed''),
      (v_u8 (event_type_number Ev_Fault), V_Text ''Fault''),
      (v_u8 (event_type_number Ev_FinalitySignature), V_Text ''FinalitySignature''),
      (v_u8 (event_type_number Ev_Step), V_Text ''Step''),
      (v_u8 (event_type_number Ev_Shutdown), V_Text ''Shutdown'')]"

definition transaction_types :: "(sql_value \<times> sql_value) list" where
  "transaction_types =
     [(v_u8 (transaction_type_number TxType_Deploy), V_Text ''Deploy''),
      (v_u8 (transaction_type_number TxType_Version1), V_Text ''Version1'')]"

lemma initialise_eqs:
  "event_type_initialise = Inr (type_statement T_EventType EventTypeId EventTypeName event_types)"
  "transaction_type_initialise = Inr (type_statement T_TransactionType TransactionTypeIdCol TransactionTypeName transaction_types)"
  "event_type_create_table = type_table T_EventType EventTypeId EventTypeName"
  "transaction_type_create_table = type_table T_TransactionType TransactionTypeIdCol TransactionTypeName"
  by (simp_all add: event_type_initialise_def transaction_type_initialise_def type_statement_def event_types_def
      transaction_types_def insert_values_def insert_into_def Let_def event_type_create_table_def
      transaction_type_create_table_def type_table_def)

lemma types_distinct:
  "distinct (map fst event_types)" "distinct (map snd event_types)"
  "distinct (map fst transaction_types)" "distinct (map snd transaction_types)"
  by (simp_all add: event_types_def transaction_types_def)

definition filled_table :: "table_name \<Rightarrow> col \<Rightarrow> col \<Rightarrow> (sql_value \<times> sql_value) list \<Rightarrow> sql_table" where
  "filled_table t c1 c2 vs = \<lparr> tb_create = type_table t c1 c2, tb_rows = map (type_row c1 c2) vs, tb_last_id = length vs \<rparr>"

definition with_schema :: "bool \<Rightarrow> database \<Rightarrow> database" where
  "with_schema uns db = (with_tables (store_schema uns) db)
     (T_EventType \<mapsto> filled_table T_EventType EventTypeId EventTypeName event_types,
      T_TransactionType \<mapsto> filled_table T_TransactionType TransactionTypeIdCol TransactionTypeName transaction_types)"

lemma fill_types:
  assumes "db t = Some (empty_table (type_table t c1 c2))" "c1 \<noteq> c2" "distinct (map fst vs)" "distinct (map snd vs)"
  shows "execute now (Insert (type_statement t c1 c2 vs)) db = Inr (map (type_row c1 c2) vs, db(t \<mapsto> filled_table t c1 c2 vs))"
  using insert_rows_type [of c1 c2 db t "empty_table (type_table t c1 c2)" vs now vs] assms
  by (simp add: execute_def type_statement_def empty_table_def filled_table_def)

definition store_statements :: "bool \<Rightarrow> sql_statement list" where
  "store_statements uns = map Create (store_schema uns) @
     [Insert (type_statement T_EventType EventTypeId EventTypeName event_types),
      Insert (type_statement T_TransactionType TransactionTypeIdCol TransactionTypeName transaction_types)]"

lemma execute_store_statements:
  assumes "\<forall>create \<in> set (store_schema uns). db (tc_table create) = None"
  shows "execute_all now (store_statements uns) db = Inr (10, with_schema uns db)"
proof -
  let ?db1 = "with_tables (store_schema uns) db"
  have "distinct (map tc_table (store_schema uns))" unfolding schema_tables by simp
  note creates = execute_creates [OF this assms, of now]
  have tables: "?db1 (tc_table create) = Some (empty_table create)" if "create \<in> set (store_schema uns)" for create
    by (rule with_tables_in) (use that in \<open>simp_all add: schema_tables\<close>)
  have "?db1 T_EventType = Some (empty_table (type_table T_EventType EventTypeId EventTypeName))"
    "?db1 T_TransactionType = Some (empty_table (type_table T_TransactionType TransactionTypeIdCol TransactionTypeName))"
    using tables [of event_type_create_table] tables [of transaction_type_create_table]
    by (simp_all add: store_schema_def initialise_eqs type_table_def)
  then show ?thesis
    unfolding store_statements_def execute_all_append [OF creates]
    by (simp add: fill_types types_distinct with_schema_def event_types_def transaction_types_def)
qed

lemma migration_1_statements:
  "mg_statement_producers migration_1 uns =
     Inr (map TableCreateStatement (store_schema uns) @
       [InsertStatement (type_statement T_EventType EventTypeId EventTypeName event_types),
        InsertStatement (type_statement T_TransactionType TransactionTypeIdCol TransactionTypeName transaction_types)])"
  by (simp add: migration_1_def initialise_eqs(1,2) migration_1_ddl_statements_def store_schema_def)

lemma migration_1_materialized:
  "\<exists>wrappers. mg_statement_producers migration_1 uns = Inr wrappers \<and> materialize_statements wrappers = store_statements uns"
  unfolding migration_1_statements by (simp add: materialize_statements_def store_statements_def)

text \<open>The tables of the migration are a store without events.\<close>

definition unused :: "bool \<Rightarrow> database \<Rightarrow> bool" where
  "unused uns db \<longleftrightarrow> (\<forall>create \<in> set (store_schema uns). db (tc_table create) = None)"

lemma schema_tables_iff: "t \<in> tc_table ` set (store_schema uns) \<longleftrightarrow> t \<noteq> T_Migration"
proof -
  have "tc_table ` set (store_schema uns) = set (map tc_table (store_schema uns))" by simp
  then show ?thesis unfolding schema_tables by (cases t) simp_all
qed

lemma with_schema_tables:
  "with_schema uns db T_EventType = Some (filled_table T_EventType EventTypeId EventTypeName event_types)"
  "with_schema uns db T_TransactionType =
     Some (filled_table T_TransactionType TransactionTypeIdCol TransactionTypeName transaction_types)"
  "with_schema uns db T_Migration = db T_Migration"
  "create \<in> set (store_schema uns) \<Longrightarrow> tc_table create \<notin> {T_EventType, T_TransactionType} \<Longrightarrow>
   with_schema uns db (tc_table create) = Some (empty_table create)"
proof -
  show "with_schema uns db T_Migration = db T_Migration"
    using with_tables_other [of T_Migration "store_schema uns" db] schema_tables_iff by (simp add: with_schema_def)
  assume "create \<in> set (store_schema uns)" "tc_table create \<notin> {T_EventType, T_TransactionType}"
  then show "with_schema uns db (tc_table create) = Some (empty_table create)"
    using with_tables_in [of "store_schema uns" create db] by (simp add: with_schema_def schema_tables)
qed (simp_all add: with_schema_def)

lemma with_schema_cases:
  obtains "t = T_EventType" | "t = T_TransactionType" | "t = T_Migration"
  | create where "create \<in> set (store_schema uns)" "t = tc_table create" "with_schema uns db t = Some (empty_table create)"
proof (cases "t \<in> {T_EventType, T_TransactionType, T_Migration}")
  case False
  then obtain create where "create \<in> set (store_schema uns)" "t = tc_table create"
    using schema_tables_iff [of t uns] by auto
  then show thesis using with_schema_tables(4) [of create uns db] False that(4) by blast
qed (use that in auto)

lemma filled_table_keys:
  assumes "c1 \<noteq> c2" "distinct (map fst vs)" "distinct (map snd vs)"
    and "(kind, key) \<in> set (table_keys (tb_create (filled_table t c1 c2 vs)))"
  shows "distinct (map (\<lambda>r. map r key) (tb_rows (filled_table t c1 c2 vs)))"
proof -
  have "key = [c1] \<or> key = [c2]"
    using assms(4) by (auto simp: filled_table_def table_keys_def type_table_def ColumnDef_new_def split: if_splits)
  moreover have "map (\<lambda>r. map r [c1]) (tb_rows (filled_table t c1 c2 vs)) = map (\<lambda>x. [Some x]) (map fst vs)"
    "map (\<lambda>r. map r [c2]) (tb_rows (filled_table t c1 c2 vs)) = map (\<lambda>x. [Some x]) (map snd vs)"
    using assms(1) by (simp_all add: filled_table_def type_row_def)
  moreover have "distinct (map (\<lambda>x. [Some x]) xs) = distinct xs" for xs :: "sql_value list"
    by (simp add: distinct_map inj_on_def)
  ultimately show ?thesis using assms(2,3) by metis
qed

lemma with_schema_store:
  assumes "keys_unique db"
  shows "event_store uns (with_schema uns db)" "rows_of (with_schema uns db) T_EventLog = []" "last_log_id (with_schema uns db) = 0"
proof -
  let ?db = "with_schema uns db"
  have log: "?db T_EventLog = Some (empty_table event_log_create_table)"
    using with_schema_tables(4) [of event_log_create_table uns db]
    by (simp add: store_schema_def event_log_create_table_def)
  have empty: "rows_of ?db t = []" if "t \<notin> {T_EventType, T_TransactionType, T_Migration}" for t
    by (rule with_schema_cases [where t = t and uns = uns and db = db]) (use that in \<open>auto simp: rows_of_def empty_table_def\<close>)
  show "rows_of ?db T_EventLog = []" by (rule empty) simp
  show "last_log_id ?db = 0" by (simp add: last_log_id_def log empty_table_def)
  have "tables_exist uns ?db"
    unfolding tables_exist_def
  proof
    fix create assume c: "create \<in> set (store_schema uns)"
    consider "create = event_type_create_table" | "create = transaction_type_create_table"
      | "tc_table create \<notin> {T_EventType, T_TransactionType}"
      using c by (auto simp: store_schema_def create_defs)
    then show "\<exists>tb. ?db (tc_table create) = Some tb \<and> tb_create tb = create"
      by cases (simp_all add: with_schema_tables(4) [OF c] initialise_eqs(3,4) type_table_def with_schema_tables(1,2)
          filled_table_def empty_table_def)
  qed
  moreover have "types_exist ?db"
    unfolding types_exist_def
  proof (intro conjI allI)
    fix t
    show "\<exists>r \<in> set (rows_of ?db T_EventType). r EventTypeId = Some (v_u8 (event_type_number t))"
      by (cases t) (simp_all add: rows_of_def with_schema_tables(1) filled_table_def event_types_def type_row_def)
  next
    fix t
    show "\<exists>r \<in> set (rows_of ?db T_TransactionType). r TransactionTypeIdCol = Some (v_u8 (transaction_type_number t))"
      by (cases t) (simp_all add: rows_of_def with_schema_tables(2) filled_table_def transaction_types_def type_row_def)
  qed
  moreover have "keys_unique ?db"
    unfolding keys_unique_def
  proof (intro allI impI)
    fix t tb kind key
    assume tb: "?db t = Some tb" "(kind, key) \<in> set (table_keys (tb_create tb))"
    show "distinct (map (\<lambda>r. map r key) (tb_rows tb))"
    proof (rule with_schema_cases [where t = t and uns = uns and db = db])
      assume "t = T_EventType"
      then have e: "tb = filled_table T_EventType EventTypeId EventTypeName event_types" using tb(1) by (simp add: with_schema_tables(1))
      show ?thesis unfolding e by (rule filled_table_keys [OF _ types_distinct(1,2) tb(2) [unfolded e]]) simp
    next
      assume "t = T_TransactionType"
      then have e: "tb = filled_table T_TransactionType TransactionTypeIdCol TransactionTypeName transaction_types" using tb(1) by (simp add: with_schema_tables(2))
      show ?thesis unfolding e by (rule filled_table_keys [OF _ types_distinct(3,4) tb(2) [unfolded e]]) simp
    next
      assume "t = T_Migration"
      then show ?thesis using tb assms unfolding keys_unique_def by (simp add: with_schema_tables(3))
    next
      fix create assume "?db t = Some (empty_table create)"
      then show ?thesis using tb(1) by (simp add: empty_table_def)
    qed
  qed
  moreover have "rows_logged ?db"
    using empty by (simp add: rows_logged_def logged_tables_def raw_tables_def)
  ultimately show "event_store uns ?db"
    using \<open>rows_of ?db T_EventLog = []\<close> by (simp add: event_store_def)
qed

subsection \<open>Starting up\<close>

lemma keys_unique_empty: "keys_unique (\<lambda>_. None)"
  by (simp add: keys_unique_def)

text \<open>The row of a migration, and the database after it.\<close>

definition version_row :: "u32 \<Rightarrow> bool \<Rightarrow> row" where
  "version_row version is_success = [Version \<mapsto> v_u32 version, IsSuccess \<mapsto> V_Bool is_success]"

lemma execute_migration_insert:
  assumes "db T_Migration = Some tb" "tb_create tb = migration_create_table"
    and "\<forall>r \<in> set (tb_rows tb). r Version \<noteq> Some (v_u32 version)" "quiet_migration env"
  shows "store_migration_version backend env version is_success db =
    Inr (with_row db T_Migration tb (version_row version is_success))"
proof -
  let ?stmt = "(insert_into T_Migration [Version, IsSuccess])\<lparr> is_rows := [[v_u32 version, V_Bool is_success]] \<rparr>"
  have stmt: "single ?stmt" "is_table ?stmt = T_Migration" by (simp_all add: single_def insert_into_def)
  have row: "inserted_row (mv_now env) ?stmt tb = version_row version is_success"
    by (auto simp: inserted_row_def insert_into_def new_row_def new_value_def assms(2) migration_create_table_def
        ColumnDef_new_def version_row_def)
  have "violated_key (tb_rows tb) (version_row version is_success) (tb_create tb) = None"
    using assms(3) by (auto simp: violated_key_None assms(2) migration_create_table_def table_keys_def ColumnDef_new_def
        same_key_def version_row_def)
  moreover have "\<not> null_violation (version_row version is_success) (tb_create tb)" "tc_foreign_keys (tb_create tb) = []"
    by (simp_all add: null_violation_def assms(2) migration_create_table_def ColumnDef_new_def version_row_def)
  ultimately have "execute (mv_now env) (Insert ?stmt) db =
      Inr ([version_row version is_success], with_row db T_Migration tb (version_row version is_success))"
    using execute_single [of ?stmt db tb "mv_now env"] stmt assms(1) by (simp add: row)
  then show ?thesis
    using assms(4) by (simp add: store_migration_version_def migration_insert_def quiet_migration_def)
qed

lemma initial_migration:
  assumes "quiet_migration env"
  shows "execute_migration backend env Migration_initial db =
    (Inr (), case db T_Migration of Some _ \<Rightarrow> db | None \<Rightarrow> db(T_Migration \<mapsto> empty_table migration_create_table))"
  using assms
  by (simp add: execute_migration_def Migration_initial_def quiet_migration_def migration_body_def
      materialize_statements_def store_version_based_on_result_def execute_def empty_table_def migration_create_table_def
      split: option.split)

lemma execute_migration_1:
  assumes "quiet_migration env" "unused (sb_supports_unsigned backend) db"
    and "db T_Migration = Some (empty_table migration_create_table)"
  shows "execute_migration backend env migration_1 db =
    (Inr (), with_row (with_schema (sb_supports_unsigned backend) db) T_Migration (empty_table migration_create_table)
       (version_row 1 True))"
proof -
  let ?uns = "sb_supports_unsigned backend"
  obtain wrappers where w: "mg_statement_producers migration_1 ?uns = Inr wrappers"
      "materialize_statements wrappers = store_statements ?uns"
    using migration_1_materialized by blast
  have "migration_body backend env migration_1 wrappers db = Inr (with_schema ?uns db)"
    using assms(1) execute_store_statements [OF assms(2) [unfolded unused_def], of "mv_now env"]
    by (simp add: migration_body_def w quiet_migration_def migration_1_def)
  moreover have "store_migration_version backend env 1 True (with_schema ?uns db) =
      Inr (with_row (with_schema ?uns db) T_Migration (empty_table migration_create_table) (version_row 1 True))"
    by (rule execute_migration_insert) (use assms in \<open>simp_all add: with_schema_tables(3) empty_table_def\<close>)
  moreover have "mg_version migration_1 = Some 1" by (simp add: migration_1_def)
  ultimately show ?thesis
    using assms(1) by (simp add: execute_migration_def w quiet_migration_def store_version_based_on_result_def)
qed

definition new_store :: "bool \<Rightarrow> database" where
  "new_store uns =
     with_row (with_schema uns (\<lambda>t. if t = T_Migration then Some (empty_table migration_create_table) else None))
       T_Migration (empty_table migration_create_table) (version_row 1 True)"

lemma migration_row_store:
  assumes "event_store uns db" "db T_Migration = Some tb" "violated_key (tb_rows tb) row (tb_create tb) = None"
  shows "event_store uns (with_row db T_Migration tb row)"
  using event_storeD [OF assms(1)] assms(2) keys_unique_with_row [of db T_Migration tb row] assms(1,3)
  by (simp add: event_store_def tables_exist_with_row types_exist_with_row rows_logged_def logged_tables_def raw_tables_def)

lemma new_store_store:
  "event_store uns (new_store uns)" "rows_of (new_store uns) T_EventLog = []" "last_log_id (new_store uns) = 0"
proof -
  let ?db = "\<lambda>t. if t = T_Migration then Some (empty_table migration_create_table) else None"
  have "keys_unique ?db" by (simp add: keys_unique_def empty_table_def)
  note store = with_schema_store [OF this, of uns]
  show "event_store uns (new_store uns)"
    unfolding new_store_def
    by (rule migration_row_store [OF store(1)])
      (simp_all add: with_schema_tables(3) violated_key_None empty_table_def)
  show "rows_of (new_store uns) T_EventLog = []" "last_log_id (new_store uns) = 0"
    using store(2,3) by (simp_all add: new_store_def)
qed

text \<open>The newest version is that of the one row with the highest version.\<close>

lemma find_append_None: "find P xs = None \<Longrightarrow> find P (xs @ ys) = find P ys"
  by (induction xs) (auto split: if_splits)

lemma newest_migration:
  assumes "rows_of db T_Migration = rows @ [version_row v success]" "re_io renv = None"
    and "\<forall>r \<in> set rows. \<exists>w ok. r = version_row w ok \<and> w < v"
  shows "get_newest_migration_version renv db = Inr (Some (v, success))"
proof -
  let ?max = "\<lambda>r. list_all (\<lambda>r'. int_value (r' Version) \<le> int_value (r Version)) (rows @ [version_row v success])"
  have num: "int_value (version_row w ok Version) = uint w" for w ok by (simp add: version_row_def v_u32_def)
  have "\<not> ?max r" if "r \<in> set rows" for r
  proof -
    obtain w ok where "r = version_row w ok" "w < v" using assms(3) \<open>r \<in> set rows\<close> by blast
    then show ?thesis by (simp add: num word_less_alt)
  qed
  then have none: "find ?max rows = None" by (auto simp: find_None_iff)
  have "?max (version_row v success)"
    using assms(3) by (force simp: list_all_iff num word_less_alt)
  then have "find ?max (rows @ [version_row v success]) = Some (version_row v success)"
    unfolding find_append_None [OF none] by simp
  then have "select_newest_migration db = Some (version_row v success)"
    by (simp add: select_newest_migration_def assms(1))
  then show ?thesis
    using assms(2) by (simp add: get_newest_migration_version_def parse_migration_row_def version_row_def v_u32_def)
qed

lemma migrate_new:
  assumes "quiet_migration env" "quiet_migration (envs 0)" "re_io renv = None"
  shows "apply_all_migrations backend env renv envs (\<lambda>_. None) = (Inr (), new_store (sb_supports_unsigned backend))"
proof -
  let ?db = "\<lambda>t. if t = T_Migration then Some (empty_table migration_create_table) else None"
  have initial: "execute_migration backend env Migration_initial (\<lambda>_. None) = (Inr (), ?db)"
    using initial_migration [OF assms(1), of backend "\<lambda>_. None"] by (simp add: fun_upd_def)
  have "unused (sb_supports_unsigned backend) ?db"
    using schema_tables_iff by (auto simp: unused_def)
  then have "execute_migration backend (envs 0) migration_1 ?db = (Inr (), new_store (sb_supports_unsigned backend))"
    unfolding new_store_def by (rule execute_migration_1 [OF assms(2)]) simp
  moreover have "get_newest_migration_version renv ?db = Inr None"
    using assms(3) by (simp add: get_newest_migration_version_def parse_migration_row_def select_newest_migration_def
        rows_of_def empty_table_def)
  ultimately show ?thesis
    by (simp add: apply_all_migrations_def migrate_def initial get_all_migrations_def do_migrate_def
        validate_uniqueness_of_migration_versions_def migration_1_def)
qed

lemma migrate_again:
  assumes "quiet_migration env" "re_io renv = None" "db T_Migration = Some tb" "rows_of db T_Migration = [version_row 1 True]"
  shows "apply_all_migrations backend env renv envs db = (Inr (), db)"
proof -
  have "execute_migration backend env Migration_initial db = (Inr (), db)"
    using initial_migration [OF assms(1), of backend db] assms(3) by simp
  moreover have "get_newest_migration_version renv db = Inr (Some (1, True))"
    by (rule newest_migration [of _ "[]"]) (use assms(2,4) in simp_all)
  ultimately show ?thesis
    by (simp add: apply_all_migrations_def migrate_def get_all_migrations_def do_migrate_def
        validate_uniqueness_of_migration_versions_def migration_1_def)
qed

text \<open>A migration whose statements fail is recorded as failed, and nothing else of it remains.\<close>

lemma failed_migration_recorded:
  assumes "quiet_migration env" "mg_version m = Some v" "mg_statement_producers m (sb_supports_unsigned backend) = Inr wrappers"
    and "migration_body backend env m wrappers db = Inl err"
    and "db T_Migration = Some tb" "tb_create tb = migration_create_table"
    and "\<forall>r \<in> set (tb_rows tb). \<exists>w ok. r = version_row w ok \<and> w < v"
  shows "execute_migration backend env m db = (Inl err, with_row db T_Migration tb (version_row v False))"
proof -
  have "\<forall>r \<in> set (tb_rows tb). r Version \<noteq> Some (v_u32 v)"
    using assms(7) by (force simp: version_row_def)
  from execute_migration_insert [of db tb v env backend False, OF assms(5,6) this assms(1)]
  show ?thesis using assms(1-4)
    by (simp add: execute_migration_def quiet_migration_def store_version_based_on_result_def)
qed

lemma failed_migration_stops:
  assumes "quiet_migration env" "re_io renv = None" "db T_Migration = Some tb"
    and "rows_of db T_Migration = rows @ [version_row v False]" "\<forall>r \<in> set rows. \<exists>w ok. r = version_row w ok \<and> w < v"
  shows "apply_all_migrations backend env renv envs db = (Inl (LastMigrationFailed v), db)"
proof -
  have "execute_migration backend env Migration_initial db = (Inr (), db)"
    using initial_migration [OF assms(1), of backend db] assms(3) by simp
  moreover have "get_newest_migration_version renv db = Inr (Some (v, False))"
    by (rule newest_migration [OF assms(4,2,5)])
  ultimately show ?thesis
    by (simp add: apply_all_migrations_def migrate_def get_all_migrations_def do_migrate_def
        validate_uniqueness_of_migration_versions_def migration_1_def)
qed

subsection \<open>Properties\<close>

text \<open>C36: on an empty database the sidecar's migrations succeed and give an empty event store that satisfies the
  invariant of the tables, and applying them once more changes nothing.\<close>

theorem migrations_build_the_store:
  assumes "quiet_migration env" "quiet_migration (envs 0)" "re_io renv = None" "quiet_migration env'" "re_io renv' = None"
  shows "let (res, db) = apply_all_migrations backend env renv envs (\<lambda>_. None) in
    res = Inr () \<and> event_store (sb_supports_unsigned backend) db \<and> select_event_count db = 0 \<and>
    apply_all_migrations backend env' renv' envs' db = (Inr (), db)"
proof -
  let ?db = "new_store (sb_supports_unsigned backend)"
  have "apply_all_migrations backend env' renv' envs' ?db = (Inr (), ?db)"
    by (rule migrate_again [OF assms(4,5)]) (simp_all add: new_store_def with_row_def rows_of_def empty_table_def)
  then show ?thesis
    using migrate_new [of env envs renv backend, OF assms(1-3)] new_store_store by (simp add: select_event_count_def)
qed

definition sample_migration_env :: migration_env where
  "sample_migration_env = \<lparr> mv_begin = None, mv_execute = None, mv_commit = None, mv_rollback = None, mv_store = None, mv_now = 0 \<rparr>"

definition sample_read_env :: read_env where
  "sample_read_env = \<lparr> re_io = None, re_decode = Sqlx_Other ''decode'' \<rparr>"

text \<open>How the drivers report failed statements: SQLite by the code of the failed constraint and a message that names
  the column, PostgreSQL by the code alone and the table.\<close>

definition sqlite_backend :: sql_backend where
  "sqlite_backend = \<lparr> sb_error = (\<lambda>failure. Sqlx_Database (case failure of
       Failure_Unique t PrimaryIndex key \<Rightarrow>
         \<lparr> de_code = Some ''1555'', de_table = None, de_message = ''UNIQUE constraint failed: table.column'' \<rparr>
     | Failure_Unique t UniqueIndex key \<Rightarrow>
         \<lparr> de_code = Some ''2067'', de_table = None, de_message = ''UNIQUE constraint failed: table.column'' \<rparr>
     | _ \<Rightarrow> \<lparr> de_code = Some ''1'', de_table = None, de_message = ''failed'' \<rparr>)), sb_supports_unsigned = True \<rparr>"

definition postgresql_backend :: sql_backend where
  "postgresql_backend = \<lparr> sb_error = (\<lambda>failure. Sqlx_Database (case failure of
       Failure_Unique t kind key \<Rightarrow> \<lparr> de_code = Some ''23505'', de_table = Some ''table'', de_message = ''duplicate key'' \<rparr>
     | _ \<Rightarrow> \<lparr> de_code = Some ''42P01'', de_table = None, de_message = ''failed'' \<rparr>)), sb_supports_unsigned = False \<rparr>"

theorem migrations_build_the_store_witness:
  "quiet_migration sample_migration_env \<and> re_io sample_read_env = None \<and>
   (let (res, db) = apply_all_migrations sqlite_backend sample_migration_env sample_read_env (\<lambda>_. sample_migration_env) (\<lambda>_. None) in
    res = Inr () \<and> event_store (sb_supports_unsigned sqlite_backend) db \<and> select_event_count db = 0 \<and>
    apply_all_migrations sqlite_backend sample_migration_env sample_read_env (\<lambda>_. sample_migration_env) db = (Inr (), db))"
proof -
  have "quiet_migration sample_migration_env" "re_io sample_read_env = None"
    by (simp_all add: quiet_migration_def sample_migration_env_def sample_read_env_def)
  then show ?thesis
    using migrations_build_the_store [of sample_migration_env "\<lambda>_. sample_migration_env" sample_read_env
        sample_migration_env sample_read_env sqlite_backend "\<lambda>_. sample_migration_env"] by blast
qed

text \<open>C37: when the statements of a migration with a new highest version fail, all that remains of it is the record of
  the failure, and with that record the sidecar refuses every later start.\<close>

theorem failed_migration_blocks_start:
  assumes "quiet_migration env" "mg_version m = Some v" "mg_statement_producers m (sb_supports_unsigned backend) = Inr wrappers"
    and "migration_body backend env m wrappers db = Inl err"
    and "db T_Migration = Some tb" "tb_create tb = migration_create_table"
    and "\<forall>r \<in> set (tb_rows tb). \<exists>w ok. r = version_row w ok \<and> w < v"
    and "quiet_migration env'" "re_io renv = None"
  shows "let (res, db') = execute_migration backend env m db in
    res = Inl err \<and> (\<forall>t. t \<noteq> T_Migration \<longrightarrow> db' t = db t) \<and>
    apply_all_migrations backend env' renv envs db' = (Inl (LastMigrationFailed v), db')"
proof -
  let ?db = "with_row db T_Migration tb (version_row v False)"
  have "apply_all_migrations backend env' renv envs ?db = (Inl (LastMigrationFailed v), ?db)"
    by (rule failed_migration_stops [OF assms(8,9) _ _ assms(7)]) (simp_all add: with_row_def rows_of_def)
  then show ?thesis
    using failed_migration_recorded [OF assms(1-7)] by (simp add: with_row_def)
qed

text \<open>A second migration with an insertion that leaves out a column.\<close>

definition failing_migration :: migration where
  "failing_migration = \<lparr> mg_version = Some 2,
     mg_statement_producers = (\<lambda>_. Inr [InsertStatement
       ((insert_into T_Shutdown [EventSourceAddress])\<lparr> is_rows := [[V_Text ''node'']] \<rparr>)]),
     mg_script_executor = None \<rparr>"

definition failing_statements :: "statement_wrapper list" where
  "failing_statements = [InsertStatement ((insert_into T_Shutdown [EventSourceAddress])\<lparr> is_rows := [[V_Text ''node'']] \<rparr>)]"

definition missing_column :: database_write_error where
  "missing_column = write_error_from (sb_error sqlite_backend (Failure_NotNull T_Shutdown))"

definition version_table :: sql_table where
  "version_table = \<lparr> tb_create = migration_create_table, tb_rows = [version_row 1 True], tb_last_id = 1 \<rparr>"

lemma new_store_tables:
  "new_store uns T_Migration = Some version_table" "new_store uns T_Shutdown = Some (empty_table shutdown_create_table)"
  using with_schema_tables(4) [of shutdown_create_table uns]
  by (simp_all add: new_store_def with_row_def version_table_def empty_table_def store_schema_def shutdown_create_table_def)

lemma failing_body:
  "migration_body sqlite_backend sample_migration_env failing_migration failing_statements (new_store True) = Inl missing_column"
proof -
  have "null_violation (new_row 0 1 [(EventSourceAddress, V_Text ''node'')] shutdown_create_table) shutdown_create_table"
    by (simp add: null_violation_def new_row_def new_value_def shutdown_create_table_def ColumnDef_new_def)
  then show ?thesis
    by (simp add: migration_body_def sample_migration_env_def failing_statements_def materialize_statements_def execute_def
        insert_into_def insert_row_def new_store_tables(2) empty_table_def missing_column_def Let_def)
qed

theorem failed_migration_blocks_start_witness:
  "let (res, db') = execute_migration sqlite_backend sample_migration_env failing_migration (new_store True) in
    res = Inl missing_column \<and> (\<forall>t. t \<noteq> T_Migration \<longrightarrow> db' t = new_store True t) \<and>
    apply_all_migrations sqlite_backend sample_migration_env sample_read_env (\<lambda>_. sample_migration_env) db' =
      (Inl (LastMigrationFailed 2), db')"
proof (rule failed_migration_blocks_start [where tb = version_table and wrappers = failing_statements])
  show "migration_body sqlite_backend sample_migration_env failing_migration failing_statements (new_store True) =
      Inl missing_column"
    by (rule failing_body)
  show "\<forall>r \<in> set (tb_rows version_table). \<exists>w ok. r = version_row w ok \<and> w < (2 :: u32)"
    by (auto simp: version_table_def)
qed (simp_all add: quiet_migration_def sample_migration_env_def sample_read_env_def failing_migration_def
    failing_statements_def new_store_tables version_table_def)

end
