(* ===== verification/Store_Reads.thy ===== *)
theory Store_Reads
  imports Store_Saves Migrations
begin

text \<open>
  The properties of the store: its invariant, which events it accepts, that what was saved is read back, and the types of
  what is inserted.
\<close>

subsection \<open>Reading by a key\<close>

fun key_values :: "entity_key \<Rightarrow> (col \<times> sql_value) list" where
  "key_values (Key_Block height) = [(Height, v_u64 height)]"
| "key_values (Key_Accepted t i) = [(TransactionTypeIdCol, v_u8 t), (TransactionHashCol, V_Text i)]"
| "key_values (Key_Processed t i) = [(TransactionHashCol, V_Text i), (TransactionTypeIdCol, v_u8 t)]"
| "key_values (Key_Expired i) = [(TransactionHashCol, V_Text i)]"
| "key_values (Key_Fault era k) = [(Era, v_u64 era), (PublicKeyCol, V_Text k)]"
| "key_values (Key_FinalitySignature h k) = [(BlockHash, V_Text h), (PublicKeyCol, V_Text k)]"
| "key_values (Key_Step era) = [(Era, v_u64 era)]"

lemma has_key_values: "has_key k r \<longleftrightarrow> map r (map fst (key_values k)) = map (\<lambda>x. Some (snd x)) (key_values k)"
  by (cases k) auto

lemma key_values_index:
  assumes "create \<in> set (store_schema uns)" "tc_table create = key_table k"
  shows "\<exists>kind. (kind, map fst (key_values k)) \<in> set (table_keys create)"
proof (cases k)
  case (Key_Block height)
  then have "create = block_added_create_table" using assms by (auto simp: store_schema_def create_defs)
  moreover have "table_keys block_added_create_table = [(PrimaryIndex, [BlockHash, Height]), (UniqueIndex, [Height])]"
    by (simp add: table_keys_def block_added_create_table_def ColumnDef_new_def)
  ultimately show ?thesis by (simp add: Key_Block)
qed (use assms in \<open>auto simp: store_schema_def create_defs table_keys_def ColumnDef_new_def\<close>)

lemma filter_distinct_single:
  "distinct (map f xs) \<Longrightarrow> x \<in> set xs \<Longrightarrow> filter (\<lambda>y. f y = f x) xs = [x]"
proof (induction xs)
  case (Cons a xs)
  show ?case
  proof (cases "a = x")
    case True
    then have "f x \<notin> f ` set xs" using Cons.prems by simp
    then have "filter (\<lambda>y. f y = f x) xs = []" by (simp add: filter_empty_conv) (metis imageI)
    then show ?thesis using True by simp
  next
    case False
    then have "f a \<noteq> f x" using Cons.prems by auto
    then show ?thesis using Cons False by simp
  qed
qed simp

lemma key_unique_row:
  assumes "event_store uns db" "r \<in> set (rows_of db (key_table k))" "has_key k r"
  shows "filter (has_key k) (rows_of db (key_table k)) = [r]"
proof -
  have "key_table k \<in> tc_table ` set (store_schema uns)" using schema_tables_iff by (cases k) auto
  then obtain create where create: "create \<in> set (store_schema uns)" "tc_table create = key_table k" by auto
  obtain tb where tb: "db (key_table k) = Some tb" "tb_create tb = create"
    using table_of [OF event_storeD(1) [OF assms(1)] create(1)] create(2) by auto
  let ?key = "\<lambda>r. map r (map fst (key_values k))"
  have "distinct (map ?key (tb_rows tb))"
    using event_storeD(3) [OF assms(1)] tb key_values_index [OF create] unfolding keys_unique_def by blast
  then have "filter (\<lambda>y. ?key y = ?key r) (tb_rows tb) = [r]"
    by (rule filter_distinct_single) (use assms(2) tb(1) in \<open>simp add: rows_of_Some\<close>)
  moreover have "has_key k = (\<lambda>y. ?key y = ?key r)" using assms(3) by (auto simp: has_key_values fun_eq_iff)
  ultimately show ?thesis using tb(1) by (simp add: rows_of_Some)
qed

lemma log_unique_row:
  assumes "event_store uns db" "l \<in> set (rows_of db T_EventLog)"
  shows "filter (\<lambda>y. y EventLogId = l EventLogId) (rows_of db T_EventLog) = [l]"
proof -
  obtain tb where tb: "db T_EventLog = Some tb" "tb_create tb = event_log_create_table"
    using table_of [OF event_storeD(1) [OF assms(1)], of event_log_create_table]
    by (auto simp: store_schema_def event_log_create_table_def)
  have "(PrimaryIndex, [EventLogId]) \<in> set (table_keys (tb_create tb))" by (simp add: tb(2) log_table_keys)
  then have "distinct (map (\<lambda>r. map r [EventLogId]) (tb_rows tb))"
    using event_storeD(3) [OF assms(1)] tb(1) unfolding keys_unique_def by blast
  then have "distinct (map (\<lambda>r. r EventLogId) (tb_rows tb))"
    by (simp add: distinct_map inj_on_def)
  moreover have rows: "rows_of db T_EventLog = tb_rows tb" using tb(1) by (simp add: rows_of_Some)
  moreover have "l \<in> set (tb_rows tb)" using assms(2) rows by simp
  ultimately show ?thesis using filter_distinct_single [of "\<lambda>r. r EventLogId" "tb_rows tb" l] by simp
qed

lemma read_row:
  assumes "event_store uns db" "re_io env = None"
    and "filter (selected s (rows_of db (ss_table s))) (rows_of db (ss_table s)) = [r]"
    and "r Raw = Some (V_Text raw)" "l \<in> set (rows_of db T_EventLog)" "l EventLogId = r EventLogId"
    and "l ApiVersionCol = Some (V_Text api)" "l NetworkName = Some (V_Text network)" "of_json raw = Inr x"
  shows "read_one env of_json s db = Inr (SseEnvelope_new x api network)"
proof -
  have "join_log (rows_of db T_EventLog) r = [\<lambda>c. if c = Raw then r Raw else l c]"
    using log_unique_row [OF assms(1,5)] assms(6) by (simp add: join_log_def)
  then have "select db s = [\<lambda>c. if c = Raw then r Raw else l c]"
    using assms(3) by (simp add: select_def Let_def)
  then show ?thesis
    using assms(2,4,7-9)
    by (simp add: read_one_def fetch_optional_with_error_check_def fetch_all_def parse_envelope_def
        fetch_envelope_data_from_row_def try_get_string_def)
qed

text \<open>What a successful save leaves in the tables.\<close>

lemma executed_main_row:
  assumes "event_store uns db" "main_insert uns log_id k main" "raw_insert uns raw main"
    and "\<exists>l \<in> set (rows_of db T_EventLog). l EventLogId = Some (v_u64 log_id)"
    and "execute_all now (map Insert (main # rest)) db = Inr (n, db')"
  shows "\<exists>r \<in> set (rows_of db' (key_table k)). has_key k r \<and> r Raw = Some (V_Text raw) \<and> r EventLogId = Some (v_u64 log_id)"
proof -
  have entity: "entity_insert uns log_id main" and table: "is_table main = key_table k"
    using assms(2) by (simp_all add: main_insert_def)
  obtain tb where tb: "db (key_table k) = Some tb" "tb_create tb \<in> set (store_schema uns)" "tc_table (tb_create tb) = key_table k"
    and row: "entity_row (tb_create tb) (v_u64 log_id) (inserted_row now main tb)"
    and exec: "execute now (Insert main) db =
       (case violated_key (tb_rows tb) (inserted_row now main tb) (tb_create tb) of
          Some (kind, key) \<Rightarrow> Inl (Failure_Unique (key_table k) kind key)
        | None \<Rightarrow> Inr ([inserted_row now main tb], with_row db (key_table k) tb (inserted_row now main tb)))"
    by (rule execute_entity [OF assms(1) entity assms(4), where now = now, unfolded table])
  let ?row = "inserted_row now main tb"
  obtain m where rest: "execute_all now (map Insert rest) (with_row db (key_table k) tb ?row) = Inr (m, db')"
    using assms(5) exec by (auto simp: result_iffs split: option.splits prod.splits)
  have "?row \<in> set (rows_of (with_row db (key_table k) tb ?row) (key_table k))" by simp
  then have "?row \<in> set (rows_of db' (key_table k))"
    using rows_of_extends [OF execute_all_extends [OF rest], of "key_table k"] by blast
  moreover have "has_key k ?row" using assms(2) tb(2,3) unfolding main_insert_def by blast
  moreover have "?row Raw = Some (V_Text raw)" using assms(3) tb(2,3) table unfolding raw_insert_def by simp
  moreover have "?row EventLogId = Some (v_u64 log_id)" using row by (simp add: entity_row_def)
  ultimately show ?thesis by blast
qed

lemma saved_row:
  assumes "event_store uns db" "log_room db" "stored_json lib ev = Inr raw" "save lib backend env ev origin db = (Inr n, db')"
  obtains r l where "r \<in> set (rows_of db' (key_table (stored_key lib ev)))" "has_key (stored_key lib ev) r"
    "r Raw = Some (V_Text raw)" "l \<in> set (rows_of db' T_EventLog)" "l EventLogId = r EventLogId"
    "l ApiVersionCol = Some (V_Text (eo_api_version origin))" "l NetworkName = Some (V_Text (eo_network_name origin))"
    "event_store uns db'"
proof -
  let ?ty = "stored_type ev" and ?key = "stored_event_key lib ev" and ?k = "stored_key lib ev"
  obtain inserts where inserts: "key_inserts uns ?k inserts"
    and save: "save lib backend env ev origin = in_transaction backend env (Inr raw) ?ty origin ?key inserts"
    using save_shape [of uns lib ev backend env origin] assms(3) by auto
  obtain m where body: "transaction_body backend env (Inr raw) ?ty origin ?key inserts db = Inr (m, db')"
    using assms(4) unfolding save by (cases rule: in_transaction_cases) auto
  note store = transaction_body_store [OF assms(1,2) key_inserts_entity [OF inserts] body]
  obtain raw' stmts where raw': "Inr raw = (Inr raw' :: string + string)" and new: "\<not> logged db ?ty origin ?key"
    and stmts: "inserts raw' (new_log_id db) = Inr stmts"
    and exec: "execute_all (dv_now env) (map Insert stmts) (with_log db (dv_now env) ?ty origin ?key) = Inr (m, db')"
    using transaction_body_Inr [OF assms(1) body] by blast
  obtain main rest where eq: "inserts raw (new_log_id db) = Inr (main # rest)"
    and main: "main_insert uns (new_log_id db) ?k main" "raw_insert uns raw main"
    by (rule key_insertsE [OF inserts])
  have log: "\<exists>l \<in> set (rows_of (with_log db (dv_now env) ?ty origin ?key) T_EventLog). l EventLogId = Some (v_u64 (new_log_id db))"
    unfolding with_log_other(2) [OF assms(1)] next_log_id [OF assms(2)] by simp
  have "execute_all (dv_now env) (map Insert (main # rest)) (with_log db (dv_now env) ?ty origin ?key) = Inr (m, db')"
    using exec stmts eq raw' by simp
  from executed_main_row [OF with_log_store(1) [OF assms(1) new] main log this]
  obtain r where r: "r \<in> set (rows_of db' (key_table ?k))" "has_key ?k r" "r Raw = Some (V_Text raw)"
      "r EventLogId = Some (V_Int (int (Suc (last_log_id db))))"
    unfolding next_log_id [OF assms(2)] by blast
  show thesis
    by (rule that [OF r(1-3), of "log_row (dv_now env) (Suc (last_log_id db)) ?ty origin ?key"])
      (use r(4) store(1,3) in simp_all)
qed

text \<open>Once saved, it is read back from every later state of the store.\<close>

lemma read_back:
  assumes "event_store uns db" "log_room db" "stored_json lib ev = Inr raw" "save lib backend env ev origin db = (Inr n, db1)"
    and "extends db1 db2" "event_store uns db2" "re_io renv = None" "of_json raw = Inr x"
    and "ss_table s = key_table (stored_key lib ev)" "\<And>rows. selected s rows = has_key (stored_key lib ev)"
  shows "read_one renv of_json s db2 = Inr (SseEnvelope_new x (eo_api_version origin) (eo_network_name origin))"
proof -
  obtain r l where r: "r \<in> set (rows_of db1 (key_table (stored_key lib ev)))" "has_key (stored_key lib ev) r"
    "r Raw = Some (V_Text raw)" and l: "l \<in> set (rows_of db1 T_EventLog)" "l EventLogId = r EventLogId"
    "l ApiVersionCol = Some (V_Text (eo_api_version origin))" "l NetworkName = Some (V_Text (eo_network_name origin))"
    by (rule saved_row [OF assms(1-4)])
  have r2: "r \<in> set (rows_of db2 (ss_table s))" and l2: "l \<in> set (rows_of db2 T_EventLog)"
    using rows_of_extends [OF assms(5)] r(1) l(1) unfolding assms(9) by blast+
  have "filter (selected s (rows_of db2 (ss_table s))) (rows_of db2 (ss_table s)) = [r]"
    using key_unique_row [OF assms(6) r2 [unfolded assms(9)] r(2)] unfolding assms(9,10) .
  from read_row [of uns db2 renv s r raw l "eo_api_version origin" "eo_network_name origin" of_json x,
      OF assms(6,7) this r(3) l2 l(2-4) assms(8)]
  show ?thesis .
qed

lemma empty_store_taken:
  assumes "event_store uns db" "select_event_count db = 0"
  shows "\<not> taken db k"
proof -
  have "rows_of db (key_table k) = []"
    using event_storeD(4) [OF assms(1)] key_table_raw(2) [of k] assms(2) unfolding rows_logged_def
    by (cases "rows_of db (key_table k)") (auto simp: select_event_count_def)
  then show ?thesis by (simp add: taken_def)
qed

subsection \<open>Properties\<close>

text \<open>C33: whatever the connection does, saving an event keeps the invariant of the store (unique keys, every event tied
  to its entry in the log, every type known) and only adds rows; when it fails, and the commit did not, nothing changed.\<close>

theorem saving_keeps_the_store:
  assumes "event_store uns db" "log_room db" "save lib backend env ev origin db = (res, db')"
  shows "event_store uns db' \<and> extends db db' \<and> (\<forall>err. res = Inl err \<longrightarrow> dv_commit env = None \<longrightarrow> db' = db)"
proof -
  obtain inserts where inserts: "key_inserts uns (stored_key lib ev) inserts"
    and save: "save lib backend env ev origin =
      in_transaction backend env (stored_json lib ev) (stored_type ev) origin (stored_event_key lib ev) inserts"
    using save_shape by blast
  note store = transaction_body_store [OF assms(1,2) key_inserts_entity [OF inserts]]
  from assms(3) show ?thesis
    unfolding save by (cases rule: in_transaction_cases) (use assms(1) store(1,2) in \<open>auto simp: extends_refl\<close>)
qed

text \<open>C32: as long as the connection works, an event is saved exactly if the log does not have it from the same source and
  its key is not taken; then its key, and no other, becomes taken and one entry is logged, and otherwise the error
  is recognised as a duplicate and nothing changes.\<close>

theorem events_are_saved_once:
  assumes "event_store uns db" "log_room db" "quiet env" "stored_json lib ev = Inr raw" "reports_unique backend"
  shows "case save lib backend env ev origin db of
      (Inl err, db') \<Rightarrow> is_unique_error err \<and> db' = db \<and>
        (logged db (stored_type ev) origin (stored_event_key lib ev) \<or> taken db (stored_key lib ev))
    | (Inr _, db') \<Rightarrow> \<not> logged db (stored_type ev) origin (stored_event_key lib ev) \<and> \<not> taken db (stored_key lib ev) \<and>
        (\<forall>k. taken db' k \<longleftrightarrow> taken db k \<or> k = stored_key lib ev) \<and>
        logged db' (stored_type ev) origin (stored_event_key lib ev) \<and> select_event_count db' = Suc (select_event_count db)"
proof (cases "logged db (stored_type ev) origin (stored_event_key lib ev) \<or> taken db (stored_key lib ev)")
  case True
  then show ?thesis using save_quiet [OF assms, of origin] by auto
next
  case False
  then obtain n db' where "save lib backend env ev origin db = (Inr n, db')"
    "\<forall>k. taken db' k \<longleftrightarrow> taken db k \<or> k = stored_key lib ev"
    "rows_of db' T_EventLog = rows_of db T_EventLog @
      [log_row (dv_now env) (Suc (last_log_id db)) (stored_type ev) origin (stored_event_key lib ev)]"
    using save_quiet [OF assms, of origin] by auto
  then show ?thesis using False by (simp add: select_event_count_def logged_def log_row_sel(5) del: list.map)
qed

text \<open>C31: a block, an accepted or processed transaction, or a step that was saved is returned by the query for its key
  with the version and network it was saved with, from every later state of the store.\<close>

theorem saved_events_are_read_back:
  assumes "event_store uns db" "log_room db" "stored_json lib ev = Inr raw" "save lib backend env ev origin db = (Inr n, db1)"
    and "extends db1 db2" "event_store uns db2" "re_io renv = None"
  shows "case ev of
      SE_BlockAdded b \<Rightarrow> sl_block_of_json lib raw = Inr b \<longrightarrow> get_block_by_height lib renv (get_height b) db2 =
        Inr (SseEnvelope_new b (eo_api_version origin) (eo_network_name origin))
    | SE_TransactionAccepted a \<Rightarrow> sl_accepted_of_json lib raw = Inr a \<longrightarrow>
        get_transaction_accepted_by_hash lib renv (transaction_type_id (ta_transaction a)) (accepted_identifier lib a) db2 =
        Inr (SseEnvelope_new a (eo_api_version origin) (eo_network_name origin))
    | SE_TransactionProcessed p \<Rightarrow> sl_processed_of_json lib raw = Inr p \<longrightarrow>
        get_transaction_processed_by_hash lib renv (transaction_hash_type_id (tp_transaction_hash p)) (processed_identifier lib p) db2 =
        Inr (SseEnvelope_new p (eo_api_version origin) (eo_network_name origin))
    | SE_Step s \<Rightarrow> sl_step_of_json lib raw = Inr s \<longrightarrow> get_step_by_era lib renv (st_era_id s) db2 =
        Inr (SseEnvelope_new s (eo_api_version origin) (eo_network_name origin))
    | _ \<Rightarrow> True"
proof (cases ev)
  case (SE_BlockAdded b)
  show ?thesis unfolding SE_BlockAdded stored_event.case get_block_by_height_def
    by (intro impI read_back [OF assms])
      (auto simp: SE_BlockAdded block_added_get_by_height_def selected_def fun_eq_iff)
next
  case (SE_TransactionAccepted a)
  show ?thesis unfolding SE_TransactionAccepted stored_event.case get_transaction_accepted_by_hash_def
    by (intro impI read_back [OF assms])
      (auto simp: SE_TransactionAccepted transaction_accepted_get_by_hash_def selected_def fun_eq_iff)
next
  case (SE_TransactionProcessed p)
  show ?thesis unfolding SE_TransactionProcessed stored_event.case get_transaction_processed_by_hash_def
    by (intro impI read_back [OF assms])
      (auto simp: SE_TransactionProcessed transaction_processed_get_by_hash_def selected_def fun_eq_iff)
next
  case (SE_Step s)
  show ?thesis unfolding SE_Step stored_event.case get_step_by_era_def
    by (intro impI read_back [OF assms]) (auto simp: SE_Step step_get_by_era_def selected_def fun_eq_iff)
qed simp_all

text \<open>C39: once an accepted transaction was read, looking it up never fails: the errors of the queries for what happened to
  it are reported as if nothing had happened.\<close>

theorem aggregate_hides_read_errors:
  "get_transaction_aggregate_by_identifier lib envs t hash db =
     and_then (get_transaction_accepted_by_hash lib (envs 0) t hash db) (\<lambda>accepted.
       Inr (case get_transaction_processed_by_hash lib (envs 1) t hash db of
          Inr processed \<Rightarrow> \<lparr> tg_transaction_hash = hash, tg_transaction_accepted = Some accepted,
            tg_transaction_processed = Some processed, tg_transaction_expired = False \<rparr>
        | Inl _ \<Rightarrow> \<lparr> tg_transaction_hash = hash, tg_transaction_accepted = Some accepted, tg_transaction_processed = None,
            tg_transaction_expired =
              (case get_transaction_expired_by_hash lib (envs 2) t hash db of Inr _ \<Rightarrow> True | Inl _ \<Rightarrow> False) \<rparr>))"
  by (cases "get_transaction_accepted_by_hash lib (envs 0) t hash db")
    (simp_all add: get_transaction_aggregate_by_identifier_def matches_not_found_def Let_def split: sum.split)

subsection \<open>Witnesses\<close>

definition sample_lib :: store_lib where
  "sample_lib = \<lparr> sl_hex_encode = map (\<lambda>b. char_of (unat b)), sl_public_key_to_hex = (\<lambda>_. ''01''),
     sl_block_to_json = (\<lambda>_. Inr ''block''), sl_block_of_json = (\<lambda>_. Inl ''syntax''),
     sl_accepted_to_json = (\<lambda>_. Inr ''accepted''), sl_accepted_of_json = (\<lambda>_. Inl ''syntax''),
     sl_processed_to_json = (\<lambda>_. Inr ''processed''), sl_processed_of_json = (\<lambda>_. Inl ''syntax''),
     sl_expired_to_json = (\<lambda>_. Inr ''expired''), sl_expired_of_json = (\<lambda>s. Inr \<lparr> te_transaction_hash = TransactionHash_Deploy [] \<rparr>),
     sl_fault_to_json = (\<lambda>_. Inr ''fault''), sl_fault_of_json = (\<lambda>_. Inl ''syntax''),
     sl_finsig_to_json = (\<lambda>_. Inr ''signature''), sl_finsig_of_json = (\<lambda>_. Inl ''syntax''),
     sl_step_to_json = (\<lambda>_. Inr ''step''), sl_step_of_json = (\<lambda>_. Inr \<lparr> st_era_id = 5, st_execution_effect = [] \<rparr>) \<rparr>"

definition sample_env :: db_env where
  "sample_env = \<lparr> dv_begin = None, dv_log = None, dv_insert = None, dv_commit = None, dv_now = 7, dv_unix_timestamp = 7 \<rparr>"

definition sample_origin :: event_origin where
  "sample_origin = \<lparr> eo_event_id = 4, eo_source = ''127.0.0.1'', eo_api_version = ''2.0.0'', eo_network_name = ''casper'' \<rparr>"

definition sample_step :: step where
  "sample_step = \<lparr> st_era_id = 5, st_execution_effect = [] \<rparr>"

lemma sqlite_reports_unique: "reports_unique sqlite_backend"
  unfolding reports_unique_def
proof (intro allI)
  fix t kind key
  show "\<exists>e. sb_error sqlite_backend (Failure_Unique t kind key) = Sqlx_Database e \<and>
      (de_code e = Some ''23505'' \<or> (de_code e = Some ''1555'' \<or> de_code e = Some ''2067'') \<and> CHR '':'' \<in> set (de_message e))"
    by (cases kind) (simp_all add: sqlite_backend_def)
qed

lemma postgresql_reports_unique: "reports_unique postgresql_backend"
  by (simp add: reports_unique_def postgresql_backend_def)

lemma empty_sample_store:
  "event_store True (new_store True)" "log_room (new_store True)" "quiet sample_env" "reports_unique sqlite_backend"
  "stored_json sample_lib (SE_Step sample_step) = Inr ''step''"
  by (simp_all add: new_store_store log_room_def quiet_def sample_env_def sqlite_reports_unique sample_lib_def)

theorem saving_keeps_the_store_witness:
  "let (res, db') = save sample_lib sqlite_backend sample_env (SE_Step sample_step) sample_origin (new_store True) in
    event_store True db' \<and> extends (new_store True) db' \<and> (\<forall>err. res = Inl err \<longrightarrow> dv_commit sample_env = None \<longrightarrow> db' = new_store True)"
  unfolding Let_def split_def by (rule saving_keeps_the_store [OF empty_sample_store(1,2) prod.collapse [symmetric]])

theorem events_are_saved_once_witness:
  "case save sample_lib sqlite_backend sample_env (SE_Step sample_step) sample_origin (new_store True) of
      (Inl err, db') \<Rightarrow> is_unique_error err \<and> db' = new_store True \<and>
        (logged (new_store True) (stored_type (SE_Step sample_step)) sample_origin (stored_event_key sample_lib (SE_Step sample_step)) \<or>
         taken (new_store True) (stored_key sample_lib (SE_Step sample_step)))
    | (Inr _, db') \<Rightarrow> \<not> logged (new_store True) (stored_type (SE_Step sample_step)) sample_origin (stored_event_key sample_lib (SE_Step sample_step)) \<and>
        \<not> taken (new_store True) (stored_key sample_lib (SE_Step sample_step)) \<and>
        (\<forall>k. taken db' k \<longleftrightarrow> taken (new_store True) k \<or> k = stored_key sample_lib (SE_Step sample_step)) \<and>
        logged db' (stored_type (SE_Step sample_step)) sample_origin (stored_event_key sample_lib (SE_Step sample_step)) \<and>
        select_event_count db' = Suc (select_event_count (new_store True))"
  by (rule events_are_saved_once [OF empty_sample_store(1-3) empty_sample_store(5,4)])

theorem saved_events_are_read_back_witness:
  "get_step_by_era sample_lib sample_read_env 5
     (snd (save sample_lib sqlite_backend sample_env (SE_Step sample_step) sample_origin (new_store True))) =
   Inr (SseEnvelope_new sample_step ''2.0.0'' ''casper'')"
proof -
  have count: "select_event_count (new_store True) = 0" by (simp add: select_event_count_def new_store_store)
  have "\<not> logged (new_store True) Ev_Step sample_origin (stored_event_key sample_lib (SE_Step sample_step))"
    by (simp add: logged_def new_store_store)
  then obtain n db' where saved: "save sample_lib sqlite_backend sample_env (SE_Step sample_step) sample_origin (new_store True) = (Inr n, db')"
    and "event_store True db'"
    using save_quiet [OF empty_sample_store(1-3) empty_sample_store(5,4), of sample_origin] empty_store_taken [OF empty_sample_store(1) count] by auto
  from saved_events_are_read_back [OF empty_sample_store(1,2,5) saved extends_refl this(2), of sample_read_env]
  show ?thesis unfolding saved snd_conv by (simp add: sample_read_env_def sample_step_def sample_lib_def sample_origin_def)
qed

end
