(* ===== verification/Event_Pipeline.thy ===== *)
theory Event_Pipeline
  imports Event_Forwarding Store_Reads
begin

text \<open>
  The properties of the path from the listeners to the event stream server: what is forwarded from a working store,
  what is forwarded whatever happens to the database, and that the queue of the multi-threaded consumer changes nothing.
\<close>

subsection \<open>Lemmas\<close>

lemma empty_store_covers: "select_event_count db = 0 \<Longrightarrow> covers lib U db"
  by (simp add: covers_def select_event_count_def)

lemma ended_consumer:
  assumes "(consumer_step svc chan)\<^sup>*\<^sup>* (start_multi_threaded_events_consumer evs st) c"
  shows "cs_ended c \<longrightarrow> cs_inbound c = [] \<or> ch_panicked (chan (fst (cs_service c)))"
  using assms
proof (induction rule: rtranclp_induct)
  case base
  show ?case by (simp add: start_multi_threaded_events_consumer_def)
next
  case (step c c')
  have consumed: "consumed svc chan evs st c" by (rule consumer_steps_consumed [OF step(1)])
  from step(2) show ?case
  proof cases
    case (no_queue ev rest)
    then show ?thesis using consumed unfolding consumed_def by (cases "se_inbound_filter ev") auto
  qed (use step(3) in auto)
qed

subsection \<open>Properties\<close>

text \<open>C30: starting with an empty store, as long as the connection to the database works, the sidecar forwards exactly
  what the specification without a database says: of the events with the same key the first one, every shutdown, and
  each API version that is newer than all before.  So each entity that was received is forwarded once.\<close>

theorem store_forwards_first_of_each:
  assumes "event_store uns (ds_database s)" "select_event_count (ds_database s) = 0"
    and "last_log_id (ds_database s) + length evs < 2 ^ 64" "\<not> ch_closed (ds_channels s)" "\<not> ch_panicked (ds_channels s)"
    and "reports_unique (dc_backend cfg)" "list_all (\<lambda>(env, _). quiet env) evs"
    and "serialisable (dc_lib cfg) (stored_in (map snd evs))" "identified (dc_lib cfg) (stored_in (map snd evs))"
  shows "let forwarded = first_of_each (dc_lib cfg) [] newest (map snd evs) in
    ch_outbound (ds_channels (fst (single_threaded_consumer (DbSavingEventHandlingService cfg) ds_channels evs (s, newest)))) =
      ch_outbound (ds_channels s) @ forwarded \<and>
    distinct (keys_of (dc_lib cfg) forwarded) \<and> set (keys_of (dc_lib cfg) forwarded) = set (keys_of (dc_lib cfg) (received evs))"
proof -
  have "service_inv cfg uns (stored_in (map snd evs)) [] (length evs) s"
    using assms(1-5) empty_store_taken [OF assms(1,2)] by (simp add: empty_store_covers service_inv_def serving_def)
  from consumer_forwards [OF this assms(6,8,9,7) subset_refl]
  have "ch_outbound (ds_channels (fst (single_threaded_consumer (DbSavingEventHandlingService cfg) ds_channels evs (s, newest)))) =
      ch_outbound (ds_channels s) @ first_of_each (dc_lib cfg) [] newest (map snd evs)" .
  moreover have "map (\<lambda>ev. (se_data ev, Some (se_inbound_filter ev))) (map snd evs) = received evs"
    by (simp add: received_def case_prod_unfold)
  ultimately show ?thesis using first_of_each_keys [of "dc_lib cfg" "[]" newest "map snd evs"] by (simp add: Let_def)
qed

text \<open>C34: whatever the database and the connection to it do, the service with a database forwards a subsequence of
  what it received, each event with the filter it came through, and the API versions in it strictly increase, from the
  newest version seen before on.\<close>

theorem only_received_events_are_forwarded:
  "\<exists>forwarded. subseq forwarded (received evs) \<and> newer newest (versions_of forwarded) \<and>
     ch_outbound (ds_channels (fst (single_threaded_consumer (DbSavingEventHandlingService cfg) ds_channels evs (s, newest)))) =
       ch_outbound (ds_channels s) @ forwarded"
  using db.forwarded_subsequence [of evs "(s, newest)" cfg] by simp

text \<open>C35: when the multi-threaded consumer cannot go on and its task did not panic, every event was handled, one after
  the other in the order of arrival, exactly as by the single-threaded consumer.\<close>

theorem queues_keep_the_order:
  fixes svc :: "'e \<Rightarrow> 's event_service"
  assumes "(consumer_step svc chan)\<^sup>*\<^sup>* (start_multi_threaded_events_consumer evs st) c"
    and "\<nexists>c'. consumer_step svc chan c c'" "\<not> ch_panicked (chan (fst (cs_service c)))"
  shows "\<exists>handled. map snd handled = evs \<and> cs_service c = single_threaded_consumer svc chan handled st"
proof -
  have consumed: "consumed svc chan evs st c" by (rule consumer_steps_consumed [OF assms(1)])
  have idle: "\<not> (cs_inbound c \<noteq> [] \<and> \<not> cs_ended c \<or> cs_queues c \<noteq> [Events \<mapsto> []])"
    using consumer_progress [OF consumed assms(3)] assms(2) by blast
  then have "cs_inbound c = []" "cs_queues c = [Events \<mapsto> []]" using ended_consumer [OF assms(1)] assms(3) by auto
  moreover obtain taken_evs q lost where "cs_queues c = [Events \<mapsto> q]" "evs = map snd taken_evs @ q @ lost @ cs_inbound c"
    "lost \<noteq> [] \<longrightarrow> ch_panicked (chan (fst (cs_service c)))" "cs_service c = single_threaded_consumer svc chan taken_evs st"
    using consumed unfolding consumed_def by blast
  ultimately show ?thesis using assms(3) by (auto dest: fun_upd_eqD)
qed

subsection \<open>Witnesses\<close>

definition sample_config :: db_config where
  "sample_config = \<lparr> dc_lib = sample_lib, dc_backend = sqlite_backend, dc_has_sidecar_event_sender = False,
     dc_messages_len = length, dc_url_to_string = url_address \<rparr>"

definition sample_channels :: channels where
  "sample_channels = \<lparr> ch_outbound = [], ch_closed = False, ch_sidecar_events = [], ch_metrics = [], ch_panicked = False \<rparr>"

definition sample_service :: db_service where
  "sample_service = \<lparr> ds_database = new_store True, ds_channels = sample_channels \<rparr>"

definition from_node :: "string \<Rightarrow> u32 \<Rightarrow> sse_data \<Rightarrow> sse_event" where
  "from_node node i d = \<lparr> se_id = i, se_data = d, se_source = \<lparr> url_address = node, url_path = [], url_query = None \<rparr>,
     se_inbound_filter = Events, se_api_version = ''2.0.0'', se_network_name = ''casper'' \<rparr>"

text \<open>Two nodes report the same step; one goes down and reports its version before.\<close>

definition sample_events :: "(db_env \<times> sse_event) list" where
  "sample_events = map (Pair sample_env)
     [from_node ''a'' 0 (ApiVersion (ProtocolVersion 2 0 0)), from_node ''a'' 1 (Step 5 []), from_node ''b'' 9 (Step 5 []),
      from_node ''b'' 10 (Step 6 []), from_node ''a'' 2 Shutdown]"

theorem store_forwards_first_of_each_witness:
  "ch_outbound (ds_channels (fst (single_threaded_consumer (DbSavingEventHandlingService sample_config) ds_channels
       sample_events (sample_service, None)))) =
   [(ApiVersion (ProtocolVersion 2 0 0), Some Events), (Step 5 [], Some Events), (Step 6 [], Some Events), (Shutdown, Some Events)]"
proof -
  have stored: "e \<in> stored_in (map snd sample_events) \<longleftrightarrow>
      e = SE_Step \<lparr> st_era_id = 5, st_execution_effect = [] \<rparr> \<or> e = SE_Step \<lparr> st_era_id = 6, st_execution_effect = [] \<rparr>" for e
    by (auto simp: stored_in_def sample_events_def from_node_def)
  have "serialisable (dc_lib sample_config) (stored_in (map snd sample_events))"
    by (auto simp: serialisable_def stored sample_config_def sample_lib_def)
  moreover have "identified (dc_lib sample_config) (stored_in (map snd sample_events))"
    by (auto simp: identified_def stored nat_to_string.simps digit_char_def)
  moreover have "list_all (\<lambda>(env, _). quiet env) sample_events"
    by (simp add: sample_events_def quiet_def sample_env_def)
  moreover have "reports_unique (dc_backend sample_config)" by (simp add: sample_config_def sqlite_reports_unique)
  moreover have "event_store True (ds_database sample_service)" "select_event_count (ds_database sample_service) = 0"
    "last_log_id (ds_database sample_service) + length sample_events < 2 ^ 64"
    by (simp_all add: sample_service_def new_store_store select_event_count_def sample_events_def)
  moreover have "\<not> ch_closed (ds_channels sample_service)" "\<not> ch_panicked (ds_channels sample_service)"
    "ch_outbound (ds_channels sample_service) = []"
    by (simp_all add: sample_service_def sample_channels_def)
  moreover have "first_of_each (dc_lib sample_config) [] None (map snd sample_events) =
      [(ApiVersion (ProtocolVersion 2 0 0), Some Events), (Step 5 [], Some Events), (Step 6 [], Some Events), (Shutdown, Some Events)]"
    by (simp add: sample_events_def from_node_def Let_def)
  ultimately show ?thesis
    using store_forwards_first_of_each [of True sample_service sample_events sample_config None] by (simp add: Let_def)
qed

text \<open>One event goes through the queue.\<close>

definition sample_handler :: "unit \<Rightarrow> channels event_service" where
  "sample_handler _ = NoDbEventHandlingService \<lparr> nd_has_sidecar_event_sender = False, nd_messages_len = length \<rparr>"

definition one_event :: sse_event where
  "one_event = from_node ''a'' 1 (Step 5 [])"

definition after_one_event :: "channels consumer" where
  "after_one_event = \<lparr> cs_inbound = [], cs_queues = [Events \<mapsto> []],
     cs_service = (sample_channels\<lparr> ch_outbound := [(Step 5 [], Some Events)] \<rparr>, None), cs_ended = True \<rparr>"

lemma one_event_run:
  "(consumer_step sample_handler (\<lambda>ch. ch))\<^sup>*\<^sup>*
     (start_multi_threaded_events_consumer [one_event] (sample_channels, None)) after_one_event"
proof -
  let ?c0 = "start_multi_threaded_events_consumer [one_event] (sample_channels, None)"
  let ?c1 = "?c0\<lparr> cs_inbound := [], cs_queues := (cs_queues ?c0)(Events \<mapsto> [] @ [one_event]) \<rparr>"
  let ?c2 = "?c1\<lparr> cs_queues := (cs_queues ?c1)(Events \<mapsto> []),
    cs_service := handle_single_event (sample_handler ()) one_event (cs_service ?c1) \<rparr>"
  have f: "se_inbound_filter one_event = Events" by (simp add: one_event_def from_node_def)
  have first: "consumer_step sample_handler (\<lambda>ch. ch) ?c0 ?c1"
    using consumer_step.enqueue [of ?c0 one_event "[]" "[]" "\<lambda>ch. ch" sample_handler] unfolding f
    by (simp add: start_multi_threaded_events_consumer_def build_queues_def DEFAULT_CHANNEL_SIZE_def sample_channels_def)
  have second: "consumer_step sample_handler (\<lambda>ch. ch) ?c1 ?c2"
    by (rule consumer_step.handle) (simp_all add: start_multi_threaded_events_consumer_def sample_channels_def)
  have third: "consumer_step sample_handler (\<lambda>ch. ch) ?c2 (?c2\<lparr> cs_ended := True \<rparr>)"
    by (rule consumer_step.inbound_closed) (simp_all add: start_multi_threaded_events_consumer_def)
  have same: "?c2\<lparr> cs_ended := True \<rparr> = after_one_event"
    by (simp add: start_multi_threaded_events_consumer_def build_queues_def after_one_event_def handle_single_event_def
        one_event_def from_node_def sample_handler_def no_db_defs handle_database_save_result_def outbound_send_def
        sample_channels_def)
  show ?thesis
    by (rule converse_rtranclp_into_rtranclp, rule first, rule converse_rtranclp_into_rtranclp, rule second,
        rule r_into_rtranclp, rule third [unfolded same])
qed

theorem queues_keep_the_order_witness:
  "\<exists>handled. map snd handled = [one_event] \<and>
     cs_service after_one_event = single_threaded_consumer sample_handler (\<lambda>ch. ch) handled (sample_channels, None)"
proof (rule queues_keep_the_order [OF one_event_run])
  show "\<nexists>c'. consumer_step sample_handler (\<lambda>ch. ch) after_one_event c'"
  proof
    assume "\<exists>c'. consumer_step sample_handler (\<lambda>ch. ch) after_one_event c'"
    then obtain c' where "consumer_step sample_handler (\<lambda>ch. ch) after_one_event c'" ..
    then show False by (rule consumer_stepE) (auto simp: after_one_event_def split: if_splits)
  qed
qed (simp add: after_one_event_def sample_channels_def)

end
