(* ===== verification/Sql_Types.thy ===== *)
theory Sql_Types
  imports Sql_Tables
begin

text \<open>
  The types of the columns, and that the insertions of the sidecar fit them.  A database without unsigned integers has the
  signed type of the same width in their place, which is why an era, which may be any 64-bit number, is a decimal
  number of 20 digits there.
\<close>

fun has_type :: "bool \<Rightarrow> sql_value \<Rightarrow> col_type \<Rightarrow> bool" where
  "has_type uns (V_Int i) Integer = (- (2 ^ 31) \<le> i \<and> i < 2 ^ 31)"
| "has_type uns (V_Int i) BigInteger = (- (2 ^ 63) \<le> i \<and> i < 2 ^ 63)"
| "has_type uns (V_Int i) BigUnsigned = (if uns then 0 \<le> i \<and> i < 2 ^ 64 else - (2 ^ 63) \<le> i \<and> i < 2 ^ 63)"
| "has_type uns (V_Int i) TinyUnsigned = (if uns then 0 \<le> i \<and> i < 2 ^ 8 else - (2 ^ 15) \<le> i \<and> i < 2 ^ 15)"
| "has_type uns (V_Int i) (DecimalLen p d) = (\<bar>i\<bar> < 10 ^ (p - d))"
| "has_type uns (V_Text _) StringType = True"
| "has_type uns (V_Text _) TextType = True"
| "has_type uns (V_Bool _) Boolean = True"
| "has_type uns (V_Time _) TimestampType = True"
| "has_type uns (V_Time _) DateTime = True"
| "has_type uns _ _ = False"

definition column_type :: "table_create \<Rightarrow> col \<Rightarrow> col_type option" where
  "column_type create c = map_of (map (\<lambda>cd. (cd_column cd, cd_type cd)) (tc_cols create)) c"

definition typed_row :: "bool \<Rightarrow> table_create \<Rightarrow> col list \<Rightarrow> sql_value list \<Rightarrow> bool" where
  "typed_row uns create columns vs \<longleftrightarrow> length columns = length vs \<and>
     list_all (\<lambda>(c, v). case column_type create c of None \<Rightarrow> False | Some t \<Rightarrow> has_type uns v t) (zip columns vs)"

text \<open>An insertion is typed if it is into the table, names each column at most once, gives every column that needs a value
  one, and all values have the types of their columns.\<close>

definition typed_insert :: "bool \<Rightarrow> table_create \<Rightarrow> insert_statement \<Rightarrow> bool" where
  "typed_insert uns create stmt \<longleftrightarrow> is_table stmt = tc_table create \<and> distinct (is_columns stmt) \<and>
     list_all (\<lambda>cd. cd_not_null cd \<and> \<not> cd_auto_increment cd \<and> \<not> cd_current_timestamp cd \<longrightarrow> cd_column cd \<in> set (is_columns stmt))
       (tc_cols create) \<and>
     list_all (typed_row uns create (is_columns stmt)) (is_rows stmt)"

fun typed :: "bool \<Rightarrow> table_create \<times> (sea_query_error + insert_statement) \<Rightarrow> bool" where
  "typed uns (create, Inr stmt) = typed_insert uns create stmt"
| "typed uns (create, Inl _) = False"

lemma u64_range: "0 \<le> uint (w :: u64)" "uint w < 2 ^ 64"
  using uint_lt2p [of w] by simp_all

lemma u64_typed:
  assumes "uns \<or> unat w < 2 ^ 63"
  shows "has_type uns (v_u64 w) BigUnsigned"
proof (cases uns)
  case False
  then have "int (unat w) < int (2 ^ 63)" using assms by (simp only: of_nat_less_iff) simp
  then have "uint w < 2 ^ 63" by simp
  moreover have "- (2 ^ 63) \<le> uint w" by (rule order_trans [OF _ u64_range(1)]) simp
  ultimately show ?thesis using False by (simp only: v_u64_def has_type.simps) simp
qed (use u64_range [of w] in \<open>simp add: v_u64_def\<close>)

lemma u64_era_typed: "has_type uns (v_u64 w) (era_type uns)"
proof -
  have "\<bar>uint w\<bar> < 10 ^ (20 - 0)" using u64_range [of w] by simp
  then show ?thesis using u64_range [of w] by (simp add: v_u64_def era_type_def)
qed

lemma u32_typed: "has_type uns (v_u32 w) BigInteger"
proof -
  have "uint w < 2 ^ 32" "- (2 ^ 63) \<le> uint w" using uint_lt2p [of w] order_trans [OF _ uint_ge_0 [of w]] by simp_all
  then show ?thesis by (simp add: v_u32_def)
qed

lemma type_numbers_typed:
  "has_type uns (v_u8 (event_type_number ty)) TinyUnsigned" "has_type uns (v_u8 (transaction_type_number tt)) TinyUnsigned"
  "has_type uns (v_u8 (event_type_number ty)) Integer" "has_type uns (v_u8 (transaction_type_number tt)) Integer"
  by (cases ty; cases tt; simp add: v_u8_def)+

lemma first_version_typed: "has_type uns (v_u32 1) Integer"
  by (simp add: v_u32_def)

lemma insert_into_sel [simp]:
  "is_table (insert_into t columns) = t" "is_columns (insert_into t columns) = columns" "is_rows (insert_into t columns) = []"
  by (simp_all add: insert_into_def)

lemmas typed_simps = typed_insert_def typed_row_def column_type_def ColumnDef_new_def



end
