(* ===== verification/Rest_Server.thy ===== *)
theory Rest_Server
  imports Event_Reader
begin

text \<open>
  The REST server of the event sidecar: the handlers of \<open>rest_server/handlers.rs\<close> over the interface of the
  database reader, the routes of \<open>rest_server/filters.rs\<close> and \<open>rest_server/status.rs\<close>, and the replies to
  rejected requests of \<open>rest_server/errors.rs\<close>.  The crates \<open>warp\<close>, whose operations combine the routes, and
  \<open>regex\<close> are parameters; the locale \<open>warp\<close> states what the former documents of them.
\<close>

subsection \<open>Requests, replies and rejections\<close>

text \<open>A request: whether its method is \<open>GET\<close>, and the segments of its path.\<close>

record rest_request =
  rr_get :: bool
  rr_segments :: "string list"

text \<open>The values that are serialised as the bodies of replies.\<close>

datatype rest_body =
  RB_Block "block_added sse_envelope"
| RB_Transaction transaction_aggregate
| RB_Accepted "transaction_accepted sse_envelope"
| RB_Processed "transaction_processed sse_envelope"
| RB_Expired "transaction_expired sse_envelope"
| RB_Step "step sse_envelope"
| RB_Faults "fault sse_envelope list"
| RB_Signatures "finality_signature sse_envelope list"
| RB_Status protocol_version
| RB_ApiDoc
| RB_ApiError nat string

record rest_reply =
  rp_status :: nat
  rp_body :: rest_body

datatype reject_cause =
  is_Unexpected: Unexpected string
| is_StorageError: StorageError database_read_error
| is_InvalidPath: InvalidPath
| is_InvalidParam: InvalidParam string

text \<open>The operations of \<open>warp\<close>: \<open>wp_route get\<close> is a filter for paths that, for a matching path, runs a handler,
  and with \<open>get\<close> only for that method (\<open>warp::path!(..).and(warp::get()).and_then(..)\<close>); \<open>wp_or\<close> tries a second
  filter after the first; \<open>wp_find\<close> is \<open>Rejection::find\<close>, which looks for a cause of a given type.\<close>

type_synonym 'r rest_filter = "rest_request \<Rightarrow> 'r + rest_reply"

record 'r warp_ops =
  wp_custom :: "reject_cause \<Rightarrow> 'r"
  wp_find :: "'r \<Rightarrow> (reject_cause \<Rightarrow> bool) \<Rightarrow> reject_cause option"
  wp_debug :: "'r \<Rightarrow> string"
  wp_route :: "bool \<Rightarrow> (string list \<Rightarrow> ('r + rest_reply) option) \<Rightarrow> 'r rest_filter"
  wp_or :: "'r rest_filter \<Rightarrow> 'r rest_filter \<Rightarrow> 'r rest_filter"
  wp_recover :: "'r rest_filter \<Rightarrow> ('r \<Rightarrow> rest_reply) \<Rightarrow> rest_request \<Rightarrow> rest_reply"

text \<open>The crate \<open>regex\<close> and the version of the sidecar, which the build sets.\<close>

record rest_lib =
  rl_regex_new :: "string \<Rightarrow> string + (string \<Rightarrow> bool)"
  rl_sidecar_version :: protocol_version

text \<open>The part of the trait \<open>DatabaseReader\<close> that the server uses.\<close>

record rest_reader =
  dr_latest_block :: "database_read_error + block_added sse_envelope"
  dr_block_by_hash :: "string \<Rightarrow> database_read_error + block_added sse_envelope"
  dr_block_by_height :: "u64 \<Rightarrow> database_read_error + block_added sse_envelope"
  dr_transaction :: "transaction_type_id \<Rightarrow> string \<Rightarrow> database_read_error + transaction_aggregate"
  dr_accepted :: "transaction_type_id \<Rightarrow> string \<Rightarrow> database_read_error + transaction_accepted sse_envelope"
  dr_processed :: "transaction_type_id \<Rightarrow> string \<Rightarrow> database_read_error + transaction_processed sse_envelope"
  dr_expired :: "transaction_type_id \<Rightarrow> string \<Rightarrow> database_read_error + transaction_expired sse_envelope"
  dr_faults_by_public_key :: "string \<Rightarrow> database_read_error + fault sse_envelope list"
  dr_faults_by_era :: "u64 \<Rightarrow> database_read_error + fault sse_envelope list"
  dr_signatures :: "string \<Rightarrow> database_read_error + finality_signature sse_envelope list"
  dr_step :: "u64 \<Rightarrow> database_read_error + step sse_envelope"

subsection \<open>Handlers\<close>

definition format_or_reject_storage_result ::
  "'r warp_ops \<Rightarrow> ('a \<Rightarrow> rest_body) \<Rightarrow> database_read_error + 'a \<Rightarrow> 'r + rest_reply" where
  "format_or_reject_storage_result W body storage_result =
     (case storage_result of
        Inr x \<Rightarrow> Inr \<lparr> rp_status = 200, rp_body = body x \<rparr>
      | Inl req_err \<Rightarrow> Inl (wp_custom W (StorageError req_err)))"

definition check_format :: "'r warp_ops \<Rightarrow> rest_lib \<Rightarrow> string \<Rightarrow> string \<Rightarrow> string \<Rightarrow> 'r + unit" where
  "check_format W L pattern expected text =
     and_then (map_err (\<lambda>err. wp_custom W (Unexpected err)) (rl_regex_new L pattern)) (\<lambda>is_match.
       if \<not> is_match text
       then Inl (wp_custom W (InvalidParam (''Expected hex-encoded '' @ expected @ '', received: '' @ text @
         '' (length: '' @ nat_to_string (length text) @ '')'')))
       else Inr ())"

definition HASH_PATTERN :: string where
  "HASH_PATTERN = ''^([0-9A-Fa-f]){64}$''"

definition PUBLIC_KEY_PATTERN :: string where
  "PUBLIC_KEY_PATTERN = ''^([0-9A-Fa-f]{2}){33,34}$''"

definition check_hash_is_correct_format :: "'r warp_ops \<Rightarrow> rest_lib \<Rightarrow> string \<Rightarrow> 'r + unit" where
  "check_hash_is_correct_format W L hash = check_format W L HASH_PATTERN ''hash (64 chars)'' hash"

definition check_public_key_is_correct_format :: "'r warp_ops \<Rightarrow> rest_lib \<Rightarrow> string \<Rightarrow> 'r + unit" where
  "check_public_key_is_correct_format W L public_key_hex =
     check_format W L PUBLIC_KEY_PATTERN ''public key (66/68 chars)'' public_key_hex"

definition get_latest_block_handler :: "'r warp_ops \<Rightarrow> rest_reader \<Rightarrow> 'r + rest_reply" where
  "get_latest_block_handler W db = format_or_reject_storage_result W RB_Block (dr_latest_block db)"

definition get_block_by_hash_handler :: "'r warp_ops \<Rightarrow> rest_lib \<Rightarrow> string \<Rightarrow> rest_reader \<Rightarrow> 'r + rest_reply" where
  "get_block_by_hash_handler W L hash db =
     and_then (check_hash_is_correct_format W L hash) (\<lambda>_.
       format_or_reject_storage_result W RB_Block (dr_block_by_hash db hash))"

definition get_block_by_height_handler :: "'r warp_ops \<Rightarrow> u64 \<Rightarrow> rest_reader \<Rightarrow> 'r + rest_reply" where
  "get_block_by_height_handler W height db = format_or_reject_storage_result W RB_Block (dr_block_by_height db height)"

definition get_transaction_by_identifier_handler ::
  "'r warp_ops \<Rightarrow> rest_lib \<Rightarrow> transaction_type_id \<Rightarrow> string \<Rightarrow> rest_reader \<Rightarrow> 'r + rest_reply" where
  "get_transaction_by_identifier_handler W L transaction_type hash db =
     and_then (check_hash_is_correct_format W L hash) (\<lambda>_.
       format_or_reject_storage_result W RB_Transaction (dr_transaction db transaction_type hash))"

definition get_transaction_accepted_by_hash_handler ::
  "'r warp_ops \<Rightarrow> rest_lib \<Rightarrow> transaction_type_id \<Rightarrow> string \<Rightarrow> rest_reader \<Rightarrow> 'r + rest_reply" where
  "get_transaction_accepted_by_hash_handler W L transaction_type hash db =
     and_then (check_hash_is_correct_format W L hash) (\<lambda>_.
       format_or_reject_storage_result W RB_Accepted (dr_accepted db transaction_type hash))"

definition get_transaction_processed_by_hash_handler ::
  "'r warp_ops \<Rightarrow> rest_lib \<Rightarrow> transaction_type_id \<Rightarrow> string \<Rightarrow> rest_reader \<Rightarrow> 'r + rest_reply" where
  "get_transaction_processed_by_hash_handler W L transaction_type hash db =
     and_then (check_hash_is_correct_format W L hash) (\<lambda>_.
       format_or_reject_storage_result W RB_Processed (dr_processed db transaction_type hash))"

definition get_transaction_expired_by_hash_handler ::
  "'r warp_ops \<Rightarrow> rest_lib \<Rightarrow> transaction_type_id \<Rightarrow> string \<Rightarrow> rest_reader \<Rightarrow> 'r + rest_reply" where
  "get_transaction_expired_by_hash_handler W L transaction_type hash db =
     and_then (check_hash_is_correct_format W L hash) (\<lambda>_.
       format_or_reject_storage_result W RB_Expired (dr_expired db transaction_type hash))"

definition get_step_by_era_handler :: "'r warp_ops \<Rightarrow> u64 \<Rightarrow> rest_reader \<Rightarrow> 'r + rest_reply" where
  "get_step_by_era_handler W era_id db = format_or_reject_storage_result W RB_Step (dr_step db era_id)"

definition get_faults_by_public_key_handler :: "'r warp_ops \<Rightarrow> rest_lib \<Rightarrow> string \<Rightarrow> rest_reader \<Rightarrow> 'r + rest_reply" where
  "get_faults_by_public_key_handler W L public_key db =
     and_then (check_public_key_is_correct_format W L public_key) (\<lambda>_.
       format_or_reject_storage_result W RB_Faults (dr_faults_by_public_key db public_key))"

definition get_faults_by_era_handler :: "'r warp_ops \<Rightarrow> u64 \<Rightarrow> rest_reader \<Rightarrow> 'r + rest_reply" where
  "get_faults_by_era_handler W era db = format_or_reject_storage_result W RB_Faults (dr_faults_by_era db era)"

definition get_finality_signatures_by_block_handler ::
  "'r warp_ops \<Rightarrow> rest_lib \<Rightarrow> string \<Rightarrow> rest_reader \<Rightarrow> 'r + rest_reply" where
  "get_finality_signatures_by_block_handler W L block_hash db =
     and_then (check_hash_is_correct_format W L block_hash) (\<lambda>_.
       format_or_reject_storage_result W RB_Signatures (dr_signatures db block_hash))"

definition get_status :: "rest_lib \<Rightarrow> 'r + rest_reply" where
  "get_status L = Inr \<lparr> rp_status = 200, rp_body = RB_Status (rl_sidecar_version L) \<rparr>"

subsection \<open>Routes\<close>

text \<open>The type of a transaction in a path, in any case.  No letter outside ASCII has a letter of the two names as
  its lower case.\<close>

definition ascii_lower :: "char \<Rightarrow> char" where
  "ascii_lower c = (let n = of_char c :: nat in if 65 \<le> n \<and> n \<le> 90 then char_of (n + 32) else c)"

definition TransactionTypeIdFilter_from_str :: "string \<Rightarrow> transaction_type_id option" where
  "TransactionTypeIdFilter_from_str s =
     (let lower = map ascii_lower s in
      if lower = ''deploy'' then Some TxType_Deploy else if lower = ''version1'' then Some TxType_Version1 else None)"

definition parse_u64 :: "string \<Rightarrow> u64 option" where
  "parse_u64 s = map_option of_nat (parse_unsigned (2 ^ 64 - 1) s)"

text \<open>A parameter of a path is a non-empty segment that can be parsed.\<close>

definition path_param :: "(string \<Rightarrow> 'a option) \<Rightarrow> string \<Rightarrow> 'a option" where
  "path_param from_str segment = (if segment = [] then None else from_str segment)"

definition root_filter :: "'r warp_ops \<Rightarrow> 'r rest_filter" where
  "root_filter W = wp_route W False (\<lambda>segments. if segments = [] then Some (Inl (wp_custom W InvalidPath)) else None)"

definition root_and_invalid_path :: "'r warp_ops \<Rightarrow> 'r rest_filter" where
  "root_and_invalid_path W = wp_route W False (\<lambda>segments. case segments of
     segment # _ \<Rightarrow> map_option (\<lambda>_. Inl (wp_custom W InvalidPath)) (path_param Some segment)
   | _ \<Rightarrow> None)"

definition latest_block :: "'r warp_ops \<Rightarrow> rest_reader \<Rightarrow> 'r rest_filter" where
  "latest_block W db = wp_route W True (\<lambda>segments. if segments = [''block''] then Some (get_latest_block_handler W db) else None)"

text \<open>Routes with a name and a parameter, and with names, the type of a transaction and its hash.\<close>

definition with_param ::
  "'r warp_ops \<Rightarrow> string \<Rightarrow> (string \<Rightarrow> 'a option) \<Rightarrow> ('a \<Rightarrow> 'r + rest_reply) \<Rightarrow> 'r rest_filter" where
  "with_param W name from_str handler = wp_route W True (\<lambda>segments. case segments of
     [segment, x] \<Rightarrow> if segment = name then map_option handler (path_param from_str x) else None
   | _ \<Rightarrow> None)"

definition with_transaction ::
  "'r warp_ops \<Rightarrow> string list \<Rightarrow> (transaction_type_id \<Rightarrow> string \<Rightarrow> 'r + rest_reply) \<Rightarrow> 'r rest_filter" where
  "with_transaction W names handler = wp_route W True (\<lambda>segments.
     let n = length names in
     if take n segments = names then
       (case drop n segments of
          [t, hash] \<Rightarrow> Option.bind (path_param TransactionTypeIdFilter_from_str t) (\<lambda>transaction_type.
            map_option (handler transaction_type) (path_param Some hash))
        | _ \<Rightarrow> None)
     else None)"

definition block_by_hash :: "'r warp_ops \<Rightarrow> rest_lib \<Rightarrow> rest_reader \<Rightarrow> 'r rest_filter" where
  "block_by_hash W L db = with_param W ''block'' Some (\<lambda>hash. get_block_by_hash_handler W L hash db)"

definition block_by_height :: "'r warp_ops \<Rightarrow> rest_reader \<Rightarrow> 'r rest_filter" where
  "block_by_height W db = with_param W ''block'' parse_u64 (\<lambda>height. get_block_by_height_handler W height db)"

definition transaction_by_hash :: "'r warp_ops \<Rightarrow> rest_lib \<Rightarrow> rest_reader \<Rightarrow> 'r rest_filter" where
  "transaction_by_hash W L db = with_transaction W [''transaction'']
     (\<lambda>transaction_type hash. get_transaction_by_identifier_handler W L transaction_type hash db)"

definition transaction_accepted_by_hash :: "'r warp_ops \<Rightarrow> rest_lib \<Rightarrow> rest_reader \<Rightarrow> 'r rest_filter" where
  "transaction_accepted_by_hash W L db = with_transaction W [''transaction'', ''accepted'']
     (\<lambda>transaction_type hash. get_transaction_accepted_by_hash_handler W L transaction_type hash db)"

definition transaction_expired_by_hash :: "'r warp_ops \<Rightarrow> rest_lib \<Rightarrow> rest_reader \<Rightarrow> 'r rest_filter" where
  "transaction_expired_by_hash W L db = with_transaction W [''transaction'', ''expired'']
     (\<lambda>transaction_type hash. get_transaction_expired_by_hash_handler W L transaction_type hash db)"

definition transaction_processed_by_hash :: "'r warp_ops \<Rightarrow> rest_lib \<Rightarrow> rest_reader \<Rightarrow> 'r rest_filter" where
  "transaction_processed_by_hash W L db = with_transaction W [''transaction'', ''processed'']
     (\<lambda>transaction_type hash. get_transaction_processed_by_hash_handler W L transaction_type hash db)"

definition faults_by_public_key :: "'r warp_ops \<Rightarrow> rest_lib \<Rightarrow> rest_reader \<Rightarrow> 'r rest_filter" where
  "faults_by_public_key W L db = with_param W ''faults'' Some (\<lambda>public_key. get_faults_by_public_key_handler W L public_key db)"

definition faults_by_era :: "'r warp_ops \<Rightarrow> rest_reader \<Rightarrow> 'r rest_filter" where
  "faults_by_era W db = with_param W ''faults'' parse_u64 (\<lambda>era. get_faults_by_era_handler W era db)"

definition finality_signatures_by_block :: "'r warp_ops \<Rightarrow> rest_lib \<Rightarrow> rest_reader \<Rightarrow> 'r rest_filter" where
  "finality_signatures_by_block W L db =
     with_param W ''signatures'' Some (\<lambda>block_hash. get_finality_signatures_by_block_handler W L block_hash db)"

definition step_by_era :: "'r warp_ops \<Rightarrow> rest_reader \<Rightarrow> 'r rest_filter" where
  "step_by_era W db = with_param W ''step'' parse_u64 (\<lambda>era_id. get_step_by_era_handler W era_id db)"

definition build_open_api_filters :: "'r warp_ops \<Rightarrow> 'r rest_filter" where
  "build_open_api_filters W = wp_route W True (\<lambda>segments. case segments of
     segment # _ \<Rightarrow> if segment = ''api-doc.json'' then Some (Inr \<lparr> rp_status = 200, rp_body = RB_ApiDoc \<rparr>) else None
   | _ \<Rightarrow> None)"

definition status_filters :: "'r warp_ops \<Rightarrow> rest_lib \<Rightarrow> 'r rest_filter" where
  "status_filters W L = wp_route W True (\<lambda>segments. if segments = [''status''] then Some (get_status L) else None)"

definition block_filters :: "'r warp_ops \<Rightarrow> rest_lib \<Rightarrow> rest_reader \<Rightarrow> 'r rest_filter" where
  "block_filters W L db = wp_or W (wp_or W (latest_block W db) (block_by_hash W L db)) (block_by_height W db)"

definition transaction_filters :: "'r warp_ops \<Rightarrow> rest_lib \<Rightarrow> rest_reader \<Rightarrow> 'r rest_filter" where
  "transaction_filters W L db =
     wp_or W (wp_or W (wp_or W (transaction_by_hash W L db) (transaction_accepted_by_hash W L db))
       (transaction_processed_by_hash W L db)) (transaction_expired_by_hash W L db)"

subsection \<open>Rejected requests\<close>

definition file_a_bug :: string where
  "file_a_bug = ''Unexpected error in REST server - please file a bug report!'' @ [CHR 0x0A]"

fun status_code_and_err_message_for_read_error :: "database_read_error \<Rightarrow> nat \<times> string" where
  "status_code_and_err_message_for_read_error DRE_NotFound = (404, ''Query returned no results'')"
| "status_code_and_err_message_for_read_error (DRE_Serialisation err) = (500, ''Error deserializing returned data: '' @ err)"
| "status_code_and_err_message_for_read_error (DRE_Unhandled err) =
     (500, ''Unhandled error occurred in storage: '' @ sqlx_text err)"

definition fallback_status_code_and_message :: "'r warp_ops \<Rightarrow> 'r \<Rightarrow> nat \<times> string" where
  "fallback_status_code_and_message W err = (500, file_a_bug @ wp_debug W err)"

definition api_error :: "nat \<times> string \<Rightarrow> rest_reply" where
  "api_error e = \<lparr> rp_status = fst e, rp_body = RB_ApiError (fst e) (snd e) \<rparr>"

definition handle_rejection :: "'r warp_ops \<Rightarrow> 'r \<Rightarrow> rest_reply" where
  "handle_rejection W err = api_error
     (case wp_find W err is_Unexpected of Some (Unexpected e) \<Rightarrow> (500, file_a_bug @ e)
      | _ \<Rightarrow>
     (case wp_find W err is_StorageError of Some (StorageError e) \<Rightarrow> status_code_and_err_message_for_read_error e
      | _ \<Rightarrow>
     (case wp_find W err is_InvalidPath of Some InvalidPath \<Rightarrow> (400, ''Invalid request path provided'')
      | _ \<Rightarrow>
     (case wp_find W err is_InvalidParam of Some (InvalidParam e) \<Rightarrow> (400, ''Invalid parameter in query: '' @ e)
      | _ \<Rightarrow> fallback_status_code_and_message W err))))"

definition all_filters :: "'r warp_ops \<Rightarrow> rest_lib \<Rightarrow> rest_reader \<Rightarrow> 'r rest_filter" where
  "all_filters W L db =
     wp_or W (wp_or W (wp_or W (wp_or W (wp_or W (wp_or W (wp_or W (wp_or W (wp_or W
       (root_filter W)
       (root_and_invalid_path W))
       (block_filters W L db))
       (transaction_filters W L db))
       (step_by_era W db))
       (faults_by_public_key W L db))
       (faults_by_era W db))
       (finality_signatures_by_block W L db))
       (build_open_api_filters W))
       (status_filters W L)"

definition combined_filters :: "'r warp_ops \<Rightarrow> rest_lib \<Rightarrow> rest_reader \<Rightarrow> rest_request \<Rightarrow> rest_reply" where
  "combined_filters W L db = wp_recover W (all_filters W L db) (handle_rejection W)"

subsection \<open>What the server answers\<close>

text \<open>The behaviour of the regular expressions.\<close>

definition is_hex_digit :: "char \<Rightarrow> bool" where
  "is_hex_digit c = (let n = of_char c :: nat in (48 \<le> n \<and> n \<le> 57) \<or> (65 \<le> n \<and> n \<le> 70) \<or> (97 \<le> n \<and> n \<le> 102))"

definition is_hash :: "string \<Rightarrow> bool" where
  "is_hash s \<longleftrightarrow> length s = 64 \<and> list_all is_hex_digit s"

definition is_public_key :: "string \<Rightarrow> bool" where
  "is_public_key s \<longleftrightarrow> (length s = 66 \<or> length s = 68) \<and> list_all is_hex_digit s"

definition regexes :: "rest_lib \<Rightarrow> bool" where
  "regexes L \<longleftrightarrow> rl_regex_new L HASH_PATTERN = Inr is_hash \<and> rl_regex_new L PUBLIC_KEY_PATTERN = Inr is_public_key"

text \<open>The queries that are made for a path, in their order.  A path may be ambiguous: a hash of digits only is also a
  height, if it is small enough.\<close>

definition query :: "('a \<Rightarrow> rest_body) \<Rightarrow> database_read_error + 'a \<Rightarrow> database_read_error + rest_body" where
  "query body res = (case res of Inl err \<Rightarrow> Inl err | Inr x \<Rightarrow> Inr (body x))"

fun queries :: "rest_reader \<Rightarrow> string list \<Rightarrow> (database_read_error + rest_body) list" where
  "queries db [a] = (if a = ''block'' then [query RB_Block (dr_latest_block db)] else [])"
| "queries db [a, x] =
     (if a = ''block'' then
        (if is_hash x then [query RB_Block (dr_block_by_hash db x)] else []) @
        (case parse_u64 x of None \<Rightarrow> [] | Some height \<Rightarrow> [query RB_Block (dr_block_by_height db height)])
      else if a = ''step'' then (case parse_u64 x of None \<Rightarrow> [] | Some era \<Rightarrow> [query RB_Step (dr_step db era)])
      else if a = ''faults'' then
        (if is_public_key x then [query RB_Faults (dr_faults_by_public_key db x)] else []) @
        (case parse_u64 x of None \<Rightarrow> [] | Some era \<Rightarrow> [query RB_Faults (dr_faults_by_era db era)])
      else if a = ''signatures'' then (if is_hash x then [query RB_Signatures (dr_signatures db x)] else [])
      else [])"
| "queries db [a, t, x] =
     (case TransactionTypeIdFilter_from_str t of
        None \<Rightarrow> []
      | Some ty \<Rightarrow> if a = ''transaction'' \<and> is_hash x then [query RB_Transaction (dr_transaction db ty x)] else [])"
| "queries db [a, k, t, x] =
     (case TransactionTypeIdFilter_from_str t of
        None \<Rightarrow> []
      | Some ty \<Rightarrow>
          if a = ''transaction'' \<and> is_hash x then
            (if k = ''accepted'' then [query RB_Accepted (dr_accepted db ty x)]
             else if k = ''processed'' then [query RB_Processed (dr_processed db ty x)]
             else if k = ''expired'' then [query RB_Expired (dr_expired db ty x)]
             else [])
          else [])"
| "queries db _ = []"

definition bad_path :: rest_reply where
  "bad_path = api_error (400, ''Invalid request path provided'')"

text \<open>The first result, or else the first error.\<close>

fun summary :: "(database_read_error + rest_body) list \<Rightarrow> database_read_error option + rest_body" where
  "summary [] = Inl None"
| "summary (Inr body # _) = Inr body"
| "summary (Inl err # results) = (case summary results of Inr body \<Rightarrow> Inr body | Inl _ \<Rightarrow> Inl (Some err))"

definition first_result :: "(database_read_error + rest_body) list \<Rightarrow> rest_reply" where
  "first_result results =
     (case summary results of
        Inr body \<Rightarrow> \<lparr> rp_status = 200, rp_body = body \<rparr>
      | Inl None \<Rightarrow> bad_path
      | Inl (Some err) \<Rightarrow> api_error (status_code_and_err_message_for_read_error err))"

definition rest_answer :: "rest_lib \<Rightarrow> rest_reader \<Rightarrow> rest_request \<Rightarrow> rest_reply" where
  "rest_answer L db req =
     (if \<not> rr_get req then bad_path
      else if rr_segments req = [''status''] then \<lparr> rp_status = 200, rp_body = RB_Status (rl_sidecar_version L) \<rparr>
      else if rr_segments req \<noteq> [] \<and> hd (rr_segments req) = ''api-doc.json'' then \<lparr> rp_status = 200, rp_body = RB_ApiDoc \<rparr>
      else first_result (queries db (rr_segments req)))"

subsection \<open>The documented behaviour of warp\<close>

locale warp =
  fixes W :: "'r warp_ops"
  assumes find_custom: "wp_find W (wp_custom W c) p = (if p c then Some c else None)"
    and route_match: "(get \<longrightarrow> rr_get req) \<Longrightarrow> m (rr_segments req) = Some answer \<Longrightarrow> wp_route W get m req = answer"
    and route_mismatch: "get \<and> \<not> rr_get req \<or> m (rr_segments req) = None \<Longrightarrow>
      \<exists>r. wp_route W get m req = Inl r \<and> (\<forall>p. wp_find W r p = None)"
    and or_first: "f req = Inr x \<Longrightarrow> wp_or W f g req = Inr x"
    and or_second: "f req = Inl r \<Longrightarrow> g req = Inr x \<Longrightarrow> wp_or W f g req = Inr x"
    and or_both: "f req = Inl r \<Longrightarrow> g req = Inl s \<Longrightarrow> \<exists>t. wp_or W f g req = Inl t \<and>
      (\<forall>p. wp_find W t p = (case wp_find W r p of None \<Rightarrow> wp_find W s p | Some c \<Rightarrow> Some c))"
    and recover_ok: "f req = Inr x \<Longrightarrow> wp_recover W f h req = x"
    and recover_rejected: "f req = Inl r \<Longrightarrow> wp_recover W f h req = h r"

text \<open>An implementation in which a rejection is the list of its causes.\<close>

definition plain_route ::
  "bool \<Rightarrow> (string list \<Rightarrow> (reject_cause list + rest_reply) option) \<Rightarrow> reject_cause list rest_filter" where
  "plain_route get m req =
     (if get \<and> \<not> rr_get req then Inl [] else case m (rr_segments req) of None \<Rightarrow> Inl [] | Some answer \<Rightarrow> answer)"

definition plain_or :: "reject_cause list rest_filter \<Rightarrow> reject_cause list rest_filter \<Rightarrow> reject_cause list rest_filter" where
  "plain_or f g req = (case f req of Inr x \<Rightarrow> Inr x | Inl r \<Rightarrow> (case g req of Inr x \<Rightarrow> Inr x | Inl s \<Rightarrow> Inl (r @ s)))"

definition plain_warp :: "reject_cause list warp_ops" where
  "plain_warp = \<lparr> wp_custom = (\<lambda>c. [c]), wp_find = (\<lambda>r p. List.find p r), wp_debug = (\<lambda>_. ''Rejection(NotFound)''),
     wp_route = plain_route, wp_or = plain_or,
     wp_recover = (\<lambda>f h req. case f req of Inr x \<Rightarrow> x | Inl r \<Rightarrow> h r) \<rparr>"

lemma find_append: "List.find p (xs @ ys) = (case List.find p xs of None \<Rightarrow> List.find p ys | Some x \<Rightarrow> Some x)"
  by (induction xs) auto

interpretation pw: warp plain_warp
  by unfold_locales (auto simp: plain_warp_def plain_route_def plain_or_def find_append split: option.splits)

subsection \<open>Only the causes of a rejection matter\<close>

definition rejected :: "'r warp_ops \<Rightarrow> 'r \<Rightarrow> reject_cause list \<Rightarrow> bool" where
  "rejected W r causes \<longleftrightarrow> (\<forall>p. wp_find W r p = List.find p causes)"

definition answers :: "'r warp_ops \<Rightarrow> 'r + rest_reply \<Rightarrow> reject_cause list + rest_reply \<Rightarrow> bool" where
  "answers W a b \<longleftrightarrow> rel_sum (rejected W) (=) a b"

lemma answers_simps [simp]:
  "answers W (Inr x) (Inr y) \<longleftrightarrow> x = y" "answers W (Inl r) (Inl cs) \<longleftrightarrow> rejected W r cs"
  "\<not> answers W (Inr x) (Inl cs)" "\<not> answers W (Inl r) (Inr y)"
  by (simp_all add: answers_def)

lemma answersE:
  assumes "answers W a b"
  obtains x where "a = Inr x" "b = Inr x" | r cs where "a = Inl r" "b = Inl cs" "rejected W r cs"
  using assms by (cases a; cases b) auto

lemma plain_sel [simp]:
  "wp_custom plain_warp c = [c]" "wp_find plain_warp r p = List.find p r" "wp_route plain_warp = plain_route"
  "wp_or plain_warp = plain_or" "wp_recover plain_warp f h req = (case f req of Inr x \<Rightarrow> x | Inl r \<Rightarrow> h r)"
  by (simp_all add: plain_warp_def)

lemmas filter_defs = all_filters_def block_filters_def transaction_filters_def root_filter_def root_and_invalid_path_def
  latest_block_def block_by_hash_def block_by_height_def transaction_by_hash_def transaction_accepted_by_hash_def
  transaction_processed_by_hash_def transaction_expired_by_hash_def step_by_era_def faults_by_public_key_def
  faults_by_era_def finality_signatures_by_block_def build_open_api_filters_def status_filters_def

lemmas handler_defs = get_latest_block_handler_def get_block_by_hash_handler_def get_block_by_height_handler_def
  get_transaction_by_identifier_handler_def get_transaction_accepted_by_hash_handler_def
  get_transaction_processed_by_hash_handler_def get_transaction_expired_by_hash_handler_def
  get_step_by_era_handler_def get_faults_by_public_key_handler_def get_faults_by_era_handler_def
  get_finality_signatures_by_block_handler_def get_status_def

context warp
begin

lemma custom_rejected [simp]: "rejected W (wp_custom W c) [c]"
  by (simp add: rejected_def find_custom)

lemma route_answers:
  assumes "rel_option (answers W) (m (rr_segments req)) (m' (rr_segments req))"
  shows "answers W (wp_route W get m req) (plain_route get m' req)"
proof (cases "get \<and> \<not> rr_get req \<or> m (rr_segments req) = None")
  case True
  then obtain r where "wp_route W get m req = Inl r" "\<forall>p. wp_find W r p = None" using route_mismatch by blast
  moreover have "plain_route get m' req = Inl []" using True assms by (auto simp: plain_route_def)
  ultimately show ?thesis by (simp add: rejected_def)
next
  case False
  then obtain a where a: "m (rr_segments req) = Some a" by auto
  with assms obtain b where "m' (rr_segments req) = Some b" "answers W a b" by (auto simp: option_rel_Some1)
  then show ?thesis using False route_match [of get req m a] a by (auto simp: plain_route_def)
qed

lemma or_answers:
  assumes "answers W (f req) (f' req)" "answers W (g req) (g' req)"
  shows "answers W (wp_or W f g req) (plain_or f' g' req)"
  using assms(1)
proof (cases rule: answersE)
  case (1 x)
  then show ?thesis by (simp add: plain_or_def or_first)
next
  case f: (2 r cs)
  show ?thesis
    using assms(2)
  proof (cases rule: answersE)
    case (1 x)
    then show ?thesis using f by (simp add: plain_or_def or_second)
  next
    case (2 s ds)
    then obtain t where "wp_or W f g req = Inl t"
      "\<forall>p. wp_find W t p = (case wp_find W r p of None \<Rightarrow> wp_find W s p | Some c \<Rightarrow> Some c)"
      using or_both f by blast
    then show ?thesis using f 2 by (auto simp: plain_or_def rejected_def find_append split: option.split)
  qed
qed

lemma format_answers [simp]:
  "answers W (format_or_reject_storage_result W body res) (format_or_reject_storage_result plain_warp body res)"
  by (cases res) (simp_all add: format_or_reject_storage_result_def)

lemma checked_answers:
  assumes "answers W a b"
  shows "answers W (and_then (check_format W L pattern expected text) (\<lambda>_. a))
    (and_then (check_format plain_warp L pattern expected text) (\<lambda>_. b))"
  using assms by (cases "rl_regex_new L pattern") (simp_all add: check_format_def)

lemma with_param_answers:
  assumes "\<And>x. answers W (h x) (h' x)"
  shows "answers W (with_param W name from_str h req) (with_param plain_warp name from_str h' req)"
  unfolding with_param_def plain_sel
  by (rule route_answers) (auto simp: option.rel_map assms intro: option.rel_refl split: list.split)

lemma with_transaction_answers:
  assumes "\<And>t x. answers W (h t x) (h' t x)"
  shows "answers W (with_transaction W names h req) (with_transaction plain_warp names h' req)"
  unfolding with_transaction_def plain_sel
  by (rule route_answers)
    (auto simp: option.rel_map assms Let_def path_param_def intro: option.rel_refl split: list.split option.split bind_splits)

lemma all_filters_answers: "answers W (all_filters W L db req) (all_filters plain_warp L db req)"
  unfolding filter_defs plain_sel
  by (intro or_answers with_param_answers with_transaction_answers route_answers)
    (auto simp: handler_defs check_hash_is_correct_format_def check_public_key_is_correct_format_def checked_answers
      option.rel_map path_param_def split: list.split)

lemma handle_rejection_causes:
  assumes "rejected W r causes" "causes \<noteq> []"
  shows "handle_rejection W r = handle_rejection plain_warp causes"
proof -
  obtain c cs where causes: "causes = c # cs" using assms(2) by (cases causes) auto
  have find: "wp_find W r p = List.find p causes" for p using assms(1) by (simp add: rejected_def)
  have kind: "p d" if "List.find p causes = Some d" for p d using that by (auto simp: find_Some_iff)
  have found: "\<exists>e. List.find is_Unexpected causes = Some (Unexpected e)" if "List.find is_Unexpected causes \<noteq> None"
    using that kind [of is_Unexpected] by (auto simp: is_Unexpected_def)
  have stored: "\<exists>e. List.find is_StorageError causes = Some (StorageError e)" if "List.find is_StorageError causes \<noteq> None"
    using that kind [of is_StorageError] by (auto simp: is_StorageError_def)
  have path: "List.find is_InvalidPath causes = Some InvalidPath" if "List.find is_InvalidPath causes \<noteq> None"
    using that kind [of is_InvalidPath] by (auto simp: is_InvalidPath_def)
  have param: "\<exists>e. List.find is_InvalidParam causes = Some (InvalidParam e)" if "List.find is_InvalidParam causes \<noteq> None"
    using that kind [of is_InvalidParam] by (auto simp: is_InvalidParam_def)
  have "List.find is_Unexpected causes \<noteq> None \<or> List.find is_StorageError causes \<noteq> None \<or>
      List.find is_InvalidPath causes \<noteq> None \<or> List.find is_InvalidParam causes \<noteq> None"
    by (cases c) (simp_all add: causes)
  then consider e where "List.find is_Unexpected causes = Some (Unexpected e)"
    | e where "List.find is_Unexpected causes = None" "List.find is_StorageError causes = Some (StorageError e)"
    | "List.find is_Unexpected causes = None" "List.find is_StorageError causes = None"
      "List.find is_InvalidPath causes = Some InvalidPath"
    | e where "List.find is_Unexpected causes = None" "List.find is_StorageError causes = None"
      "List.find is_InvalidPath causes = None" "List.find is_InvalidParam causes = Some (InvalidParam e)"
    using found stored path param by blast
  then show ?thesis by cases (simp_all add: handle_rejection_def find)
qed

lemma combined_filters_plain:
  assumes "\<And>causes. all_filters plain_warp L db req = Inl causes \<Longrightarrow> causes \<noteq> []"
  shows "combined_filters W L db req = combined_filters plain_warp L db req"
  using all_filters_answers [of L db req]
proof (cases rule: answersE)
  case (1 x)
  then show ?thesis by (simp add: combined_filters_def recover_ok)
next
  case (2 r cs)
  then have "cs \<noteq> []" using assms by blast
  with 2 show ?thesis by (simp add: combined_filters_def recover_rejected handle_rejection_causes)
qed

end

subsection \<open>The routes\<close>

lemma plain_or_keeps:
  assumes "plain_or f g req = Inl cs" "\<And>ds. f req = Inl ds \<Longrightarrow> c \<in> set ds"
  shows "c \<in> set cs"
  using assms by (auto simp: plain_or_def split: sum.splits)

lemma plain_root:
  assumes "plain_or (root_filter plain_warp) (root_and_invalid_path plain_warp) req = Inl cs"
    and "rr_segments req = [] \<or> hd (rr_segments req) \<noteq> []"
  shows "InvalidPath \<in> set cs"
  using assms
  by (cases "rr_segments req")
    (auto simp: plain_or_def root_filter_def root_and_invalid_path_def plain_route_def path_param_def split: sum.splits)

lemma plain_invalid_path:
  assumes "all_filters plain_warp L db req = Inl causes" "rr_segments req = [] \<or> hd (rr_segments req) \<noteq> []"
  shows "InvalidPath \<in> set causes"
proof -
  note filters = assms(1) [unfolded all_filters_def plain_sel]
  show ?thesis
    by (rule plain_or_keeps [OF filters] plain_or_keeps plain_root [OF _ assms(2)], assumption?)+
qed

lemma plain_rejection:
  assumes "InvalidPath \<in> set cs" "List.find is_Unexpected cs = None"
  shows "handle_rejection plain_warp cs =
    (case List.find is_StorageError cs of Some (StorageError e) \<Rightarrow> api_error (status_code_and_err_message_for_read_error e)
     | _ \<Rightarrow> bad_path)"
proof -
  have "List.find is_InvalidPath cs = Some InvalidPath"
    using assms(1) by (induction cs) (auto simp: is_InvalidPath_def)
  then show ?thesis
    using assms(2) by (cases "List.find is_StorageError cs")
      (simp_all add: handle_rejection_def bad_path_def split: reject_cause.split)
qed

lemma plain_checked:
  assumes "regexes L"
  shows "and_then (check_hash_is_correct_format plain_warp L text) f =
      (if is_hash text then f () else Inl [InvalidParam (''Expected hex-encoded hash (64 chars), received: '' @ text @
         '' (length: '' @ nat_to_string (length text) @ '')'')])"
    "and_then (check_public_key_is_correct_format plain_warp L text) f =
      (if is_public_key text then f () else Inl [InvalidParam (''Expected hex-encoded public key (66/68 chars), received: '' @
         text @ '' (length: '' @ nat_to_string (length text) @ '')'')])"
  using assms
  by (simp_all add: regexes_def check_hash_is_correct_format_def check_public_key_is_correct_format_def check_format_def)

lemma plain_format:
  "format_or_reject_storage_result plain_warp body res =
     (case query body res of Inr b \<Rightarrow> Inr \<lparr> rp_status = 200, rp_body = b \<rparr> | Inl e \<Rightarrow> Inl [StorageError e])"
  by (cases res) (simp_all add: format_or_reject_storage_result_def query_def)

lemma plain_with_param:
  "with_param plain_warp name from_str h req =
     (case rr_segments req of
        [a, x] \<Rightarrow> if rr_get req \<and> a = name then (case path_param from_str x of None \<Rightarrow> Inl [] | Some v \<Rightarrow> h v) else Inl []
      | _ \<Rightarrow> Inl [])"
  by (auto simp: with_param_def plain_route_def path_param_def split: list.split option.split)

lemma plain_with_transaction:
  "with_transaction plain_warp names h req =
     (if rr_get req \<and> take (length names) (rr_segments req) = names then
        (case drop (length names) (rr_segments req) of
           [t, x] \<Rightarrow> (case path_param TransactionTypeIdFilter_from_str t of
             None \<Rightarrow> Inl []
           | Some ty \<Rightarrow> (case path_param Some x of None \<Rightarrow> Inl [] | Some v \<Rightarrow> h ty v))
         | _ \<Rightarrow> Inl [])
      else Inl [])"
  by (auto simp: with_transaction_def plain_route_def path_param_def Let_def split: list.split option.split bind_splits)

definition plain_seq :: "'c list + 'x \<Rightarrow> 'c list + 'x \<Rightarrow> 'c list + 'x" where
  "plain_seq a b = (case a of Inr x \<Rightarrow> Inr x | Inl r \<Rightarrow> (case b of Inr x \<Rightarrow> Inr x | Inl s \<Rightarrow> Inl (r @ s)))"

lemma plain_or_seq: "plain_or f g req = plain_seq (f req) (g req)"
  by (simp add: plain_or_def plain_seq_def)

lemma plain_seq_simps [simp]:
  "plain_seq (Inl []) b = b" "plain_seq a (Inl []) = a" "plain_seq (Inr x) b = Inr x"
  "plain_seq (Inl cs) (Inr x) = Inr x" "plain_seq (Inl cs) (Inl ds) = Inl (cs @ ds)"
  by (auto simp: plain_seq_def split: sum.split)

lemma plain_seq_assoc: "plain_seq (plain_seq a b) c = plain_seq a (plain_seq b c)"
  by (auto simp: plain_seq_def split: sum.split)

lemmas plain_filter_defs = filter_defs plain_sel
  plain_with_param plain_with_transaction plain_route_def plain_or_seq plain_seq_assoc

lemma path_param_simps [simp]: "path_param from_str [] = None" "x \<noteq> [] \<Longrightarrow> path_param from_str x = from_str x"
  by (simp_all add: path_param_def)

text \<open>The answer of some of the filters stands for the queries they made.\<close>

definition stands_for :: "reject_cause list + rest_reply \<Rightarrow> (database_read_error + rest_body) list \<Rightarrow> bool" where
  "stands_for a qs \<longleftrightarrow>
     (case a of
        Inr reply \<Rightarrow> \<exists>body. summary qs = Inr body \<and> reply = \<lparr> rp_status = 200, rp_body = body \<rparr>
      | Inl cs \<Rightarrow> List.find is_Unexpected cs = None \<and>
          summary qs = Inl (case List.find is_StorageError cs of Some (StorageError e) \<Rightarrow> Some e | _ \<Rightarrow> None))"

lemma stands_for_simps [simp]:
  "stands_for (Inl []) []" "stands_for (Inl [InvalidParam text]) []"
  by (simp_all add: stands_for_def)

lemma stands_for_format [simp]: "stands_for (format_or_reject_storage_result plain_warp body res) [query body res]"
  by (cases res) (simp_all add: plain_format query_def stands_for_def)

lemma summary_append: "summary (xs @ ys) =
    (case summary xs of Inr body \<Rightarrow> Inr body | Inl e \<Rightarrow>
      (case summary ys of Inr body \<Rightarrow> Inr body | Inl f \<Rightarrow> Inl (case e of None \<Rightarrow> f | Some err \<Rightarrow> Some err)))"
  by (induction xs rule: summary.induct) (auto split: sum.split option.split)

lemma stored_cause: "List.find is_StorageError cs = Some c \<Longrightarrow> \<exists>e. c = StorageError e"
  by (auto simp: find_Some_iff is_StorageError_def)

lemma stands_for_seq:
  assumes "stands_for a xs" "stands_for b ys"
  shows "stands_for (plain_seq a b) (xs @ ys)"
  using assms
  by (cases a; cases b)
    (auto simp: stands_for_def summary_append find_append dest!: stored_cause split: option.splits)

lemma stands_for_reply:
  assumes "all_filters plain_warp L db req = plain_seq (Inl [InvalidPath]) a" "stands_for a qs"
  shows "combined_filters plain_warp L db req = first_result qs"
  using assms
  by (cases a)
    (auto simp: combined_filters_def stands_for_def first_result_def plain_rejection dest!: stored_cause split: option.splits)

lemma not_empty [simp]: "\<not> is_hash []" "\<not> is_public_key []" "parse_u64 [] = None" "TransactionTypeIdFilter_from_str [] = None"
  by (simp_all add: is_hash_def is_public_key_def parse_u64_def TransactionTypeIdFilter_from_str_def)

text \<open>The answers for parameters that are hashes, public keys and numbers.\<close>

definition for_hash :: "rest_lib \<Rightarrow> ('a \<Rightarrow> rest_body) \<Rightarrow> (string \<Rightarrow> database_read_error + 'a) \<Rightarrow> string \<Rightarrow> reject_cause list + rest_reply" where
  "for_hash L body f x = (case path_param Some x of None \<Rightarrow> Inl []
     | Some v \<Rightarrow> and_then (check_hash_is_correct_format plain_warp L v) (\<lambda>_. format_or_reject_storage_result plain_warp body (f v)))"

definition for_key :: "rest_lib \<Rightarrow> ('a \<Rightarrow> rest_body) \<Rightarrow> (string \<Rightarrow> database_read_error + 'a) \<Rightarrow> string \<Rightarrow> reject_cause list + rest_reply" where
  "for_key L body f x = (case path_param Some x of None \<Rightarrow> Inl []
     | Some v \<Rightarrow> and_then (check_public_key_is_correct_format plain_warp L v) (\<lambda>_. format_or_reject_storage_result plain_warp body (f v)))"

definition for_number :: "('a \<Rightarrow> rest_body) \<Rightarrow> (u64 \<Rightarrow> database_read_error + 'a) \<Rightarrow> string \<Rightarrow> reject_cause list + rest_reply" where
  "for_number body f x = (case path_param parse_u64 x of None \<Rightarrow> Inl []
     | Some v \<Rightarrow> format_or_reject_storage_result plain_warp body (f v))"

lemma hash_stands: "regexes L \<Longrightarrow> stands_for (for_hash L body f x) (if is_hash x then [query body (f x)] else [])"
  by (cases "x = []") (simp_all add: for_hash_def plain_checked)

lemma key_stands: "regexes L \<Longrightarrow> stands_for (for_key L body f x) (if is_public_key x then [query body (f x)] else [])"
  by (cases "x = []") (simp_all add: for_key_def plain_checked)

lemma number_stands: "stands_for (for_number body f x) (case parse_u64 x of None \<Rightarrow> [] | Some v \<Rightarrow> [query body (f v)])"
  by (cases "x = []") (simp_all add: for_number_def split: option.split)

text \<open>All filters but the ones for invalid paths.\<close>

definition routed :: "rest_lib \<Rightarrow> rest_reader \<Rightarrow> rest_request \<Rightarrow> reject_cause list + rest_reply \<Rightarrow> bool" where
  "routed L db req b \<longleftrightarrow> all_filters plain_warp L db req = plain_seq (Inl [InvalidPath]) b"

lemma route_two:
  assumes "rr_get req" "rr_segments req = [a, x]" "a \<noteq> []" "a \<noteq> ''api-doc.json''"
  shows "a = ''block'' \<Longrightarrow> routed L db req (plain_seq (for_hash L RB_Block (dr_block_by_hash db) x)
      (for_number RB_Block (dr_block_by_height db) x))"
    "a = ''step'' \<Longrightarrow> routed L db req (for_number RB_Step (dr_step db) x)"
    "a = ''faults'' \<Longrightarrow> routed L db req (plain_seq (for_key L RB_Faults (dr_faults_by_public_key db) x)
      (for_number RB_Faults (dr_faults_by_era db) x))"
    "a = ''signatures'' \<Longrightarrow> routed L db req (for_hash L RB_Signatures (dr_signatures db) x)"
    "a \<noteq> ''block'' \<Longrightarrow> a \<noteq> ''step'' \<Longrightarrow> a \<noteq> ''faults'' \<Longrightarrow> a \<noteq> ''signatures'' \<Longrightarrow> routed L db req (Inl [])"
  using assms by (simp_all add: routed_def plain_filter_defs handler_defs for_hash_def for_key_def for_number_def)

lemma routed_reply:
  assumes "routed L db req b" "stands_for b qs" "queries db (rr_segments req) = qs"
  shows "combined_filters plain_warp L db req = first_result (queries db (rr_segments req))"
  using stands_for_reply [OF assms(1) [unfolded routed_def] assms(2)] assms(3) by simp

lemma answer_two:
  assumes "regexes L" "rr_get req" "rr_segments req = [a, x]" "a \<noteq> []" "a \<noteq> ''api-doc.json''"
  shows "combined_filters plain_warp L db req = first_result (queries db (rr_segments req))"
proof -
  note route = route_two [OF assms(2-5)]
  note hash = hash_stands [OF assms(1)] and key = key_stands [OF assms(1)]
  consider "a = ''block''" | "a = ''step''" | "a = ''faults''" | "a = ''signatures''"
    | "a \<noteq> ''block''" "a \<noteq> ''step''" "a \<noteq> ''faults''" "a \<noteq> ''signatures''" by blast
  then show ?thesis
  proof cases
    case 1
    then show ?thesis by (intro routed_reply [OF route(1) stands_for_seq [OF hash number_stands]]) (simp_all add: assms(3))
  next
    case 2
    then show ?thesis by (intro routed_reply [OF route(2) number_stands]) (simp_all add: assms(3))
  next
    case 3
    then show ?thesis by (intro routed_reply [OF route(3) stands_for_seq [OF key number_stands]]) (simp_all add: assms(3))
  next
    case 4
    then show ?thesis by (intro routed_reply [OF route(4) hash]) (simp_all add: assms(3))
  next
    case 5
    then show ?thesis by (intro routed_reply [OF route(5) stands_for_simps(1)]) (simp_all add: assms(3))
  qed
qed

lemma for_transaction:
  assumes "regexes L"
  shows "stands_for (case path_param TransactionTypeIdFilter_from_str t of None \<Rightarrow> Inl []
        | Some ty \<Rightarrow> for_hash L body (f ty) x)
      (case TransactionTypeIdFilter_from_str t of None \<Rightarrow> [] | Some ty \<Rightarrow> if is_hash x then [query body (f ty x)] else [])"
proof (cases "TransactionTypeIdFilter_from_str t")
  case (Some ty)
  then have "t \<noteq> []" by auto
  then show ?thesis using Some hash_stands [OF assms, of body "f ty" x] by simp
qed (cases "t = []"; simp)

lemma route_three:
  assumes "rr_get req" "rr_segments req = [a, t, x]" "a \<noteq> []" "a \<noteq> ''api-doc.json''"
  shows "a = ''transaction'' \<Longrightarrow> routed L db req (case path_param TransactionTypeIdFilter_from_str t of None \<Rightarrow> Inl []
      | Some ty \<Rightarrow> for_hash L RB_Transaction (dr_transaction db ty) x)"
    "a \<noteq> ''transaction'' \<Longrightarrow> routed L db req (Inl [])"
  using assms by (simp_all add: routed_def plain_filter_defs handler_defs for_hash_def split: option.split)

lemma answer_three:
  assumes "regexes L" "rr_get req" "rr_segments req = [a, t, x]" "a \<noteq> []" "a \<noteq> ''api-doc.json''"
  shows "combined_filters plain_warp L db req = first_result (queries db (rr_segments req))"
proof (cases "a = ''transaction''")
  case True
  then show ?thesis
    by (intro routed_reply [OF route_three(1) [OF assms(2-5)] for_transaction [OF assms(1)]]) (simp_all add: assms(3) split: option.split)
next
  case False
  then show ?thesis
    by (intro routed_reply [OF route_three(2) [OF assms(2-5)] stands_for_simps(1)]) (simp_all add: assms(3) split: option.split)
qed

lemma route_four:
  assumes "rr_get req" "rr_segments req = [a, k, t, x]" "a \<noteq> []" "a \<noteq> ''api-doc.json''"
  shows "a = ''transaction'' \<Longrightarrow> k = ''accepted'' \<Longrightarrow> routed L db req (case path_param TransactionTypeIdFilter_from_str t of
        None \<Rightarrow> Inl [] | Some ty \<Rightarrow> for_hash L RB_Accepted (dr_accepted db ty) x)"
    "a = ''transaction'' \<Longrightarrow> k = ''processed'' \<Longrightarrow> routed L db req (case path_param TransactionTypeIdFilter_from_str t of
        None \<Rightarrow> Inl [] | Some ty \<Rightarrow> for_hash L RB_Processed (dr_processed db ty) x)"
    "a = ''transaction'' \<Longrightarrow> k = ''expired'' \<Longrightarrow> routed L db req (case path_param TransactionTypeIdFilter_from_str t of
        None \<Rightarrow> Inl [] | Some ty \<Rightarrow> for_hash L RB_Expired (dr_expired db ty) x)"
    "a = ''transaction'' \<Longrightarrow> k \<noteq> ''accepted'' \<Longrightarrow> k \<noteq> ''processed'' \<Longrightarrow> k \<noteq> ''expired'' \<Longrightarrow> routed L db req (Inl [])"
    "a \<noteq> ''transaction'' \<Longrightarrow> routed L db req (Inl [])"
  using assms by (simp_all add: routed_def plain_filter_defs handler_defs for_hash_def split: option.split)

lemma answer_four:
  assumes "regexes L" "rr_get req" "rr_segments req = [a, k, t, x]" "a \<noteq> []" "a \<noteq> ''api-doc.json''"
  shows "combined_filters plain_warp L db req = first_result (queries db (rr_segments req))"
proof -
  note route = route_four [OF assms(2-5)] and hash = for_transaction [OF assms(1)]
  consider "a = ''transaction''" "k = ''accepted''" | "a = ''transaction''" "k = ''processed''"
    | "a = ''transaction''" "k = ''expired''"
    | "a = ''transaction''" "k \<noteq> ''accepted''" "k \<noteq> ''processed''" "k \<noteq> ''expired''" | "a \<noteq> ''transaction''" by blast
  then show ?thesis
  proof cases
    case 1
    then show ?thesis by (intro routed_reply [OF route(1) hash]) (simp_all add: assms(3) split: option.split)
  next
    case 2
    then show ?thesis by (intro routed_reply [OF route(2) hash]) (simp_all add: assms(3) split: option.split)
  next
    case 3
    then show ?thesis by (intro routed_reply [OF route(3) hash]) (simp_all add: assms(3) split: option.split)
  next
    case 4
    then show ?thesis
      by (intro routed_reply [OF route(4) stands_for_simps(1)]) (simp_all add: assms(3) split: option.split)
  next
    case 5
    then show ?thesis
      by (intro routed_reply [OF route(5) stands_for_simps(1)]) (simp_all add: assms(3) split: option.split)
  qed
qed

lemma answer_one:
  assumes "rr_get req" "rr_segments req = [a]" "a \<noteq> []" "a \<noteq> ''api-doc.json''" "a \<noteq> ''status''"
  shows "combined_filters plain_warp L db req = first_result (queries db (rr_segments req))"
proof (cases "a = ''block''")
  case True
  then have "routed L db req (format_or_reject_storage_result plain_warp RB_Block (dr_latest_block db))"
    using assms by (simp add: routed_def plain_filter_defs handler_defs)
  then show ?thesis by (rule routed_reply [OF _ stands_for_format]) (simp add: assms(2) True)
next
  case False
  then have "routed L db req (Inl [])" using assms by (simp add: routed_def plain_filter_defs)
  then show ?thesis by (rule routed_reply [OF _ stands_for_simps(1)]) (simp add: assms(2) False)
qed

lemma answer_nothing:
  assumes "routed L db req (Inl [])"
  shows "combined_filters plain_warp L db req = bad_path"
  using stands_for_reply [OF assms [unfolded routed_def] stands_for_simps(1)] by (simp add: first_result_def)

lemma route_five:
  assumes "rr_get req" "rr_segments req = a # b # c # d # e # rest" "a \<noteq> []" "a \<noteq> ''api-doc.json''"
  shows "routed L db req (Inl [])"
  using assms by (simp add: routed_def plain_filter_defs)

lemma other_method:
  assumes "\<not> rr_get req"
  shows "with_param plain_warp name from_str h req = Inl []" "with_transaction plain_warp names h' req = Inl []"
  using assms by (simp_all add: plain_with_param plain_with_transaction split: list.split)

lemma route_other_methods:
  assumes "\<not> rr_get req" "rr_segments req = [] \<or> hd (rr_segments req) \<noteq> []"
  shows "routed L db req (Inl [])"
  using assms
  by (cases "rr_segments req")
    (simp_all add: routed_def filter_defs plain_route_def plain_or_seq other_method)

lemma other_name:
  assumes "rr_segments req = a # rest"
  shows "a \<noteq> name \<Longrightarrow> with_param plain_warp name from_str h req = Inl []"
    "a \<noteq> name \<Longrightarrow> with_transaction plain_warp (name # names) h' req = Inl []"
  using assms by (auto simp: plain_with_param plain_with_transaction split: list.split)

lemma api_doc_answer:
  assumes "rr_get req" "rr_segments req = ''api-doc.json'' # rest"
  shows "combined_filters plain_warp L db req = \<lparr> rp_status = 200, rp_body = RB_ApiDoc \<rparr>"
  using assms
  by (simp add: combined_filters_def filter_defs plain_route_def plain_or_seq other_name)

lemma plain_answer:
  assumes "regexes L" "rr_segments req = [] \<or> hd (rr_segments req) \<noteq> []"
  shows "combined_filters plain_warp L db req = rest_answer L db req"
proof (cases "rr_get req")
  case False
  then show ?thesis using answer_nothing [OF route_other_methods [OF False assms(2)]] by (simp add: rest_answer_def)
next
  case get: True
  consider "rr_segments req = []" | rest where "rr_segments req = ''api-doc.json'' # rest" | "rr_segments req = [''status'']"
    | a rest where "rr_segments req = a # rest" "a \<noteq> []" "a \<noteq> ''api-doc.json''" "rr_segments req \<noteq> [''status'']"
    using assms(2) by (cases "rr_segments req") auto
  then show ?thesis
  proof cases
    case 1
    then have "routed L db req (Inl [])" using get by (simp add: routed_def plain_filter_defs)
    then show ?thesis by (simp add: answer_nothing rest_answer_def get 1 first_result_def)
  next
    case 2
    then show ?thesis using api_doc_answer [OF get] by (simp add: rest_answer_def get)
  next
    case 3
    then have "all_filters plain_warp L db req = Inr \<lparr> rp_status = 200, rp_body = RB_Status (rl_sidecar_version L) \<rparr>"
      using get by (simp add: plain_filter_defs get_status_def)
    then show ?thesis using 3 by (simp add: combined_filters_def rest_answer_def get)
  next
    case 4
    then have answer: "rest_answer L db req = first_result (queries db (rr_segments req))" by (auto simp: rest_answer_def get)
    consider "rest = []" | x where "rest = [x]" | t x where "rest = [t, x]" | k t x where "rest = [k, t, x]"
      | b c d e more where "rest = b # c # d # e # more"
      by (metis list.exhaust)
    then show ?thesis
    proof cases
      case 1
      then show ?thesis unfolding answer using 4 by (intro answer_one [OF get]) auto
    next
      case 2
      then show ?thesis unfolding answer using 4 by (intro answer_two [OF assms(1) get]) auto
    next
      case 3
      then show ?thesis unfolding answer using 4 by (intro answer_three [OF assms(1) get]) auto
    next
      case four: 4
      then show ?thesis unfolding answer using 4 by (intro answer_four [OF assms(1) get]) auto
    next
      case 5
      then have "routed L db req (Inl [])" using 4 by (intro route_five [OF get]) auto
      then show ?thesis unfolding answer using 4 5 by (simp add: answer_nothing first_result_def)
    qed
  qed
qed

lemma filters_answer:
  assumes "warp W" "regexes L" "rr_segments req = [] \<or> hd (rr_segments req) \<noteq> []"
  shows "combined_filters W L db req = rest_answer L db req"
proof -
  have "combined_filters W L db req = combined_filters plain_warp L db req"
    using plain_invalid_path [OF _ assms(3)] by (intro warp.combined_filters_plain [OF assms(1)]) force
  then show ?thesis by (simp add: plain_answer [OF assms(2,3)])
qed

lemma no_parameter_error: "rest_answer L db req \<noteq> api_error (400, ''Invalid parameter in query: '' @ text)"
proof -
  have "bad_path \<noteq> api_error (400, ''Invalid parameter in query: '' @ text)" by (simp add: bad_path_def api_error_def)
  moreover have "api_error (status_code_and_err_message_for_read_error e) \<noteq> api_error (400, text')" for e text'
    by (cases e) (simp_all add: api_error_def)
  ultimately show ?thesis
    by (auto simp: rest_answer_def first_result_def split: sum.split option.split) (simp_all add: api_error_def)
qed


text \<open>A server without blocks.\<close>

definition sample_reader :: rest_reader where
  "sample_reader = \<lparr> dr_latest_block = Inl DRE_NotFound, dr_block_by_hash = (\<lambda>_. Inl DRE_NotFound),
     dr_block_by_height = (\<lambda>_. Inl DRE_NotFound), dr_transaction = (\<lambda>_ _. Inl DRE_NotFound),
     dr_accepted = (\<lambda>_ _. Inl DRE_NotFound), dr_processed = (\<lambda>_ _. Inl DRE_NotFound), dr_expired = (\<lambda>_ _. Inl DRE_NotFound),
     dr_faults_by_public_key = (\<lambda>_. Inl DRE_NotFound), dr_faults_by_era = (\<lambda>_. Inl DRE_NotFound),
     dr_signatures = (\<lambda>_. Inl DRE_NotFound), dr_step = (\<lambda>_. Inl DRE_NotFound) \<rparr>"

definition sample_rest_lib :: rest_lib where
  "sample_rest_lib = \<lparr> rl_regex_new = (\<lambda>pattern. if pattern = HASH_PATTERN then Inr is_hash else Inr is_public_key),
     rl_sidecar_version = ProtocolVersion 2 0 0 \<rparr>"

lemma sample_regexes: "regexes sample_rest_lib"
  by (simp add: regexes_def sample_rest_lib_def HASH_PATTERN_def PUBLIC_KEY_PATTERN_def)


end
