(* ===== verification/Spec2Isabelle.thy ===== *)
theory Spec2Isabelle
  imports Event_Stream Json_Rpc Event_Listener Rpc_Steps Event_Pipeline Sql_Types Rest_Server
begin

text \<open>
  Verification of the Casper sidecar.
\<close>

end
